(* ===== verification/Prelude.thy ===== *)
theory Prelude
  imports Complex_Main "HOL-Library.Sublist" "HOL-Library.Char_ord"
    "HOL-Library.List_Lexorder" "HOL-Library.Product_Lexorder" "HOL-Library.AList"
begin

text \<open>
  Shared vocabulary of the development: Python's string operations on
  \<^typ>\<open>string\<close> (one \<^typ>\<open>char\<close> per code point, code points below 256), results
  that carry an error (\<open>Inl\<close>) or a value (\<open>Inr\<close>), rows of a table that are addressed
  by a key, and the generic lemmas the components share.
\<close>

named_theorems pystr \<open>rewrite rules for the Python string operations\<close>

subsection \<open>Python strings\<close>

text \<open>The code points below 256 for which \<open>str.isspace\<close> holds.\<close>

definition py_space :: "char \<Rightarrow> bool" where
  "py_space c \<longleftrightarrow> of_char c \<in> {9, 10, 11, 12, 13, 28, 29, 30, 31, 32, 133, 160 :: nat}"

definition py_lstrip :: "string \<Rightarrow> string" where
  "py_lstrip s = dropWhile py_space s"

definition py_rstrip :: "string \<Rightarrow> string" where
  "py_rstrip s = rev (dropWhile py_space (rev s))"

definition py_strip :: "string \<Rightarrow> string" where
  "py_strip s = py_rstrip (py_lstrip s)"

definition py_startswith :: "string \<Rightarrow> string \<Rightarrow> bool" where
  "py_startswith s p \<longleftrightarrow> take (length p) s = p"

text \<open>\<open>s.endswith(suffix)\<close>.\<close>

definition py_endswith :: "string \<Rightarrow> string \<Rightarrow> bool" where
  "py_endswith s suf = py_startswith (rev s) (rev suf)"

text \<open>\<open>s.find(sub)\<close>, with \<^const>\<open>None\<close> for the \<open>-1\<close> of a string that does not occur.\<close>

fun py_find :: "string \<Rightarrow> string \<Rightarrow> nat option" where
  "py_find sub [] = (if sub = [] then Some 0 else None)"
| "py_find sub (c # s) =
     (if py_startswith (c # s) sub then Some 0 else map_option Suc (py_find sub s))"

text \<open>\<open>text[-k:]\<close> and \<open>text[:-k]\<close> for \<open>0 < k\<close>.\<close>

definition py_last_n :: "nat \<Rightarrow> string \<Rightarrow> string" where
  "py_last_n k s = drop (length s - k) s"

definition py_drop_last_n :: "nat \<Rightarrow> string \<Rightarrow> string" where
  "py_drop_last_n k s = take (length s - k) s"

lemma py_startswith_prefix: "py_startswith s p \<longleftrightarrow> prefix p s"
  unfolding py_startswith_def
  by (metis append_eq_conv_conj append_take_drop_id prefix_def)

lemma py_startswith_Nil [simp, pystr]: "py_startswith s []"
  by (simp add: py_startswith_def)

lemma py_startswith_append: "py_startswith s p \<Longrightarrow> py_startswith (s @ t) p"
  by (simp add: py_startswith_prefix prefix_def) (metis append.assoc)

lemma py_lstrip_Nil [simp, pystr]: "py_lstrip [] = []"
  by (simp add: py_lstrip_def)

lemma py_lstrip_idem [simp, pystr]: "py_lstrip (py_lstrip s) = py_lstrip s"
  by (simp add: py_lstrip_def)

lemma py_lstrip_append:
  "py_lstrip (s @ t) = (if py_lstrip s = [] then py_lstrip t else py_lstrip s @ t)"
  by (induction s) (auto simp: py_lstrip_def)

lemma py_last_drop_last [simp, pystr]: "py_drop_last_n k s @ py_last_n k s = s"
  by (simp add: py_last_n_def py_drop_last_n_def)

lemma length_py_last_n [simp]: "k \<le> length s \<Longrightarrow> length (py_last_n k s) = k"
  by (simp add: py_last_n_def)

lemma py_find_Some_iff:
  "py_find sub s = Some i \<longleftrightarrow>
     i \<le> length s \<and> py_startswith (drop i s) sub \<and> (\<forall>j<i. \<not> py_startswith (drop j s) sub)"
proof (induction s arbitrary: i)
  case Nil
  then show ?case by (auto simp: py_startswith_def)
next
  case (Cons c s)
  show ?case
  proof (cases i)
    case 0
    then show ?thesis by (auto split: if_splits)
  next
    case (Suc k)
    show ?thesis
    proof (cases "py_startswith (c # s) sub")
      case True
      then show ?thesis using Suc by auto
    next
      case False
      then show ?thesis using Suc Cons.IH[of k] less_Suc_eq_0_disj by auto
    qed
  qed
qed

lemma py_find_None_iff:
  "py_find sub s = None \<longleftrightarrow> (\<forall>i\<le>length s. \<not> py_startswith (drop i s) sub)"
proof (induction s)
  case Nil
  then show ?case by (auto simp: py_startswith_def)
next
  case (Cons c s)
  have "(\<forall>i\<le>length (c # s). \<not> py_startswith (drop i (c # s)) sub) \<longleftrightarrow>
      \<not> py_startswith (c # s) sub \<and> (\<forall>i\<le>length s. \<not> py_startswith (drop i s) sub)"
    by (metis Suc_le_mono drop0 drop_Suc_Cons length_Cons not0_implies_Suc zero_le)
  then show ?case using Cons.IH by simp
qed

lemma py_find_length: "py_find sub s = Some i \<Longrightarrow> i + length sub \<le> length s"
proof -
  assume a: "py_find sub s = Some i"
  then have le: "i \<le> length s" and "prefix sub (drop i s)"
    by (simp_all add: py_find_Some_iff py_startswith_prefix)
  then have "length sub \<le> length s - i" using prefix_length_le by fastforce
  with le show ?thesis by linarith
qed

subsection \<open>Case, search and splitting\<close>

text \<open>\<open>str.lower\<close> on the code points below 256.\<close>

definition py_lower_char :: "char \<Rightarrow> char" where
  "py_lower_char c =
     (let n = of_char c :: nat in
      if 65 \<le> n \<and> n \<le> 90 \<or> 192 \<le> n \<and> n \<le> 222 \<and> n \<noteq> 215 then char_of (n + 32) else c)"

definition py_lower :: "string \<Rightarrow> string" where
  "py_lower s = map py_lower_char s"

text \<open>\<open>sub in s\<close>.\<close>

definition py_contains :: "string \<Rightarrow> string \<Rightarrow> bool" where
  "py_contains sub s \<longleftrightarrow> py_find sub s \<noteq> None"

text \<open>\<open>any(keyword in s for keyword in ks)\<close>.\<close>

definition contains_any :: "string list \<Rightarrow> string \<Rightarrow> bool" where
  "contains_any ks s \<longleftrightarrow> list_ex (\<lambda>k. py_contains k s) ks"

text \<open>\<open>s.split(c)\<close> for a one-character separator.\<close>

fun py_split :: "char \<Rightarrow> string \<Rightarrow> string list" where
  "py_split c [] = [[]]"
| "py_split c (x # xs) =
     (if x = c then [] # py_split c xs
      else case py_split c xs of [] \<Rightarrow> [[x]] | w # ws \<Rightarrow> (x # w) # ws)"

fun py_join :: "string \<Rightarrow> string list \<Rightarrow> string" where
  "py_join sep [] = []"
| "py_join sep [w] = w"
| "py_join sep (w # ws) = w @ sep @ py_join sep ws"

lemma py_split_not_Nil [simp]: "py_split c s \<noteq> []"
  by (induction s) (auto split: list.splits)

lemma py_join_Cons: "ws \<noteq> [] \<Longrightarrow> py_join sep (w # ws) = w @ sep @ py_join sep ws"
  by (cases ws) auto

lemma py_split_no_sep: "c \<notin> set s \<Longrightarrow> py_split c s = [s]"
  by (induction s) auto

lemma py_split_append_sep: "c \<notin> set w \<Longrightarrow> py_split c (w @ c # s) = w # py_split c s"
  by (induction w) auto

lemma py_split_join:
  "ws \<noteq> [] \<Longrightarrow> list_all (\<lambda>w. c \<notin> set w) ws \<Longrightarrow> py_split c (py_join [c] ws) = ws"
proof (induction ws)
  case Nil
  then show ?case by simp
next
  case (Cons w ws)
  then show ?case
    by (cases "ws = []") (simp_all add: py_split_no_sep py_join_Cons py_split_append_sep)
qed

text \<open>A text between single quotes.\<close>

definition py_quote :: "string \<Rightarrow> string" where
  "py_quote s = CHR 39 # s @ [CHR 39]"

subsection \<open>Decimal numerals\<close>

definition is_digit :: "char \<Rightarrow> bool" where
  "is_digit c \<longleftrightarrow> (let n = of_char c :: nat in 48 \<le> n \<and> n \<le> 57)"

definition digit_char :: "nat \<Rightarrow> char" where
  "digit_char d = char_of (48 + d)"

fun nat_str :: "nat \<Rightarrow> string" where
  "nat_str n = (if n < 10 then [digit_char n] else nat_str (n div 10) @ [digit_char (n mod 10)])"

declare nat_str.simps [simp del]

definition nat_of_str :: "string \<Rightarrow> nat" where
  "nat_of_str s = foldl (\<lambda>n c. 10 * n + (of_char c - 48)) 0 s"

definition int_str :: "int \<Rightarrow> string" where
  "int_str i = (if i < 0 then CHR ''-'' # nat_str (nat (- i)) else nat_str (nat i))"

lemma of_char_digit_char: "d < 10 \<Longrightarrow> of_char (digit_char d) = (48 + d :: nat)"
  by (simp add: digit_char_def)

lemma nat_of_str_snoc: "nat_of_str (s @ [c]) = 10 * nat_of_str s + (of_char c - 48)"
  by (simp add: nat_of_str_def)

lemma nat_of_nat_str [simp]: "nat_of_str (nat_str n) = n"
proof (induction n rule: nat_str.induct)
  case (1 n)
  then show ?case
    by (subst nat_str.simps)
       (auto simp: nat_of_str_snoc of_char_digit_char, simp add: nat_of_str_def of_char_digit_char)
qed

lemma nat_str_inject [simp]: "nat_str m = nat_str n \<longleftrightarrow> m = n"
  by (metis nat_of_nat_str)

lemma is_digit_digit_char: "d < 10 \<Longrightarrow> is_digit (digit_char d)"
  by (simp add: is_digit_def of_char_digit_char)

lemma inj_nat_str: "inj nat_str"
  by (simp add: inj_def)

lemma nat_str_digits: "list_all is_digit (nat_str n)"
proof (induction n rule: nat_str.induct)
  case (1 n)
  then show ?case
    by (subst nat_str.simps) (auto simp: is_digit_digit_char)
qed

lemma nat_str_not_Nil [simp]: "nat_str n \<noteq> []"
  by (subst nat_str.simps) simp

definition nat_of_str_opt :: "string \<Rightarrow> nat option" where
  "nat_of_str_opt s = (if s \<noteq> [] \<and> list_all is_digit s then Some (nat_of_str s) else None)"

lemma nat_of_str_opt_nat_str [simp]: "nat_of_str_opt (nat_str n) = Some n"
  by (simp add: nat_of_str_opt_def nat_str_digits)

subsection \<open>Results: a value or an exception\<close>

fun bind_result :: "'e + 'a \<Rightarrow> ('a \<Rightarrow> 'e + 'b) \<Rightarrow> 'e + 'b" where
  "bind_result (Inl e) f = Inl e"
| "bind_result (Inr x) f = f x"

text \<open>A loop that stops at the first exception and otherwise collects the results in order.\<close>

fun map_result :: "('a \<Rightarrow> 'e + 'b) \<Rightarrow> 'a list \<Rightarrow> 'e + 'b list" where
  "map_result f [] = Inr []"
| "map_result f (x # xs) =
     (case f x of Inl e \<Rightarrow> Inl e
      | Inr y \<Rightarrow> (case map_result f xs of Inl e \<Rightarrow> Inl e | Inr ys \<Rightarrow> Inr (y # ys)))"

lemma bind_result_Inr_iff:
  "bind_result r f = Inr y \<longleftrightarrow> (\<exists>x. r = Inr x \<and> f x = Inr y)"
  by (cases r) auto

lemma bind_result_Inl_iff:
  "bind_result r f = Inl e \<longleftrightarrow> r = Inl e \<or> (\<exists>x. r = Inr x \<and> f x = Inl e)"
  by (cases r) auto

lemma map_result_Inr:
  "map_result f xs = Inr ys \<Longrightarrow> list_all2 (\<lambda>x y. f x = Inr y) xs ys"
  by (induction xs arbitrary: ys) (auto split: sum.splits)

lemma map_result_Inr_map:
  assumes "map_result f xs = Inr ys" and "\<And>x y. x \<in> set xs \<Longrightarrow> f x = Inr y \<Longrightarrow> g y = h x"
  shows "map g ys = map h xs"
  using assms by (induction xs arbitrary: ys) (auto split: sum.splits)

lemma map_result_Inl:
  "map_result f xs = Inl e \<Longrightarrow> \<exists>x\<in>set xs. f x = Inl e"
  by (induction xs) (auto split: sum.splits)

lemma map_result_length: "map_result f xs = Inr ys \<Longrightarrow> length ys = length xs"
  by (metis list_all2_lengthD map_result_Inr)

subsection \<open>Tables: rows addressed by a key\<close>

text \<open>
  A table is the list of its rows in insertion order. \<open>row_find\<close> is a select by primary
  key, \<open>row_update\<close> writes a row back.
\<close>

definition row_find :: "('r \<Rightarrow> 'k) \<Rightarrow> 'k \<Rightarrow> 'r list \<Rightarrow> 'r option" where
  "row_find key k rows = find (\<lambda>r. key r = k) rows"

definition row_update :: "('r \<Rightarrow> 'k) \<Rightarrow> 'k \<Rightarrow> ('r \<Rightarrow> 'r) \<Rightarrow> 'r list \<Rightarrow> 'r list" where
  "row_update key k f rows = map (\<lambda>r. if key r = k then f r else r) rows"

named_theorems table \<open>rewrite rules for tables of rows\<close>

lemma row_find_key: "row_find key k rows = Some r \<Longrightarrow> key r = k"
  by (auto simp: row_find_def find_Some_iff)

lemma row_find_in: "row_find key k rows = Some r \<Longrightarrow> r \<in> set rows"
  by (auto simp: row_find_def find_Some_iff)

lemma row_find_None_iff: "row_find key k rows = None \<longleftrightarrow> k \<notin> key ` set rows"
  by (auto simp: row_find_def find_None_iff)

lemma row_find_append:
  "row_find key k (rows @ rows') =
     (case row_find key k rows of None \<Rightarrow> row_find key k rows' | Some r \<Rightarrow> Some r)"
  by (induction rows) (auto simp: row_find_def)

lemma row_find_Cons:
  "row_find key k (r # rows) = (if key r = k then Some r else row_find key k rows)"
  by (simp add: row_find_def)

lemma row_find_Nil [simp]: "row_find key k [] = None"
  by (simp add: row_find_def)

lemma row_find_update [table]:
  assumes "\<And>r. key (f r) = key r"
  shows "row_find key k' (row_update key k f rows) =
    (if k' = k then map_option f (row_find key k rows) else row_find key k' rows)"
  using assms by (induction rows) (auto simp: row_find_def row_update_def)

lemma row_update_keys [table]:
  assumes "\<And>r. key (f r) = key r"
  shows "map key (row_update key k f rows) = map key rows"
  using assms by (induction rows) (auto simp: row_update_def)

lemma length_row_update [simp, table]: "length (row_update key k f rows) = length rows"
  by (simp add: row_update_def)

lemma row_find_distinct:
  "distinct (map key rows) \<Longrightarrow> r \<in> set rows \<Longrightarrow> row_find key (key r) rows = Some r"
proof (induction rows)
  case Nil
  then show ?case by simp
next
  case (Cons x xs)
  then show ?case by (cases "key x = key r") (auto simp: row_find_Cons image_iff)
qed

lemma row_update_absent: "k \<notin> key ` set rows \<Longrightarrow> row_update key k f rows = rows"
  by (induction rows) (auto simp: row_update_def)

text \<open>Writing one row changes the number of rows with a property by that row's share.\<close>

lemma count_row_update:
  assumes "distinct (map key rows)" and "row_find key k rows = Some r"
  shows "int (length (filter P (row_update key k f rows))) =
    int (length (filter P rows)) - of_bool (P r) + of_bool (P (f r))"
  using assms
proof (induction rows)
  case Nil
  then show ?case by simp
next
  case (Cons x xs)
  show ?case
  proof (cases "key x = k")
    case True
    then have "k \<notin> key ` set xs" and "x = r" using Cons.prems by (auto simp: row_find_Cons)
    then show ?thesis
      using True row_update_absent[of k key xs f] by (auto simp: row_update_def)
  next
    case False
    then show ?thesis using Cons by (auto simp: row_find_Cons row_update_def)
  qed
qed

subsection \<open>Running a consumer over the pieces of a stream\<close>

text \<open>The loop of a client: hand over every piece, concatenate what comes out on each channel.\<close>

primrec run_pieces :: "('s \<Rightarrow> 'a \<Rightarrow> 's \<times> 'b list \<times> 'b list) \<Rightarrow> 's \<Rightarrow> 'a list \<Rightarrow> 's \<times> 'b list \<times> 'b list"
  where
  "run_pieces put s [] = (s, [], [])"
| "run_pieces put s (c # cs) =
     (case put s c of (s1, u1, v1) \<Rightarrow>
        (case run_pieces put s1 cs of (s2, u2, v2) \<Rightarrow> (s2, u1 @ u2, v1 @ v2)))"

end
