(* ===== verification/ThinkTags.thy ===== *)
theory ThinkTags
  imports Prelude
begin

text \<open>
  \<open>inference_core/llm/think_tags.py\<close>: the incremental extraction of a leading
  \<open><think>...</think>\<close> block from streamed model output. The router's three attributes are
  the record \<open>router\<close>; \<open>feed\<close> and \<open>flush\<close> return the new router with the pair
  (reasoning, content) that the method returns.
\<close>

subsection \<open>The router\<close>

definition OPEN_TAG :: string where "OPEN_TAG = ''<think>''"

definition CLOSE_TAG :: string where "CLOSE_TAG = ''</think>''"

datatype router_state = Detecting | Reasoning | Content

record router =
  r_state :: router_state
  r_buffer :: string
  skip_ws_after_close :: bool

definition router_init :: router where
  "router_init = \<lparr>r_state = Detecting, r_buffer = [], skip_ws_after_close = False\<rparr>"

fun partial_suffix_loop :: "string \<Rightarrow> string \<Rightarrow> nat \<Rightarrow> nat" where
  "partial_suffix_loop text tag 0 = 0"
| "partial_suffix_loop text tag (Suc k) =
     (if py_last_n (Suc k) text = take (Suc k) tag then Suc k
      else partial_suffix_loop text tag k)"

definition partial_suffix_len :: "string \<Rightarrow> string \<Rightarrow> nat" where
  "partial_suffix_len text tag =
     partial_suffix_loop text tag (min (length text) (length tag - 1))"

definition feed_content :: "router \<Rightarrow> string \<Rightarrow> router \<times> string" where
  "feed_content r text =
     (if skip_ws_after_close r then
        let stripped = py_lstrip text in
        if stripped = [] then (r, [])
        else (r\<lparr>skip_ws_after_close := False\<rparr>, stripped)
      else (r, text))"

definition feed_reasoning :: "router \<Rightarrow> string \<Rightarrow> router \<times> string \<times> string" where
  "feed_reasoning r text =
     (let working = r_buffer r @ text; r = r\<lparr>r_buffer := []\<rparr> in
      case py_find CLOSE_TAG working of
        Some idx \<Rightarrow>
          let reasoning = take idx working;
              rest = drop (idx + length CLOSE_TAG) working;
              (r', content) =
                feed_content (r\<lparr>r_state := Content, skip_ws_after_close := True\<rparr>) rest
          in (r', reasoning, content)
      | None \<Rightarrow>
          let holdback = partial_suffix_len working CLOSE_TAG in
          if holdback \<noteq> 0
          then (r\<lparr>r_buffer := py_last_n holdback working\<rparr>,
                py_drop_last_n holdback working, [])
          else (r, working, []))"

definition feed_detecting :: "router \<Rightarrow> string \<Rightarrow> router \<times> string \<times> string" where
  "feed_detecting r text =
     (let r = r\<lparr>r_buffer := r_buffer r @ text\<rparr>; stripped = py_lstrip (r_buffer r) in
      if py_startswith stripped OPEN_TAG then
        let remainder = drop (length OPEN_TAG) stripped;
            r = r\<lparr>r_buffer := [], r_state := Reasoning\<rparr>
        in if remainder \<noteq> [] then feed_reasoning r remainder else (r, [], [])
      else if length stripped < length OPEN_TAG \<and> py_startswith OPEN_TAG stripped then
        (r, [], [])
      else (r\<lparr>r_buffer := [], r_state := Content\<rparr>, [], r_buffer r))"

definition feed :: "router \<Rightarrow> string \<Rightarrow> router \<times> string \<times> string" where
  "feed r text =
     (if text = [] then (r, [], [])
      else case r_state r of
        Detecting \<Rightarrow> feed_detecting r text
      | Reasoning \<Rightarrow> feed_reasoning r text
      | Content \<Rightarrow> (case feed_content r text of (r', c) \<Rightarrow> (r', [], c)))"

definition flush :: "router \<Rightarrow> router \<times> string \<times> string" where
  "flush r =
     (let held = r_buffer r; r = r\<lparr>r_buffer := []\<rparr> in
      case r_state r of
        Detecting \<Rightarrow> (r\<lparr>r_state := Content\<rparr>, [], held)
      | Reasoning \<Rightarrow> (r, held, [])
      | Content \<Rightarrow> (r, [], []))"


subsection \<open>The holdback\<close>

text \<open>
  \<open>holds tag text k\<close>: the last \<open>k\<close> characters of \<open>text\<close> are a proper prefix of \<open>tag\<close>.
  \<open>partial_suffix_len\<close> is the largest such \<open>k\<close>.
\<close>

definition holds :: "string \<Rightarrow> string \<Rightarrow> nat \<Rightarrow> bool" where
  "holds tag text k \<longleftrightarrow> k < length tag \<and> k \<le> length text \<and> py_last_n k text = take k tag"

lemma partial_suffix_loop_le: "partial_suffix_loop text tag n \<le> n"
  by (induction n) auto

lemma partial_suffix_loop_match:
  "partial_suffix_loop text tag n = k \<Longrightarrow> n \<le> length text \<Longrightarrow> py_last_n k text = take k tag"
proof (induction n)
  case 0
  then show ?case by (simp add: py_last_n_def)
next
  case (Suc n)
  then show ?case by (auto split: if_splits)
qed

lemma partial_suffix_loop_max:
  "py_last_n j text = take j tag \<Longrightarrow> j \<le> n \<Longrightarrow> j \<le> partial_suffix_loop text tag n"
proof (induction n)
  case 0
  then show ?case by simp
next
  case (Suc n)
  then show ?case by (cases "j = Suc n") auto
qed

lemma partial_suffix_len_holds: "tag \<noteq> [] \<Longrightarrow> holds tag text (partial_suffix_len text tag)"
  using partial_suffix_loop_le[of "text" tag "min (length text) (length tag - 1)"]
    partial_suffix_loop_match[OF refl, of "min (length text) (length tag - 1)" "text" tag]
  by (cases tag) (auto simp: holds_def partial_suffix_len_def)

lemma partial_suffix_len_max: "holds tag text j \<Longrightarrow> j \<le> partial_suffix_len text tag"
  by (auto simp: holds_def partial_suffix_len_def intro!: partial_suffix_loop_max)

lemma partial_suffix_len_eqI:
  assumes "holds tag text k" and "\<And>j. holds tag text j \<Longrightarrow> j \<le> k"
  shows "partial_suffix_len text tag = k"
proof -
  have "tag \<noteq> []" using assms(1) by (auto simp: holds_def)
  then show ?thesis
    using assms partial_suffix_len_holds partial_suffix_len_max by (meson le_antisym)
qed

text \<open>No occurrence of the tag can start in the part of the text that has been released.\<close>

lemma no_tag_in_released:
  assumes none: "py_find tag W = None" and i: "i < length W - partial_suffix_len W tag"
  shows "\<not> py_startswith (drop i (W @ b)) tag"
proof
  assume "py_startswith (drop i (W @ b)) tag"
  then have p: "prefix tag (drop i W @ b)" using i by (simp add: py_startswith_prefix)
  have np: "\<not> prefix tag (drop i W)"
    using none i by (simp add: py_find_None_iff py_startswith_prefix)
  from p np have len: "length W - i < length tag"
    using prefix_length_prefix[of tag "drop i W @ b" "drop i W"]
    by (auto simp: not_le[symmetric])
  with p have "prefix (drop i W) tag"
    using prefix_length_prefix[of "drop i W" "drop i W @ b" tag] by simp
  then have "drop i W = take (length W - i) tag"
    by (metis length_drop append_eq_conv_conj prefix_def)
  then have "holds tag W (length W - i)"
    using len i by (simp add: holds_def py_last_n_def)
  then have "length W - i \<le> partial_suffix_len W tag" by (rule partial_suffix_len_max)
  with i show False by linarith
qed

lemma py_find_skip:
  "(\<And>i. i < length E \<Longrightarrow> \<not> py_startswith (drop i (E @ T)) sub) \<Longrightarrow>
   py_find sub (E @ T) = map_option (\<lambda>k. length E + k) (py_find sub T)"
proof (induction E)
  case Nil
  then show ?case by (simp add: option.map_ident)
next
  case (Cons c E)
  have "\<not> py_startswith (c # E @ T) sub" using Cons.prems[of 0] by simp
  moreover have "py_find sub (E @ T) = map_option (\<lambda>k. length E + k) (py_find sub T)"
    by (rule Cons.IH) (use Cons.prems[of "Suc i" for i] in auto)
  ultimately show ?case by (simp add: option.map_comp comp_def)
qed

lemma py_last_n_append:
  "length b \<le> j \<Longrightarrow> j \<le> length W + length b \<Longrightarrow>
   py_last_n j (W @ b) = py_last_n (j - length b) W @ b"
  by (simp add: py_last_n_def)

lemma holds_append_bound:
  assumes "holds tag (W @ b) j"
  shows "j \<le> partial_suffix_len W tag + length b"
proof (cases "j \<le> length b")
  case True
  then show ?thesis by simp
next
  case False
  have le: "j - length b \<le> length W" using assms by (auto simp: holds_def)
  have "py_last_n (j - length b) W @ b = take j tag"
    using False assms py_last_n_append[of b j W] by (auto simp: holds_def)
  then have "take (j - length b) (py_last_n (j - length b) W @ b) = take (j - length b) tag"
    by (simp add: min_def)
  then have "py_last_n (j - length b) W = take (j - length b) tag"
    by (simp add: le)
  then have "holds tag W (j - length b)" using assms False by (auto simp: holds_def)
  then show ?thesis using partial_suffix_len_max by fastforce
qed

lemma partial_suffix_len_released:
  assumes "tag \<noteq> []" and k_def: "k = partial_suffix_len W tag"
  shows "partial_suffix_len (W @ b) tag = partial_suffix_len (py_last_n k W @ b) tag"
proof -
  have kW: "k \<le> length W"
    using partial_suffix_len_holds[OF assms(1), of W] by (simp add: k_def holds_def)
  have eq: "holds tag (W @ b) j \<longleftrightarrow> holds tag (py_last_n k W @ b) j" for j
  proof -
    have "py_last_n j (W @ b) = py_last_n j (py_last_n k W @ b)" if "j \<le> k + length b"
      using that kW by (simp add: py_last_n_def add.commute)
    moreover have "holds tag (py_last_n k W @ b) j \<Longrightarrow> j \<le> k + length b"
      using kW by (simp add: holds_def)
    moreover have "holds tag (W @ b) j \<Longrightarrow> j \<le> k + length b"
      unfolding k_def by (rule holds_append_bound)
    ultimately show ?thesis using kW by (auto simp: holds_def)
  qed
  show ?thesis
    using partial_suffix_len_holds[OF assms(1), of "py_last_n k W @ b"]
    by (intro partial_suffix_len_eqI) (auto simp: eq partial_suffix_len_max)
qed


subsection \<open>Feeding a stream in pieces\<close>

text \<open>
  A stream transducer turns each piece of its input into output on two channels. The law
  its clients rely on: a piece may be cut anywhere without changing the state reached or
  what has come out on either channel.
\<close>

locale stream_transducer =
  fixes put :: "'s \<Rightarrow> 'a list \<Rightarrow> 's \<times> 'b list \<times> 'b list"
    and invar :: "'s \<Rightarrow> bool"
  assumes put_Nil: "put s [] = (s, [], [])"
    and put_invar: "invar s \<Longrightarrow> invar (fst (put s xs))"
    and put_append: "invar s \<Longrightarrow> put s (xs @ ys) =
      (case put s xs of (s1, u1, v1) \<Rightarrow>
         (case put s1 ys of (s2, u2, v2) \<Rightarrow> (s2, u1 @ u2, v1 @ v2)))"
begin

lemma run_pieces_concat: "invar s \<Longrightarrow> run_pieces put s cs = put s (concat cs)"
proof (induction cs arbitrary: s)
  case Nil
  then show ?case by (simp add: put_Nil)
next
  case (Cons c cs)
  then show ?case
    using put_invar[OF Cons.prems, of c] by (auto simp: put_append split: prod.splits)
qed

lemma run_pieces_rechunk:
  "invar s \<Longrightarrow> concat cs = concat ds \<Longrightarrow> run_pieces put s cs = run_pieces put s ds"
  by (simp add: run_pieces_concat)

end

lemma feed_content_append:
  "feed_content r (a @ b) =
     (case feed_content r a of (r1, c1) \<Rightarrow>
        (case feed_content r1 b of (r2, c2) \<Rightarrow> (r2, c1 @ c2)))"
  by (auto simp: feed_content_def Let_def py_lstrip_append)

lemma feed_content_Nil: "feed_content r [] = (r, [])"
  by (simp add: feed_content_def)

lemma feed_content_state: "feed_content r t = (r', c) \<Longrightarrow> r_state r' = r_state r"
  by (auto simp: feed_content_def Let_def split: if_splits)

lemma feed_Nil [simp]: "feed r [] = (r, [], [])"
  by (simp add: feed_def)

lemma feed_Content:
  "r_state r = Content \<Longrightarrow> feed r t = (case feed_content r t of (r', c) \<Rightarrow> (r', [], c))"
  by (simp add: feed_def feed_content_Nil)

lemma py_find_append_Some:
  assumes "py_find sub s = Some i"
  shows "py_find sub (s @ t) = Some i"
proof -
  have len: "i + length sub \<le> length s" by (rule py_find_length[OF assms])
  have "\<not> py_startswith (drop j (s @ t)) sub" if "j < i" for j
  proof
    assume "py_startswith (drop j (s @ t)) sub"
    then have "prefix sub (drop j s)"
      using that len prefix_length_prefix[of sub "drop j s @ t" "drop j s"]
      by (simp add: py_startswith_prefix)
    then show False using assms that by (simp add: py_find_Some_iff py_startswith_prefix)
  qed
  then show ?thesis
    using assms len by (auto simp: py_find_Some_iff py_startswith_append)
qed

lemma feed_reasoning_append_found:
  assumes "py_find CLOSE_TAG (r_buffer r @ a) = Some i" and "r_state r = Reasoning"
  shows "feed_reasoning r (a @ b) =
    (case feed_reasoning r a of (r1, u1, v1) \<Rightarrow>
       (case feed r1 b of (r2, u2, v2) \<Rightarrow> (r2, u1 @ u2, v1 @ v2)))"
proof -
  define r0 where "r0 = r\<lparr>r_buffer := [], r_state := Content, skip_ws_after_close := True\<rparr>"
  define rest where "rest = drop (i + length CLOSE_TAG) (r_buffer r @ a)"
  have len: "i + length CLOSE_TAG \<le> length (r_buffer r @ a)"
    by (rule py_find_length[OF assms(1)])
  obtain r1 c1 where fc: "feed_content r0 rest = (r1, c1)" by (cases "feed_content r0 rest")
  have st: "r_state r1 = Content" using feed_content_state[OF fc] by (simp add: r0_def)
  have fa: "feed_reasoning r a = (r1, take i (r_buffer r @ a), c1)"
    using assms fc by (simp add: feed_reasoning_def r0_def rest_def Let_def)
  have dr: "drop (i + length CLOSE_TAG) ((r_buffer r @ a) @ b) = rest @ b"
    using len by (simp add: rest_def)
  have "feed_reasoning r (a @ b) =
      (case feed_content r0 (rest @ b) of (r2, c) \<Rightarrow> (r2, take i (r_buffer r @ a), c))"
    using py_find_append_Some[OF assms(1), of b] len dr
    by (simp add: feed_reasoning_def r0_def Let_def del: append_assoc)
       (simp add: append_assoc[symmetric] del: append_assoc)
  then show ?thesis
    by (simp add: fa feed_content_append fc feed_Content[OF st] split: prod.splits)
qed

lemma feed_reasoning_append_none:
  assumes "py_find CLOSE_TAG (r_buffer r @ a) = None" and st: "r_state r = Reasoning"
  shows "feed_reasoning r (a @ b) =
    (case feed_reasoning r a of (r1, u1, v1) \<Rightarrow>
       (case feed_reasoning r1 b of (r2, u2, v2) \<Rightarrow> (r2, u1 @ u2, v1 @ v2)))"
proof -
  define W where "W = r_buffer r @ a"
  define k where "k = partial_suffix_len W CLOSE_TAG"
  define E where "E = py_drop_last_n k W"
  define S where "S = py_last_n k W"
  have tag: "CLOSE_TAG \<noteq> []" by (simp add: CLOSE_TAG_def)
  have W: "W = E @ S" by (simp add: E_def S_def)
  have lenE: "length E = length W - k" by (simp add: E_def py_drop_last_n_def)
  have fa: "feed_reasoning r a = (r\<lparr>r_buffer := S\<rparr>, E, [])"
    using assms by (auto simp: feed_reasoning_def W_def k_def E_def S_def Let_def py_last_n_def
        py_drop_last_n_def)
  have fnd: "py_find CLOSE_TAG (E @ S @ b) =
      map_option (\<lambda>k. length E + k) (py_find CLOSE_TAG (S @ b))"
    using no_tag_in_released[of CLOSE_TAG W _ b] assms
    by (intro py_find_skip) (simp add: lenE k_def[symmetric] W[symmetric] W_def[symmetric]
        append_assoc[symmetric] del: append_assoc)
  have psl: "partial_suffix_len (E @ S @ b) CLOSE_TAG = partial_suffix_len (S @ b) CLOSE_TAG"
    using partial_suffix_len_released[OF tag k_def, of b]
    unfolding S_def[symmetric] by (simp add: W)
  have kl: "partial_suffix_len (S @ b) CLOSE_TAG \<le> length (S @ b)"
    using partial_suffix_len_holds[OF tag, of "S @ b"] by (simp add: holds_def)
  have fab: "feed_reasoning r (a @ b) =
      (case feed_reasoning (r\<lparr>r_buffer := S\<rparr>) b of (r2, u2, v2) \<Rightarrow> (r2, E @ u2, v2))"
  proof -
    have buf: "r_buffer r @ a @ b = E @ S @ b" using W by (simp add: W_def)
    show ?thesis
      using kl by (simp add: feed_reasoning_def buf fnd psl Let_def py_last_n_def
          py_drop_last_n_def add.commute split: option.splits prod.splits)
  qed
  show ?thesis by (simp add: fa fab split: prod.splits)
qed


lemma feed_reasoning_Nil:
  "r_buffer r = [] \<Longrightarrow> feed_reasoning r [] = (r, [], [])"
proof -
  assume "r_buffer r = []"
  moreover have "py_find CLOSE_TAG [] = None" by (simp add: CLOSE_TAG_def)
  ultimately show ?thesis
    by (simp add: feed_reasoning_def partial_suffix_len_def Let_def)
qed

lemma feed_reasoning_state:
  "feed_reasoning r t = (r', u, v) \<Longrightarrow> r_state r = Reasoning \<Longrightarrow>
   py_find CLOSE_TAG (r_buffer r @ t) = None \<Longrightarrow> r_state r' = Reasoning"
  by (auto simp: feed_reasoning_def Let_def split: if_splits)

lemma feed_Reasoning_append:
  assumes st: "r_state r = Reasoning"
  shows "feed r (a @ b) =
    (case feed r a of (r1, u1, v1) \<Rightarrow>
       (case feed r1 b of (r2, u2, v2) \<Rightarrow> (r2, u1 @ u2, v1 @ v2)))"
proof (cases "a = [] \<or> b = []")
  case True
  then show ?thesis by (auto split: prod.splits)
next
  case False
  then have fa: "feed r a = feed_reasoning r a" and fab: "feed r (a @ b) = feed_reasoning r (a @ b)"
    using st by (simp_all add: feed_def)
  obtain r1 u1 v1 where r1: "feed_reasoning r a = (r1, u1, v1)"
    by (cases "feed_reasoning r a")
  show ?thesis
  proof (cases "py_find CLOSE_TAG (r_buffer r @ a)")
    case None
    then have "feed r1 b = feed_reasoning r1 b"
      using False feed_reasoning_state[OF r1 st] by (simp add: feed_def)
    then show ?thesis
      by (simp add: fa fab feed_reasoning_append_none[OF None st] r1)
  next
    case (Some i)
    show ?thesis by (simp add: fa fab feed_reasoning_append_found[OF Some st] r1)
  qed
qed

lemma feed_reasoning_as_feed:
  "r_state r = Reasoning \<Longrightarrow> r_buffer r = [] \<Longrightarrow>
   (if t \<noteq> [] then feed_reasoning r t else (r, [], [])) = feed r t"
  by (simp add: feed_def)

lemma feed_Detecting_append:
  assumes st: "r_state r = Detecting" and skip: "\<not> skip_ws_after_close r"
  shows "feed r (a @ b) =
    (case feed r a of (r1, u1, v1) \<Rightarrow>
       (case feed r1 b of (r2, u2, v2) \<Rightarrow> (r2, u1 @ u2, v1 @ v2)))"
proof (cases "a = [] \<or> b = []")
  case True
  then show ?thesis by (auto split: prod.splits)
next
  case False
  then have fa: "feed r a = feed_detecting r a" and fab: "feed r (a @ b) = feed_detecting r (a @ b)"
    using st by (simp_all add: feed_def)
  define s where "s = py_lstrip (r_buffer r @ a)"
  define r0 where "r0 = r\<lparr>r_buffer := [], r_state := Reasoning\<rparr>"
  have sb: "py_lstrip (r_buffer r @ a @ b) = (if s = [] then py_lstrip b else s @ b)"
    using py_lstrip_append[of "r_buffer r @ a" b] by (simp add: s_def)
  consider (opened) "py_startswith s OPEN_TAG"
    | (ambiguous) "\<not> py_startswith s OPEN_TAG" "length s < length OPEN_TAG" "py_startswith OPEN_TAG s"
    | (plain) "\<not> py_startswith s OPEN_TAG" "\<not> (length s < length OPEN_TAG \<and> py_startswith OPEN_TAG s)"
    by blast
  then show ?thesis
  proof cases
    case opened
    then have pre: "py_startswith (s @ b) OPEN_TAG" by (rule py_startswith_append)
    have ne: "s \<noteq> []" using opened by (auto simp: py_startswith_def OPEN_TAG_def)
    have len: "length OPEN_TAG \<le> length s"
      using opened by (simp add: py_startswith_prefix prefix_length_le)
    have a1: "feed_detecting r a = feed r0 (drop (length OPEN_TAG) s)"
      using opened by (simp add: feed_detecting_def Let_def s_def[symmetric] r0_def
          feed_reasoning_as_feed[symmetric])
    have b1: "feed_detecting r (a @ b) = feed r0 (drop (length OPEN_TAG) s @ b)"
      using pre len ne by (simp add: feed_detecting_def Let_def sb r0_def
          feed_reasoning_as_feed[symmetric])
    show ?thesis
      unfolding fa fab a1 b1 by (rule feed_Reasoning_append) (simp add: r0_def)
  next
    case ambiguous
    then have a1: "feed_detecting r a = (r\<lparr>r_buffer := r_buffer r @ a\<rparr>, [], [])"
      by (simp add: feed_detecting_def Let_def s_def[symmetric])
    then show ?thesis
      using False st by (simp add: fa fab feed_def feed_detecting_def Let_def split: prod.splits)
  next
    case plain
    then have ne: "s \<noteq> []" by (auto simp: OPEN_TAG_def)
    have np1: "\<not> prefix OPEN_TAG s" using plain(1) by (simp add: py_startswith_prefix)
    have np2: "\<not> prefix s OPEN_TAG"
    proof
      assume p: "prefix s OPEN_TAG"
      then have "length OPEN_TAG \<le> length s"
        using plain(2) by (simp add: py_startswith_prefix)
      with p prefix_length_prefix[of OPEN_TAG OPEN_TAG s] have "prefix OPEN_TAG s"
        by (metis le_antisym prefix_length_le prefix_length_prefix prefix_order.refl)
      with np1 show False by simp
    qed
    have nb: "\<not> py_startswith (s @ b) OPEN_TAG" "\<not> py_startswith OPEN_TAG (s @ b)"
      using np1 np2 prefix_same_cases[of OPEN_TAG "s @ b" s]
      by (auto simp: py_startswith_prefix dest: append_prefixD)
    have a1: "feed_detecting r a = (r\<lparr>r_buffer := [], r_state := Content\<rparr>, [], r_buffer r @ a)"
      using plain by (auto simp: feed_detecting_def Let_def s_def[symmetric])
    have b1: "feed_detecting r (a @ b) =
        (r\<lparr>r_buffer := [], r_state := Content\<rparr>, [], r_buffer r @ a @ b)"
      using nb ne by (simp add: feed_detecting_def Let_def sb)
    show ?thesis using skip by (simp add: fa fab a1 b1 feed_Content feed_content_def)
  qed
qed

subsection \<open>The router's invariant\<close>

text \<open>
  Whitespace is skipped only after a close tag; nothing is held back in the content state;
  in the reasoning state the held text is a proper prefix of the close tag; and in the
  detecting state it is, after leading whitespace, a proper prefix of the open tag.
\<close>

definition router_ok :: "router \<Rightarrow> bool" where
  "router_ok r \<longleftrightarrow>
     (case r_state r of
        Detecting \<Rightarrow> \<not> skip_ws_after_close r \<and>
          py_startswith OPEN_TAG (py_lstrip (r_buffer r)) \<and>
          length (py_lstrip (r_buffer r)) < length OPEN_TAG
      | Reasoning \<Rightarrow> \<not> skip_ws_after_close r \<and>
          py_startswith CLOSE_TAG (r_buffer r) \<and> length (r_buffer r) < length CLOSE_TAG
      | Content \<Rightarrow> r_buffer r = [])"

lemma router_ok_init: "router_ok router_init"
  by (simp add: router_ok_def router_init_def OPEN_TAG_def)

lemma feed_content_ok:
  "r_state r = Content \<Longrightarrow> r_buffer r = [] \<Longrightarrow> router_ok (fst (feed_content r t))"
  by (auto simp: feed_content_def router_ok_def Let_def)

lemma feed_reasoning_ok:
  assumes "r_state r = Reasoning" and "\<not> skip_ws_after_close r"
  shows "router_ok (fst (feed_reasoning r t))"
proof (cases "py_find CLOSE_TAG (r_buffer r @ t)")
  case None
  have tag: "CLOSE_TAG \<noteq> []" by (simp add: CLOSE_TAG_def)
  have "take k CLOSE_TAG = x \<Longrightarrow> py_startswith CLOSE_TAG x" for k x
    by (auto simp: py_startswith_prefix take_is_prefix)
  then show ?thesis
    using partial_suffix_len_holds[OF tag, of "r_buffer r @ t"] assms None tag
    by (auto simp: feed_reasoning_def router_ok_def holds_def Let_def)
next
  case (Some i)
  then show ?thesis
    using feed_content_ok[of "r\<lparr>r_buffer := [], r_state := Content, skip_ws_after_close := True\<rparr>"]
    by (auto simp: feed_reasoning_def Let_def split: prod.splits)
       (metis fst_conv)
qed

lemma feed_ok: "router_ok r \<Longrightarrow> router_ok (fst (feed r t))"
proof (cases "t = []")
  case True
  then show "router_ok r \<Longrightarrow> router_ok (fst (feed r t))" by simp
next
  case False
  assume ok: "router_ok r"
  show "router_ok (fst (feed r t))"
  proof (cases "r_state r")
    case Detecting
    then have skip: "\<not> skip_ws_after_close r" using ok by (simp add: router_ok_def)
    have R: "router_ok (fst (feed_reasoning (r\<lparr>r_buffer := [], r_state := Reasoning\<rparr>) u))" for u
      using skip by (intro feed_reasoning_ok) simp_all
    have "router_ok (r\<lparr>r_buffer := [], r_state := Reasoning\<rparr>)"
      and "router_ok (r\<lparr>r_buffer := [], r_state := Content\<rparr>)"
      and "py_startswith OPEN_TAG (py_lstrip (r_buffer r @ t)) \<Longrightarrow>
        length (py_lstrip (r_buffer r @ t)) < length OPEN_TAG \<Longrightarrow>
        router_ok (r\<lparr>r_buffer := r_buffer r @ t\<rparr>)"
      using skip Detecting by (simp_all add: router_ok_def CLOSE_TAG_def)
    then show ?thesis
      using Detecting False by (simp add: feed_def feed_detecting_def Let_def R)
  next
    case Reasoning
    then show ?thesis
      using ok False feed_reasoning_ok[of r] by (simp add: feed_def router_ok_def)
  next
    case Content
    then show ?thesis
      using ok False feed_content_ok[of r]
      by (auto simp: feed_def router_ok_def split: prod.splits) (metis fst_conv)
  qed
qed

interpretation think: stream_transducer feed router_ok
proof unfold_locales
  fix s :: router and xs ys :: string
  show "feed s [] = (s, [], [])" by simp
  show "router_ok s \<Longrightarrow> router_ok (fst (feed s xs))" by (rule feed_ok)
  assume ok: "router_ok s"
  show "feed s (xs @ ys) =
      (case feed s xs of (s1, u1, v1) \<Rightarrow>
         (case feed s1 ys of (s2, u2, v2) \<Rightarrow> (s2, u1 @ u2, v1 @ v2)))"
  proof (cases "r_state s")
    case Detecting
    then show ?thesis using ok by (intro feed_Detecting_append) (auto simp: router_ok_def)
  next
    case Reasoning
    then show ?thesis by (rule feed_Reasoning_append)
  next
    case Content
    then show ?thesis
      using feed_content_state[of s xs]
      by (auto simp: feed_Content feed_content_append split: prod.splits)
  qed
qed


subsection \<open>The specification: splitting the whole text at once\<close>

text \<open>What a client sees: it feeds every fragment as it arrives, then flushes.\<close>

definition run_stream :: "string list \<Rightarrow> string \<times> string" where
  "run_stream cs =
     (case run_pieces feed router_init cs of (r, u, v) \<Rightarrow>
        (case flush r of (_, u', v') \<Rightarrow> (u @ u', v @ v')))"

text \<open>The same split, computed from the complete text.\<close>

definition think_split :: "string \<Rightarrow> string \<times> string" where
  "think_split s =
     (let t = py_lstrip s in
      if py_startswith t OPEN_TAG then
        let body = drop (length OPEN_TAG) t in
        case py_find CLOSE_TAG body of
          Some i \<Rightarrow> (take i body, py_lstrip (drop (i + length CLOSE_TAG) body))
        | None \<Rightarrow> (body, [])
      else ([], s))"

definition run_flush :: "router \<times> string \<times> string \<Rightarrow> string \<times> string" where
  "run_flush x = (case x of (r, u, v) \<Rightarrow> (case flush r of (_, u', v') \<Rightarrow> (u @ u', v @ v')))"

lemma run_flush_reasoning:
  assumes "r_state r = Reasoning" and "r_buffer r = []"
  shows "run_flush (feed_reasoning r body) =
    (case py_find CLOSE_TAG body of
       Some i \<Rightarrow> (take i body, py_lstrip (drop (i + length CLOSE_TAG) body))
     | None \<Rightarrow> (body, []))"
proof (cases "py_find CLOSE_TAG body")
  case None
  then show ?thesis
    using assms by (simp add: run_flush_def feed_reasoning_def flush_def Let_def)
next
  case (Some i)
  then show ?thesis
    using assms by (simp add: run_flush_def feed_reasoning_def feed_content_def flush_def Let_def)
qed

lemma run_flush_feed: "run_flush (feed router_init s) = think_split s"
proof (cases "s = []")
  case True
  then show ?thesis
    by (simp add: run_flush_def flush_def router_init_def think_split_def OPEN_TAG_def
        py_startswith_def)
next
  case False
  define r0 where "r0 = router_init\<lparr>r_state := Reasoning\<rparr>"
  have r0: "r_state r0 = Reasoning" "r_buffer r0 = []" by (simp_all add: r0_def router_init_def)
  have None0: "py_find CLOSE_TAG [] = None" by (simp add: CLOSE_TAG_def)
  show ?thesis
  proof (cases "py_startswith (py_lstrip s) OPEN_TAG")
    case True
    then have "feed router_init s = feed_reasoning r0 (drop (length OPEN_TAG) (py_lstrip s))"
      using False feed_reasoning_Nil[OF r0(2)]
      by (auto simp: feed_def feed_detecting_def Let_def r0_def router_init_def)
    then show ?thesis
      using True by (simp add: run_flush_reasoning[OF r0] think_split_def Let_def)
  next
    case plain: False
    then show ?thesis
      using False by (simp add: run_flush_def flush_def feed_def feed_detecting_def
          router_init_def think_split_def Let_def)
  qed
qed

text \<open>
  C4: However the provider cuts its output into fragments, feeding them one by one and
  flushing yields the same reasoning and content as splitting the complete text at once: a
  tag that straddles fragments is neither missed nor leaked.
\<close>

theorem run_stream_eq_think_split: "run_stream cs = think_split (concat cs)"
proof -
  have "run_stream cs = run_flush (run_pieces feed router_init cs)"
    by (simp add: run_stream_def run_flush_def)
  also have "run_pieces feed router_init cs = feed router_init (concat cs)"
    by (rule think.run_pieces_concat[OF router_ok_init])
  finally show ?thesis by (simp add: run_flush_feed)
qed

lemma py_lstrip_split: "\<exists>ws. s = ws @ py_lstrip s \<and> list_all py_space ws"
  unfolding py_lstrip_def
  by (rule exI[of _ "takeWhile py_space s"]) (auto simp: list_all_iff dest: set_takeWhileD)

lemma startswith_drop: "py_startswith t p \<Longrightarrow> t = p @ drop (length p) t"
  unfolding py_startswith_def by (metis append_take_drop_id)

lemma think_split_cases:
  "(think_split s = ([], s) \<and> \<not> py_startswith (py_lstrip s) OPEN_TAG) \<or>
   (\<exists>ws u. think_split s = (u, []) \<and> s = ws @ OPEN_TAG @ u \<and> py_find CLOSE_TAG u = None \<and>
      list_all py_space ws) \<or>
   (\<exists>ws u ws' v. think_split s = (u, v) \<and> s = ws @ OPEN_TAG @ u @ CLOSE_TAG @ ws' @ v \<and>
      py_find CLOSE_TAG u = None \<and> list_all py_space ws \<and> list_all py_space ws')"
proof (cases "py_startswith (py_lstrip s) OPEN_TAG")
  case False
  then show ?thesis by (simp add: think_split_def Let_def)
next
  case True
  define body where "body = drop (length OPEN_TAG) (py_lstrip s)"
  obtain ws where ws: "s = ws @ py_lstrip s" "list_all py_space ws"
    using py_lstrip_split by blast
  have s: "s = ws @ OPEN_TAG @ body"
    using ws(1) startswith_drop[OF True] by (simp add: body_def)
  show ?thesis
  proof (cases "py_find CLOSE_TAG body")
    case None
    then have "think_split s = (body, [])"
      using True by (simp add: think_split_def Let_def body_def)
    then show ?thesis using s ws(2) None by blast
  next
    case (Some i)
    define tl where "tl = drop (i + length CLOSE_TAG) body"
    obtain ws' where ws': "tl = ws' @ py_lstrip tl" "list_all py_space ws'"
      using py_lstrip_split by blast
    have st: "py_startswith (drop i body) CLOSE_TAG" using Some by (simp add: py_find_Some_iff)
    have "body = take i body @ CLOSE_TAG @ ws' @ py_lstrip tl"
      using startswith_drop[OF st] ws'(1) append_take_drop_id[of i body]
      by (simp add: tl_def add.commute)
    moreover have "py_find CLOSE_TAG (take i body) = None"
    proof (rule ccontr)
      assume "py_find CLOSE_TAG (take i body) \<noteq> None"
      then obtain j where j: "py_find CLOSE_TAG (take i body) = Some j" by auto
      have "py_find CLOSE_TAG body = Some j"
        using py_find_append_Some[OF j, of "drop i body"] by simp
      moreover have "j < i"
        using py_find_length[OF j] by (simp add: CLOSE_TAG_def)
      ultimately show False using Some by simp
    qed
    moreover have "think_split s = (take i body, py_lstrip tl)"
      using True Some by (simp add: think_split_def Let_def body_def tl_def)
    ultimately show ?thesis using s ws(2) ws'(2) by blast
  qed
qed

text \<open>
  C10: No character of the model's output is lost, duplicated or moved: whatever the
  fragments, the two channels put together give back the stream, up to the two tags and the
  whitespace before the open tag and after the close tag, and the reasoning never contains a
  close tag. Without a leading open tag the stream passes through unchanged.
\<close>

theorem run_stream_lossless:
  "(run_stream cs = ([], concat cs) \<and> \<not> py_startswith (py_lstrip (concat cs)) OPEN_TAG) \<or>
   (\<exists>ws u. run_stream cs = (u, []) \<and> concat cs = ws @ OPEN_TAG @ u \<and>
      py_find CLOSE_TAG u = None \<and> list_all py_space ws) \<or>
   (\<exists>ws u ws' v. run_stream cs = (u, v) \<and>
      concat cs = ws @ OPEN_TAG @ u @ CLOSE_TAG @ ws' @ v \<and>
      py_find CLOSE_TAG u = None \<and> list_all py_space ws \<and> list_all py_space ws')"
proof -
  have "run_stream cs = think_split (concat cs)"
    by (simp add: run_stream_def run_flush_feed[unfolded run_flush_def]
        think.run_pieces_concat[OF router_ok_init])
  then show ?thesis using think_split_cases[of "concat cs"] by simp
qed

text \<open>
  What the router holds back between two fragments. After any fragments it holds at most
  seven characters in the reasoning state, nothing in the content state, and in the detecting
  state less than an open tag after the leading whitespace; the leading whitespace itself
  is held back in full, whatever its length.
\<close>

theorem holdback_bound:
  "(case fst (run_pieces feed router_init cs) of r \<Rightarrow>
     case r_state r of
       Detecting \<Rightarrow> length (py_lstrip (r_buffer r)) < 7
     | Reasoning \<Rightarrow> length (r_buffer r) < 8
     | Content \<Rightarrow> r_buffer r = []) \<and>
   feed router_init (replicate n CHR '' '') =
     (router_init\<lparr>r_buffer := replicate n CHR '' ''\<rparr>, [], [])"
proof
  have "router_ok (fst (run_pieces feed router_init cs))"
    by (simp add: think.run_pieces_concat[OF router_ok_init] feed_ok[OF router_ok_init])
  then show "case fst (run_pieces feed router_init cs) of r \<Rightarrow>
     case r_state r of
       Detecting \<Rightarrow> length (py_lstrip (r_buffer r)) < 7
     | Reasoning \<Rightarrow> length (r_buffer r) < 8
     | Content \<Rightarrow> r_buffer r = []"
    by (auto simp: router_ok_def OPEN_TAG_def CLOSE_TAG_def split: router_state.splits)
  have "py_lstrip (replicate n CHR '' '') = []"
    by (simp add: py_lstrip_def py_space_def)
  then show "feed router_init (replicate n CHR '' '') =
     (router_init\<lparr>r_buffer := replicate n CHR '' ''\<rparr>, [], [])"
    by (auto simp: feed_def feed_detecting_def router_init_def OPEN_TAG_def py_startswith_def)
qed

end
