(* ===== verification/Json.thy ===== *)
theory Json
  imports Prelude
begin

text \<open>
  Decoded JSON values, as \<open>json.loads\<close> gives them to the code (dictionaries keep insertion
  order), the dictionary operations the code uses on them, and the exceptions of the batch
  subsystem (\<open>inference_core/llm/batch/exceptions.py\<close>) together with the built-in ones that
  its handlers distinguish (\<open>LookupError\<close> is \<open>KeyError\<close> or \<open>IndexError\<close>, \<open>OtherError\<close>
  any exception not named here). An exception carries the text \<open>str(e)\<close>.
\<close>

datatype json =
    JNull
  | JBool bool
  | JNum rat
  | JStr string
  | JArr "json list"
  | JObj "(string \<times> json) list"

datatype exn =
    ProviderTransientError string "nat option"
  | ProviderPermanentError string
  | ProviderNotFoundError string
  | ProviderRegistrationError string
  | ValueError string
  | AttributeError string
  | TypeError string
  | LookupError string
  | OtherError string

fun exn_str :: "exn \<Rightarrow> string" where
  "exn_str (ProviderTransientError m _) = m"
| "exn_str (ProviderPermanentError m) = m"
| "exn_str (ProviderNotFoundError n) = ''Provider '' @ py_quote n @ '' is not registered''"
| "exn_str (ProviderRegistrationError m) = m"
| "exn_str (ValueError m) = m"
| "exn_str (AttributeError m) = m"
| "exn_str (TypeError m) = m"
| "exn_str (LookupError m) = m"
| "exn_str (OtherError m) = m"

text \<open>The exceptions a provider operation may raise (the "Raises" section of the interface).\<close>

fun is_provider_error :: "exn \<Rightarrow> bool" where
  "is_provider_error (ProviderTransientError _ _) = True"
| "is_provider_error (ProviderPermanentError _) = True"
| "is_provider_error _ = False"

fun json_truthy :: "json \<Rightarrow> bool" where
  "json_truthy JNull = False"
| "json_truthy (JBool b) = b"
| "json_truthy (JNum n) = (n \<noteq> 0)"
| "json_truthy (JStr s) = (s \<noteq> [])"
| "json_truthy (JArr xs) = (xs \<noteq> [])"
| "json_truthy (JObj kvs) = (kvs \<noteq> [])"

fun json_type_name :: "json \<Rightarrow> string" where
  "json_type_name JNull = ''NoneType''"
| "json_type_name (JBool _) = ''bool''"
| "json_type_name (JNum _) = ''number''"
| "json_type_name (JStr _) = ''str''"
| "json_type_name (JArr _) = ''list''"
| "json_type_name (JObj _) = ''dict''"

definition describe :: "json \<Rightarrow> string \<Rightarrow> string" where
  "describe j what = py_quote (json_type_name j) @ what"

text \<open>The numbers of Python, booleans among them.\<close>

fun json_number :: "json \<Rightarrow> rat option" where
  "json_number (JNum n) = Some n"
| "json_number (JBool b) = Some (if b then 1 else 0)"
| "json_number _ = None"

subsection \<open>Dictionary operations\<close>

text \<open>\<open>d.get(k, dflt)\<close>: only a dictionary has the attribute.\<close>

fun json_get :: "json \<Rightarrow> string \<Rightarrow> json \<Rightarrow> exn + json" where
  "json_get (JObj kvs) k dflt =
     Inr (case map_of kvs k of None \<Rightarrow> dflt | Some v \<Rightarrow> v)"
| "json_get j k dflt = Inl (AttributeError (describe j '' object has no attribute get''))"

text \<open>\<open>k in d\<close> for a string \<open>k\<close>.\<close>

fun json_in :: "string \<Rightarrow> json \<Rightarrow> exn + bool" where
  "json_in k (JObj kvs) = Inr (k \<in> fst ` set kvs)"
| "json_in k (JArr xs) = Inr (JStr k \<in> set xs)"
| "json_in k (JStr s) = Inr (py_contains k s)"
| "json_in k j = Inl (TypeError (describe j '' is not a container''))"

text \<open>\<open>d[k]\<close> for a string \<open>k\<close>.\<close>

fun json_item :: "json \<Rightarrow> string \<Rightarrow> exn + json" where
  "json_item (JObj kvs) k =
     (case map_of kvs k of None \<Rightarrow> Inl (LookupError k) | Some v \<Rightarrow> Inr v)"
| "json_item j k = Inl (TypeError (describe j '' indices must be integers''))"

text \<open>\<open>xs[0]\<close>: a dictionary decoded from JSON has no integer key.\<close>

fun json_item0 :: "json \<Rightarrow> exn + json" where
  "json_item0 (JArr (x # _)) = Inr x"
| "json_item0 (JArr []) = Inl (LookupError ''list index out of range'')"
| "json_item0 (JStr (c # _)) = Inr (JStr [c])"
| "json_item0 (JStr []) = Inl (LookupError ''string index out of range'')"
| "json_item0 (JObj _) = Inl (LookupError ''0'')"
| "json_item0 j = Inl (TypeError (describe j '' object is not subscriptable''))"

text \<open>\<open>for x in xs\<close>.\<close>

fun json_iter :: "json \<Rightarrow> exn + json list" where
  "json_iter (JArr xs) = Inr xs"
| "json_iter (JStr s) = Inr (map (\<lambda>c. JStr [c]) s)"
| "json_iter (JObj kvs) = Inr (map (\<lambda>(k, _). JStr k) kvs)"
| "json_iter j = Inl (TypeError (describe j '' object is not iterable''))"

text \<open>\<open>d[k] = v\<close>, and the merge of \<open>{**d, **e}\<close> and \<open>d.update(e)\<close>.\<close>

definition dict_set :: "(string \<times> json) list \<Rightarrow> string \<Rightarrow> json \<Rightarrow> (string \<times> json) list" where
  "dict_set d k v = AList.update k v d"

definition dict_merge ::
  "(string \<times> json) list \<Rightarrow> (string \<times> json) list \<Rightarrow> (string \<times> json) list" where
  "dict_merge d e = foldl (\<lambda>d (k, v). dict_set d k v) d e"

lemma map_of_dict_set [simp]: "map_of (dict_set d k v) = (map_of d)(k \<mapsto> v)"
  by (simp add: dict_set_def update_conv')

lemma dict_set_keys: "fst ` set (dict_set d k v) = insert k (fst ` set d)"
  by (metis dom_map_of_conv_image_fst dom_fun_upd map_of_dict_set option.distinct(1))

lemma dict_merge_keys: "fst ` set (dict_merge d e) = fst ` set d \<union> fst ` set e"
  unfolding dict_merge_def
  by (induction e arbitrary: d) (simp_all add: dict_set_keys case_prod_unfold)

text \<open>An error response of an endpoint: its status code and its detail.\<close>

datatype http_error = HTTPException (http_status: nat) (http_detail: string)

subsection \<open>The environment the providers run in\<close>

text \<open>
  Library code that is not part of the repository: \<open>json.loads\<close> (\<^const>\<open>None\<close> for a
  \<open>JSONDecodeError\<close>), \<open>json.dumps\<close>, \<open>str\<close> of a decoded value, and the validation of a
  UUID by pydantic, together with the next value of \<open>uuid4\<close>.
\<close>

record env =
  env_loads :: "string \<Rightarrow> json option"
  env_dumps :: "json \<Rightarrow> string"
  env_str :: "json \<Rightarrow> string"
  env_uuid :: "json \<Rightarrow> string option"
  env_uuid4 :: string

end
