(* ===== verification/BatchModels.thy ===== *)
theory BatchModels
  imports Json
begin

text \<open>
  \<open>inference_core/database/sql/models/batch.py\<close> and the update schemas of
  \<open>inference_core/schemas/batch.py\<close>: statuses, the three tables of the batch domain and the
  computed properties of their rows. A row of a table is a record; the database is the three
  lists of rows in insertion order, the server clock and the supply of fresh ids. A UUID is
  represented by its canonical text, so \<open>str(id)\<close> is the identity.
\<close>

subsection \<open>Statuses\<close>

datatype job_status = CREATED | SUBMITTED | IN_PROGRESS | COMPLETED | FAILED | CANCELLED | EXPIRED

datatype item_status = ItemQUEUED | ItemSENT | ItemCOMPLETED | ItemFAILED

datatype event_type =
    STATUS_CHANGE | ITEM_UPDATE | ERROR_EVENT | PROGRESS_UPDATE | SUBMITTED_EVENT | FETCH_COMPLETED

fun job_status_value :: "job_status \<Rightarrow> string" where
  "job_status_value CREATED = ''created''"
| "job_status_value SUBMITTED = ''submitted''"
| "job_status_value IN_PROGRESS = ''in_progress''"
| "job_status_value COMPLETED = ''completed''"
| "job_status_value FAILED = ''failed''"
| "job_status_value CANCELLED = ''cancelled''"
| "job_status_value EXPIRED = ''expired''"

definition all_job_statuses :: "job_status list" where
  "all_job_statuses = [CREATED, SUBMITTED, IN_PROGRESS, COMPLETED, FAILED, CANCELLED, EXPIRED]"

text \<open>\<open>BatchJobStatus(text)\<close>; \<^const>\<open>None\<close> is the \<open>ValueError\<close> of an unknown value.\<close>

definition job_status_of :: "string \<Rightarrow> job_status option" where
  "job_status_of s = find (\<lambda>st. job_status_value st = s) all_job_statuses"

lemma job_status_of_value [simp]: "job_status_of (job_status_value st) = Some st"
  by (cases st) (simp_all add: job_status_of_def all_job_statuses_def)

lemma job_status_of_Some_iff: "job_status_of s = Some st \<longleftrightarrow> s = job_status_value st"
proof
  show "job_status_of s = Some st \<Longrightarrow> s = job_status_value st"
    by (auto simp: job_status_of_def find_Some_iff)
  show "s = job_status_value st \<Longrightarrow> job_status_of s = Some st" by simp
qed

lemma job_status_value_inject [simp]: "job_status_value a = job_status_value b \<longleftrightarrow> a = b"
  by (metis job_status_of_value option.inject)

subsection \<open>Points in time\<close>

text \<open>A datetime is a number of seconds, with or without a time zone.\<close>

datatype datetime = Aware int | Naive int

fun dt_seconds :: "datetime \<Rightarrow> int" where
  "dt_seconds (Aware n) = n"
| "dt_seconds (Naive n) = n"

text \<open>\<open>(a - b).total_seconds()\<close>: mixing the two kinds raises a \<open>TypeError\<close>.\<close>

fun dt_minus :: "datetime \<Rightarrow> datetime \<Rightarrow> exn + int" where
  "dt_minus (Aware a) (Aware b) = Inr (a - b)"
| "dt_minus (Naive a) (Naive b) = Inr (a - b)"
| "dt_minus _ _ = Inl (TypeError ''cannot subtract offset-naive and offset-aware datetimes'')"

fun dt_plus_hours :: "datetime \<Rightarrow> int \<Rightarrow> datetime" where
  "dt_plus_hours (Aware a) h = Aware (a + 3600 * h)"
| "dt_plus_hours (Naive a) h = Naive (a + 3600 * h)"

subsection \<open>Rows\<close>

type_synonym uuid = string

record batch_job =
  j_id :: uuid
  j_provider :: string
  j_model :: string
  j_status :: job_status
  j_provider_batch_id :: "string option"
  j_mode :: string
  j_submitted_at :: "datetime option"
  j_completed_at :: "datetime option"
  j_request_count :: int
  j_success_count :: int
  j_error_count :: int
  j_config_json :: "json option"
  j_error_summary :: "string option"
  j_result_uri :: "string option"
  j_metadata_json :: "(string \<times> json) list option"
  j_created_by :: "uuid option"
  j_updated_by :: "uuid option"
  j_created_at :: datetime

record batch_item =
  i_id :: uuid
  i_batch_job_id :: uuid
  i_sequence_index :: int
  i_custom_external_id :: "string option"
  i_input_payload :: "json option"
  i_output_payload :: "json option"
  i_status :: item_status
  i_error_detail :: "string option"
  i_created_by :: "uuid option"
  i_updated_by :: "uuid option"

record batch_event =
  e_id :: uuid
  e_batch_job_id :: uuid
  e_event_type :: event_type
  e_old_status :: "string option"
  e_new_status :: "string option"
  e_event_timestamp :: int
  e_event_data :: "json option"
  e_created_by :: "uuid option"

record db =
  db_jobs :: "batch_job list"
  db_items :: "batch_item list"
  db_events :: "batch_event list"
  db_clock :: int
  db_uuids :: "nat \<Rightarrow> uuid"
  db_uuid_count :: nat

text \<open>\<open>uuid.uuid4\<close>, the default of every primary key: the supply's next id.\<close>

definition uuid4 :: "db \<Rightarrow> db \<times> uuid" where
  "uuid4 d = (d\<lparr>db_uuid_count := Suc (db_uuid_count d)\<rparr>, db_uuids d (db_uuid_count d))"

subsection \<open>Computed properties of a job\<close>

definition completion_rate :: "batch_job \<Rightarrow> rat" where
  "completion_rate j =
     (if j_request_count j = 0 then 0
      else (of_int (j_success_count j) + of_int (j_error_count j)) / of_int (j_request_count j) * 100)"

definition success_rate :: "batch_job \<Rightarrow> rat" where
  "success_rate j =
     (let completed = j_success_count j + j_error_count j in
      if completed = 0 then 0 else of_int (j_success_count j) / of_int completed * 100)"

definition is_complete :: "batch_job \<Rightarrow> bool" where
  "is_complete j \<longleftrightarrow> j_status j \<in> {COMPLETED, FAILED, CANCELLED}"

definition pending_count :: "batch_job \<Rightarrow> int" where
  "pending_count j = j_request_count j - j_success_count j - j_error_count j"

definition update_counts :: "int \<Rightarrow> int \<Rightarrow> batch_job \<Rightarrow> batch_job" where
  "update_counts success_delta error_delta j =
     j\<lparr>j_success_count := j_success_count j + success_delta,
       j_error_count := j_error_count j + error_delta\<rparr>"

definition item_is_completed :: "batch_item \<Rightarrow> bool" where
  "item_is_completed i \<longleftrightarrow> i_status i \<in> {ItemCOMPLETED, ItemFAILED}"

definition item_is_successful :: "batch_item \<Rightarrow> bool" where
  "item_is_successful i \<longleftrightarrow> i_status i = ItemCOMPLETED"

subsection \<open>Metadata\<close>

text \<open>
  \<open>get_metadata\<close> and \<open>set_metadata\<close> of the metadata mixin: the stored JSON text decodes to
  the dictionary it was encoded from; nothing stored gives the empty dictionary.
\<close>

definition get_metadata :: "batch_job \<Rightarrow> (string \<times> json) list" where
  "get_metadata j = (case j_metadata_json j of None \<Rightarrow> [] | Some m \<Rightarrow> m)"

definition set_metadata :: "(string \<times> json) list \<Rightarrow> batch_job \<Rightarrow> batch_job" where
  "set_metadata m j = j\<lparr>j_metadata_json := Some m\<rparr>"

subsection \<open>Update schemas\<close>

text \<open>
  \<open>model_dump(exclude_unset=True)\<close> yields the fields the caller set. A field of a nullable
  column is \<open>None\<close> when unset and \<open>Some v\<close> when set to \<open>v\<close>, where \<open>v\<close> may be null; a
  column that is not nullable is never set to null by any caller.
\<close>

record job_update =
  u_status :: "job_status option"
  u_provider_batch_id :: "string option option"
  u_submitted_at :: "datetime option option"
  u_completed_at :: "datetime option option"
  u_success_count :: "int option"
  u_error_count :: "int option"
  u_error_summary :: "string option option"
  u_result_uri :: "string option option"
  u_config_json :: "json option option"

definition no_job_update :: job_update where
  "no_job_update = \<lparr>u_status = None, u_provider_batch_id = None, u_submitted_at = None,
     u_completed_at = None, u_success_count = None, u_error_count = None,
     u_error_summary = None, u_result_uri = None, u_config_json = None\<rparr>"

record item_update =
  v_status :: "item_status option"
  v_output_payload :: "json option option"
  v_error_detail :: "string option option"

definition no_item_update :: item_update where
  "no_item_update = \<lparr>v_status = None, v_output_payload = None, v_error_detail = None\<rparr>"

definition set_if :: "'a option \<Rightarrow> 'a \<Rightarrow> 'a" where
  "set_if new old = (case new of None \<Rightarrow> old | Some v \<Rightarrow> v)"

lemma set_if_simps [simp]: "set_if None x = x" "set_if (Some v) x = v"
  by (simp_all add: set_if_def)

definition apply_job_update :: "job_update \<Rightarrow> batch_job \<Rightarrow> batch_job" where
  "apply_job_update u j =
     j\<lparr>j_status := set_if (u_status u) (j_status j),
       j_provider_batch_id := set_if (u_provider_batch_id u) (j_provider_batch_id j),
       j_submitted_at := set_if (u_submitted_at u) (j_submitted_at j),
       j_completed_at := set_if (u_completed_at u) (j_completed_at j),
       j_success_count := set_if (u_success_count u) (j_success_count j),
       j_error_count := set_if (u_error_count u) (j_error_count j),
       j_error_summary := set_if (u_error_summary u) (j_error_summary j),
       j_result_uri := set_if (u_result_uri u) (j_result_uri j),
       j_config_json := set_if (u_config_json u) (j_config_json j)\<rparr>"

definition apply_item_update :: "item_update \<Rightarrow> batch_item \<Rightarrow> batch_item" where
  "apply_item_update u i =
     i\<lparr>i_status := set_if (v_status u) (i_status i),
       i_output_payload := set_if (v_output_payload u) (i_output_payload i),
       i_error_detail := set_if (v_error_detail u) (i_error_detail i)\<rparr>"

lemma apply_job_update_id [simp]:
  "j_id (apply_job_update u j) = j_id j" "j_request_count (apply_job_update u j) = j_request_count j"
  "j_status (apply_job_update u j) = set_if (u_status u) (j_status j)"
  "j_success_count (apply_job_update u j) = set_if (u_success_count u) (j_success_count j)"
  "j_error_count (apply_job_update u j) = set_if (u_error_count u) (j_error_count j)"
  "j_provider (apply_job_update u j) = j_provider j"
  "j_metadata_json (apply_job_update u j) = j_metadata_json j"
  by (simp_all add: apply_job_update_def)

lemma apply_item_update_id [simp]:
  "i_id (apply_item_update u i) = i_id i" "i_batch_job_id (apply_item_update u i) = i_batch_job_id i"
  "i_sequence_index (apply_item_update u i) = i_sequence_index i"
  "i_status (apply_item_update u i) = set_if (v_status u) (i_status i)"
  by (simp_all add: apply_item_update_def)

end
