(* ===== verification/BatchService.thy ===== *)
theory BatchService
  imports BatchModels
begin

text \<open>
  \<open>inference_core/services/batch_service.py\<close>: the operations of \<open>BatchService\<close> on the
  database. Every commit directly follows its writes, so an operation is one transition of
  the committed state; an operation returns the new database with its result.
\<close>

subsection \<open>Events\<close>

record event_create =
  ec_event_type :: event_type
  ec_old_status :: "string option"
  ec_new_status :: "string option"
  ec_event_data :: "json option"

definition create_batch_event ::
  "uuid \<Rightarrow> event_create \<Rightarrow> uuid option \<Rightarrow> db \<Rightarrow> db \<times> batch_event" where
  "create_batch_event jid ev created_by d =
     (let (d, eid) = uuid4 d;
          e = \<lparr>e_id = eid, e_batch_job_id = jid, e_event_type = ec_event_type ev,
               e_old_status = ec_old_status ev, e_new_status = ec_new_status ev,
               e_event_timestamp = db_clock d, e_event_data = ec_event_data ev,
               e_created_by = created_by\<rparr>
      in (d\<lparr>db_events := db_events d @ [e]\<rparr>, e))"

definition create_semantic_event ::
  "uuid \<Rightarrow> event_type \<Rightarrow> (string \<times> json) list option \<Rightarrow> uuid option \<Rightarrow> db \<Rightarrow> db \<times> batch_event" where
  "create_semantic_event jid ty data created_by d =
     create_batch_event jid
       \<lparr>ec_event_type = ty, ec_old_status = None, ec_new_status = None,
        ec_event_data = Some (JObj (case data of None \<Rightarrow> [] | Some kvs \<Rightarrow> kvs))\<rparr> created_by d"

text \<open>The statuses are members of a string enumeration, so both are normalised by value.\<close>

definition create_status_change_event ::
  "uuid \<Rightarrow> string option \<Rightarrow> string \<Rightarrow> uuid option \<Rightarrow> db \<Rightarrow> db" where
  "create_status_change_event jid old_status new_status created_by d =
     (let old_enum = (case old_status of None \<Rightarrow> None | Some s \<Rightarrow> job_status_of s);
          new_enum = job_status_of new_status
      in fst (create_batch_event jid
           \<lparr>ec_event_type = STATUS_CHANGE, ec_old_status = map_option job_status_value old_enum,
            ec_new_status = map_option job_status_value new_enum, ec_event_data = None\<rparr>
           created_by d))"

definition event_key :: "batch_event \<Rightarrow> int \<times> int \<times> uuid" where
  "event_key e = (e_event_timestamp e, e_event_timestamp e, e_id e)"

definition get_batch_events :: "uuid \<Rightarrow> event_type option \<Rightarrow> db \<Rightarrow> batch_event list" where
  "get_batch_events jid ty d =
     sort_key event_key
       (filter (\<lambda>e. e_batch_job_id e = jid \<and> (case ty of None \<Rightarrow> True | Some t \<Rightarrow> e_event_type e = t))
          (db_events d))"

subsection \<open>Jobs\<close>

record job_create =
  c_provider :: string
  c_model :: string
  c_mode :: string
  c_request_count :: int
  c_config_json :: "json option"

definition create_batch_job ::
  "job_create \<Rightarrow> uuid option \<Rightarrow> db \<Rightarrow> db \<times> batch_job" where
  "create_batch_job data created_by d =
     (let (d, jid) = uuid4 d;
          job = \<lparr>j_id = jid, j_provider = c_provider data, j_model = c_model data,
                 j_status = CREATED, j_provider_batch_id = None, j_mode = c_mode data,
                 j_submitted_at = None, j_completed_at = None,
                 j_request_count = c_request_count data, j_success_count = 0,
                 j_error_count = 0, j_config_json = c_config_json data,
                 j_error_summary = None, j_result_uri = None, j_metadata_json = None,
                 j_created_by = created_by, j_updated_by = None,
                 j_created_at = Aware (db_clock d)\<rparr>;
          d = d\<lparr>db_jobs := db_jobs d @ [job]\<rparr>
      in (create_status_change_event jid None (job_status_value CREATED) created_by d, job))"

definition get_batch_job :: "uuid \<Rightarrow> db \<Rightarrow> batch_job option" where
  "get_batch_job jid d = row_find j_id jid (db_jobs d)"

definition write_job :: "uuid \<Rightarrow> (batch_job \<Rightarrow> batch_job) \<Rightarrow> db \<Rightarrow> db" where
  "write_job jid f d = d\<lparr>db_jobs := row_update j_id jid f (db_jobs d)\<rparr>"

definition update_batch_job ::
  "uuid \<Rightarrow> job_update \<Rightarrow> uuid option \<Rightarrow> db \<Rightarrow> db \<times> batch_job option" where
  "update_batch_job jid u updated_by d =
     (case get_batch_job jid d of
        None \<Rightarrow> (d, None)
      | Some job \<Rightarrow>
          let old_status = j_status job;
              f = (\<lambda>j. (apply_job_update u j)\<lparr>j_updated_by := updated_by\<rparr>);
              d = write_job jid f d;
              d = (case u_status u of
                     Some s \<Rightarrow>
                       if s \<noteq> old_status
                       then create_status_change_event jid (Some (job_status_value old_status))
                              (job_status_value s) updated_by d
                       else d
                   | None \<Rightarrow> d)
          in (d, Some (f job)))"

record job_query =
  q_provider :: "string option"
  q_status :: "job_status option"
  q_mode :: "string option"
  q_submitted_after :: "datetime option"
  q_submitted_before :: "datetime option"
  q_limit :: nat
  q_offset :: nat

text \<open>
  A filter applies when its value is given and not empty; a row whose \<open>submitted_at\<close> is null
  satisfies no comparison.
\<close>

definition query_batch_jobs :: "job_query \<Rightarrow> db \<Rightarrow> batch_job list" where
  "query_batch_jobs q d =
     (let given = (\<lambda>x. case x of None \<Rightarrow> None | Some s \<Rightarrow> if s = [] then None else Some s);
          keep = (\<lambda>j.
            (case given (q_provider q) of None \<Rightarrow> True | Some p \<Rightarrow> j_provider j = p) \<and>
            (case q_status q of None \<Rightarrow> True | Some s \<Rightarrow> j_status j = s) \<and>
            (case given (q_mode q) of None \<Rightarrow> True | Some m \<Rightarrow> j_mode j = m) \<and>
            (case q_submitted_after q of None \<Rightarrow> True
             | Some t \<Rightarrow> (case j_submitted_at j of None \<Rightarrow> False
                         | Some s \<Rightarrow> dt_seconds t \<le> dt_seconds s)) \<and>
            (case q_submitted_before q of None \<Rightarrow> True
             | Some t \<Rightarrow> (case j_submitted_at j of None \<Rightarrow> False
                         | Some s \<Rightarrow> dt_seconds s \<le> dt_seconds t)))
      in take (q_limit q) (drop (q_offset q)
           (sort_key (\<lambda>j. - dt_seconds (j_created_at j)) (filter keep (db_jobs d)))))"

definition get_pending_jobs :: "string option \<Rightarrow> db \<Rightarrow> batch_job list" where
  "get_pending_jobs provider d =
     (let jobs = filter (\<lambda>j. j_status j \<in> {CREATED, SUBMITTED, IN_PROGRESS}) (db_jobs d);
          jobs = (case provider of
                    None \<Rightarrow> jobs
                  | Some p \<Rightarrow> if p = [] then jobs else filter (\<lambda>j. j_provider j = p) jobs)
      in sort_key (\<lambda>j. dt_seconds (j_created_at j)) jobs)"

text \<open>Deleting a job deletes its items and events (\<open>cascade="all, delete-orphan"\<close>).\<close>

definition delete_batch_job :: "uuid \<Rightarrow> db \<Rightarrow> db \<times> bool" where
  "delete_batch_job jid d =
     (case get_batch_job jid d of
        None \<Rightarrow> (d, False)
      | Some _ \<Rightarrow>
          (d\<lparr>db_jobs := filter (\<lambda>j. j_id j \<noteq> jid) (db_jobs d),
             db_items := filter (\<lambda>i. i_batch_job_id i \<noteq> jid) (db_items d),
             db_events := filter (\<lambda>e. e_batch_job_id e \<noteq> jid) (db_events d)\<rparr>, True))"

subsection \<open>Items\<close>

record item_create =
  n_sequence_index :: int
  n_custom_external_id :: "string option"
  n_input_payload :: "json option"

definition new_item :: "uuid \<Rightarrow> uuid option \<Rightarrow> uuid \<Rightarrow> item_create \<Rightarrow> batch_item" where
  "new_item jid created_by iid n =
     \<lparr>i_id = iid, i_batch_job_id = jid, i_sequence_index = n_sequence_index n,
      i_custom_external_id = n_custom_external_id n, i_input_payload = n_input_payload n,
      i_output_payload = None, i_status = ItemQUEUED, i_error_detail = None,
      i_created_by = created_by, i_updated_by = None\<rparr>"

fun add_items :: "uuid \<Rightarrow> uuid option \<Rightarrow> item_create list \<Rightarrow> db \<Rightarrow> db \<times> batch_item list" where
  "add_items jid created_by [] d = (d, [])"
| "add_items jid created_by (n # ns) d =
     (let (d, iid) = uuid4 d;
          item = new_item jid created_by iid n;
          (d, items) = add_items jid created_by ns (d\<lparr>db_items := db_items d @ [item]\<rparr>)
      in (d, item # items))"

definition create_batch_items ::
  "uuid \<Rightarrow> item_create list \<Rightarrow> uuid option \<Rightarrow> db \<Rightarrow> db \<times> (exn + batch_item list)" where
  "create_batch_items jid items_data created_by d =
     (case get_batch_job jid d of
        None \<Rightarrow> (d, Inl (ValueError (''Batch job '' @ jid @ '' not found'')))
      | Some _ \<Rightarrow>
          let (d, items) = add_items jid created_by items_data d;
              d = write_job jid (\<lambda>j. j\<lparr>j_request_count := int (length items_data)\<rparr>) d
          in (d, Inr items))"

definition get_batch_items :: "uuid \<Rightarrow> item_status option \<Rightarrow> db \<Rightarrow> batch_item list" where
  "get_batch_items jid st d =
     sort_key i_sequence_index
       (filter (\<lambda>i. i_batch_job_id i = jid \<and> (case st of None \<Rightarrow> True | Some s \<Rightarrow> i_status i = s))
          (db_items d))"

text \<open>The effect of an item's move from one status to another on its job's counts.\<close>

definition success_delta :: "item_status \<Rightarrow> item_status \<Rightarrow> int" where
  "success_delta old new = (if old = ItemCOMPLETED then -1 else 0) + (if new = ItemCOMPLETED then 1 else 0)"

definition error_delta :: "item_status \<Rightarrow> item_status \<Rightarrow> int" where
  "error_delta old new = (if old = ItemFAILED then -1 else 0) + (if new = ItemFAILED then 1 else 0)"

definition update_job_counts_from_item_status_change ::
  "uuid \<Rightarrow> item_status \<Rightarrow> item_status \<Rightarrow> db \<Rightarrow> db" where
  "update_job_counts_from_item_status_change jid old_status new_status d =
     (case get_batch_job jid d of
        None \<Rightarrow> d
      | Some _ \<Rightarrow>
          let sd = success_delta old_status new_status; ed = error_delta old_status new_status in
          if sd \<noteq> 0 \<or> ed \<noteq> 0 then
            write_job jid (\<lambda>j.
              let j = update_counts sd ed j in
              if j_success_count j + j_error_count j \<ge> j_request_count j
              then j\<lparr>j_status := COMPLETED, j_completed_at := Some (Aware (db_clock d))\<rparr>
              else j) d
          else d)"

definition update_batch_item ::
  "uuid \<Rightarrow> item_update \<Rightarrow> uuid option \<Rightarrow> db \<Rightarrow> db \<times> batch_item option" where
  "update_batch_item iid u updated_by d =
     (case row_find i_id iid (db_items d) of
        None \<Rightarrow> (d, None)
      | Some item \<Rightarrow>
          let old_status = i_status item;
              f = (\<lambda>i. (apply_item_update u i)\<lparr>i_updated_by := updated_by\<rparr>);
              d = d\<lparr>db_items := row_update i_id iid f (db_items d)\<rparr>;
              d = (case v_status u of
                     Some s \<Rightarrow>
                       if s \<noteq> old_status
                       then update_job_counts_from_item_status_change (i_batch_job_id item) old_status s d
                       else d
                   | None \<Rightarrow> d)
          in (d, Some (f item)))"

record item_status_update =
  s_item_id :: "uuid option"
  s_status :: "item_status option"
  s_output_payload :: "json option"
  s_error_detail :: "string option"

fun update_batch_items_status ::
  "item_status_update list \<Rightarrow> uuid option \<Rightarrow> db \<Rightarrow> db \<times> nat" where
  "update_batch_items_status [] updated_by d = (d, 0)"
| "update_batch_items_status (x # xs) updated_by d =
     (let (d, n) =
        (case (s_item_id x, s_status x) of
           (Some iid, Some st) \<Rightarrow>
             if iid = [] then (d, 0)
             else case update_batch_item iid
               \<lparr>v_status = Some st, v_output_payload = Some (s_output_payload x),
                v_error_detail = Some (s_error_detail x)\<rparr> updated_by d of
               (d, Some _) \<Rightarrow> (d, 1)
             | (d, None) \<Rightarrow> (d, 0)
         | _ \<Rightarrow> (d, 0));
        (d, m) = update_batch_items_status xs updated_by d
      in (d, n + m))"

subsection \<open>Statistics\<close>

record job_stats =
  total_jobs :: nat
  jobs_by_status :: "(job_status \<times> nat) list"
  jobs_by_provider :: "(string \<times> nat) list"
  total_requests :: int
  total_successes :: int
  total_errors :: int
  average_success_rate :: rat

text \<open>\<open>SELECT k, COUNT(id) ... GROUP BY k\<close>: one row per value that occurs.\<close>

definition group_count :: "('r \<Rightarrow> 'k) \<Rightarrow> 'r list \<Rightarrow> ('k \<times> nat) list" where
  "group_count key rows =
     map (\<lambda>k. (k, length (filter (\<lambda>r. key r = k) rows))) (remdups (map key rows))"

definition get_batch_stats :: "db \<Rightarrow> job_stats" where
  "get_batch_stats d =
     (let jobs = db_jobs d;
          requests = sum_list (map j_request_count jobs);
          successes = sum_list (map j_success_count jobs);
          errors = sum_list (map j_error_count jobs);
          completed = successes + errors
      in \<lparr>total_jobs = length jobs,
          jobs_by_status = group_count j_status jobs,
          jobs_by_provider = group_count j_provider jobs,
          total_requests = requests, total_successes = successes, total_errors = errors,
          average_success_rate =
            (if requests > 0 \<and> completed > 0 then of_int successes / of_int completed * 100 else 0)\<rparr>)"


subsection \<open>What each operation leaves alone\<close>

named_theorems service \<open>frame and effect rules of the service operations\<close>

lemma uuid4_frame [service]:
  "db_jobs (fst (uuid4 d)) = db_jobs d" "db_items (fst (uuid4 d)) = db_items d"
  "db_events (fst (uuid4 d)) = db_events d" "db_clock (fst (uuid4 d)) = db_clock d"
  "db_uuids (fst (uuid4 d)) = db_uuids d" "db_uuid_count (fst (uuid4 d)) = Suc (db_uuid_count d)"
  "snd (uuid4 d) = db_uuids d (db_uuid_count d)"
  by (simp_all add: uuid4_def)

lemma create_batch_event_frame [service]:
  "db_jobs (fst (create_batch_event jid ev by d)) = db_jobs d"
  "db_items (fst (create_batch_event jid ev by d)) = db_items d"
  "db_clock (fst (create_batch_event jid ev by d)) = db_clock d"
  "db_uuids (fst (create_batch_event jid ev by d)) = db_uuids d"
  "db_uuid_count (fst (create_batch_event jid ev by d)) = Suc (db_uuid_count d)"
  by (simp_all add: create_batch_event_def uuid4_def Let_def)

lemma create_semantic_event_frame [service]:
  "db_jobs (fst (create_semantic_event jid ty data by d)) = db_jobs d"
  "db_items (fst (create_semantic_event jid ty data by d)) = db_items d"
  "db_clock (fst (create_semantic_event jid ty data by d)) = db_clock d"
  "db_uuids (fst (create_semantic_event jid ty data by d)) = db_uuids d"
  "db_uuid_count (fst (create_semantic_event jid ty data by d)) = Suc (db_uuid_count d)"
  by (simp_all add: create_semantic_event_def service)

lemma create_status_change_event_frame [service]:
  "db_jobs (create_status_change_event jid old new by d) = db_jobs d"
  "db_items (create_status_change_event jid old new by d) = db_items d"
  "db_clock (create_status_change_event jid old new by d) = db_clock d"
  "db_uuids (create_status_change_event jid old new by d) = db_uuids d"
  "db_uuid_count (create_status_change_event jid old new by d) = Suc (db_uuid_count d)"
  by (simp_all add: create_status_change_event_def service Let_def)

lemma write_job_frame [service]:
  "db_items (write_job jid f d) = db_items d" "db_events (write_job jid f d) = db_events d"
  "db_clock (write_job jid f d) = db_clock d" "db_uuids (write_job jid f d) = db_uuids d"
  "db_uuid_count (write_job jid f d) = db_uuid_count d"
  "db_jobs (write_job jid f d) = row_update j_id jid f (db_jobs d)"
  by (simp_all add: write_job_def)

lemma get_batch_job_write [service]:
  "(\<And>j. j_id (f j) = j_id j) \<Longrightarrow>
   get_batch_job k (write_job jid f d) =
     (if k = jid then map_option f (get_batch_job jid d) else get_batch_job k d)"
  by (simp add: get_batch_job_def write_job_def table)

lemma get_batch_job_cong:
  "db_jobs d = db_jobs d' \<Longrightarrow> get_batch_job k d = get_batch_job k d'"
  by (simp add: get_batch_job_def)

lemma get_batch_job_None_update:
  "get_batch_job jid d = None \<Longrightarrow> row_update j_id jid f (db_jobs d) = db_jobs d"
  by (simp add: get_batch_job_def row_find_None_iff row_update_absent)

lemma update_batch_job_cases:
  "get_batch_job jid d = None \<Longrightarrow> update_batch_job jid u by d = (d, None)"
  "get_batch_job jid d = Some job \<Longrightarrow>
   update_batch_job jid u by d =
     (let f = (\<lambda>j. (apply_job_update u j)\<lparr>j_updated_by := by\<rparr>); d' = write_job jid f d in
      (if u_status u = None \<or> u_status u = Some (j_status job) then d'
       else create_status_change_event jid (Some (job_status_value (j_status job)))
              (job_status_value (the (u_status u))) by d', Some (f job)))"
  by (simp add: update_batch_job_def)
     (cases "u_status u"; simp add: update_batch_job_def Let_def)

lemma update_batch_job_frame [service]:
  "db_items (fst (update_batch_job jid u by d)) = db_items d"
  "db_clock (fst (update_batch_job jid u by d)) = db_clock d"
  "db_uuids (fst (update_batch_job jid u by d)) = db_uuids d"
  "db_jobs (fst (update_batch_job jid u by d)) =
     row_update j_id jid (\<lambda>j. (apply_job_update u j)\<lparr>j_updated_by := by\<rparr>) (db_jobs d)"
  by (cases "get_batch_job jid d";
      simp add: update_batch_job_cases Let_def service get_batch_job_None_update)+

lemma update_batch_job_count_le: "db_uuid_count d \<le> db_uuid_count (fst (update_batch_job jid u by d))"
  by (cases "get_batch_job jid d") (simp_all add: update_batch_job_cases Let_def service)

lemma get_batch_job_update [service]:
  "get_batch_job k (fst (update_batch_job jid u by d)) =
     (if k = jid then map_option (\<lambda>j. (apply_job_update u j)\<lparr>j_updated_by := by\<rparr>) (get_batch_job jid d)
      else get_batch_job k d)"
  by (simp add: get_batch_job_def service table)

lemma update_counts_frame [service]:
  "db_items (update_job_counts_from_item_status_change jid old new d) = db_items d"
  "db_events (update_job_counts_from_item_status_change jid old new d) = db_events d"
  "db_clock (update_job_counts_from_item_status_change jid old new d) = db_clock d"
  "db_uuids (update_job_counts_from_item_status_change jid old new d) = db_uuids d"
  "db_uuid_count (update_job_counts_from_item_status_change jid old new d) = db_uuid_count d"
  by (auto simp: update_job_counts_from_item_status_change_def Let_def service split: option.splits)

lemma update_batch_item_cases:
  "row_find i_id iid (db_items d) = None \<Longrightarrow> update_batch_item iid u by d = (d, None)"
  "row_find i_id iid (db_items d) = Some item \<Longrightarrow>
   update_batch_item iid u by d =
     (let f = (\<lambda>i. (apply_item_update u i)\<lparr>i_updated_by := by\<rparr>);
          d' = d\<lparr>db_items := row_update i_id iid f (db_items d)\<rparr> in
      (if v_status u = None \<or> v_status u = Some (i_status item) then d'
       else update_job_counts_from_item_status_change (i_batch_job_id item) (i_status item)
              (the (v_status u)) d', Some (f item)))"
  by (simp add: update_batch_item_def)
     (cases "v_status u"; simp add: update_batch_item_def Let_def)

lemma update_batch_item_frame [service]:
  "db_events (fst (update_batch_item iid u by d)) = db_events d"
  "db_clock (fst (update_batch_item iid u by d)) = db_clock d"
  "db_uuids (fst (update_batch_item iid u by d)) = db_uuids d"
  "db_uuid_count (fst (update_batch_item iid u by d)) = db_uuid_count d"
  "db_items (fst (update_batch_item iid u by d)) =
     row_update i_id iid (\<lambda>i. (apply_item_update u i)\<lparr>i_updated_by := by\<rparr>) (db_items d)"
  by (cases "row_find i_id iid (db_items d)";
      simp add: update_batch_item_cases Let_def service row_find_None_iff row_update_absent)+

lemma add_items_Cons:
  "add_items jid by (n # ns) d =
     (let item = new_item jid by (db_uuids d (db_uuid_count d)) n;
          r = add_items jid by ns
                (d\<lparr>db_uuid_count := Suc (db_uuid_count d), db_items := db_items d @ [item]\<rparr>)
      in (fst r, item # snd r))"
  by (simp add: uuid4_def Let_def case_prod_unfold)

declare add_items.simps(2) [simp del]

lemma add_items_frame [service]:
  "db_jobs (fst (add_items jid by ns d)) = db_jobs d"
  "db_events (fst (add_items jid by ns d)) = db_events d"
  "db_clock (fst (add_items jid by ns d)) = db_clock d"
  "db_uuids (fst (add_items jid by ns d)) = db_uuids d"
  "db_uuid_count (fst (add_items jid by ns d)) = db_uuid_count d + length ns"
  "db_items (fst (add_items jid by ns d)) = db_items d @ snd (add_items jid by ns d)"
  by (induction ns arbitrary: d) (simp_all add: add_items_Cons Let_def)

lemma add_items_snd:
  "snd (add_items jid by ns d) =
     map2 (\<lambda>k n. new_item jid by (db_uuids d k) n) [db_uuid_count d ..< db_uuid_count d + length ns] ns"
  by (induction ns arbitrary: d) (simp_all add: add_items_Cons Let_def upt_conv_Cons del: upt_Suc)


subsection \<open>The invariant of the tables\<close>

text \<open>
  Primary keys are distinct ids that have been issued, and every item refers to a job of the
  job table. \<open>counts_ok\<close>: the counts of a job are the numbers of its items that completed
  and that failed.
\<close>

definition issued :: "db \<Rightarrow> uuid set" where
  "issued d = db_uuids d ` {..<db_uuid_count d}"

definition db_ok :: "db \<Rightarrow> bool" where
  "db_ok d \<longleftrightarrow>
     inj (db_uuids d) \<and> distinct (map j_id (db_jobs d)) \<and> distinct (map i_id (db_items d)) \<and>
     j_id ` set (db_jobs d) \<subseteq> issued d \<and> i_id ` set (db_items d) \<subseteq> issued d \<and>
     i_batch_job_id ` set (db_items d) \<subseteq> j_id ` set (db_jobs d)"

definition count_items :: "uuid \<Rightarrow> item_status \<Rightarrow> db \<Rightarrow> int" where
  "count_items jid st d =
     int (length (filter (\<lambda>i. i_batch_job_id i = jid \<and> i_status i = st) (db_items d)))"

definition counts_ok :: "db \<Rightarrow> bool" where
  "counts_ok d \<longleftrightarrow>
     (\<forall>j\<in>set (db_jobs d). j_success_count j = count_items (j_id j) ItemCOMPLETED d \<and>
        j_error_count j = count_items (j_id j) ItemFAILED d)"

definition empty_db :: "(nat \<Rightarrow> uuid) \<Rightarrow> db" where
  "empty_db ids = \<lparr>db_jobs = [], db_items = [], db_events = [], db_clock = 0, db_uuids = ids,
     db_uuid_count = 0\<rparr>"

lemma empty_db_ok: "inj ids \<Longrightarrow> db_ok (empty_db ids) \<and> counts_ok (empty_db ids)"
  by (simp add: db_ok_def counts_ok_def empty_db_def)

lemma issued_mono:
  "db_uuids d' = db_uuids d \<Longrightarrow> db_uuid_count d \<le> db_uuid_count d' \<Longrightarrow> issued d \<subseteq> issued d'"
  by (auto simp: issued_def)

lemma fresh_not_issued: "inj (db_uuids d) \<Longrightarrow> db_uuid_count d \<le> k \<Longrightarrow> db_uuids d k \<notin> issued d"
  by (auto simp: issued_def dest: injD)

lemma db_ok_cong:
  assumes "db_ok d" and "map j_id (db_jobs d') = map j_id (db_jobs d)"
    and "map (\<lambda>i. (i_id i, i_batch_job_id i)) (db_items d') = map (\<lambda>i. (i_id i, i_batch_job_id i)) (db_items d)"
    and "db_uuids d' = db_uuids d" and "db_uuid_count d \<le> db_uuid_count d'"
  shows "db_ok d'"
proof -
  have ii: "map i_id (db_items d') = map i_id (db_items d)"
    and ij: "map i_batch_job_id (db_items d') = map i_batch_job_id (db_items d)"
    using arg_cong[OF assms(3), of "map fst"] arg_cong[OF assms(3), of "map snd"]
    by (simp_all add: comp_def)
  have sets: "i_id ` set (db_items d') = i_id ` set (db_items d)"
    "i_batch_job_id ` set (db_items d') = i_batch_job_id ` set (db_items d)"
    "j_id ` set (db_jobs d') = j_id ` set (db_jobs d)"
    using arg_cong[OF ii, of set] arg_cong[OF ij, of set] arg_cong[OF assms(2), of set] by simp_all
  have "issued d \<subseteq> issued d'" by (rule issued_mono[OF assms(4,5)])
  then show ?thesis
    using assms(1) unfolding db_ok_def sets ii assms(2) assms(4) by (meson subset_trans)
qed

lemma counts_ok_cong:
  assumes "counts_ok d"
    and "map (\<lambda>j. (j_id j, j_success_count j, j_error_count j)) (db_jobs d') =
         map (\<lambda>j. (j_id j, j_success_count j, j_error_count j)) (db_jobs d)"
    and "db_items d' = db_items d"
  shows "counts_ok d'"
proof -
  have eq: "(\<lambda>j. (j_id j, j_success_count j, j_error_count j)) ` set (db_jobs d') =
      (\<lambda>j. (j_id j, j_success_count j, j_error_count j)) ` set (db_jobs d)"
    using arg_cong[OF assms(2), of set] by simp
  show ?thesis
    unfolding counts_ok_def
  proof
    fix j assume "j \<in> set (db_jobs d')"
    then have "(j_id j, j_success_count j, j_error_count j)
        \<in> (\<lambda>j. (j_id j, j_success_count j, j_error_count j)) ` set (db_jobs d)"
      unfolding eq[symmetric] by (rule imageI)
    then obtain j0 where "j0 \<in> set (db_jobs d)" "j_id j0 = j_id j"
      "j_success_count j0 = j_success_count j" "j_error_count j0 = j_error_count j"
      by auto
    then show "j_success_count j = count_items (j_id j) ItemCOMPLETED d' \<and>
        j_error_count j = count_items (j_id j) ItemFAILED d'"
      using assms(1,3) by (auto simp: counts_ok_def count_items_def)
  qed
qed

lemma map_row_update_id: "(\<And>r. g (f r) = g r) \<Longrightarrow> map g (row_update key k f rows) = map g rows"
  by (induction rows) (auto simp: row_update_def)

lemma update_batch_job_ok: "db_ok d \<Longrightarrow> db_ok (fst (update_batch_job jid u by d))"
  by (erule db_ok_cong) (simp_all add: service map_row_update_id update_batch_job_count_le)

lemma update_batch_job_counts:
  "counts_ok d \<Longrightarrow> u_success_count u = None \<Longrightarrow> u_error_count u = None \<Longrightarrow>
   counts_ok (fst (update_batch_job jid u by d))"
  by (erule counts_ok_cong) (simp_all add: service map_row_update_id)

lemma create_batch_event_ok:
  "db_ok d \<Longrightarrow> db_ok (fst (create_batch_event jid ev by d))"
  "counts_ok d \<Longrightarrow> counts_ok (fst (create_batch_event jid ev by d))"
  by (erule db_ok_cong counts_ok_cong; simp add: service)+

lemma create_semantic_event_ok:
  "db_ok d \<Longrightarrow> db_ok (fst (create_semantic_event jid ty data by d))"
  "counts_ok d \<Longrightarrow> counts_ok (fst (create_semantic_event jid ty data by d))"
  by (simp_all add: create_semantic_event_def create_batch_event_ok)

lemma create_batch_job_frame [service]:
  "db_jobs (fst (create_batch_job data by d)) = db_jobs d @ [snd (create_batch_job data by d)]"
  "db_items (fst (create_batch_job data by d)) = db_items d"
  "db_uuids (fst (create_batch_job data by d)) = db_uuids d"
  "db_uuid_count (fst (create_batch_job data by d)) = Suc (Suc (db_uuid_count d))"
  "j_id (snd (create_batch_job data by d)) = db_uuids d (db_uuid_count d)"
  "j_success_count (snd (create_batch_job data by d)) = 0"
  "j_error_count (snd (create_batch_job data by d)) = 0"
  "j_status (snd (create_batch_job data by d)) = CREATED"
  by (simp_all add: create_batch_job_def uuid4_def Let_def service)

lemma count_items_no_job:
  "db_ok d \<Longrightarrow> jid \<notin> j_id ` set (db_jobs d) \<Longrightarrow> count_items jid st d = 0"
  by (force simp: db_ok_def count_items_def filter_empty_conv)

lemma new_job_id: "db_ok d \<Longrightarrow> db_uuids d (db_uuid_count d) \<notin> j_id ` set (db_jobs d)"
  using fresh_not_issued[of d "db_uuid_count d"] by (auto simp: db_ok_def)

lemma create_batch_job_ok:
  assumes "db_ok d"
  shows "db_ok (fst (create_batch_job data by d))"
    and "counts_ok d \<Longrightarrow> counts_ok (fst (create_batch_job data by d))"
proof -
  let ?d = "fst (create_batch_job data by d)" and ?n = "db_uuids d (db_uuid_count d)"
  have new: "?n \<notin> j_id ` set (db_jobs d)" by (rule new_job_id[OF assms])
  have mono: "issued d \<subseteq> issued ?d" by (rule issued_mono) (simp_all add: service)
  have "?n \<in> issued ?d" by (auto simp: issued_def service)
  then show "db_ok ?d"
    using assms new mono by (auto simp: db_ok_def service)
  have cnt: "count_items jid st ?d = count_items jid st d" for jid st
    by (simp add: count_items_def service)
  show "counts_ok d \<Longrightarrow> counts_ok ?d"
    using count_items_no_job[OF assms new] by (simp add: counts_ok_def service cnt)
qed

lemma create_batch_items_frame [service]:
  "db_uuids (fst (create_batch_items jid ns by d)) = db_uuids d"
  "get_batch_job jid d = None \<Longrightarrow> fst (create_batch_items jid ns by d) = d"
  "get_batch_job jid d = Some job \<Longrightarrow>
     db_items (fst (create_batch_items jid ns by d)) = db_items d @ snd (add_items jid by ns d)"
  "get_batch_job jid d = Some job \<Longrightarrow>
     db_uuid_count (fst (create_batch_items jid ns by d)) = db_uuid_count d + length ns"
  "map (\<lambda>j. (j_id j, j_success_count j, j_error_count j)) (db_jobs (fst (create_batch_items jid ns by d))) =
     map (\<lambda>j. (j_id j, j_success_count j, j_error_count j)) (db_jobs d)"
  by (cases "get_batch_job jid d";
      simp add: create_batch_items_def case_prod_unfold Let_def service map_row_update_id)+

lemma create_batch_items_ok:
  assumes "db_ok d"
  shows "db_ok (fst (create_batch_items jid ns by d))"
    and "counts_ok d \<Longrightarrow> counts_ok (fst (create_batch_items jid ns by d))"
proof -
  let ?d = "fst (create_batch_items jid ns by d)" and ?new = "snd (add_items jid by ns d)"
  have both: "db_ok ?d \<and> (counts_ok d \<longrightarrow> counts_ok ?d)"
  proof (cases "get_batch_job jid d")
    case None
    then show ?thesis using assms by (simp add: service)
  next
    case (Some job)
    have jobs: "map j_id (db_jobs ?d) = map j_id (db_jobs d)"
      using arg_cong[OF create_batch_items_frame(5)[of jid ns "by" d], of "map fst"]
      by (simp add: comp_def)
    have jset: "j_id ` set (db_jobs ?d) = j_id ` set (db_jobs d)"
      using arg_cong[OF jobs, of set] by simp
    have items: "db_items ?d = db_items d @ ?new" using Some by (simp add: service)
    have ids: "map i_id ?new = map (db_uuids d) [db_uuid_count d ..< db_uuid_count d + length ns]"
      by (rule nth_equalityI) (simp_all add: add_items_snd new_item_def)
    have inj: "inj (db_uuids d)" using assms by (simp add: db_ok_def)
    have "distinct (map i_id ?new)"
      unfolding ids using inj by (simp add: distinct_map inj_on_def inj_def)
    moreover have "i_id ` set ?new \<inter> issued d = {}"
      using fresh_not_issued[OF inj] arg_cong[OF ids, of set] by auto
    moreover have "i_id ` set ?new \<subseteq> issued ?d"
      using arg_cong[OF ids, of set] Some by (auto simp: issued_def service)
    moreover have "issued d \<subseteq> issued ?d"
      using Some by (intro issued_mono) (simp_all add: service)
    moreover have bj: "i_batch_job_id i = jid \<and> i_status i = ItemQUEUED" if "i \<in> set ?new" for i
      using that by (auto simp: add_items_snd new_item_def)
    moreover have "jid \<in> j_id ` set (db_jobs d)"
      using Some row_find_in row_find_key by (force simp: get_batch_job_def)
    ultimately have ok: "db_ok ?d"
      using assms unfolding db_ok_def items jobs jset
      by (auto simp: service disjoint_iff)
    have "count_items k st ?d = count_items k st d" if "st \<noteq> ItemQUEUED" for k st
      using bj that by (auto simp: count_items_def items filter_empty_conv)
    moreover have "set (map (\<lambda>j. (j_id j, j_success_count j, j_error_count j)) (db_jobs ?d)) =
        set (map (\<lambda>j. (j_id j, j_success_count j, j_error_count j)) (db_jobs d))"
      by (simp only: create_batch_items_frame(5))
    ultimately have "counts_ok d \<Longrightarrow> counts_ok ?d"
      using counts_ok_cong[of d "?d\<lparr>db_items := db_items d\<rparr>"] create_batch_items_frame(5)
      by (simp add: counts_ok_def count_items_def)
    with ok show ?thesis by simp
  qed
  then show "db_ok ?d" and "counts_ok d \<Longrightarrow> counts_ok ?d" by simp_all
qed


subsection \<open>Item updates keep the counts\<close>

abbreviation job_tally :: "batch_job \<Rightarrow> uuid \<times> int \<times> int" where
  "job_tally j \<equiv> (j_id j, j_success_count j, j_error_count j)"

lemma counts_ok_tally:
  "counts_ok d \<longleftrightarrow>
     (\<forall>(k, s, e) \<in> set (map job_tally (db_jobs d)).
        s = count_items k ItemCOMPLETED d \<and> e = count_items k ItemFAILED d)"
  by (auto simp: counts_ok_def)

lemma update_counts_tally:
  "map job_tally (db_jobs (update_job_counts_from_item_status_change jid old new d)) =
   map (\<lambda>j. if j_id j = jid
            then (j_id j, j_success_count j + success_delta old new, j_error_count j + error_delta old new)
            else job_tally j) (db_jobs d)"
proof (cases "get_batch_job jid d")
  case None
  then have "jid \<notin> j_id ` set (db_jobs d)" by (simp add: get_batch_job_def row_find_None_iff)
  with None show ?thesis
    by (auto simp: update_job_counts_from_item_status_change_def image_iff)
next
  case (Some job)
  then show ?thesis
    by (simp add: update_job_counts_from_item_status_change_def service Let_def)
       (auto simp: row_update_def update_counts_def)
qed

lemma update_counts_ids:
  "map j_id (db_jobs (update_job_counts_from_item_status_change jid old new d)) = map j_id (db_jobs d)"
  using arg_cong[OF update_counts_tally[of jid old new d], of "map fst"]
  by (simp add: comp_def if_distrib cong: if_cong)

lemma update_batch_item_ok:
  assumes "db_ok d"
  shows "db_ok (fst (update_batch_item iid u by d))"
proof (rule db_ok_cong[OF assms])
  show "map j_id (db_jobs (fst (update_batch_item iid u by d))) = map j_id (db_jobs d)"
    by (cases "row_find i_id iid (db_items d)")
       (simp_all add: update_batch_item_cases Let_def update_counts_ids)
qed (simp_all add: service map_row_update_id)

lemma count_items_update:
  assumes "db_ok d" and "row_find i_id iid (db_items d) = Some item"
  shows "count_items k st (fst (update_batch_item iid u by d)) =
    count_items k st d - of_bool (i_batch_job_id item = k \<and> i_status item = st)
      + of_bool (i_batch_job_id item = k \<and> set_if (v_status u) (i_status item) = st)"
  using count_row_update[OF _ assms(2), of "\<lambda>i. i_batch_job_id i = k \<and> i_status i = st"] assms(1)
  by (simp add: count_items_def db_ok_def service)

lemma delta_of_bool:
  "success_delta old new = of_bool (new = ItemCOMPLETED) - of_bool (old = ItemCOMPLETED)"
  "error_delta old new = of_bool (new = ItemFAILED) - of_bool (old = ItemFAILED)"
  by (auto simp: success_delta_def error_delta_def)

lemma update_batch_item_counts:
  assumes "db_ok d" and "counts_ok d"
  shows "counts_ok (fst (update_batch_item iid u by d))"
proof (cases "row_find i_id iid (db_items d)")
  case None
  then show ?thesis using assms by (simp add: update_batch_item_cases)
next
  case (Some item)
  let ?d = "fst (update_batch_item iid u by d)" and ?new = "set_if (v_status u) (i_status item)"
  have tally: "map job_tally (db_jobs ?d) =
      map (\<lambda>j. if j_id j = i_batch_job_id item
            then (j_id j, j_success_count j + success_delta (i_status item) ?new,
                  j_error_count j + error_delta (i_status item) ?new)
            else job_tally j) (db_jobs d)"
    by (cases "v_status u")
       (auto simp: update_batch_item_cases(2)[OF Some] Let_def update_counts_tally delta_of_bool)
  show ?thesis
    unfolding counts_ok_tally tally
    using assms(2) by (auto simp: counts_ok_def count_items_update[OF assms(1) Some] delta_of_bool)
qed

lemma update_batch_items_status_both:
  "db_ok d \<Longrightarrow> db_ok (fst (update_batch_items_status xs by d)) \<and>
     (counts_ok d \<longrightarrow> counts_ok (fst (update_batch_items_status xs by d)))"
proof (induction xs arbitrary: d)
  case Nil
  then show ?case by simp
next
  case (Cons x xs)
  define d1 where "d1 = (case (s_item_id x, s_status x) of
      (Some iid, Some st) \<Rightarrow> if iid = [] then d else fst (update_batch_item iid
         \<lparr>v_status = Some st, v_output_payload = Some (s_output_payload x),
          v_error_detail = Some (s_error_detail x)\<rparr> by d)
    | _ \<Rightarrow> d)"
  have step: "fst (update_batch_items_status (x # xs) by d) = fst (update_batch_items_status xs by d1)"
    by (auto simp: d1_def case_prod_unfold Let_def split: option.splits prod.splits)
  have "db_ok d1" and "counts_ok d \<Longrightarrow> counts_ok d1"
    using Cons.prems
    by (auto simp: d1_def update_batch_item_ok update_batch_item_counts split: option.splits)
  with Cons.IH[of d1] show ?case unfolding step by simp
qed

lemmas update_batch_items_status_ok =
  update_batch_items_status_both[THEN conjunct1]
  update_batch_items_status_both[THEN conjunct2, rule_format]

lemma delete_batch_job_ok:
  "db_ok d \<Longrightarrow> db_ok (fst (delete_batch_job jid d))"
  "counts_ok d \<Longrightarrow> counts_ok (fst (delete_batch_job jid d))"
proof -
  assume ok: "db_ok d"
  show "db_ok (fst (delete_batch_job jid d))"
    using ok by (auto simp: delete_batch_job_def db_ok_def issued_def distinct_map_filter
        split: option.splits)
next
  assume c: "counts_ok d"
  have "count_items k st (fst (delete_batch_job jid d)) = count_items k st d" if "k \<noteq> jid" for k st
  proof -
    have "filter (\<lambda>i. i_batch_job_id i = k \<and> i_status i = st)
        (filter (\<lambda>i. i_batch_job_id i \<noteq> jid) xs) =
      filter (\<lambda>i. i_batch_job_id i = k \<and> i_status i = st) xs" for xs :: "batch_item list"
      unfolding filter_filter using that by (intro filter_cong) auto
    then show ?thesis
      by (simp only: delete_batch_job_def count_items_def split: option.splits) simp
  qed
  then show "counts_ok (fst (delete_batch_job jid d))"
    using c by (auto simp: delete_batch_job_def counts_ok_def split: option.splits)
qed

subsection \<open>Sequences of service calls\<close>

datatype service_call =
    CreateJob job_create "uuid option"
  | CreateItems uuid "item_create list" "uuid option"
  | UpdateJob uuid job_update "uuid option"
  | UpdateItem uuid item_update "uuid option"
  | UpdateItems "item_status_update list" "uuid option"
  | DeleteJob uuid
  | AddEvent uuid event_type "(string \<times> json) list option" "uuid option"
  | Tick nat

fun service_step :: "db \<Rightarrow> service_call \<Rightarrow> db" where
  "service_step d (CreateJob data by) = fst (create_batch_job data by d)"
| "service_step d (CreateItems jid ns by) = fst (create_batch_items jid ns by d)"
| "service_step d (UpdateJob jid u by) = fst (update_batch_job jid u by d)"
| "service_step d (UpdateItem iid u by) = fst (update_batch_item iid u by d)"
| "service_step d (UpdateItems xs by) = fst (update_batch_items_status xs by d)"
| "service_step d (DeleteJob jid) = fst (delete_batch_job jid d)"
| "service_step d (AddEvent jid ty data by) = fst (create_semantic_event jid ty data by d)"
| "service_step d (Tick n) = d\<lparr>db_clock := db_clock d + int n\<rparr>"

text \<open>Whether a call writes a job's counts itself.\<close>

fun writes_counts :: "service_call \<Rightarrow> bool" where
  "writes_counts (UpdateJob _ u _) = (u_success_count u \<noteq> None \<or> u_error_count u \<noteq> None)"
| "writes_counts _ = False"

lemma service_step_ok: "db_ok d \<Longrightarrow> db_ok (service_step d call)"
  by (cases call)
     (simp_all add: create_batch_job_ok create_batch_items_ok update_batch_job_ok update_batch_item_ok
       update_batch_items_status_ok delete_batch_job_ok create_semantic_event_ok,
      simp add: db_ok_def issued_def)

lemma service_step_counts:
  "db_ok d \<Longrightarrow> counts_ok d \<Longrightarrow> \<not> writes_counts call \<Longrightarrow> counts_ok (service_step d call)"
  by (cases call)
     (simp_all add: create_batch_job_ok create_batch_items_ok update_batch_job_counts
       update_batch_item_counts update_batch_items_status_ok delete_batch_job_ok
       create_semantic_event_ok,
      simp add: counts_ok_def count_items_def)

lemma service_run_ok: "db_ok d \<Longrightarrow> db_ok (foldl service_step d calls)"
  by (induction calls arbitrary: d) (auto simp: service_step_ok)

lemma service_run_counts:
  "db_ok d \<Longrightarrow> counts_ok d \<Longrightarrow> list_all (\<lambda>c. \<not> writes_counts c) calls \<Longrightarrow>
   counts_ok (foldl service_step d calls)"
  by (induction calls arbitrary: d) (auto simp: service_step_ok service_step_counts)

subsection \<open>The timeline of a job\<close>

text \<open>
  The status changes recorded for a job, and the status that replaying them from the start
  gives: \<^const>\<open>None\<close> when an entry does not continue the one before.
\<close>

definition status_changes :: "uuid \<Rightarrow> db \<Rightarrow> (string option \<times> string option) list" where
  "status_changes jid d =
     map (\<lambda>e. (e_old_status e, e_new_status e))
       (filter (\<lambda>e. e_batch_job_id e = jid \<and> e_event_type e = STATUS_CHANGE) (db_events d))"

fun replay :: "string option \<Rightarrow> (string option \<times> string option) list \<Rightarrow> string option option" where
  "replay s [] = Some s"
| "replay s ((old, new) # es) = (if old = s then replay new es else None)"

lemma replay_snoc:
  "replay s es = Some (Some t) \<Longrightarrow> replay s (es @ [(Some t, new)]) = Some new"
  by (induction s es rule: replay.induct) (auto split: if_split_asm)

definition status_jobs :: "db \<Rightarrow> uuid set" where
  "status_jobs d = e_batch_job_id ` {e \<in> set (db_events d). e_event_type e = STATUS_CHANGE}"

definition timeline_ok :: "db \<Rightarrow> bool" where
  "timeline_ok d \<longleftrightarrow>
     (\<forall>j\<in>set (db_jobs d).
        replay None (status_changes (j_id j) d) = Some (Some (job_status_value (j_status j)))) \<and>
     status_jobs d \<subseteq> issued d"

text \<open>
  Calls that leave the timeline complete: item updates are not among them, since they may
  complete a job on their own, nor are hand-made status changes.
\<close>

fun keeps_timeline :: "service_call \<Rightarrow> bool" where
  "keeps_timeline (UpdateItem _ _ _) = False"
| "keeps_timeline (UpdateItems _ _) = False"
| "keeps_timeline (AddEvent _ ty _ _) = (ty \<noteq> STATUS_CHANGE)"
| "keeps_timeline _ = True"

lemma status_change_event_changes:
  "status_changes k (create_status_change_event jid old new by d) =
     status_changes k d @
       (if k = jid
        then [(map_option job_status_value (case old of None \<Rightarrow> None | Some s \<Rightarrow> job_status_of s),
               map_option job_status_value (job_status_of new))]
        else [])"
  by (simp add: status_changes_def create_status_change_event_def create_batch_event_def uuid4_def Let_def)

lemma status_change_event_jobs:
  "status_jobs (create_status_change_event jid old new by d) = insert jid (status_jobs d)"
  by (simp add: status_jobs_def create_status_change_event_def create_batch_event_def uuid4_def Let_def
      Collect_disj_eq conj_disj_distribR Collect_conv_if cong: conj_cong)

lemma status_events_cong:
  "db_events d' = db_events d \<Longrightarrow> status_changes k d' = status_changes k d"
  "db_events d' = db_events d \<Longrightarrow> status_jobs d' = status_jobs d"
  by (simp_all add: status_changes_def status_jobs_def)

lemma create_batch_job_timeline:
  assumes "db_ok d" and "timeline_ok d"
  shows "timeline_ok (fst (create_batch_job data by d))"
proof -
  let ?n = "db_uuids d (db_uuid_count d)" and ?d = "fst (create_batch_job data by d)"
  have inj: "inj (db_uuids d)" using assms(1) by (simp add: db_ok_def)
  have fresh: "?n \<notin> issued d" by (rule fresh_not_issued[OF inj]) simp
  have none: "status_changes ?n d = []"
    using assms(2) fresh
    by (auto simp: timeline_ok_def status_changes_def status_jobs_def filter_empty_conv)
  have new: "?n \<notin> j_id ` set (db_jobs d)" by (rule new_job_id[OF assms(1)])
  have created: "job_status_of ''created'' = Some CREATED" using job_status_of_value[of CREATED] by simp
  have changes: "status_changes k ?d = status_changes k d @ (if k = ?n then [(None, Some ''created'')] else [])" for k
    by (simp add: create_batch_job_def uuid4_def Let_def status_change_event_changes created)
      (simp add: status_changes_def)
  have jobs: "status_jobs ?d = insert ?n (status_jobs d)"
    by (simp add: create_batch_job_def uuid4_def Let_def status_change_event_jobs)
      (simp add: status_jobs_def)
  have mono: "issued d \<subseteq> issued ?d" by (rule issued_mono) (simp_all add: service)
  have "?n \<in> issued ?d" by (auto simp: issued_def service)
  have "replay None (status_changes (j_id j) ?d) = Some (Some (job_status_value (j_status j)))"
    if "j \<in> set (db_jobs ?d)" for j
  proof (cases "j_id j = ?n")
    case True
    then have "j \<notin> set (db_jobs d)" using new by (metis image_eqI)
    then have "j = snd (create_batch_job data by d)" using that by (simp add: service)
    then show ?thesis by (simp add: True changes none service)
  next
    case False
    then have "j \<in> set (db_jobs d)" using that by (auto simp: service)
    then show ?thesis using assms(2) False by (simp add: changes timeline_ok_def)
  qed
  moreover have "status_jobs ?d \<subseteq> issued ?d"
    using assms(2) mono \<open>?n \<in> issued ?d\<close> by (auto simp: timeline_ok_def jobs)
  ultimately show ?thesis by (simp add: timeline_ok_def)
qed

lemma timeline_ok_cong:
  assumes "timeline_ok d" and "map (\<lambda>j. (j_id j, j_status j)) (db_jobs d') = map (\<lambda>j. (j_id j, j_status j)) (db_jobs d)"
    and "\<And>k. status_changes k d' = status_changes k d"
    and "status_jobs d' = status_jobs d"
    and "issued d \<subseteq> issued d'"
  shows "timeline_ok d'"
proof -
  have "(\<lambda>j. (j_id j, j_status j)) ` set (db_jobs d') = (\<lambda>j. (j_id j, j_status j)) ` set (db_jobs d)"
    using arg_cong[OF assms(2), of set] by simp
  then have "\<exists>j0\<in>set (db_jobs d). j_id j0 = j_id j \<and> j_status j0 = j_status j" if "j \<in> set (db_jobs d')" for j
    using that by (metis (mono_tags, lifting) image_iff prod.inject)
  then show ?thesis
    using assms(1,5) unfolding timeline_ok_def assms(3,4) by (metis subset_trans)
qed

lemma update_batch_job_timeline:
  assumes "db_ok d" and "timeline_ok d"
  shows "timeline_ok (fst (update_batch_job jid u by d))"
proof (cases "get_batch_job jid d")
  case None
  then show ?thesis using assms by (simp add: update_batch_job_cases)
next
  case (Some job)
  let ?d = "fst (update_batch_job jid u by d)" and ?s = "set_if (u_status u) (j_status job)"
  have job: "job \<in> set (db_jobs d)" "j_id job = jid"
    using Some row_find_in row_find_key by (force simp: get_batch_job_def)+
  have changes: "status_changes k ?d = status_changes k d @
      (if k = jid \<and> ?s \<noteq> j_status job
       then [(Some (job_status_value (j_status job)), Some (job_status_value ?s))] else [])" for k
    by (cases "u_status u")
      (auto simp: update_batch_job_cases(2)[OF Some] Let_def status_change_event_changes
        status_events_cong(1)[OF write_job_frame(2)])
  have jobs: "status_jobs ?d \<subseteq> insert jid (status_jobs d)"
    by (auto simp: update_batch_job_cases(2)[OF Some] Let_def status_change_event_jobs
        status_events_cong(2)[OF write_job_frame(2)])
  have "issued d \<subseteq> issued ?d"
    by (rule issued_mono) (simp_all add: service update_batch_job_count_le)
  moreover have "jid \<in> issued d" using assms(1) job by (auto simp: db_ok_def)
  moreover have "replay None (status_changes (j_id j) ?d) = Some (Some (job_status_value (j_status j)))"
    if "j \<in> set (db_jobs ?d)" for j
  proof -
    have "j \<in> (\<lambda>r. if j_id r = jid then (apply_job_update u r)\<lparr>j_updated_by := by\<rparr> else r) ` set (db_jobs d)"
      using that by (simp add: update_batch_job_frame row_update_def)
    then obtain j0 where "j0 \<in> set (db_jobs d)"
      "j = (if j_id j0 = jid then (apply_job_update u j0)\<lparr>j_updated_by := by\<rparr> else j0)"
      by blast
    then have j0: "j0 \<in> set (db_jobs d)" "j_id j = j_id j0"
        "j_status j = (if j_id j0 = jid then set_if (u_status u) (j_status j0) else j_status j0)"
      by simp_all
    have *: "replay None (status_changes (j_id j0) d) = Some (Some (job_status_value (j_status j0)))"
      using assms(2) j0(1) by (simp add: timeline_ok_def)
    show ?thesis
    proof (cases "j_id j0 = jid")
      case True
      then have "j0 = job" using j0(1) job assms(1) by (auto simp: db_ok_def distinct_map dest: inj_onD)
      then show ?thesis using True * j0 by (auto simp: changes replay_snoc)
    next
      case False
      then show ?thesis using * j0 by (simp add: changes)
    qed
  qed
  moreover have "status_jobs d \<subseteq> issued d" using assms(2) by (simp add: timeline_ok_def)
  ultimately show ?thesis using jobs unfolding timeline_ok_def by blast
qed

lemma delete_batch_job_timeline:
  assumes "timeline_ok d" shows "timeline_ok (fst (delete_batch_job jid d))"
proof -
  let ?d = "fst (delete_batch_job jid d)"
  have "status_changes k ?d = status_changes k d" if "k \<noteq> jid" for k
    using that
    by (auto simp: delete_batch_job_def status_changes_def filter_filter intro!: arg_cong[of _ _ "map _"]
        filter_cong split: option.split)
  then show ?thesis
    using assms
    by (auto simp: timeline_ok_def delete_batch_job_def status_jobs_def issued_def split: option.split)
qed

lemma create_semantic_event_timeline:
  assumes "timeline_ok d" and "ty \<noteq> STATUS_CHANGE"
  shows "timeline_ok (fst (create_semantic_event jid ty data by d))"
proof (rule timeline_ok_cong[OF assms(1)])
  let ?d = "fst (create_semantic_event jid ty data by d)"
  show "status_changes k ?d = status_changes k d" for k
    using assms(2)
    by (simp add: create_semantic_event_def create_batch_event_def status_changes_def uuid4_def Let_def)
  show "status_jobs ?d = status_jobs d"
    using assms(2)
    by (auto simp: create_semantic_event_def create_batch_event_def status_jobs_def uuid4_def Let_def)
  show "issued d \<subseteq> issued ?d" by (rule issued_mono) (simp_all add: service)
qed (simp add: service)

lemma create_batch_items_timeline:
  assumes "timeline_ok d"
  shows "timeline_ok (fst (create_batch_items jid ns by d))"
proof (rule timeline_ok_cong[OF assms(1)])
  let ?d = "fst (create_batch_items jid ns by d)"
  have events: "db_events ?d = db_events d"
    by (cases "get_batch_job jid d") (simp_all add: create_batch_items_def case_prod_unfold Let_def service)
  show "status_changes k ?d = status_changes k d" "status_jobs ?d = status_jobs d" for k
    by (simp_all add: status_events_cong[OF events])
  show "map (\<lambda>j. (j_id j, j_status j)) (db_jobs ?d) = map (\<lambda>j. (j_id j, j_status j)) (db_jobs d)"
    by (cases "get_batch_job jid d")
      (simp_all add: create_batch_items_def case_prod_unfold Let_def service map_row_update_id)
  show "issued d \<subseteq> issued ?d"
    by (cases "get_batch_job jid d"; rule issued_mono; simp add: service)
qed

lemma service_step_timeline:
  "db_ok d \<Longrightarrow> timeline_ok d \<Longrightarrow> keeps_timeline call \<Longrightarrow> timeline_ok (service_step d call)"
  by (cases call)
    (simp_all add: create_batch_job_timeline create_batch_items_timeline update_batch_job_timeline
      delete_batch_job_timeline create_semantic_event_timeline,
     simp add: timeline_ok_def status_changes_def status_jobs_def issued_def)

lemma service_run_timeline:
  "db_ok d \<Longrightarrow> timeline_ok d \<Longrightarrow> list_all keeps_timeline calls \<Longrightarrow>
   timeline_ok (foldl service_step d calls)"
  by (induction calls arbitrary: d) (auto simp: service_step_ok service_step_timeline)

lemma empty_db_timeline: "timeline_ok (empty_db ids)"
  by (simp add: timeline_ok_def empty_db_def status_jobs_def)

end
