(* ===== verification/BatchRegistry.thy ===== *)
theory BatchRegistry
  imports BatchModels
begin

text \<open>
  \<open>inference_core/llm/batch/dto.py\<close>, the provider interface of
  \<open>inference_core/llm/batch/providers/base.py\<close> and the provider registry of
  \<open>inference_core/llm/batch/registry.py\<close>. A provider class is a record with its name, its
  \<open>PROVIDER_NAME\<close> and its constructor; an instance is a record of its operations, each of
  which returns a value or the exception it raises.
\<close>

subsection \<open>Data transfer objects\<close>

text \<open>One entry of the list that the submit task hands to \<open>prepare_payloads\<close>.\<close>

record item_data =
  d_id :: "string option"
  d_sequence_index :: int
  d_input_payload :: json

record prepared_submission =
  ps_batch_job_id :: string
  ps_provider :: string
  ps_model :: string
  ps_mode :: string
  ps_items :: "json list"
  ps_config :: "json option"

definition get_item_count :: "prepared_submission \<Rightarrow> nat" where
  "get_item_count p = length (ps_items p)"

text \<open>Progress details are numbers, texts, datetimes or dictionaries of them.\<close>

datatype info = INone | INum int | IText string | ITime datetime | IDict "(string \<times> info) list"

record provider_status =
  st_provider_batch_id :: string
  st_status :: string
  st_normalized_status :: string
  st_progress_info :: "(string \<times> info) list"
  st_estimated_completion :: "datetime option"

record result_row =
  rr_custom_id :: string
  rr_output_text :: "string option"
  rr_output_data :: "json option"
  rr_raw_metadata :: "json option"
  rr_error_message :: "string option"
  rr_is_success :: bool

record submit_result =
  sr_provider_batch_id :: string
  sr_status :: string
  sr_submitted_at :: datetime
  sr_estimated_completion :: "datetime option"
  sr_submission_metadata :: "(string \<times> json) list option"
  sr_item_count :: nat

subsection \<open>The provider interface\<close>

record provider_ops =
  op_prepare :: "item_data list \<Rightarrow> string \<Rightarrow> string \<Rightarrow> json option \<Rightarrow> exn + prepared_submission"
  op_submit :: "prepared_submission \<Rightarrow> exn + submit_result"
  op_poll :: "string \<Rightarrow> exn + provider_status"
  op_fetch :: "string \<Rightarrow> exn + result_row list"
  op_cancel :: "string \<Rightarrow> exn + bool"

record provider_class =
  pc_name :: string
  pc_is_provider :: bool
  pc_provider_name :: string
  pc_new :: "(string \<times> json) list option \<Rightarrow> exn + provider_ops"

subsection \<open>The registry\<close>

type_synonym registry = "(string \<times> provider_class) list"

definition register :: "provider_class \<Rightarrow> registry \<Rightarrow> exn + registry" where
  "register c reg =
     (if \<not> pc_is_provider c then
        Inl (ProviderRegistrationError
          (''Provider class '' @ pc_name c @ '' must inherit from BaseBatchProvider''))
      else if pc_provider_name c = [] then
        Inl (ProviderRegistrationError
          (''Provider class '' @ pc_name c @ '' must set PROVIDER_NAME class attribute''))
      else case map_of reg (pc_provider_name c) of
        Some existing \<Rightarrow>
          Inl (ProviderRegistrationError
            (''Provider '' @ py_quote (pc_provider_name c) @ '' is already registered with class '' @ pc_name existing))
      | None \<Rightarrow> Inr (reg @ [(pc_provider_name c, c)]))"

definition get_provider :: "string \<Rightarrow> registry \<Rightarrow> exn + provider_class" where
  "get_provider n reg =
     (case map_of reg n of None \<Rightarrow> Inl (ProviderNotFoundError n) | Some c \<Rightarrow> Inr c)"

definition list_providers :: "registry \<Rightarrow> string list" where
  "list_providers reg = map fst reg"

definition is_registered :: "string \<Rightarrow> registry \<Rightarrow> bool" where
  "is_registered n reg \<longleftrightarrow> n \<in> set (map fst reg)"

definition create_provider ::
  "string \<Rightarrow> (string \<times> json) list option \<Rightarrow> registry \<Rightarrow> exn + provider_ops" where
  "create_provider n config reg =
     (case get_provider n reg of Inl e \<Rightarrow> Inl e | Inr c \<Rightarrow> pc_new c config)"

definition unregister :: "string \<Rightarrow> registry \<Rightarrow> registry \<times> bool" where
  "unregister n reg =
     (if is_registered n reg then (AList.delete n reg, True) else (reg, False))"

definition clear :: "registry \<Rightarrow> registry" where
  "clear reg = []"

subsection \<open>The registry's invariant\<close>

text \<open>
  Names are distinct, and every class sits under its own non-empty \<open>PROVIDER_NAME\<close>.
\<close>

definition registry_ok :: "registry \<Rightarrow> bool" where
  "registry_ok reg \<longleftrightarrow>
     distinct (map fst reg) \<and>
     list_all (\<lambda>(n, c). n \<noteq> [] \<and> pc_is_provider c \<and> pc_provider_name c = n) reg"

datatype registry_call = Register provider_class | Unregister string | Clear

fun registry_step :: "registry \<Rightarrow> registry_call \<Rightarrow> registry" where
  "registry_step reg (Register c) = (case register c reg of Inl _ \<Rightarrow> reg | Inr reg' \<Rightarrow> reg')"
| "registry_step reg (Unregister n) = fst (unregister n reg)"
| "registry_step reg Clear = clear reg"

lemma registry_ok_Nil: "registry_ok []"
  by (simp add: registry_ok_def)

lemma register_ok: "registry_ok reg \<Longrightarrow> register c reg = Inr reg' \<Longrightarrow> registry_ok reg'"
  by (auto simp: register_def registry_ok_def map_of_eq_None_iff split: if_splits option.splits)


lemma unregister_ok: "registry_ok reg \<Longrightarrow> registry_ok (fst (unregister n reg))"
  by (auto simp: unregister_def registry_ok_def list_all_iff AList.delete_eq
      intro: distinct_map_filter)

lemma registry_step_ok: "registry_ok reg \<Longrightarrow> registry_ok (registry_step reg call)"
  by (cases call)
     (auto simp: unregister_ok clear_def registry_ok_Nil split: sum.splits dest: register_ok)

lemma registry_run_ok: "registry_ok reg \<Longrightarrow> registry_ok (foldl registry_step reg calls)"
  by (induction calls arbitrary: reg) (auto simp: registry_step_ok)

text \<open>
  \<open>_register_providers\<close> of \<open>inference_core/llm/batch/__init__.py\<close>: a provider whose
  dependencies cannot be imported (\<^const>\<open>None\<close>) is passed over.
\<close>

fun register_providers :: "provider_class option list \<Rightarrow> registry \<Rightarrow> exn + registry" where
  "register_providers [] reg = Inr reg"
| "register_providers (None # cs) reg = register_providers cs reg"
| "register_providers (Some c # cs) reg =
     (case register c reg of Inl e \<Rightarrow> Inl e | Inr reg \<Rightarrow> register_providers cs reg)"

lemma map_of_unregister: "map_of (fst (unregister n reg)) = (map_of reg)(n := None)"
  by (auto simp: unregister_def is_registered_def map_of_eq_None_iff fun_upd_idem delete_conv')

lemma map_of_snoc: "map_of reg k = None \<Longrightarrow> map_of (reg @ [(k, c)]) = (map_of reg)(k \<mapsto> c)"
  by (auto simp: map_add_def split: option.split)

lemma register_contract:
  "case register c reg of
     Inl e \<Rightarrow> \<not> (pc_is_provider c \<and> pc_provider_name c \<noteq> [] \<and> \<not> is_registered (pc_provider_name c) reg)
   | Inr reg' \<Rightarrow> pc_is_provider c \<and> pc_provider_name c \<noteq> [] \<and>
       \<not> is_registered (pc_provider_name c) reg \<and> map_of reg' = (map_of reg)(pc_provider_name c \<mapsto> c)"
proof (cases "map_of reg (pc_provider_name c)")
  case None
  then have "pc_provider_name c \<notin> set (map fst reg)" by (simp add: map_of_eq_None_iff)
  then show ?thesis
    using map_of_snoc[OF None, of c] None by (simp add: register_def is_registered_def del: map_of_append)
next
  case (Some p)
  then have "pc_provider_name c \<in> set (map fst reg)" by (force dest: map_of_SomeD)
  then show ?thesis using Some by (simp add: register_def is_registered_def)
qed

lemma registry_entries:
  assumes "registry_ok reg"
  shows "list_all (\<lambda>n. n \<noteq> [] \<and>
       (case get_provider n reg of
          Inl _ \<Rightarrow> False | Inr p \<Rightarrow> pc_is_provider p \<and> pc_provider_name p = n)) (list_providers reg)"
  using assms
  by (auto simp: registry_ok_def list_all_iff list_providers_def get_provider_def map_of_is_SomeI
      split: option.split dest: map_of_SomeD)

text \<open>
  However providers are registered, unregistered and cleared, the registry lists every
  name once and gives under each name a provider class of that name. Registering succeeds
  exactly for a provider class with a name that is not taken, and then adds that class and
  nothing else; unregistering reports whether the name was taken and frees it.
\<close>

theorem registry_contract:
  "let reg = foldl registry_step [] calls; name = pc_provider_name c in
     distinct (list_providers reg) \<and>
     list_all (\<lambda>n. n \<noteq> [] \<and>
       (case get_provider n reg of
          Inl _ \<Rightarrow> False | Inr p \<Rightarrow> pc_is_provider p \<and> pc_provider_name p = n)) (list_providers reg) \<and>
     (case register c reg of
        Inl e \<Rightarrow> \<not> (pc_is_provider c \<and> name \<noteq> [] \<and> \<not> is_registered name reg)
      | Inr reg' \<Rightarrow> pc_is_provider c \<and> name \<noteq> [] \<and> \<not> is_registered name reg \<and>
          map_of reg' = (map_of reg)(name \<mapsto> c)) \<and>
     (case unregister n reg of
        (reg', found) \<Rightarrow> found = is_registered n reg \<and> map_of reg' = (map_of reg)(n := None))"
proof -
  have "registry_ok reg \<Longrightarrow> registry_ok (foldl registry_step reg calls)" for reg
    by (induction calls arbitrary: reg) (auto simp: registry_step_ok)
  then have ok: "registry_ok (foldl registry_step [] calls)" by (simp add: registry_ok_Nil)
  then show ?thesis
    using registry_entries[OF ok] register_contract[of c "foldl registry_step [] calls"]
      map_of_unregister[of n "foldl registry_step [] calls"]
    by (simp add: Let_def list_providers_def registry_ok_def case_prod_unfold)
      (simp add: unregister_def)
qed

end
