(* ===== verification/ProviderCommon.thy ===== *)
theory ProviderCommon
  imports BatchRegistry
begin

text \<open>
  What the three batch providers of \<open>inference_core/llm/batch/providers/\<close> have in common:
  the keyword lists by which they sort the exceptions of the vendor's client into transient
  and permanent ones, the retry delay read from an error text, the checks on the items to be
  submitted, the validation of a result row, and the objects that a vendor's client returns.
  Each provider's theory states its own operations over these.
\<close>

subsection \<open>Sorting errors by their text\<close>

definition submit_transient_keywords :: "string list" where
  "submit_transient_keywords =
     [''rate limit'', ''timeout'', ''temporarily'', ''503'', ''502'', ''429'']"

definition submit_permanent_keywords :: "string list" where
  "submit_permanent_keywords =
     [''unauthorized'', ''invalid'', ''not found'', ''401'', ''403'', ''404'']"

definition poll_transient_keywords :: "string list" where
  "poll_transient_keywords = [''timeout'', ''network'', ''503'', ''502'', ''temporarily'']"

definition poll_permanent_keywords :: "string list" where
  "poll_permanent_keywords = [''not found'', ''invalid'', ''401'', ''403'', ''404'']"

text \<open>
  \<open>re.search(pre + "(\\d+)" + post, s)\<close>: the number at the first position where \<open>pre\<close>, at
  least one digit and \<open>post\<close> follow each other; \<open>post\<close> does not begin with a digit.
\<close>

fun search_number :: "string \<Rightarrow> string \<Rightarrow> string \<Rightarrow> nat option" where
  "search_number pre post s =
     (let digits = takeWhile is_digit (drop (length pre) s) in
      if py_startswith s pre \<and> digits \<noteq> [] \<and>
         py_startswith (drop (length pre + length digits) s) post
      then Some (nat_of_str digits)
      else case s of [] \<Rightarrow> None | _ # s' \<Rightarrow> search_number pre post s')"

declare search_number.simps [simp del]

definition extract_retry_after :: "string \<Rightarrow> nat option" where
  "extract_retry_after msg =
     (case search_number ''retry after '' '' second'' (py_lower msg) of
        Some n \<Rightarrow> Some n
      | None \<Rightarrow>
          (case search_number ''try again in '' ''s'' (py_lower msg) of
             Some n \<Rightarrow> Some n
           | None \<Rightarrow> if py_contains ''rate limit'' (py_lower msg) then Some 60 else None))"

text \<open>The handlers at the end of \<open>submit\<close>, \<open>poll_status\<close>, \<open>fetch_results\<close> and \<open>cancel\<close>.\<close>

definition submit_error :: "string \<Rightarrow> exn \<Rightarrow> exn" where
  "submit_error label e =
     (let msg = py_lower (exn_str e) in
      if contains_any submit_transient_keywords msg then
        ProviderTransientError (label @ '' batch submission failed (transient): '' @ exn_str e)
          (extract_retry_after (exn_str e))
      else if contains_any submit_permanent_keywords msg then
        ProviderPermanentError (label @ '' batch submission failed (permanent): '' @ exn_str e)
      else ProviderPermanentError (label @ '' batch submission failed: '' @ exn_str e))"

definition poll_error :: "string \<Rightarrow> string \<Rightarrow> exn \<Rightarrow> exn" where
  "poll_error label bid e =
     (let msg = py_lower (exn_str e) in
      if contains_any poll_transient_keywords msg then
        ProviderTransientError (label @ '' batch status polling failed (transient): '' @ exn_str e) None
      else if contains_any poll_permanent_keywords msg then
        ProviderPermanentError (label @ '' batch '' @ bid @ '' not found or invalid'')
      else ProviderTransientError (label @ '' batch status polling failed: '' @ exn_str e) None)"

definition fetch_error :: "string \<Rightarrow> exn \<Rightarrow> exn" where
  "fetch_error label e =
     (case e of
        ProviderPermanentError _ \<Rightarrow> e
      | _ \<Rightarrow>
          if contains_any poll_transient_keywords (py_lower (exn_str e)) then
            ProviderTransientError
              (label @ '' batch result fetching failed (transient): '' @ exn_str e) None
          else ProviderPermanentError (label @ '' batch result fetching failed: '' @ exn_str e))"

definition cancel_error :: "string \<Rightarrow> string \<Rightarrow> exn \<Rightarrow> exn" where
  "cancel_error label bid e =
     (if contains_any poll_permanent_keywords (py_lower (exn_str e)) then
        ProviderPermanentError (label @ '' batch '' @ bid @ '' not found or cannot be cancelled'')
      else ProviderPermanentError (label @ '' batch cancellation failed: '' @ exn_str e))"

text \<open>\<open>try: ... except Exception as e: raise handler(e)\<close>.\<close>

fun try_with :: "(exn \<Rightarrow> exn) \<Rightarrow> exn + 'a \<Rightarrow> exn + 'a" where
  "try_with h (Inl e) = Inl (h e)"
| "try_with h (Inr x) = Inr x"

lemma try_with_Inr [simp]: "try_with h r = Inr x \<longleftrightarrow> r = Inr x"
  by (cases r) auto

lemma try_with_Inl: "try_with h r = Inl e \<longleftrightarrow> (\<exists>e0. r = Inl e0 \<and> e = h e0)"
  by (cases r) auto

lemma handlers_provider_error:
  "is_provider_error (submit_error l e)" "is_provider_error (poll_error l b e)"
  "is_provider_error (fetch_error l e)" "is_provider_error (cancel_error l b e)"
  by (auto simp: submit_error_def poll_error_def fetch_error_def cancel_error_def Let_def
      split: exn.splits)

subsection \<open>Preparing items\<close>

definition prepare_error :: "exn \<Rightarrow> exn" where
  "prepare_error e =
     (case e of
        ProviderPermanentError _ \<Rightarrow> e
      | _ \<Rightarrow> ProviderPermanentError (''Failed to prepare payloads: '' @ exn_str e))"

text \<open>The id and the payload of an item, checked and decoded.\<close>

definition item_id_payload :: "env \<Rightarrow> item_data \<Rightarrow> exn + string \<times> json" where
  "item_id_payload E item =
     (case d_id item of
        None \<Rightarrow> Inl (ProviderPermanentError (''Batch item missing required '' @ py_quote ''id'' @ '' field''))
      | Some bid \<Rightarrow>
          if bid = [] then Inl (ProviderPermanentError (''Batch item missing required '' @ py_quote ''id'' @ '' field''))
          else if \<not> json_truthy (d_input_payload item) then
            Inl (ProviderPermanentError (''Batch item missing '' @ py_quote ''input_payload''))
          else (case d_input_payload item of
              JStr s \<Rightarrow>
                (case env_loads E s of
                   None \<Rightarrow> Inl (ProviderPermanentError ''Invalid JSON in input_payload'')
                 | Some j \<Rightarrow> Inr (bid, j))
            | j \<Rightarrow> Inr (bid, j)))"

text \<open>
  \<open>config.get("batch_job_id") if config and config.get("batch_job_id") else uuid4()\<close>, then
  validated as a UUID by \<open>PreparedSubmission\<close>.
\<close>

definition prepared_job_id :: "env \<Rightarrow> json option \<Rightarrow> exn + string" where
  "prepared_job_id E config =
     (case config of
        None \<Rightarrow> Inr (env_uuid4 E)
      | Some c \<Rightarrow>
          if \<not> json_truthy c then Inr (env_uuid4 E)
          else bind_result (json_get c ''batch_job_id'' JNull) (\<lambda>v.
            if \<not> json_truthy v then Inr (env_uuid4 E)
            else case env_uuid E v of
                None \<Rightarrow> Inl (OtherError ''batch_job_id: Input should be a valid UUID'')
              | Some u \<Rightarrow> Inr u))"

text \<open>The common frame of \<open>prepare_payloads\<close>: the checks, the loop over the items, the result.\<close>

definition prepare_with ::
  "string \<Rightarrow> string \<Rightarrow> (string \<Rightarrow> string \<Rightarrow> bool) \<Rightarrow> (item_data \<Rightarrow> exn + json) \<Rightarrow> env \<Rightarrow>
   item_data list \<Rightarrow> string \<Rightarrow> string \<Rightarrow> json option \<Rightarrow> exn + prepared_submission" where
  "prepare_with label provider supports format_item E items model mode config =
     (if items = [] then Inl (ProviderPermanentError ''Batch items cannot be empty'')
      else if \<not> supports model mode then
        Inl (ProviderPermanentError
          (''Model '' @ model @ '' with mode '' @ mode @ '' is not supported by '' @ label @ '' provider''))
      else bind_result (try_with prepare_error (map_result format_item items)) (\<lambda>formatted.
        bind_result (prepared_job_id E config) (\<lambda>jid.
          Inr \<lparr>ps_batch_job_id = jid, ps_provider = provider, ps_model = model, ps_mode = mode,
               ps_items = formatted, ps_config = config\<rparr>)))"

lemma prepare_with_items:
  assumes "prepare_with label provider supports format_item E items model mode config = Inr p"
    and "\<And>item r. item \<in> set items \<Longrightarrow> format_item item = Inr r \<Longrightarrow> g r = h item"
  shows "map g (ps_items p) = map h items"
  using assms(1) map_result_Inr_map[OF _ assms(2)]
  by (auto simp: prepare_with_def bind_result_Inr_iff split: if_splits)

lemma prepare_with_facts:
  assumes "prepare_with label provider supports format_item E items model mode config = Inr p"
  shows "items \<noteq> []" and "supports model mode" and "length (ps_items p) = length items"
    and "ps_model p = model" and "ps_mode p = mode" and "ps_provider p = provider"
  using assms by (auto simp: prepare_with_def bind_result_Inr_iff map_result_length split: if_splits)

lemma item_id_payload_id: "item_id_payload E item = Inr (bid, j) \<Longrightarrow> d_id item = Some bid"
  by (auto simp: item_id_payload_def split: option.splits if_splits json.splits)

subsection \<open>Result rows\<close>

text \<open>The validation of \<open>ProviderResultRow\<close>: the id is a text, the text a text or null, the
  data and the metadata dictionaries or null.\<close>

fun opt_text :: "json \<Rightarrow> exn + string option" where
  "opt_text JNull = Inr None"
| "opt_text (JStr s) = Inr (Some s)"
| "opt_text _ = Inl (OtherError ''Input should be a valid string'')"

fun opt_dict :: "json \<Rightarrow> exn + json option" where
  "opt_dict JNull = Inr None"
| "opt_dict (JObj kvs) = Inr (Some (JObj kvs))"
| "opt_dict _ = Inl (OtherError ''Input should be a valid dictionary'')"

definition mk_result_row ::
  "json \<Rightarrow> json \<Rightarrow> json \<Rightarrow> json \<Rightarrow> string option \<Rightarrow> bool \<Rightarrow> exn + result_row" where
  "mk_result_row cid txt data raw err success =
     (case cid of
        JStr s \<Rightarrow>
          bind_result (opt_text txt) (\<lambda>t. bind_result (opt_dict data) (\<lambda>dt. bind_result (opt_dict raw) (\<lambda>rw.
            Inr \<lparr>rr_custom_id = s, rr_output_text = t, rr_output_data = dt, rr_raw_metadata = rw,
                 rr_error_message = err, rr_is_success = success\<rparr>)))
      | _ \<Rightarrow> Inl (OtherError ''custom_id: Input should be a valid string''))"

lemma mk_result_row_success: "mk_result_row cid txt data raw err success = Inr r \<Longrightarrow> rr_is_success r = success"
  by (auto simp: mk_result_row_def bind_result_Inr_iff split: json.splits)

lemma mk_result_row_id: "mk_result_row cid txt data raw err success = Inr r \<Longrightarrow> cid = JStr (rr_custom_id r)"
  by (auto simp: mk_result_row_def bind_result_Inr_iff split: json.splits)

subsection \<open>Objects of a vendor's client\<close>

text \<open>
  A value as a client returns it: plain values, a pydantic model with its fields (it has
  \<open>model_dump\<close>), an object with attributes only, or an object known by its \<open>str\<close> alone.
\<close>

datatype pyobj =
    PNone
  | PBool bool
  | PNum rat
  | PStr string
  | PList "pyobj list"
  | PDict "(string \<times> pyobj) list"
  | PModel "(string \<times> pyobj) list"
  | PAttrs "(string \<times> pyobj) list"
  | POpaque string

fun py_truthy :: "pyobj \<Rightarrow> bool" where
  "py_truthy PNone = False"
| "py_truthy (PBool b) = b"
| "py_truthy (PNum n) = (n \<noteq> 0)"
| "py_truthy (PStr s) = (s \<noteq> [])"
| "py_truthy (PList xs) = (xs \<noteq> [])"
| "py_truthy (PDict kvs) = (kvs \<noteq> [])"
| "py_truthy _ = True"

text \<open>\<open>o.name\<close>.\<close>

fun py_attr :: "pyobj \<Rightarrow> string \<Rightarrow> exn + pyobj" where
  "py_attr (PModel kvs) k =
     (case map_of kvs k of None \<Rightarrow> Inl (AttributeError k) | Some v \<Rightarrow> Inr v)"
| "py_attr (PAttrs kvs) k =
     (case map_of kvs k of None \<Rightarrow> Inl (AttributeError k) | Some v \<Rightarrow> Inr v)"
| "py_attr _ k = Inl (AttributeError k)"

text \<open>\<open>getattr(o, name, dflt)\<close>.\<close>

definition py_getattr :: "pyobj \<Rightarrow> string \<Rightarrow> pyobj \<Rightarrow> pyobj" where
  "py_getattr obj k dflt = (case py_attr obj k of Inl _ \<Rightarrow> dflt | Inr v \<Rightarrow> v)"

fun py_iter :: "pyobj \<Rightarrow> exn + pyobj list" where
  "py_iter (PList xs) = Inr xs"
| "py_iter (PStr s) = Inr (map (\<lambda>c. PStr [c]) s)"
| "py_iter (PDict kvs) = Inr (map (\<lambda>(k, _). PStr k) kvs)"
| "py_iter (PModel kvs) = Inr (map (\<lambda>(k, v). PList [PStr k, v]) kvs)"
| "py_iter _ = Inl (TypeError ''object is not iterable'')"

fun py_item0 :: "pyobj \<Rightarrow> exn + pyobj" where
  "py_item0 (PList (x # _)) = Inr x"
| "py_item0 (PList []) = Inl (LookupError ''list index out of range'')"
| "py_item0 (PStr (c # _)) = Inr (PStr [c])"
| "py_item0 (PStr []) = Inl (LookupError ''string index out of range'')"
| "py_item0 (PDict _) = Inl (LookupError ''0'')"
| "py_item0 _ = Inl (TypeError ''object is not subscriptable'')"

text \<open>The JSON value a client value stands for where the code hands it to pydantic as it is.\<close>

primrec py_dump :: "pyobj \<Rightarrow> json" where
  "py_dump PNone = JNull"
| "py_dump (PBool b) = JBool b"
| "py_dump (PNum n) = JNum n"
| "py_dump (PStr s) = JStr s"
| "py_dump (PList xs) = JArr (map py_dump xs)"
| "py_dump (PDict kvs) = JObj (map (map_prod id py_dump) kvs)"
| "py_dump (PModel kvs) = JObj (map (map_prod id py_dump) kvs)"
| "py_dump (PAttrs kvs) = JObj (map (map_prod id py_dump) kvs)"
| "py_dump (POpaque s) = JStr s"

text \<open>A decoded JSON value as a plain value, and \<open>k in o\<close> for a string \<open>k\<close>: a model iterates over its
  pairs of field and value, an object with attributes only is no container.\<close>

primrec py_of_json :: "json \<Rightarrow> pyobj" where
  "py_of_json JNull = PNone"
| "py_of_json (JBool b) = PBool b"
| "py_of_json (JNum n) = PNum n"
| "py_of_json (JStr s) = PStr s"
| "py_of_json (JArr xs) = PList (map py_of_json xs)"
| "py_of_json (JObj kvs) = PDict (map (map_prod id py_of_json) kvs)"

fun py_in :: "string \<Rightarrow> pyobj \<Rightarrow> exn + bool" where
  "py_in k (PDict kvs) = Inr (k \<in> fst ` set kvs)"
| "py_in k (PList xs) = Inr (PStr k \<in> set xs)"
| "py_in k (PStr s) = Inr (py_contains k s)"
| "py_in k (PModel kvs) = Inr False"
| "py_in k _ = Inl (TypeError ''argument is not iterable'')"

text \<open>\<open>o[k]\<close> for a string \<open>k\<close>, and \<open>o.model_dump()\<close>.\<close>

fun py_item :: "pyobj \<Rightarrow> string \<Rightarrow> exn + pyobj" where
  "py_item (PDict kvs) k = (case map_of kvs k of None \<Rightarrow> Inl (LookupError k) | Some v \<Rightarrow> Inr v)"
| "py_item _ k = Inl (TypeError ''indices must be integers'')"

fun py_model_dump :: "pyobj \<Rightarrow> exn + json" where
  "py_model_dump (PModel kvs) = Inr (py_dump (PModel kvs))"
| "py_model_dump _ = Inl (AttributeError ''model_dump'')"

end
