(* ===== verification/OpenAIProvider.thy ===== *)
theory OpenAIProvider
  imports ProviderCommon
begin

text \<open>
  \<open>inference_core/llm/batch/providers/openai_provider.py\<close>. The vendor's client is a record of
  its calls, each of which returns the vendor's answer or the exception it raises.
\<close>

record openai_batch =
  ob_id :: string
  ob_status :: string
  ob_created_at :: int
  ob_endpoint :: string
  ob_completion_window :: string
  ob_request_counts :: "(int \<times> int \<times> int) option"
  ob_completed_at :: "int option"
  ob_expires_at :: "int option"
  ob_output_file_id :: "string option"
  ob_error_file_id :: "string option"

record openai_client =
  oc_upload :: "string \<Rightarrow> exn + string"
  oc_create :: "json \<Rightarrow> exn + openai_batch"
  oc_retrieve :: "string \<Rightarrow> exn + openai_batch"
  oc_content :: "string \<Rightarrow> exn + string"
  oc_cancel :: "string \<Rightarrow> exn + openai_batch"

definition openai_STATUS_MAPPING :: "(string \<times> string) list" where
  "openai_STATUS_MAPPING =
     [(''validating'', ''submitted''), (''failed'', ''failed''), (''in_progress'', ''in_progress''),
      (''finalizing'', ''in_progress''), (''completed'', ''completed''), (''expired'', ''failed''),
      (''cancelled'', ''cancelled'')]"

definition openai_normalize :: "string \<Rightarrow> string" where
  "openai_normalize s = (case map_of openai_STATUS_MAPPING s of None \<Rightarrow> s | Some t \<Rightarrow> t)"

definition openai_supports_model :: "string \<Rightarrow> string \<Rightarrow> bool" where
  "openai_supports_model model mode \<longleftrightarrow>
     (if mode \<notin> {''chat''} then False
      else list_ex (\<lambda>p. py_contains p (py_lower model))
             [''gpt-3.5-turbo'', ''gpt-4'', ''gpt-4o'', ''gpt-5''])"

text \<open>One request of the batch: the payload's fields override the model of the job.\<close>

definition openai_request :: "env \<Rightarrow> string \<Rightarrow> string \<Rightarrow> item_data \<Rightarrow> exn + json" where
  "openai_request E model mode item =
     bind_result (item_id_payload E item) (\<lambda>(bid, payload).
       case payload of
         JObj kvs \<Rightarrow>
           let body = dict_merge [(''model'', JStr model)] kvs in
           if mode = ''chat'' \<and> ''messages'' \<notin> fst ` set body then
             Inl (ProviderPermanentError
               (''Chat mode requires '' @ py_quote ''messages'' @ '' in input_payload for item '' @ bid))
           else Inr (JObj [(''custom_id'', JStr bid), (''method'', JStr ''POST''),
                  (''url'', JStr ''/v1/chat/completions''), (''body'', JObj body)])
       | _ \<Rightarrow> Inl (TypeError (describe payload '' object is not a mapping'')))"

definition openai_prepare_payloads ::
  "env \<Rightarrow> item_data list \<Rightarrow> string \<Rightarrow> string \<Rightarrow> json option \<Rightarrow> exn + prepared_submission" where
  "openai_prepare_payloads E items model mode config =
     prepare_with ''OpenAI'' ''openai'' openai_supports_model (openai_request E model mode)
       E items model mode config"

definition openai_create_jsonl_content :: "env \<Rightarrow> json list \<Rightarrow> string" where
  "openai_create_jsonl_content E items = py_join [CHR 10] (map (env_dumps E) items)"

definition openai_upload_batch_file :: "openai_client \<Rightarrow> string \<Rightarrow> exn + string" where
  "openai_upload_batch_file cl jsonl =
     try_with (\<lambda>e. ProviderPermanentError (''Failed to upload batch file: '' @ exn_str e))
       (oc_upload cl jsonl)"

definition openai_estimated_completion :: "openai_batch \<Rightarrow> datetime option" where
  "openai_estimated_completion b =
     (if ob_completion_window b = ''24h'' then Some (dt_plus_hours (Naive (ob_created_at b)) 24)
      else None)"

definition openai_extract_retry_after :: "string \<Rightarrow> nat option" where
  "openai_extract_retry_after msg = extract_retry_after msg"

text \<open>\<open>datetime.fromtimestamp\<close> gives a local time without a zone.\<close>

definition openai_submit :: "env \<Rightarrow> openai_client \<Rightarrow> prepared_submission \<Rightarrow> exn + submit_result" where
  "openai_submit E cl p =
     try_with (submit_error ''OpenAI'')
       (bind_result (openai_upload_batch_file cl (openai_create_jsonl_content E (ps_items p))) (\<lambda>fid.
          let request =
            [(''input_file_id'', JStr fid), (''endpoint'', JStr ''/v1/chat/completions''),
             (''completion_window'', JStr ''24h'')] @
            (case ps_config p of
               Some c \<Rightarrow>
                 if json_truthy c then
                   [(''metadata'', JObj [(''batch_job_id'', JStr (ps_batch_job_id p)),
                       (''model'', JStr (ps_model p)), (''mode'', JStr (ps_mode p))])]
                 else []
             | None \<Rightarrow> [])
          in bind_result (oc_create cl (JObj request)) (\<lambda>b.
            Inr \<lparr>sr_provider_batch_id = ob_id b, sr_status = ob_status b,
                 sr_submitted_at = Naive (ob_created_at b),
                 sr_estimated_completion = openai_estimated_completion b,
                 sr_submission_metadata = Some [(''input_file_id'', JStr fid),
                   (''endpoint'', JStr (ob_endpoint b)),
                   (''completion_window'', JStr (ob_completion_window b))],
                 sr_item_count = length (ps_items p)\<rparr>)))"

text \<open>A timestamp or a file id counts as present when it is given and not zero or empty.\<close>

definition stamp :: "int option \<Rightarrow> int option" where
  "stamp t = (case t of None \<Rightarrow> None | Some n \<Rightarrow> if n = 0 then None else Some n)"

definition given_text :: "string option \<Rightarrow> string option" where
  "given_text t = (case t of None \<Rightarrow> None | Some s \<Rightarrow> if s = [] then None else Some s)"

definition openai_poll_status :: "openai_client \<Rightarrow> string \<Rightarrow> exn + provider_status" where
  "openai_poll_status cl bid =
     try_with (poll_error ''OpenAI'' bid)
       (bind_result (oc_retrieve cl bid) (\<lambda>b.
          let (total, completed, failed) =
                (case ob_request_counts b of None \<Rightarrow> (0, 0, 0) | Some c \<Rightarrow> c);
              progress =
                [(''total_requests'', INum total), (''completed_requests'', INum completed),
                 (''failed_requests'', INum failed)] @
                (case stamp (ob_completed_at b) of None \<Rightarrow> []
                 | Some t \<Rightarrow> [(''completed_at'', ITime (Naive t))]) @
                (case stamp (ob_expires_at b) of None \<Rightarrow> []
                 | Some t \<Rightarrow> [(''expires_at'', ITime (Naive t))]) @
                (case given_text (ob_output_file_id b) of None \<Rightarrow> []
                 | Some f \<Rightarrow> [(''output_file_id'', IText f)]) @
                (case given_text (ob_error_file_id b) of None \<Rightarrow> []
                 | Some f \<Rightarrow> [(''error_file_id'', IText f)])
          in Inr \<lparr>st_provider_batch_id = bid, st_status = ob_status b,
                  st_normalized_status = openai_normalize (ob_status b),
                  st_progress_info = progress,
                  st_estimated_completion =
                    (if ob_status b = ''in_progress''
                     then map_option Naive (stamp (ob_expires_at b)) else None)\<rparr>))"

text \<open>A line of the output file: any exception makes the caller skip the line.\<close>

definition openai_output_line :: "env \<Rightarrow> string \<Rightarrow> exn + result_row" where
  "openai_output_line E line =
     (case env_loads E line of
        None \<Rightarrow> Inl (ValueError ''JSONDecodeError'')
      | Some data \<Rightarrow>
          bind_result (json_get data ''custom_id'' JNull) (\<lambda>cid.
          bind_result (json_get data ''response'' (JObj [])) (\<lambda>response.
          bind_result (json_get response ''body'' (JObj [])) (\<lambda>body.
          bind_result
            (bind_result (json_in ''choices'' body) (\<lambda>has.
               if \<not> has then Inr JNull
               else bind_result (json_item body ''choices'') (\<lambda>choices.
                 if \<not> json_truthy choices then Inr JNull
                 else bind_result (json_item0 choices) (\<lambda>choice.
                   bind_result (json_in ''message'' choice) (\<lambda>has_message.
                     if \<not> has_message then Inr JNull
                     else bind_result (json_item choice ''message'') (\<lambda>message.
                       bind_result (json_in ''content'' message) (\<lambda>has_content.
                         if \<not> has_content then Inr JNull
                         else json_item message ''content''))))))) (\<lambda>txt.
            mk_result_row cid txt body data None True)))))"

definition openai_error_line :: "env \<Rightarrow> string \<Rightarrow> exn + result_row" where
  "openai_error_line E line =
     (case env_loads E line of
        None \<Rightarrow> Inl (ValueError ''JSONDecodeError'')
      | Some data \<Rightarrow>
          bind_result (json_get data ''custom_id'' JNull) (\<lambda>cid.
          bind_result (json_get data ''error'' (JObj [])) (\<lambda>info.
          bind_result (json_get info ''message'' (JStr ''Unknown error'')) (\<lambda>message.
          bind_result (json_get info ''code'' JNull) (\<lambda>code.
          bind_result
            (if json_truthy code
             then Inr (Some (''['' @ env_str E code @ ''] '' @ env_str E message))
             else opt_text message) (\<lambda>err.
            mk_result_row cid JNull JNull data err False))))))"

definition parse_lines :: "(string \<Rightarrow> exn + result_row) \<Rightarrow> string \<Rightarrow> result_row list" where
  "parse_lines f content =
     concat (map (\<lambda>line. if py_strip line = [] then []
                        else case f line of Inl _ \<Rightarrow> [] | Inr r \<Rightarrow> [r])
       (py_split (CHR 10) (py_strip content)))"

definition openai_parse_output_file :: "env \<Rightarrow> string \<Rightarrow> result_row list" where
  "openai_parse_output_file E content = parse_lines (openai_output_line E) content"

definition openai_parse_error_file :: "env \<Rightarrow> string \<Rightarrow> result_row list" where
  "openai_parse_error_file E content = parse_lines (openai_error_line E) content"

definition openai_fetch_results :: "env \<Rightarrow> openai_client \<Rightarrow> string \<Rightarrow> exn + result_row list" where
  "openai_fetch_results E cl bid =
     try_with (fetch_error ''OpenAI'')
       (bind_result (oc_retrieve cl bid) (\<lambda>b.
          if ob_status b \<noteq> ''completed'' then
            Inl (ProviderPermanentError
              (''Cannot fetch results for batch '' @ bid @ '' with status '' @ ob_status b))
          else
            bind_result
              (case given_text (ob_output_file_id b) of
                 None \<Rightarrow> Inr []
               | Some f \<Rightarrow> bind_result (oc_content cl f) (\<lambda>c. Inr (openai_parse_output_file E c))) (\<lambda>outs.
            bind_result
              (case given_text (ob_error_file_id b) of
                 None \<Rightarrow> Inr []
               | Some f \<Rightarrow> bind_result (oc_content cl f) (\<lambda>c. Inr (openai_parse_error_file E c))) (\<lambda>errs.
              Inr (outs @ errs)))))"

definition openai_cancel :: "openai_client \<Rightarrow> string \<Rightarrow> exn + bool" where
  "openai_cancel cl bid =
     try_with (cancel_error ''OpenAI'' bid)
       (bind_result (oc_cancel cl bid) (\<lambda>b. Inr (ob_status b = ''cancelled'')))"

text \<open>The constructor: an API key is required; \<open>mk\<close> is the vendor's client constructor.\<close>

definition openai_new ::
  "env \<Rightarrow> (json \<Rightarrow> exn + openai_client) \<Rightarrow> (string \<times> json) list option \<Rightarrow> exn + provider_ops" where
  "openai_new E mk config =
     (let config = (case config of None \<Rightarrow> [] | Some c \<Rightarrow> c) in
      case map_of config ''api_key'' of
        None \<Rightarrow> Inl (ProviderPermanentError ''OpenAI API key is required'')
      | Some key \<Rightarrow>
          if \<not> json_truthy key then Inl (ProviderPermanentError ''OpenAI API key is required'')
          else bind_result (mk key) (\<lambda>cl.
            Inr \<lparr>op_prepare = openai_prepare_payloads E, op_submit = openai_submit E cl,
                 op_poll = openai_poll_status cl, op_fetch = openai_fetch_results E cl,
                 op_cancel = openai_cancel cl\<rparr>))"

definition OpenAIBatchProvider :: "env \<Rightarrow> (json \<Rightarrow> exn + openai_client) \<Rightarrow> provider_class" where
  "OpenAIBatchProvider E mk =
     \<lparr>pc_name = ''OpenAIBatchProvider'', pc_is_provider = True, pc_provider_name = ''openai'',
      pc_new = openai_new E mk\<rparr>"

end
