(* ===== verification/ClaudeProvider.thy ===== *)
theory ClaudeProvider
  imports ProviderCommon
begin

text \<open>
  \<open>inference_core/llm/batch/providers/claude_provider.py\<close>. The vendor's client is a record of
  its calls; a call that not every version of the client has is optional.
\<close>

record claude_batch =
  cb_id :: string
  cb_processing_status :: string
  cb_created_at :: "datetime option"
  cb_expires_at :: "datetime option"
  cb_request_counts :: "(string \<times> int) list option"

record claude_client =
  cc_create :: "json list \<Rightarrow> exn + claude_batch"
  cc_retrieve :: "(string \<Rightarrow> exn + claude_batch option) option"
  cc_list :: "exn + claude_batch list"
  cc_results :: "string \<Rightarrow> exn + pyobj list"
  cc_cancel :: "(string \<Rightarrow> exn + unit) option"

definition claude_STATUS_MAPPING :: "(string \<times> string) list" where
  "claude_STATUS_MAPPING =
     [(''in_progress'', ''in_progress''), (''canceling'', ''cancelled''), (''ended'', ''completed''),
      (''errored'', ''failed''), (''expired'', ''failed'')]"

definition claude_normalize :: "string \<Rightarrow> string" where
  "claude_normalize s = (case map_of claude_STATUS_MAPPING s of None \<Rightarrow> s | Some t \<Rightarrow> t)"

definition claude_supports_model :: "string \<Rightarrow> string \<Rightarrow> bool" where
  "claude_supports_model model mode \<longleftrightarrow>
     (if mode \<notin> {''chat''} then False
      else list_ex (\<lambda>p. py_contains p (py_lower model))
             [''claude-3'', ''claude-3.5'', ''claude-4'', ''claude-sonnet'', ''claude-opus'',
              ''claude-haiku''])"

definition claude_message :: "json \<Rightarrow> exn + json" where
  "claude_message m =
     bind_result (json_get m ''role'' (JStr ''user'')) (\<lambda>role.
     bind_result (json_get m ''content'' (JStr [])) (\<lambda>content.
       Inr (JObj [(''role'', role), (''content'', content)])))"

text \<open>An optional parameter is copied when the payload has it.\<close>

definition copy_key :: "(string \<times> json) list \<Rightarrow> string \<Rightarrow> (string \<times> json) list \<Rightarrow> (string \<times> json) list" where
  "copy_key src k d = (case map_of src k of None \<Rightarrow> d | Some v \<Rightarrow> dict_set d k v)"

definition convert_to_claude_format :: "string \<Rightarrow> json \<Rightarrow> string \<Rightarrow> exn + json" where
  "convert_to_claude_format custom_id payload model =
     bind_result (json_get payload ''max_tokens'' (JNum 1024)) (\<lambda>max_tokens.
       case payload of
         JObj kvs \<Rightarrow>
           bind_result
             (case (map_of kvs ''messages'', map_of kvs ''content'', map_of kvs ''text'') of
                (Some ms, _, _) \<Rightarrow> bind_result (json_iter ms) (map_result claude_message)
              | (None, Some c, _) \<Rightarrow> Inr [JObj [(''role'', JStr ''user''), (''content'', c)]]
              | (None, None, Some t) \<Rightarrow> Inr [JObj [(''role'', JStr ''user''), (''content'', t)]]
              | (None, None, None) \<Rightarrow> Inl (ProviderPermanentError
                  ''Unsupported input format for Claude'')) (\<lambda>messages.
             let params = [(''model'', JStr model), (''max_tokens'', max_tokens),
                           (''messages'', JArr messages)];
                 params = copy_key kvs ''max_tokens'' (copy_key kvs ''system''
                   (copy_key kvs ''top_k'' (copy_key kvs ''top_p'' (copy_key kvs ''temperature'' params))))
             in Inr (JObj [(''custom_id'', JStr custom_id), (''params'', JObj params)]))
       | _ \<Rightarrow> Inl (AttributeError (describe payload '' object has no attribute get'')))"

definition claude_request :: "env \<Rightarrow> string \<Rightarrow> item_data \<Rightarrow> exn + json" where
  "claude_request E model item =
     bind_result (item_id_payload E item) (\<lambda>(bid, payload). convert_to_claude_format bid payload model)"

definition claude_prepare_payloads ::
  "env \<Rightarrow> item_data list \<Rightarrow> string \<Rightarrow> string \<Rightarrow> json option \<Rightarrow> exn + prepared_submission" where
  "claude_prepare_payloads E items model mode config =
     prepare_with ''Claude'' ''claude'' claude_supports_model (claude_request E model)
       E items model mode config"

definition claude_estimated_completion :: "claude_batch \<Rightarrow> datetime option" where
  "claude_estimated_completion b =
     (case cb_expires_at b of
        Some t \<Rightarrow> Some t
      | None \<Rightarrow> map_option (\<lambda>t. dt_plus_hours t 24) (cb_created_at b))"

definition claude_extract_retry_after :: "string \<Rightarrow> nat option" where
  "claude_extract_retry_after msg = extract_retry_after msg"

text \<open>\<open>submitted_at\<close> is a required field of the result.\<close>

definition claude_submit :: "claude_client \<Rightarrow> prepared_submission \<Rightarrow> exn + submit_result" where
  "claude_submit cl p =
     try_with (submit_error ''Claude'')
       (bind_result (cc_create cl (ps_items p)) (\<lambda>b.
          case cb_created_at b of
            None \<Rightarrow> Inl (OtherError ''submitted_at: Input should be a valid datetime'')
          | Some t \<Rightarrow>
              Inr \<lparr>sr_provider_batch_id = cb_id b, sr_status = cb_processing_status b,
                   sr_submitted_at = t, sr_estimated_completion = claude_estimated_completion b,
                   sr_submission_metadata = Some
                     [(''model'', JStr (ps_model p)), (''mode'', JStr (ps_mode p)),
                      (''request_counts'', JObj [(''total'', JNum (of_nat (length (ps_items p))))])],
                   sr_item_count = length (ps_items p)\<rparr>))"

text \<open>Look the batch up, by listing when the client cannot retrieve it directly.\<close>

definition claude_find_batch :: "claude_client \<Rightarrow> string \<Rightarrow> exn + claude_batch option" where
  "claude_find_batch cl bid =
     (let by_listing = bind_result (cc_list cl) (\<lambda>bs. Inr (find (\<lambda>b. cb_id b = bid) bs));
          direct = (case cc_retrieve cl of Some f \<Rightarrow> f bid | None \<Rightarrow> by_listing)
      in case direct of Inl (AttributeError _) \<Rightarrow> by_listing | r \<Rightarrow> r)"

definition claude_poll_status :: "claude_client \<Rightarrow> string \<Rightarrow> exn + provider_status" where
  "claude_poll_status cl bid =
     try_with (poll_error ''Claude'' bid)
       (bind_result (claude_find_batch cl bid) (\<lambda>found.
          case found of
            None \<Rightarrow> Inl (ProviderPermanentError (''Claude batch '' @ bid @ '' not found''))
          | Some b \<Rightarrow>
              let count = (\<lambda>k. case cb_request_counts b of None \<Rightarrow> 0
                    | Some cs \<Rightarrow> (case map_of cs k of None \<Rightarrow> 0 | Some n \<Rightarrow> n));
                  time = (\<lambda>t. case t of None \<Rightarrow> INone | Some x \<Rightarrow> ITime x);
                  progress =
                    [(''processing_status'', IText (cb_processing_status b)),
                     (''created_at'', time (cb_created_at b)),
                     (''expires_at'', time (cb_expires_at b))] @
                    (case cb_request_counts b of None \<Rightarrow> []
                     | Some _ \<Rightarrow> [(''request_counts'', IDict
                         (map (\<lambda>k. (k, INum (count k)))
                           [''processing'', ''succeeded'', ''errored'', ''canceled'', ''expired'']))])
              in Inr \<lparr>st_provider_batch_id = bid, st_status = cb_processing_status b,
                      st_normalized_status = claude_normalize (cb_processing_status b),
                      st_progress_info = progress,
                      st_estimated_completion =
                        (if cb_processing_status b = ''in_progress'' then
                           (case cb_expires_at b of
                              Some t \<Rightarrow> Some t
                            | None \<Rightarrow> map_option (\<lambda>t. dt_plus_hours t 24) (cb_created_at b))
                         else None)\<rparr>))"

text \<open>
  \<open>_json_safe\<close>: the JSON value of a client object, cut off below depth six; \<open>str_of\<close> is
  \<open>str\<close> of an object. The dump of a model, and the public attributes of any other object,
  are read one level deeper.
\<close>

primrec json_safe :: "(pyobj \<Rightarrow> string) \<Rightarrow> pyobj \<Rightarrow> nat \<Rightarrow> json" where
  "json_safe str_of PNone = (\<lambda>depth. if depth > 6 then JStr (str_of PNone) else JNull)"
| "json_safe str_of (PBool b) = (\<lambda>depth. if depth > 6 then JStr (str_of (PBool b)) else JBool b)"
| "json_safe str_of (PNum n) = (\<lambda>depth. if depth > 6 then JStr (str_of (PNum n)) else JNum n)"
| "json_safe str_of (PStr s) = (\<lambda>depth. if depth > 6 then JStr (str_of (PStr s)) else JStr s)"
| "json_safe str_of (PList xs) = (\<lambda>depth.
     if depth > 6 then JStr (str_of (PList xs))
     else JArr (map (\<lambda>f. f (depth + 1)) (map (json_safe str_of) xs)))"
| "json_safe str_of (PDict kvs) = (\<lambda>depth.
     if depth > 6 then JStr (str_of (PDict kvs))
     else JObj (map (map_prod id (\<lambda>f. f (depth + 1))) (map (map_prod id (json_safe str_of)) kvs)))"
| "json_safe str_of (PModel kvs) = (\<lambda>depth.
     if depth > 6 then JStr (str_of (PModel kvs))
     else if depth + 1 > 6 then JStr (str_of (PDict kvs))
     else JObj (map (map_prod id (\<lambda>f. f (depth + 2))) (map (map_prod id (json_safe str_of)) kvs)))"
| "json_safe str_of (PAttrs kvs) = (\<lambda>depth.
     if depth > 6 then JStr (str_of (PAttrs kvs))
     else
       let public = filter (\<lambda>(k, _). \<not> py_startswith k ''_'') kvs in
       if depth + 1 > 6 then JStr (str_of (PDict public))
       else JObj (map (map_prod id (\<lambda>f. f (depth + 2)))
              (filter (\<lambda>(k, _). \<not> py_startswith k ''_'')
                (map (map_prod id (json_safe str_of)) kvs))))"
| "json_safe str_of (POpaque s) = (\<lambda>_. JStr (str_of (POpaque s)))"

text \<open>The first non-empty text among the content blocks of a message.\<close>

fun first_text :: "pyobj list \<Rightarrow> pyobj" where
  "first_text [] = PNone"
| "first_text (b # bs) =
     (let txt = py_getattr b ''text'' PNone in if py_truthy txt then txt else first_text bs)"

text \<open>The content and the usage are made JSON-safe on their own before the whole is.\<close>

definition claude_output_data :: "(pyobj \<Rightarrow> string) \<Rightarrow> pyobj \<Rightarrow> pyobj" where
  "claude_output_data str_of message =
     (let field = (\<lambda>k. py_getattr message k PNone);
          safe = (\<lambda>k. py_of_json (json_safe str_of (field k) 0))
      in PDict [(''id'', field ''id''), (''type'', field ''type''), (''role'', field ''role''),
           (''model'', field ''model''), (''content'', safe ''content''),
           (''stop_reason'', field ''stop_reason''), (''stop_sequence'', field ''stop_sequence''),
           (''usage'', safe ''usage'')])"

text \<open>The body of the loop over the results: one row per entry.\<close>

definition claude_entry_row :: "(pyobj \<Rightarrow> string) \<Rightarrow> pyobj \<Rightarrow> exn + result_row" where
  "claude_entry_row str_of entry =
     bind_result (py_attr entry ''custom_id'') (\<lambda>cid.
     bind_result (py_attr entry ''result'') (\<lambda>result.
       let raw = json_safe str_of (case entry of PModel kvs \<Rightarrow> PDict kvs | PAttrs kvs \<Rightarrow> PDict kvs | x \<Rightarrow> x) 0;
           ty = py_getattr result ''type'' PNone
       in if ty = PStr ''succeeded'' then
            bind_result (py_attr result ''message'') (\<lambda>message.
            bind_result
              (let content = py_getattr message ''content'' PNone in
               if py_truthy content then bind_result (py_iter content) (\<lambda>bs. Inr (first_text bs))
               else Inr PNone) (\<lambda>txt.
              mk_result_row (py_dump cid) (py_dump txt)
                (json_safe str_of (claude_output_data str_of message) 0) raw None True))
          else if ty = PStr ''errored'' then
            (let err = py_getattr result ''error'' PNone;
                 text_of = (\<lambda>x. case x of PStr s \<Rightarrow> s | _ \<Rightarrow> str_of x)
             in mk_result_row (py_dump cid) JNull JNull raw
                  (Some (if py_truthy err
                         then ''['' @ text_of (py_getattr err ''type'' (PStr ''error'')) @ ''] '' @
                              text_of (py_getattr err ''message'' (PStr (str_of err)))
                         else ''Unknown error'')) False)
          else mk_result_row (py_dump cid) JNull JNull raw
                 (Some (''Unknown result type: '' @ (case ty of PStr s \<Rightarrow> s | _ \<Rightarrow> str_of ty))) False))"

text \<open>An entry that cannot be read becomes a failed row under its id.\<close>

definition claude_entry :: "(pyobj \<Rightarrow> string) \<Rightarrow> pyobj \<Rightarrow> exn + result_row" where
  "claude_entry str_of entry =
     (case claude_entry_row str_of entry of
        Inr r \<Rightarrow> Inr r
      | Inl e \<Rightarrow>
          mk_result_row (py_dump (py_getattr entry ''custom_id'' (PStr ''unknown''))) JNull JNull
            (case entry of PModel kvs \<Rightarrow> py_dump (PDict kvs) | PAttrs kvs \<Rightarrow> py_dump (PDict kvs)
             | _ \<Rightarrow> JObj [])
            (Some (''Failed to parse result: '' @ exn_str e)) False)"

definition claude_fetch_results ::
  "(pyobj \<Rightarrow> string) \<Rightarrow> claude_client \<Rightarrow> string \<Rightarrow> exn + result_row list" where
  "claude_fetch_results str_of cl bid =
     try_with (fetch_error ''Claude'')
       (bind_result (claude_poll_status cl bid) (\<lambda>st.
          if st_normalized_status st \<noteq> ''completed'' then
            Inl (ProviderPermanentError
              (''Cannot fetch results for batch '' @ bid @ '' with status '' @ st_status st))
          else bind_result (cc_results cl bid) (map_result (claude_entry str_of))))"

definition claude_cancel :: "claude_client \<Rightarrow> string \<Rightarrow> exn + bool" where
  "claude_cancel cl bid =
     try_with (cancel_error ''Claude'' bid)
       (case cc_cancel cl of
          Some f \<Rightarrow> bind_result (f bid) (\<lambda>_. Inr True)
        | None \<Rightarrow> Inr False)"

definition claude_new ::
  "env \<Rightarrow> (pyobj \<Rightarrow> string) \<Rightarrow> (json \<Rightarrow> exn + claude_client) \<Rightarrow> (string \<times> json) list option \<Rightarrow>
   exn + provider_ops" where
  "claude_new E str_of mk config =
     (let config = (case config of None \<Rightarrow> [] | Some c \<Rightarrow> c) in
      case map_of config ''api_key'' of
        None \<Rightarrow> Inl (ProviderPermanentError ''Anthropic API key is required'')
      | Some key \<Rightarrow>
          if \<not> json_truthy key then Inl (ProviderPermanentError ''Anthropic API key is required'')
          else bind_result
            (try_with (\<lambda>e. ProviderPermanentError (''Failed to initialize Claude client: '' @ exn_str e))
              (mk key)) (\<lambda>cl.
            Inr \<lparr>op_prepare = claude_prepare_payloads E, op_submit = claude_submit cl,
                 op_poll = claude_poll_status cl, op_fetch = claude_fetch_results str_of cl,
                 op_cancel = claude_cancel cl\<rparr>))"

definition ClaudeBatchProvider ::
  "env \<Rightarrow> (pyobj \<Rightarrow> string) \<Rightarrow> (json \<Rightarrow> exn + claude_client) \<Rightarrow> provider_class" where
  "ClaudeBatchProvider E str_of mk =
     \<lparr>pc_name = ''ClaudeBatchProvider'', pc_is_provider = True, pc_provider_name = ''claude'',
      pc_new = claude_new E str_of mk\<rparr>"

end
