(* ===== verification/GeminiProvider.thy ===== *)
theory GeminiProvider
  imports ProviderCommon
begin

text \<open>
  \<open>inference_core/llm/batch/providers/gemini_provider.py\<close>. The vendor's client is a record of
  its calls, each of which returns the vendor's answer or the exception it raises. A batch
  answers its requests in order, without the ids of the items: the ids are taken out before
  the batch is created and kept in a mapping from the position to the id.
\<close>

record gemini_dest =
  gd_inlined_responses :: "pyobj list option"

record gemini_job =
  gj_name :: string
  gj_state :: string
  gj_create_time :: "datetime option"
  gj_update_time :: "datetime option"
  gj_start_time :: "datetime option"
  gj_end_time :: "datetime option"
  gj_error :: "string option"
  gj_dest :: "gemini_dest option"

record gemini_client =
  gc_create :: "string \<Rightarrow> json list \<Rightarrow> exn + gemini_job"
  gc_get :: "string \<Rightarrow> exn + gemini_job"
  gc_cancel :: "string \<Rightarrow> exn + string option"

definition gemini_STATUS_MAPPING :: "(string \<times> string) list" where
  "gemini_STATUS_MAPPING =
     [(''BATCH_STATE_UNSPECIFIED'', ''submitted''), (''BATCH_STATE_PENDING'', ''submitted''),
      (''BATCH_STATE_RUNNING'', ''in_progress''), (''BATCH_STATE_SUCCEEDED'', ''completed''),
      (''BATCH_STATE_FAILED'', ''failed''), (''BATCH_STATE_CANCELLED'', ''cancelled''),
      (''JOB_STATE_UNSPECIFIED'', ''submitted''), (''JOB_STATE_QUEUED'', ''submitted''),
      (''JOB_STATE_PENDING'', ''submitted''), (''JOB_STATE_RUNNING'', ''in_progress''),
      (''JOB_STATE_SUCCEEDED'', ''completed''), (''JOB_STATE_FAILED'', ''failed''),
      (''JOB_STATE_CANCELLED'', ''cancelled''), (''JOB_STATE_CANCELLING'', ''cancelled''),
      (''JOB_STATE_PAUSED'', ''failed''), (''JOB_STATE_UPDATING'', ''in_progress''),
      (''JOB_STATE_PARTIALLY_SUCCEEDED'', ''completed''), (''JOB_STATE_EXPIRED'', ''expired'')]"

definition gemini_normalize :: "string \<Rightarrow> string" where
  "gemini_normalize s = (case map_of gemini_STATUS_MAPPING s of None \<Rightarrow> s | Some t \<Rightarrow> t)"

definition gemini_supports_model :: "string \<Rightarrow> string \<Rightarrow> bool" where
  "gemini_supports_model model mode \<longleftrightarrow>
     (if mode \<notin> {''chat''} then False
      else
        let lower = py_strip (py_lower model);
            name = (if py_startswith lower ''models/'' then drop (length ''models/'') lower else lower)
        in list_ex (\<lambda>p. py_contains p name)
             [''gemini-2.5-flash'', ''gemini-2.5-flash-lite'', ''gemini-2.5-pro'',
              ''gemini-2.0-flash'', ''gemini-2.0-flash-lite''])"

subsection \<open>Preparing and submitting\<close>

definition gemini_parts :: "json \<Rightarrow> json \<Rightarrow> json" where
  "gemini_parts role content =
     JObj [(''role'', role), (''parts'', JArr [JObj [(''text'', content)]])]"

definition gemini_message :: "json \<Rightarrow> exn + json" where
  "gemini_message m =
     bind_result (json_get m ''role'' (JStr ''user'')) (\<lambda>role.
     bind_result (json_get m ''content'' (JStr [])) (\<lambda>content.
       Inr (gemini_parts
         (JStr (if role \<in> {JStr ''user'', JStr ''human''} then ''user'' else ''model'')) content)))"

text \<open>
  \<open>d.update(e)\<close>: a dictionary is merged, an empty sequence changes nothing, a sequence of
  two-element lists is read as pairs (only textual keys are modelled), anything else is an error.
\<close>

fun dict_pair :: "json \<Rightarrow> exn + string \<times> json" where
  "dict_pair (JArr [JStr k, v]) = Inr (k, v)"
| "dict_pair (JStr [a, b]) = Inr ([a], JStr [b])"
| "dict_pair j = Inl (ValueError ''dictionary update sequence element has a wrong length'')"

definition dict_update :: "(string \<times> json) list \<Rightarrow> json \<Rightarrow> exn + (string \<times> json) list" where
  "dict_update d e =
     (case e of
        JObj kvs \<Rightarrow> Inr (dict_merge d kvs)
      | _ \<Rightarrow> bind_result (json_iter e) (\<lambda>xs.
          bind_result (map_result dict_pair xs) (\<lambda>kvs. Inr (dict_merge d kvs))))"

definition convert_to_gemini_format :: "string \<Rightarrow> json \<Rightarrow> exn + json" where
  "convert_to_gemini_format custom_id payload =
     bind_result (json_in ''messages'' payload) (\<lambda>has_messages.
     bind_result (json_in ''content'' payload) (\<lambda>has_content.
     bind_result (json_in ''text'' payload) (\<lambda>has_text.
     bind_result
       (if has_messages then
          bind_result (json_item payload ''messages'') (\<lambda>ms.
            bind_result (json_iter ms) (map_result gemini_message))
        else if has_content then
          bind_result (json_item payload ''content'') (\<lambda>c. Inr [gemini_parts (JStr ''user'') c])
        else if has_text then
          bind_result (json_item payload ''text'') (\<lambda>t. Inr [gemini_parts (JStr ''user'') t])
        else Inl (ProviderPermanentError
          (''Unsupported input format for Gemini. Expected '' @ py_quote ''messages'' @ '', '' @
           py_quote ''content'' @ '', or '' @ py_quote ''text'' @ '' field''))) (\<lambda>contents.
     bind_result (json_in ''generation_config'' payload) (\<lambda>has_generation_config.
     bind_result
       (let base = [(''response_modalities'', JArr [JStr ''text''])] in
        if has_generation_config then
          bind_result (json_item payload ''generation_config'') (dict_update base)
        else Inr base) (\<lambda>cfg.
       Inr (JObj [(''contents'', JArr contents), (''config'', JObj cfg),
                  (''_custom_id'', JStr custom_id)])))))))"

definition gemini_request :: "env \<Rightarrow> item_data \<Rightarrow> exn + json" where
  "gemini_request E item =
     bind_result (item_id_payload E item) (\<lambda>(bid, payload). convert_to_gemini_format bid payload)"

definition gemini_prepare_payloads ::
  "env \<Rightarrow> item_data list \<Rightarrow> string \<Rightarrow> string \<Rightarrow> json option \<Rightarrow> exn + prepared_submission" where
  "gemini_prepare_payloads E items model mode config =
     prepare_with ''Gemini'' ''gemini'' gemini_supports_model (gemini_request E)
       E items model mode config"

definition gemini_estimated_completion :: "gemini_job \<Rightarrow> datetime option" where
  "gemini_estimated_completion b = map_option (\<lambda>t. dt_plus_hours t 24) (gj_create_time b)"

definition gemini_extract_retry_after :: "string \<Rightarrow> nat option" where
  "gemini_extract_retry_after msg = extract_retry_after msg"

text \<open>The name given to the answer at a position, and the removal of the id from a request.\<close>

definition item_name :: "nat \<Rightarrow> string" where
  "item_name idx = ''item_'' @ nat_str idx"

fun pop_custom_id :: "nat \<times> json \<Rightarrow> exn + json \<times> json" where
  "pop_custom_id (idx, JObj kvs) =
     Inr (case map_of kvs ''_custom_id'' of None \<Rightarrow> JStr (item_name idx) | Some c \<Rightarrow> c,
          JObj (AList.delete ''_custom_id'' kvs))"
| "pop_custom_id (idx, j) = Inl (AttributeError (describe j '' object has no attribute pop''))"

text \<open>
  The keys of the mapping are the positions; the submit task writes the metadata with
  \<open>json.dumps\<close>, which turns them into the decimal texts used here.
\<close>

definition gemini_custom_id_mapping :: "json list \<Rightarrow> (string \<times> json) list" where
  "gemini_custom_id_mapping cids = map (\<lambda>(idx, c). (nat_str idx, c)) (enumerate 0 cids)"

definition gemini_submit :: "gemini_client \<Rightarrow> prepared_submission \<Rightarrow> exn + submit_result" where
  "gemini_submit cl p =
     try_with (submit_error ''Gemini'')
       (bind_result (map_result pop_custom_id (enumerate 0 (ps_items p))) (\<lambda>popped.
        bind_result (gc_create cl (ps_model p) (map snd popped)) (\<lambda>b.
          case gj_create_time b of
            None \<Rightarrow> Inl (OtherError ''submitted_at: Input should be a valid datetime'')
          | Some t \<Rightarrow>
              Inr \<lparr>sr_provider_batch_id = gj_name b, sr_status = gj_state b, sr_submitted_at = t,
                   sr_estimated_completion = gemini_estimated_completion b,
                   sr_submission_metadata = Some
                     [(''custom_id_mapping'', JObj (gemini_custom_id_mapping (map fst popped))),
                      (''model'', JStr (ps_model p)), (''mode'', JStr (ps_mode p))],
                   sr_item_count = length (map snd popped)\<rparr>)))"

subsection \<open>Polling and fetching\<close>

definition gemini_poll_status :: "gemini_client \<Rightarrow> string \<Rightarrow> exn + provider_status" where
  "gemini_poll_status cl bid =
     try_with (poll_error ''Gemini'' bid)
       (bind_result (gc_get cl bid) (\<lambda>b.
          let time = (\<lambda>t. case t of None \<Rightarrow> INone | Some x \<Rightarrow> ITime x);
              progress =
                [(''state'', IText (gj_state b)), (''create_time'', time (gj_create_time b)),
                 (''update_time'', time (gj_update_time b))] @
                (case gj_start_time b of None \<Rightarrow> [] | Some t \<Rightarrow> [(''start_time'', ITime t)]) @
                (case gj_end_time b of None \<Rightarrow> [] | Some t \<Rightarrow> [(''end_time'', ITime t)]) @
                (case gj_error b of None \<Rightarrow> [] | Some e \<Rightarrow> [(''error'', IText e)])
          in Inr \<lparr>st_provider_batch_id = bid, st_status = gj_state b,
                  st_normalized_status = gemini_normalize (gj_state b),
                  st_progress_info = progress,
                  st_estimated_completion =
                    (if gj_state b \<in> {''JOB_STATE_RUNNING'', ''JOB_STATE_PENDING''} then
                       map_option (\<lambda>t. dt_plus_hours t 24) (gj_create_time b)
                     else None)\<rparr>))"

text \<open>The text of a raw response: the first part of the first candidate.\<close>

definition candidate_text :: "pyobj \<Rightarrow> exn + pyobj" where
  "candidate_text response =
     bind_result (py_attr response ''candidates'') (\<lambda>cands.
       if \<not> py_truthy cands then Inr PNone
       else bind_result (py_item0 cands) (\<lambda>candidate.
         bind_result (py_attr candidate ''content'') (\<lambda>content.
         bind_result (py_attr content ''parts'') (\<lambda>parts.
         bind_result (py_item0 parts) (\<lambda>first_part. py_attr first_part ''text'')))))"

definition response_text :: "pyobj \<Rightarrow> exn + pyobj" where
  "response_text response =
     (case py_attr response ''text'' of
        Inl (AttributeError _) \<Rightarrow>
          (case candidate_text response of
             Inl (AttributeError _) \<Rightarrow> Inr PNone
           | Inl (LookupError _) \<Rightarrow> Inr PNone
           | r \<Rightarrow> r)
      | r \<Rightarrow> r)"

definition gemini_response_row :: "(pyobj \<Rightarrow> string) \<Rightarrow> nat \<Rightarrow> pyobj \<Rightarrow> pyobj \<Rightarrow> exn + result_row" where
  "gemini_response_row str_of idx item response =
     bind_result (response_text response) (\<lambda>txt.
     bind_result (py_in ''error'' response) (\<lambda>failed.
     bind_result
       (if failed then bind_result (py_item response ''error'') (\<lambda>e. Inr (Some (str_of e)))
        else Inr None) (\<lambda>err.
     bind_result (if py_truthy response then py_model_dump response else Inr JNull) (\<lambda>data.
     bind_result (if py_truthy item then py_model_dump item else Inr JNull) (\<lambda>raw.
       mk_result_row (JStr (item_name idx)) (py_dump txt) data raw err (\<not> failed))))))"

text \<open>
  The row of a response that cannot be read carries the response itself as its metadata,
  which is refused unless it is a dictionary or null.
\<close>

definition gemini_failed_row :: "nat \<Rightarrow> pyobj \<Rightarrow> exn \<Rightarrow> exn + result_row" where
  "gemini_failed_row idx response e =
     mk_result_row (JStr (item_name idx)) JNull JNull
       (case response of PNone \<Rightarrow> JNull | PDict kvs \<Rightarrow> py_dump (PDict kvs) | _ \<Rightarrow> JStr [])
       (Some (''Failed to parse response: '' @ exn_str e)) False"

definition parse_inlined_response :: "(pyobj \<Rightarrow> string) \<Rightarrow> nat \<times> pyobj \<Rightarrow> exn + result_row" where
  "parse_inlined_response str_of = (\<lambda>(idx, item).
     case py_attr item ''response'' of
       Inl e \<Rightarrow> gemini_failed_row idx PNone e
     | Inr response \<Rightarrow>
         (case gemini_response_row str_of idx item response of
            Inl e \<Rightarrow> gemini_failed_row idx response e
          | Inr r \<Rightarrow> Inr r))"

definition parse_inlined_responses :: "(pyobj \<Rightarrow> string) \<Rightarrow> pyobj list \<Rightarrow> exn + result_row list" where
  "parse_inlined_responses str_of items =
     map_result (parse_inlined_response str_of) (enumerate 0 items)"

text \<open>The position in a row's name, and the row under its original id.\<close>

definition row_index :: "string \<Rightarrow> nat option" where
  "row_index cid =
     (if py_startswith cid ''item_'' then nat_of_str_opt (drop (length ''item_'') cid) else None)"

definition remap_row :: "(nat \<times> string) list \<Rightarrow> result_row \<Rightarrow> result_row" where
  "remap_row mapping row =
     (case row_index (rr_custom_id row) of
        None \<Rightarrow> row
      | Some i \<Rightarrow>
          (case map_of mapping i of
             None \<Rightarrow> row
           | Some original \<Rightarrow> if original = [] then row else row\<lparr>rr_custom_id := original\<rparr>))"

definition gemini_fetch_results ::
  "(pyobj \<Rightarrow> string) \<Rightarrow> gemini_client \<Rightarrow> string \<Rightarrow> (nat \<times> string) list option \<Rightarrow>
   exn + result_row list" where
  "gemini_fetch_results str_of cl bid custom_id_mapping =
     try_with (fetch_error ''Gemini'')
       (bind_result (gc_get cl bid) (\<lambda>b.
          if gj_state b \<noteq> ''JOB_STATE_SUCCEEDED'' then
            Inl (ProviderPermanentError
              (''Cannot fetch results for batch '' @ bid @ '' with state '' @ gj_state b))
          else (case gj_dest b of
              None \<Rightarrow> Inr []
            | Some dest \<Rightarrow>
                (case gd_inlined_responses dest of
                   None \<Rightarrow> Inr []
                 | Some responses \<Rightarrow>
                     if responses = [] then Inr []
                     else bind_result (parse_inlined_responses str_of responses) (\<lambda>parsed.
                       case custom_id_mapping of
                         None \<Rightarrow> Inr parsed
                       | Some mapping \<Rightarrow>
                           if mapping = [] then Inr parsed
                           else Inr (map (remap_row mapping) parsed))))))"

definition gemini_cancel :: "gemini_client \<Rightarrow> string \<Rightarrow> exn + bool" where
  "gemini_cancel cl bid =
     try_with (cancel_error ''Gemini'' bid)
       (bind_result (gc_cancel cl bid) (\<lambda>state.
          Inr (case state of
              Some s \<Rightarrow> s \<in> {''JOB_STATE_CANCELLED'', ''JOB_STATE_CANCELLING''}
            | None \<Rightarrow> False)))"

definition gemini_new ::
  "env \<Rightarrow> (pyobj \<Rightarrow> string) \<Rightarrow> (json \<Rightarrow> exn + gemini_client) \<Rightarrow> (string \<times> json) list option \<Rightarrow>
   exn + provider_ops" where
  "gemini_new E str_of mk config =
     (let config = (case config of None \<Rightarrow> [] | Some c \<Rightarrow> c) in
      case map_of config ''api_key'' of
        None \<Rightarrow> Inl (ProviderPermanentError ''Google GenAI API key is required'')
      | Some key \<Rightarrow>
          if \<not> json_truthy key then Inl (ProviderPermanentError ''Google GenAI API key is required'')
          else bind_result
            (try_with (\<lambda>e. ProviderPermanentError (''Failed to initialize Gemini client: '' @ exn_str e))
              (mk key)) (\<lambda>cl.
            Inr \<lparr>op_prepare = gemini_prepare_payloads E, op_submit = gemini_submit cl,
                 op_poll = gemini_poll_status cl,
                 op_fetch = (\<lambda>bid. gemini_fetch_results str_of cl bid None),
                 op_cancel = gemini_cancel cl\<rparr>))"

definition GeminiBatchProvider ::
  "env \<Rightarrow> (pyobj \<Rightarrow> string) \<Rightarrow> (json \<Rightarrow> exn + gemini_client) \<Rightarrow> provider_class" where
  "GeminiBatchProvider E str_of mk =
     \<lparr>pc_name = ''GeminiBatchProvider'', pc_is_provider = True, pc_provider_name = ''gemini'',
      pc_new = gemini_new E str_of mk\<rparr>"

end
