(* ===== verification/ProviderContract.thy ===== *)
theory ProviderContract
  imports OpenAIProvider ClaudeProvider GeminiProvider
begin

text \<open>
  What the lifecycle tasks rely on when they work with a provider, as the locale
  \<open>batch_provider\<close>, its interpretation by the three providers, and the properties of the
  providers that rest on it.
\<close>

subsection \<open>The contract\<close>

text \<open>
  \<open>id_key\<close> is the key under which a prepared request carries the id of its item.
\<close>

locale batch_provider =
  fixes provider :: string
    and id_key :: string
    and supports :: "string \<Rightarrow> string \<Rightarrow> bool"
    and prepare :: "env \<Rightarrow> item_data list \<Rightarrow> string \<Rightarrow> string \<Rightarrow> json option \<Rightarrow> exn + prepared_submission"
    and submit :: "env \<Rightarrow> 'c \<Rightarrow> prepared_submission \<Rightarrow> exn + submit_result"
    and poll :: "'c \<Rightarrow> string \<Rightarrow> exn + provider_status"
    and fetch :: "env \<Rightarrow> 'c \<Rightarrow> string \<Rightarrow> exn + result_row list"
    and cancel :: "'c \<Rightarrow> string \<Rightarrow> exn + bool"
    and statuses :: "(string \<times> string) list"
  assumes prepare_ids: "prepare E items model mode config = Inr p \<Longrightarrow>
      map (\<lambda>r. json_item r id_key) (ps_items p) = map (\<lambda>i. Inr (JStr (the (d_id i)))) items"
    and prepare_fields: "prepare E items model mode config = Inr p \<Longrightarrow>
      items \<noteq> [] \<and> supports model mode \<and> ps_provider p = provider \<and> ps_model p = model \<and>
      ps_mode p = mode"
    and submit_count: "submit E cl p = Inr r \<Longrightarrow> sr_item_count r = length (ps_items p)"
    and submit_errors: "submit E cl p = Inl e \<Longrightarrow> is_provider_error e"
    and poll_id: "poll cl bid = Inr st \<Longrightarrow> st_provider_batch_id st = bid"
    and poll_status: "poll cl bid = Inr st \<Longrightarrow> st_normalized_status st =
      (case map_of statuses (st_status st) of None \<Rightarrow> st_status st | Some s \<Rightarrow> s)"
    and poll_errors: "poll cl bid = Inl e \<Longrightarrow> is_provider_error e"
    and fetch_errors: "fetch E cl bid = Inl e \<Longrightarrow> is_provider_error e"
    and cancel_errors: "cancel cl bid = Inl e \<Longrightarrow> e = ProviderPermanentError (exn_str e)"
    and statuses_known: "list_all (\<lambda>(_, s). job_status_of s \<noteq> None) statuses"
begin

lemma submitted_all:
  assumes "prepare E items model mode config = Inr p" and "submit E cl p = Inr r"
  shows "sr_item_count r = length items" and "0 < sr_item_count r"
proof -
  have "length (ps_items p) = length items"
    using arg_cong[OF prepare_ids[OF assms(1)], of length] by simp
  then show "sr_item_count r = length items" by (simp add: submit_count[OF assms(2)])
  then show "0 < sr_item_count r" using prepare_fields[OF assms(1)] by simp
qed

lemma known_status_maps:
  assumes "poll cl bid = Inr st" and "st_status st \<in> fst ` set statuses"
  shows "job_status_of (st_normalized_status st) \<noteq> None"
proof -
  obtain s where s: "map_of statuses (st_status st) = Some s"
    using assms(2) by (metis map_of_eq_None_iff option.exhaust)
  then have "(st_status st, s) \<in> set statuses" by (rule map_of_SomeD)
  then have "job_status_of s \<noteq> None" using statuses_known by (auto simp: list_all_iff)
  then show ?thesis by (simp add: poll_status[OF assms(1)] s)
qed

end

subsection \<open>The three providers keep it\<close>

lemma openai_request_id:
  "openai_request E model mode item = Inr r \<Longrightarrow>
   json_item r ''custom_id'' = Inr (JStr (the (d_id item)))"
  unfolding openai_request_def bind_result_Inr_iff
  by (clarsimp, rename_tac bid payload, case_tac payload)
     (auto simp: Let_def dest!: item_id_payload_id split: if_split_asm)

lemma convert_to_claude_format_id:
  "convert_to_claude_format cid payload model = Inr r \<Longrightarrow> json_item r ''custom_id'' = Inr (JStr cid)"
  by (cases payload) (auto simp: convert_to_claude_format_def bind_result_Inr_iff Let_def)

lemma claude_request_id:
  "claude_request E model item = Inr r \<Longrightarrow> json_item r ''custom_id'' = Inr (JStr (the (d_id item)))"
  by (auto simp: claude_request_def bind_result_Inr_iff
      dest!: item_id_payload_id convert_to_claude_format_id)

lemma convert_to_gemini_format_form:
  "convert_to_gemini_format cid payload = Inr r \<Longrightarrow>
   \<exists>contents cfg. r = JObj [(''contents'', JArr contents), (''config'', JObj cfg), (''_custom_id'', JStr cid)]"
  by (auto simp: convert_to_gemini_format_def bind_result_Inr_iff)

lemma gemini_request_id:
  "gemini_request E item = Inr r \<Longrightarrow> json_item r ''_custom_id'' = Inr (JStr (the (d_id item)))"
  by (auto simp: gemini_request_def bind_result_Inr_iff
      dest!: item_id_payload_id convert_to_gemini_format_form)

lemma openai_poll_status_Inr:
  assumes "openai_poll_status cl bid = Inr st"
  obtains b where "oc_retrieve cl bid = Inr b" and "st_provider_batch_id st = bid"
    and "st_status st = ob_status b" and "st_normalized_status st = openai_normalize (ob_status b)"
  using assms by (auto simp: openai_poll_status_def bind_result_Inr_iff Let_def case_prod_unfold)

lemma claude_poll_status_Inr:
  assumes "claude_poll_status cl bid = Inr st"
  obtains b where "claude_find_batch cl bid = Inr (Some b)" and "st_provider_batch_id st = bid"
    and "st_status st = cb_processing_status b"
    and "st_normalized_status st = claude_normalize (cb_processing_status b)"
proof -
  obtain found where found: "claude_find_batch cl bid = Inr found"
    using assms by (auto simp: claude_poll_status_def bind_result_Inr_iff)
  from assms found that show thesis
    by (cases found) (auto simp: claude_poll_status_def Let_def simp del: if_split)
qed

lemma gemini_poll_status_Inr:
  assumes "gemini_poll_status cl bid = Inr st"
  obtains b where "gc_get cl bid = Inr b" and "st_provider_batch_id st = bid"
    and "st_status st = gj_state b" and "st_normalized_status st = gemini_normalize (gj_state b)"
  using assms by (auto simp: gemini_poll_status_def bind_result_Inr_iff Let_def simp del: if_split)

lemma submit_counts:
  "openai_submit E cl p = Inr r \<Longrightarrow> sr_item_count r = length (ps_items p)"
  "claude_submit cl' p = Inr r \<Longrightarrow> sr_item_count r = length (ps_items p)"
  "gemini_submit cl'' p = Inr r \<Longrightarrow> sr_item_count r = length (ps_items p)"
  by (auto simp: openai_submit_def claude_submit_def gemini_submit_def bind_result_Inr_iff Let_def
      map_result_length split: option.split_asm)

lemma cancel_error_permanent: "cancel_error l b e = ProviderPermanentError (exn_str (cancel_error l b e))"
  by (simp add: cancel_error_def)

lemma try_with_error: "try_with h r = Inl e \<Longrightarrow> (\<And>e0. P (h e0)) \<Longrightarrow> P e"
  by (cases r) auto

lemma submit_failures:
  "openai_submit E cl p = Inl e \<Longrightarrow> is_provider_error e"
  "claude_submit cl' p = Inl e \<Longrightarrow> is_provider_error e"
  "gemini_submit cl'' p = Inl e \<Longrightarrow> is_provider_error e"
  unfolding openai_submit_def claude_submit_def gemini_submit_def
  by (erule try_with_error, rule handlers_provider_error)+

lemma poll_failures:
  "openai_poll_status cl bid = Inl e \<Longrightarrow> is_provider_error e"
  "claude_poll_status cl' bid = Inl e \<Longrightarrow> is_provider_error e"
  "gemini_poll_status cl'' bid = Inl e \<Longrightarrow> is_provider_error e"
  unfolding openai_poll_status_def claude_poll_status_def gemini_poll_status_def
  by (erule try_with_error, rule handlers_provider_error)+

lemma fetch_failures:
  "openai_fetch_results E cl bid = Inl e \<Longrightarrow> is_provider_error e"
  "claude_fetch_results str_of cl' bid = Inl e \<Longrightarrow> is_provider_error e"
  "gemini_fetch_results str_of cl'' bid m = Inl e \<Longrightarrow> is_provider_error e"
  unfolding openai_fetch_results_def claude_fetch_results_def gemini_fetch_results_def
  by (erule try_with_error, rule handlers_provider_error)+

lemma cancel_failures:
  "openai_cancel cl bid = Inl e \<Longrightarrow> e = ProviderPermanentError (exn_str e)"
  "claude_cancel cl' bid = Inl e \<Longrightarrow> e = ProviderPermanentError (exn_str e)"
  "gemini_cancel cl'' bid = Inl e \<Longrightarrow> e = ProviderPermanentError (exn_str e)"
  unfolding openai_cancel_def claude_cancel_def gemini_cancel_def
  by (erule try_with_error, rule cancel_error_permanent)+

lemma status_mappings_known:
  "list_all (\<lambda>(_, s). job_status_of s \<noteq> None) openai_STATUS_MAPPING"
  "list_all (\<lambda>(_, s). job_status_of s \<noteq> None) claude_STATUS_MAPPING"
  "list_all (\<lambda>(_, s). job_status_of s \<noteq> None) gemini_STATUS_MAPPING"
  by (simp_all add: openai_STATUS_MAPPING_def claude_STATUS_MAPPING_def gemini_STATUS_MAPPING_def
      job_status_of_def all_job_statuses_def)

interpretation openai: batch_provider "''openai''" "''custom_id''" openai_supports_model
  openai_prepare_payloads openai_submit openai_poll_status openai_fetch_results openai_cancel
  openai_STATUS_MAPPING
proof
  show "map (\<lambda>r. json_item r ''custom_id'') (ps_items p) = map (\<lambda>i. Inr (JStr (the (d_id i)))) items"
    if "openai_prepare_payloads E items model mode config = Inr p" for E items model mode config p
    using that unfolding openai_prepare_payloads_def
    by (rule prepare_with_items) (rule openai_request_id)
  show "items \<noteq> [] \<and> openai_supports_model model mode \<and> ps_provider p = ''openai'' \<and>
      ps_model p = model \<and> ps_mode p = mode"
    if "openai_prepare_payloads E items model mode config = Inr p" for E items model mode config p
    using prepare_with_facts[OF that[unfolded openai_prepare_payloads_def]] by simp
  show "sr_item_count r = length (ps_items p)" if "openai_submit E cl p = Inr r" for E cl p r
    using that by (rule submit_counts)
  show "st_provider_batch_id st = bid" if "openai_poll_status cl bid = Inr st" for cl bid st
    by (rule openai_poll_status_Inr[OF that])
  show "st_normalized_status st =
      (case map_of openai_STATUS_MAPPING (st_status st) of None \<Rightarrow> st_status st | Some s \<Rightarrow> s)"
    if "openai_poll_status cl bid = Inr st" for cl bid st
    by (rule openai_poll_status_Inr[OF that]) (simp add: openai_normalize_def cong del: option.case_cong_weak)
qed (rule submit_failures poll_failures fetch_failures cancel_failures status_mappings_known; assumption)+

interpretation claude: batch_provider "''claude''" "''custom_id''" claude_supports_model
  claude_prepare_payloads "\<lambda>_. claude_submit" claude_poll_status
  "\<lambda>_. claude_fetch_results str_of" claude_cancel claude_STATUS_MAPPING for str_of
proof
  show "map (\<lambda>r. json_item r ''custom_id'') (ps_items p) = map (\<lambda>i. Inr (JStr (the (d_id i)))) items"
    if "claude_prepare_payloads E items model mode config = Inr p" for E items model mode config p
    using that unfolding claude_prepare_payloads_def
    by (rule prepare_with_items) (rule claude_request_id)
  show "items \<noteq> [] \<and> claude_supports_model model mode \<and> ps_provider p = ''claude'' \<and>
      ps_model p = model \<and> ps_mode p = mode"
    if "claude_prepare_payloads E items model mode config = Inr p" for E items model mode config p
    using prepare_with_facts[OF that[unfolded claude_prepare_payloads_def]] by simp
  show "sr_item_count r = length (ps_items p)" if "claude_submit cl p = Inr r" for cl p r
    using that by (rule submit_counts)
  show "st_provider_batch_id st = bid" if "claude_poll_status cl bid = Inr st" for cl bid st
    by (rule claude_poll_status_Inr[OF that])
  show "st_normalized_status st =
      (case map_of claude_STATUS_MAPPING (st_status st) of None \<Rightarrow> st_status st | Some s \<Rightarrow> s)"
    if "claude_poll_status cl bid = Inr st" for cl bid st
    by (rule claude_poll_status_Inr[OF that]) (simp add: claude_normalize_def cong del: option.case_cong_weak)
qed (rule submit_failures poll_failures fetch_failures cancel_failures status_mappings_known; assumption)+

interpretation gemini: batch_provider "''gemini''" "''_custom_id''" gemini_supports_model
  gemini_prepare_payloads "\<lambda>_. gemini_submit" gemini_poll_status
  "\<lambda>_ cl bid. gemini_fetch_results str_of cl bid m" gemini_cancel gemini_STATUS_MAPPING for str_of m
proof
  show "map (\<lambda>r. json_item r ''_custom_id'') (ps_items p) = map (\<lambda>i. Inr (JStr (the (d_id i)))) items"
    if "gemini_prepare_payloads E items model mode config = Inr p" for E items model mode config p
    using that unfolding gemini_prepare_payloads_def
    by (rule prepare_with_items) (rule gemini_request_id)
  show "items \<noteq> [] \<and> gemini_supports_model model mode \<and> ps_provider p = ''gemini'' \<and>
      ps_model p = model \<and> ps_mode p = mode"
    if "gemini_prepare_payloads E items model mode config = Inr p" for E items model mode config p
    using prepare_with_facts[OF that[unfolded gemini_prepare_payloads_def]] by simp
  show "sr_item_count r = length (ps_items p)" if "gemini_submit cl p = Inr r" for cl p r
    using that by (rule submit_counts)
  show "st_provider_batch_id st = bid" if "gemini_poll_status cl bid = Inr st" for cl bid st
    by (rule gemini_poll_status_Inr[OF that])
  show "st_normalized_status st =
      (case map_of gemini_STATUS_MAPPING (st_status st) of None \<Rightarrow> st_status st | Some s \<Rightarrow> s)"
    if "gemini_poll_status cl bid = Inr st" for cl bid st
    by (rule gemini_poll_status_Inr[OF that]) (simp add: gemini_normalize_def cong del: option.case_cong_weak)
qed (rule submit_failures poll_failures fetch_failures cancel_failures status_mappings_known; assumption)+

end
