(* ===== verification/BatchTasks.thy ===== *)
theory BatchTasks
  imports BatchService ProviderContract
begin

text \<open>
  \<open>inference_core/celery/tasks/batch_tasks.py\<close>: the tasks that dispatch, submit, poll and
  fetch the jobs and retry their failed items. A task works on the world: the database, the
  queue of messages to the workers, the locks in Redis with their time of expiry and the gauge
  of jobs in progress. Its result is the dictionary it returns (less the measured duration),
  the request to be run again after a delay, or the exception it ends with.
\<close>

subsection \<open>The world and its primitive effects\<close>

datatype message =
    SubmitMessage uuid nat
  | FetchMessage uuid nat

record world =
  w_db :: db
  w_queue :: "message list"
  w_locks :: "string \<Rightarrow> int option"
  w_in_progress :: "string \<Rightarrow> int"

text \<open>
  What a task takes from its surroundings: the provider registry, the runtime configuration
  of a provider, the value of a datetime read back from the database, the broker's answer to
  a message (\<^const>\<open>None\<close> when it takes it) and the text of a JSON value.
\<close>

record task_env =
  te_registry :: registry
  te_config :: "string \<Rightarrow> (string \<times> json) list"
  te_load_time :: "datetime \<Rightarrow> datetime"
  te_broker :: "message \<Rightarrow> exn option"
  te_str :: "json \<Rightarrow> string"

datatype outcome =
    Returned "(string \<times> json) list"
  | RetryAfter nat
  | Raised exn

definition on_db :: "(db \<Rightarrow> db) \<Rightarrow> world \<Rightarrow> world" where
  "on_db f w = w\<lparr>w_db := f (w_db w)\<rparr>"

definition delay :: "task_env \<Rightarrow> message \<Rightarrow> world \<Rightarrow> world \<times> (exn + unit)" where
  "delay T m w =
     (case te_broker T m of
        Some e \<Rightarrow> (w, Inl e)
      | None \<Rightarrow> (w\<lparr>w_queue := w_queue w @ [m]\<rparr>, Inr ()))"

definition update_jobs_in_progress :: "string \<Rightarrow> int \<Rightarrow> world \<Rightarrow> world" where
  "update_jobs_in_progress p n w = w\<lparr>w_in_progress := (w_in_progress w)(p := w_in_progress w p + n)\<rparr>"

definition task_provider :: "task_env \<Rightarrow> string \<Rightarrow> exn + provider_ops" where
  "task_provider T p = create_provider p (Some (te_config T p)) (te_registry T)"

definition number :: "nat \<Rightarrow> json" where
  "number n = JNum (of_nat n)"

definition opt_json :: "string option \<Rightarrow> json" where
  "opt_json t = (case t of None \<Rightarrow> JNull | Some s \<Rightarrow> JStr s)"

subsection \<open>Locks\<close>

definition BATCH_POLL_LOCK_KEY :: string where "BATCH_POLL_LOCK_KEY = ''batch_poll:lock''"
definition BATCH_POLL_LOCK_TIMEOUT :: int where "BATCH_POLL_LOCK_TIMEOUT = 300"
definition BATCH_DISPATCH_LOCK_KEY :: string where "BATCH_DISPATCH_LOCK_KEY = ''batch_dispatch:lock''"
definition BATCH_DISPATCH_LOCK_TIMEOUT :: int where "BATCH_DISPATCH_LOCK_TIMEOUT = 60"

text \<open>\<open>set(key, "1", nx=True, ex=ttl)\<close> and \<open>delete(key)\<close> at the time \<open>now\<close>.\<close>

definition lock_held :: "(string \<Rightarrow> int option) \<Rightarrow> string \<Rightarrow> int \<Rightarrow> bool" where
  "lock_held locks key now \<longleftrightarrow> (case locks key of None \<Rightarrow> False | Some expiry \<Rightarrow> now < expiry)"

definition redis_set_nx ::
  "string \<Rightarrow> int \<Rightarrow> int \<Rightarrow> (string \<Rightarrow> int option) \<Rightarrow> (string \<Rightarrow> int option) \<times> bool" where
  "redis_set_nx key ttl now locks =
     (if lock_held locks key now then (locks, False) else (locks(key \<mapsto> now + ttl), True))"

definition redis_delete :: "string \<Rightarrow> (string \<Rightarrow> int option) \<Rightarrow> (string \<Rightarrow> int option)" where
  "redis_delete key locks = locks(key := None)"

definition with_lock ::
  "string \<Rightarrow> int \<Rightarrow> (string \<times> json) list \<Rightarrow> (world \<Rightarrow> world \<times> (string \<times> json) list) \<Rightarrow>
   world \<Rightarrow> world \<times> (string \<times> json) list" where
  "with_lock key ttl skipped body w =
     (let (locks, acquired) = redis_set_nx key ttl (db_clock (w_db w)) (w_locks w) in
      if \<not> acquired then (w, skipped)
      else let (w, r) = body (w\<lparr>w_locks := locks\<rparr>)
           in (w\<lparr>w_locks := redis_delete key (w_locks w)\<rparr>, r))"

subsection \<open>Dispatch\<close>

fun dispatch_jobs :: "task_env \<Rightarrow> batch_job list \<Rightarrow> world \<Rightarrow> world \<times> nat \<times> nat" where
  "dispatch_jobs T [] w = (w, 0, 0)"
| "dispatch_jobs T (j # js) w =
     (case delay T (SubmitMessage (j_id j) 0) w of
        (w, Inr _) \<Rightarrow> (case dispatch_jobs T js w of (w, n, k) \<Rightarrow> (w, Suc n, k))
      | (w, Inl _) \<Rightarrow> (case dispatch_jobs T js w of (w, n, k) \<Rightarrow> (w, n, Suc k)))"

definition batch_dispatch :: "task_env \<Rightarrow> world \<Rightarrow> world \<times> (string \<times> json) list" where
  "batch_dispatch T =
     with_lock BATCH_DISPATCH_LOCK_KEY BATCH_DISPATCH_LOCK_TIMEOUT
       [(''status'', JStr ''skipped''), (''reason'', JStr ''lock'')]
       (\<lambda>w. case dispatch_jobs T (filter (\<lambda>j. j_status j = CREATED) (db_jobs (w_db w))) w of
          (w, dispatched, errors) \<Rightarrow>
            (w, [(''status'', JStr ''completed''), (''jobs_dispatched'', number dispatched),
                 (''errors'', number errors)]))"

subsection \<open>Retrying a task\<close>

text \<open>
  \<open>raise self.retry(countdown=min(2 ** retries, 300), exc=e)\<close>: the message is queued again
  with its number of retries, until \<open>max_retries\<close> is reached and the exception is raised.
\<close>

definition retry_countdown :: "nat \<Rightarrow> nat" where
  "retry_countdown retries = min (2 ^ retries) 300"

definition self_retry ::
  "nat \<Rightarrow> (nat \<Rightarrow> message) \<Rightarrow> nat \<Rightarrow> exn \<Rightarrow> world \<Rightarrow> world \<times> outcome" where
  "self_retry max_retries m retries e w =
     (if retries < max_retries
      then (w\<lparr>w_queue := w_queue w @ [m (Suc retries)]\<rparr>, RetryAfter (retry_countdown retries))
      else (w, Raised e))"

subsection \<open>Submit\<close>

definition item_datum :: "batch_item \<Rightarrow> item_data" where
  "item_datum i = \<lparr>d_id = Some (i_id i), d_sequence_index = i_sequence_index i,
     d_input_payload = (case i_input_payload i of None \<Rightarrow> JNull | Some p \<Rightarrow> p)\<rparr>"

text \<open>
  \<open>metadata.setdefault("submission_metadata", {})\<close> and the assignment of the submission's
  metadata under the job's id.
\<close>

definition store_submission_metadata ::
  "uuid \<Rightarrow> (string \<times> json) list \<Rightarrow> (string \<times> json) list \<Rightarrow> exn + (string \<times> json) list" where
  "store_submission_metadata jid sm metadata =
     (case map_of metadata ''submission_metadata'' of
        None \<Rightarrow> Inr (dict_set metadata ''submission_metadata'' (JObj [(jid, JObj sm)]))
      | Some (JObj kvs) \<Rightarrow>
          Inr (dict_set metadata ''submission_metadata'' (JObj (dict_set kvs jid (JObj sm))))
      | Some j \<Rightarrow> Inl (TypeError (describe j '' object does not support item assignment'')))"

text \<open>The provider part of the task: prepare the items and hand them to the vendor.\<close>

definition submit_to_provider :: "task_env \<Rightarrow> batch_job \<Rightarrow> batch_item list \<Rightarrow> exn + submit_result" where
  "submit_to_provider T job items =
     bind_result (task_provider T (j_provider job)) (\<lambda>ops.
     bind_result (op_prepare ops (map item_datum items) (j_model job) (j_mode job) (j_config_json job))
       (op_submit ops))"

text \<open>The database part: metadata, the new status with the vendor's id, the gauge, the event.\<close>

definition record_submission :: "batch_job \<Rightarrow> submit_result \<Rightarrow> world \<Rightarrow> world \<times> (exn + (string \<times> json) list)" where
  "record_submission job r w =
     (case (case sr_submission_metadata r of
              None \<Rightarrow> Inr (\<lambda>d. d)
            | Some sm \<Rightarrow>
                if sm = [] then Inr (\<lambda>d. d)
                else bind_result (store_submission_metadata (j_id job) sm (get_metadata job)) (\<lambda>md.
                  Inr (write_job (j_id job) (set_metadata md)))) of
        Inl e \<Rightarrow> (w, Inl e)
      | Inr set_meta \<Rightarrow>
          let w = on_db set_meta w;
              w = on_db (\<lambda>d. fst (update_batch_job (j_id job)
                    (no_job_update\<lparr>u_status := Some SUBMITTED,
                       u_provider_batch_id := Some (Some (sr_provider_batch_id r)),
                       u_submitted_at := Some (Some (sr_submitted_at r))\<rparr>) None d)) w;
              w = update_jobs_in_progress (j_provider job) 1 w;
              w = on_db (\<lambda>d. fst (create_semantic_event (j_id job) SUBMITTED_EVENT
                    (Some [(''provider_batch_id'', JStr (sr_provider_batch_id r)),
                           (''item_count'', number (sr_item_count r))]) None d)) w
          in (w, Inr [(''job_id'', JStr (j_id job)),
                      (''provider_batch_id'', JStr (sr_provider_batch_id r)),
                      (''status'', JStr ''submitted''), (''item_count'', number (sr_item_count r))]))"

definition submit_body :: "task_env \<Rightarrow> uuid \<Rightarrow> world \<Rightarrow> world \<times> (exn + (string \<times> json) list)" where
  "submit_body T jid w =
     (case get_batch_job jid (w_db w) of
        None \<Rightarrow> (w, Inl (ValueError (''Batch job '' @ jid @ '' not found'')))
      | Some job \<Rightarrow>
          if j_status job \<noteq> CREATED then
            (w, Inr [(''job_id'', JStr jid), (''status'', JStr (job_status_value (j_status job))),
                     (''message'', JStr ''Job already submitted'')])
          else
            let items = get_batch_items jid None (w_db w) in
            if items = [] then (w, Inl (ValueError (''No items found for batch job '' @ jid)))
            else case submit_to_provider T job items of
                Inl e \<Rightarrow> (w, Inl e)
              | Inr r \<Rightarrow> record_submission job r w)"

definition mark_failed :: "uuid \<Rightarrow> exn \<Rightarrow> db \<Rightarrow> db" where
  "mark_failed jid e d =
     fst (update_batch_job jid
       (no_job_update\<lparr>u_status := Some FAILED, u_error_summary := Some (Some (exn_str e))\<rparr>) None d)"

definition error_result :: "uuid \<Rightarrow> string \<Rightarrow> exn \<Rightarrow> (string \<times> json) list" where
  "error_result jid status e =
     [(''job_id'', JStr jid), (''status'', JStr status), (''error'', JStr (exn_str e))]"

definition batch_submit :: "task_env \<Rightarrow> uuid \<Rightarrow> nat \<Rightarrow> world \<Rightarrow> world \<times> outcome" where
  "batch_submit T jid retries w =
     (case submit_body T jid w of
        (w, Inr r) \<Rightarrow> (w, Returned r)
      | (w, Inl e) \<Rightarrow>
          (case e of
             ProviderPermanentError _ \<Rightarrow>
               (on_db (mark_failed jid e) w, Returned (error_result jid ''failed'' e))
           | ProviderTransientError _ _ \<Rightarrow> self_retry 5 (SubmitMessage jid) retries e w
           | _ \<Rightarrow> (w, Returned (error_result jid ''error'' e))))"

subsection \<open>Poll\<close>

text \<open>
  The counters of a poll cycle, in all and per provider: polls, status changes and errors. A
  job has its vendor's id from the moment it is submitted.
\<close>

record poll_acc =
  pa_polled :: nat
  pa_changes :: nat
  pa_stats :: "(string \<times> nat \<times> nat \<times> nat) list"

definition add_stats :: "string \<Rightarrow> nat \<Rightarrow> nat \<Rightarrow> nat \<Rightarrow> poll_acc \<Rightarrow> poll_acc" where
  "add_stats p polled changes errors a =
     (case map_of (pa_stats a) p of
        None \<Rightarrow> a\<lparr>pa_stats := pa_stats a @ [(p, polled, changes, errors)]\<rparr>
      | Some (n, c, k) \<Rightarrow>
          a\<lparr>pa_stats := AList.update p (n + polled, c + changes, k + errors) (pa_stats a)\<rparr>)"

definition batch_id_text :: "batch_job \<Rightarrow> string" where
  "batch_id_text job = (case j_provider_batch_id job of None \<Rightarrow> ''None'' | Some b \<Rightarrow> b)"

text \<open>Completion: the job's duration, the gauge, and the fetch task for a completed job.\<close>

definition complete_polled_job :: "task_env \<Rightarrow> batch_job \<Rightarrow> job_status \<Rightarrow> world \<Rightarrow> world \<times> (exn + unit)" where
  "complete_polled_job T job new_status w =
     (let start = te_load_time T (case j_submitted_at job of Some t \<Rightarrow> t | None \<Rightarrow> j_created_at job) in
      case dt_minus (Aware (db_clock (w_db w))) start of
        Inl e \<Rightarrow> (w, Inl e)
      | Inr duration \<Rightarrow>
          let w = update_jobs_in_progress (j_provider job) (-1) w in
          if new_status = COMPLETED then delay T (FetchMessage (j_id job) 0) w else (w, Inr ()))"

definition poll_attempt ::
  "task_env \<Rightarrow> batch_job \<Rightarrow> world \<Rightarrow> poll_acc \<Rightarrow> (world \<times> poll_acc) \<times> (exn + unit)" where
  "poll_attempt T job w a =
     (case bind_result (task_provider T (j_provider job)) (\<lambda>ops. op_poll ops (batch_id_text job)) of
        Inl e \<Rightarrow> ((w, a), Inl e)
      | Inr st \<Rightarrow>
          let a = add_stats (j_provider job) 1 0 0 (a\<lparr>pa_polled := Suc (pa_polled a)\<rparr>) in
          (case job_status_of (st_normalized_status st) of
             None \<Rightarrow> ((w, a), Inl (ValueError (py_quote (st_normalized_status st) @ '' is not a valid BatchJobStatus'')))
           | Some new_status \<Rightarrow>
               if new_status = j_status job then ((w, a), Inr ())
               else
                 let a = add_stats (j_provider job) 0 1 0 (a\<lparr>pa_changes := Suc (pa_changes a)\<rparr>);
                     done = new_status \<in> {COMPLETED, FAILED}
                 in case (if done then complete_polled_job T job new_status w else (w, Inr ())) of
                   (w, Inl e) \<Rightarrow> ((w, a), Inl e)
                 | (w, Inr _) \<Rightarrow>
                     let u = no_job_update\<lparr>u_status := Some new_status\<rparr>;
                         u = (if done then u\<lparr>u_completed_at := Some (Some (Aware (db_clock (w_db w))))\<rparr> else u)
                     in ((on_db (\<lambda>d. fst (update_batch_job (j_id job) u None d)) w, a), Inr ())))"

definition poll_job :: "task_env \<Rightarrow> world \<times> poll_acc \<Rightarrow> batch_job \<Rightarrow> world \<times> poll_acc" where
  "poll_job T = (\<lambda>(w, a) job.
     case poll_attempt T job w (add_stats (j_provider job) 0 0 0 a) of
       ((w, a), Inr _) \<Rightarrow> (w, a)
     | ((w, a), Inl e) \<Rightarrow>
         let a = add_stats (j_provider job) 0 0 1 a in
         (case e of
            ProviderPermanentError _ \<Rightarrow>
              (update_jobs_in_progress (j_provider job) (-1)
                 (on_db (\<lambda>d. fst (update_batch_job (j_id job)
                    (no_job_update\<lparr>u_status := Some FAILED,
                       u_error_summary := Some (Some (exn_str e)),
                       u_completed_at := Some (Some (Aware (db_clock d)))\<rparr>) None d)) w),
               a\<lparr>pa_changes := Suc (pa_changes a)\<rparr>)
          | _ \<Rightarrow> (w, a)))"

definition jobs_to_poll :: "db \<Rightarrow> batch_job list" where
  "jobs_to_poll d = filter (\<lambda>j. j_status j \<in> {SUBMITTED, IN_PROGRESS}) (db_jobs d)"

definition poll_body :: "task_env \<Rightarrow> world \<Rightarrow> world \<times> (string \<times> json) list" where
  "poll_body T w =
     (let jobs = jobs_to_poll (w_db w) in
      if jobs = [] then
        (w, [(''status'', JStr ''completed''), (''jobs_polled'', number 0), (''status_changes'', number 0)])
      else
        let (w, a) = foldl (poll_job T) (w, \<lparr>pa_polled = 0, pa_changes = 0, pa_stats = []\<rparr>) jobs in
        (w, [(''status'', JStr ''completed''), (''jobs_polled'', number (pa_polled a)),
             (''status_changes'', number (pa_changes a)),
             (''provider_stats'', JObj (map (\<lambda>(p, n, c, k).
                (p, JObj [(''polled'', number n), (''status_changes'', number c), (''errors'', number k)]))
                (pa_stats a)))]))"

definition batch_poll :: "task_env \<Rightarrow> world \<Rightarrow> world \<times> (string \<times> json) list" where
  "batch_poll T =
     with_lock BATCH_POLL_LOCK_KEY BATCH_POLL_LOCK_TIMEOUT
       [(''status'', JStr ''skipped''), (''reason'', JStr ''Another poll process is running'')]
       (poll_body T)"

subsection \<open>Fetch\<close>

text \<open>
  Gemini names its rows by position. The submission's metadata map the positions to the ids
  of the items; whatever goes wrong on the way leaves the rows as they are.
\<close>

definition gemini_custom_map :: "batch_job \<Rightarrow> json option" where
  "gemini_custom_map job =
     (case bind_result (json_get (JObj (get_metadata job)) ''submission_metadata'' (JObj [])) (\<lambda>m.
           json_get m (j_id job) (JObj [])) of
        Inr (JObj kvs) \<Rightarrow> map_of kvs ''custom_id_mapping''
      | _ \<Rightarrow> None)"

definition json_text :: "task_env \<Rightarrow> json \<Rightarrow> string" where
  "json_text T j = (case j of JStr s \<Rightarrow> s | _ \<Rightarrow> te_str T j)"

definition remap_by_position :: "task_env \<Rightarrow> json \<Rightarrow> result_row \<Rightarrow> result_row" where
  "remap_by_position T custom_map r =
     (if py_startswith (rr_custom_id r) ''item_'' then
        (case json_get custom_map (drop (length ''item_'') (rr_custom_id r)) JNull of
           Inl _ \<Rightarrow> r
         | Inr original \<Rightarrow>
             if json_truthy original then r\<lparr>rr_custom_id := json_text T original\<rparr> else r)
      else r)"

definition remap_gemini :: "task_env \<Rightarrow> batch_job \<Rightarrow> result_row list \<Rightarrow> result_row list" where
  "remap_gemini T job rows =
     (if j_provider job \<noteq> ''gemini'' then rows
      else case gemini_custom_map job of
        None \<Rightarrow> rows
      | Some m \<Rightarrow> if json_truthy m then map (remap_by_position T m) rows else rows)"

text \<open>\<open>{result.custom_id: result for result in results}\<close>: the last row of an id counts.\<close>

definition results_map :: "result_row list \<Rightarrow> string \<Rightarrow> result_row option" where
  "results_map rows = map_of (rev (map (\<lambda>r. (rr_custom_id r, r)) rows))"

definition result_update :: "result_row \<Rightarrow> item_update" where
  "result_update r =
     (if rr_is_success r then
        no_item_update\<lparr>v_status := Some ItemCOMPLETED,
          v_output_payload := Some (Some
            (case rr_output_data r of
               Some j \<Rightarrow> if json_truthy j then j else JObj [(''text'', opt_json (rr_output_text r))]
             | None \<Rightarrow> JObj [(''text'', opt_json (rr_output_text r))]))\<rparr>
      else no_item_update\<lparr>v_status := Some ItemFAILED, v_error_detail := Some (rr_error_message r)\<rparr>)"

fun apply_results ::
  "(string \<Rightarrow> result_row option) \<Rightarrow> batch_item list \<Rightarrow> db \<Rightarrow> db \<times> nat \<times> nat" where
  "apply_results m [] d = (d, 0, 0)"
| "apply_results m (i # is) d =
     (case m (i_id i) of
        None \<Rightarrow> apply_results m is d
      | Some r \<Rightarrow>
          (case apply_results m is (fst (update_batch_item (i_id i) (result_update r) None d)) of
             (d, s, e) \<Rightarrow> if rr_is_success r then (d, Suc s, e) else (d, s, Suc e)))"

definition fetch_body :: "task_env \<Rightarrow> uuid \<Rightarrow> world \<Rightarrow> world \<times> (exn + (string \<times> json) list)" where
  "fetch_body T jid w =
     (case get_batch_job jid (w_db w) of
        None \<Rightarrow> (w, Inl (ValueError (''Batch job '' @ jid @ '' not found'')))
      | Some job \<Rightarrow>
          if j_status job \<noteq> COMPLETED then
            (w, Inr [(''job_id'', JStr jid), (''status'', JStr (job_status_value (j_status job))),
                     (''message'', JStr ''Job not completed'')])
          else
            let items = get_batch_items jid None (w_db w) in
            if length (filter item_is_completed items) = length items then
              (w, Inr [(''job_id'', JStr jid), (''status'', JStr ''already_fetched''),
                       (''message'', JStr ''All results already fetched'')])
            else case bind_result (task_provider T (j_provider job)) (\<lambda>ops. op_fetch ops (batch_id_text job)) of
                Inl e \<Rightarrow> (w, Inl e)
              | Inr rows \<Rightarrow>
                  let (d, successes, errors) =
                        apply_results (results_map (remap_gemini T job rows)) items (w_db w);
                      d = fst (update_batch_job jid
                            (no_job_update\<lparr>u_success_count := Some (int successes),
                               u_error_count := Some (int errors)\<rparr>) None d);
                      d = fst (create_semantic_event jid FETCH_COMPLETED
                            (Some [(''success_count'', number successes), (''error_count'', number errors),
                                   (''total_items'', number (length items))]) None d)
                  in (on_db (\<lambda>_. d) w,
                      Inr [(''job_id'', JStr jid), (''status'', JStr ''completed''),
                           (''success_count'', number successes), (''error_count'', number errors),
                           (''total_items'', number (length items))]))"

definition batch_fetch :: "task_env \<Rightarrow> uuid \<Rightarrow> nat \<Rightarrow> world \<Rightarrow> world \<times> outcome" where
  "batch_fetch T jid retries w =
     (case fetch_body T jid w of
        (w, Inr r) \<Rightarrow> (w, Returned r)
      | (w, Inl e) \<Rightarrow>
          (case e of
             ProviderPermanentError _ \<Rightarrow> (w, Returned (error_result jid ''failed'' e))
           | ProviderTransientError _ _ \<Rightarrow> self_retry 5 (FetchMessage jid) retries e w
           | _ \<Rightarrow> (w, Returned (error_result jid ''error'' e))))"

subsection \<open>Retry of failed items\<close>

definition retry_item :: "nat \<times> batch_item \<Rightarrow> item_create" where
  "retry_item = (\<lambda>(i, failed). \<lparr>n_sequence_index = int i, n_custom_external_id = i_custom_external_id failed,
     n_input_payload = i_input_payload failed\<rparr>)"

definition batch_retry_failed :: "task_env \<Rightarrow> uuid \<Rightarrow> world \<Rightarrow> world \<times> (string \<times> json) list" where
  "batch_retry_failed T jid w =
     (case get_batch_job jid (w_db w) of
        None \<Rightarrow> (w, error_result jid ''error'' (ValueError (''Batch job '' @ jid @ '' not found'')))
      | Some original \<Rightarrow>
          let failed = filter (\<lambda>i. i_status i = ItemFAILED) (get_batch_items jid None (w_db w)) in
          if failed = [] then
            (w, [(''job_id'', JStr jid), (''status'', JStr ''no_failed_items''),
                 (''message'', JStr ''No failed items to retry'')])
          else
            let (d, retry_job) = create_batch_job
                  \<lparr>c_provider = j_provider original, c_model = j_model original,
                   c_mode = j_mode original, c_request_count = int (length failed),
                   c_config_json = j_config_json original\<rparr> None (w_db w)
            in (case create_batch_items (j_id retry_job) (map retry_item (enumerate 0 failed)) None d of
                  (d, Inl e) \<Rightarrow> (on_db (\<lambda>_. d) w, error_result jid ''error'' e)
                | (d, Inr _) \<Rightarrow>
                    (case delay T (SubmitMessage (j_id retry_job) 0) (on_db (\<lambda>_. d) w) of
                       (w, Inl e) \<Rightarrow> (w, error_result jid ''error'' e)
                     | (w, Inr _) \<Rightarrow>
                         (w, [(''original_job_id'', JStr jid), (''retry_job_id'', JStr (j_id retry_job)),
                              (''status'', JStr ''retry_job_created''),
                              (''failed_items_count'', number (length failed))]))))"

end
