(* ===== verification/BatchApi.thy ===== *)
theory BatchApi
  imports BatchTasks
begin

text \<open>
  \<open>inference_core/api/v1/routes/batch.py\<close>: the endpoints that create, show, list and cancel
  batch jobs. An endpoint returns a response or an HTTP error with its status code. The
  configuration of the models, the user's id and the provider registry are arguments.
\<close>

text \<open>
  The parts of \<open>llm_config\<close> that the endpoints read: the providers, the provider of a model,
  the providers enabled for batches and the mode of a model configured for batches.
\<close>

record api_config =
  ac_providers :: "string list"
  ac_model_provider :: "string \<Rightarrow> string option"
  ac_batch_enabled :: "string \<Rightarrow> bool"
  ac_batch_mode :: "string \<Rightarrow> string \<Rightarrow> string option"
  ac_str :: "json \<Rightarrow> string"

record create_request =
  cr_provider :: string
  cr_model :: string
  cr_items :: "(json \<times> string option) list"
  cr_params :: "(string \<times> json) list option"

record create_response =
  rs_job_id :: uuid
  rs_status :: job_status
  rs_item_count :: nat

subsection \<open>Creating a job\<close>

definition request_mode :: "create_request \<Rightarrow> json" where
  "request_mode q =
     (case cr_params q of
        None \<Rightarrow> JStr ''chat''
      | Some ps \<Rightarrow> (case map_of ps ''mode'' of None \<Rightarrow> JStr ''chat'' | Some m \<Rightarrow> m))"

definition validate_create :: "api_config \<Rightarrow> create_request \<Rightarrow> http_error + string" where
  "validate_create C q =
     (let p = cr_provider q; m = cr_model q in
      if p \<notin> set (ac_providers C) then
        Inl (HTTPException 400 (''Unknown provider '' @ py_quote p))
      else case ac_model_provider C m of
        None \<Rightarrow> Inl (HTTPException 400 (''Unknown model '' @ py_quote m))
      | Some owner \<Rightarrow>
          if owner \<noteq> p then
            Inl (HTTPException 400 (''Model '' @ py_quote m @ '' belongs to provider '' @
              py_quote owner @ '', not '' @ py_quote p))
          else if \<not> ac_batch_enabled C p then
            Inl (HTTPException 400 (''Provider '' @ py_quote p @ '' is not enabled for batch processing''))
          else (case ac_batch_mode C p m of
              None \<Rightarrow>
                Inl (HTTPException 400 (''Model '' @ py_quote m @
                  '' is not configured for batch processing under provider '' @ py_quote p))
            | Some expected \<Rightarrow>
                if request_mode q \<noteq> JStr expected then
                  Inl (HTTPException 400 (''Mode '' @ py_quote (ac_str C (request_mode q)) @
                    '' not allowed for model '' @ py_quote m @ ''. Expected '' @ py_quote expected))
                else Inr expected))"

definition request_item :: "nat \<times> json \<times> string option \<Rightarrow> item_create" where
  "request_item = (\<lambda>(idx, input, custom_id).
     \<lparr>n_sequence_index = int idx, n_custom_external_id = custom_id, n_input_payload = Some input\<rparr>)"

definition api_create_batch_job ::
  "api_config \<Rightarrow> exn + uuid \<Rightarrow> create_request \<Rightarrow> db \<Rightarrow> db \<times> (http_error + create_response)" where
  "api_create_batch_job C user q d =
     (case validate_create C q of
        Inl e \<Rightarrow> (d, Inl e)
      | Inr mode \<Rightarrow>
          (case user of
             Inl (ValueError e) \<Rightarrow> (d, Inl (HTTPException 400 (''Validation error: '' @ e)))
           | Inl e \<Rightarrow> (d, Inl (HTTPException 500 (''Failed to create batch job: '' @ exn_str e)))
           | Inr uid \<Rightarrow>
               let (d, job) = create_batch_job
                     \<lparr>c_provider = cr_provider q, c_model = cr_model q, c_mode = mode,
                      c_request_count = int (length (cr_items q)),
                      c_config_json = map_option JObj (cr_params q)\<rparr> (Some uid) d
               in (case create_batch_items (j_id job) (map request_item (enumerate 0 (cr_items q)))
                         (Some uid) d of
                     (d, Inl e) \<Rightarrow> (d, Inl (HTTPException 400 (''Validation error: '' @ exn_str e)))
                   | (d, Inr _) \<Rightarrow>
                       (d, Inr \<lparr>rs_job_id = j_id job, rs_status = j_status job,
                                rs_item_count = length (cr_items q)\<rparr>))))"

subsection \<open>Reading a job and its items\<close>

text \<open>A job of another user is answered like a job that does not exist.\<close>

definition owned_job :: "exn + uuid \<Rightarrow> uuid \<Rightarrow> string \<Rightarrow> db \<Rightarrow> http_error + batch_job" where
  "owned_job user jid failure d =
     (case user of
        Inl e \<Rightarrow> Inl (HTTPException 500 (failure @ exn_str e))
      | Inr uid \<Rightarrow>
          (case get_batch_job jid d of
             None \<Rightarrow> Inl (HTTPException 404 (''Batch job '' @ jid @ '' not found''))
           | Some job \<Rightarrow>
               if j_created_by job \<noteq> Some uid then
                 Inl (HTTPException 404 (''Batch job '' @ jid @ '' not found''))
               else Inr job))"

record job_detail =
  jd_job :: batch_job
  jd_completion_rate :: rat
  jd_success_rate :: rat
  jd_is_complete :: bool
  jd_pending_count :: int
  jd_events :: "batch_event list"

definition api_get_batch_job :: "exn + uuid \<Rightarrow> uuid \<Rightarrow> db \<Rightarrow> http_error + job_detail" where
  "api_get_batch_job user jid d =
     bind_result (owned_job user jid ''Failed to get batch job: '' d) (\<lambda>job.
       let completed = j_success_count job + j_error_count job in
       Inr \<lparr>jd_job = job,
            jd_completion_rate =
              (if j_request_count job > 0 then of_int completed / of_int (j_request_count job) * 100 else 0),
            jd_success_rate =
              (if j_request_count job > 0 \<and> completed > 0
               then of_int (j_success_count job) / of_int completed * 100 else 0),
            jd_is_complete = j_status job \<in> {COMPLETED, FAILED, CANCELLED},
            jd_pending_count = max 0 (j_request_count job - j_success_count job - j_error_count job),
            jd_events = get_batch_events jid None d\<rparr>)"

record item_page =
  ip_items :: "batch_item list"
  ip_total :: nat
  ip_limit :: nat
  ip_offset :: nat
  ip_has_more :: bool

text \<open>
  \<open>limit\<close> and \<open>offset\<close> have been checked against their bounds by the framework. A row of the
  page also shows \<^const>\<open>item_is_completed\<close> and \<^const>\<open>item_is_successful\<close> of the item.
\<close>

definition api_get_batch_items ::
  "exn + uuid \<Rightarrow> uuid \<Rightarrow> item_status option \<Rightarrow> nat \<Rightarrow> nat \<Rightarrow> db \<Rightarrow> http_error + item_page" where
  "api_get_batch_items user jid st limit offset d =
     bind_result (owned_job user jid ''Failed to get batch items: '' d) (\<lambda>_.
       let items = get_batch_items jid st d in
       Inr \<lparr>ip_items = take limit (drop offset items), ip_total = length items, ip_limit = limit,
            ip_offset = offset, ip_has_more = offset + limit < length items\<rparr>)"

subsection \<open>Cancelling a job\<close>

record cancel_response =
  cn_status :: job_status
  cn_message :: string
  cn_cancelled :: bool

text \<open>The provider is created without a configuration; any failure counts as not cancelled.\<close>

definition cancel_with_provider :: "registry \<Rightarrow> batch_job \<Rightarrow> bool" where
  "cancel_with_provider reg job =
     (case j_provider_batch_id job of
        None \<Rightarrow> False
      | Some bid \<Rightarrow>
          if bid \<noteq> [] \<and> j_status job \<in> {SUBMITTED, IN_PROGRESS} then
            (case bind_result (create_provider (j_provider job) None reg) (\<lambda>ops. op_cancel ops bid) of
               Inl _ \<Rightarrow> False
             | Inr b \<Rightarrow> b)
          else False)"

definition api_cancel_batch_job ::
  "registry \<Rightarrow> exn + uuid \<Rightarrow> uuid \<Rightarrow> db \<Rightarrow> db \<times> (http_error + cancel_response)" where
  "api_cancel_batch_job reg user jid d =
     (case owned_job user jid ''Failed to cancel batch job: '' d of
        Inl e \<Rightarrow> (d, Inl e)
      | Inr job \<Rightarrow>
          if j_status job \<in> {COMPLETED, FAILED, CANCELLED} then
            (d, Inr \<lparr>cn_status = j_status job,
                     cn_message = ''Job is already '' @ job_status_value (j_status job) @
                       '' and cannot be cancelled'',
                     cn_cancelled = False\<rparr>)
          else
            let by_provider = cancel_with_provider reg job;
                uid = (case user of Inr u \<Rightarrow> Some u | Inl _ \<Rightarrow> None);
                note = (if by_provider then '' (provider cancellation succeeded)''
                        else if (case j_provider_batch_id job of None \<Rightarrow> False | Some b \<Rightarrow> b \<noteq> []) then
                          '' (local cancellation only - provider cancellation failed)''
                        else '' (local cancellation - job not yet submitted to provider)'')
            in (case update_batch_job jid (no_job_update\<lparr>u_status := Some CANCELLED\<rparr>) uid d of
                  (d, None) \<Rightarrow> (d, Inl (HTTPException 500 ''Failed to update job status''))
                | (d, Some _) \<Rightarrow>
                    (d, Inr \<lparr>cn_status = CANCELLED, cn_message = ''Job cancelled successfully'' @ note,
                             cn_cancelled = True\<rparr>)))"

end
