(* ===== verification/TaskFrames.thy ===== *)
theory TaskFrames
  imports BatchTasks
begin

text \<open>
  What the tasks of \<open>BatchTasks\<close> leave alone: the view of a job (its row and its items) under
  operations on other jobs, the integrity of the tables, and the counts. These lemmas carry the
  properties of the tasks and of the system of workers.
\<close>

named_theorems view \<open>the view of a job after an operation\<close>

definition job_items :: "uuid \<Rightarrow> db \<Rightarrow> batch_item list" where
  "job_items jid d = filter (\<lambda>i. i_batch_job_id i = jid) (db_items d)"

definition job_view :: "uuid \<Rightarrow> db \<Rightarrow> batch_job option \<times> batch_item list" where
  "job_view jid d = (get_batch_job jid d, job_items jid d)"

lemma job_view_eqD:
  "job_view k d = job_view k d' \<Longrightarrow> get_batch_job k d = get_batch_job k d'"
  "job_view k d = job_view k d' \<Longrightarrow> job_items k d = job_items k d'"
  by (simp_all add: job_view_def)

lemma job_view_cong:
  "db_jobs d' = db_jobs d \<Longrightarrow> db_items d' = db_items d \<Longrightarrow> job_view k d' = job_view k d"
  by (simp add: job_view_def job_items_def get_batch_job_def)

lemma get_batch_items_job_items:
  "get_batch_items jid None d = sort_key i_sequence_index (job_items jid d)"
  by (simp add: get_batch_items_def job_items_def)

lemma set_get_batch_items: "set (get_batch_items jid None d) = set (job_items jid d)"
  by (simp add: get_batch_items_job_items)

subsection \<open>Service operations\<close>

lemma view_semantic_event [view]: "job_view k (fst (create_semantic_event jid ty data by d)) = job_view k d"
  by (rule job_view_cong) (simp_all add: service)

lemma view_update_batch_job [view]:
  "k \<noteq> jid \<Longrightarrow> job_view k (fst (update_batch_job jid u by d)) = job_view k d"
  "job_items k (fst (update_batch_job jid u by d)) = job_items k d"
  by (simp_all add: job_view_def job_items_def service)

lemma view_write_job [view]:
  "k \<noteq> jid \<Longrightarrow> (\<And>j. j_id (f j) = j_id j) \<Longrightarrow> job_view k (write_job jid f d) = job_view k d"
  "job_items k (write_job jid f d) = job_items k d"
  by (simp_all add: job_view_def job_items_def service)

lemma filter_row_update:
  assumes "\<And>r. key r = k \<Longrightarrow> r \<in> set rows \<Longrightarrow> \<not> P r \<and> \<not> P (f r)"
  shows "filter P (row_update key k f rows) = filter P rows"
  using assms by (induction rows) (auto simp: row_update_def)

lemma view_update_batch_item [view]:
  assumes "db_ok d" and "\<And>i. row_find i_id iid (db_items d) = Some i \<Longrightarrow> i_batch_job_id i \<noteq> k"
  shows "job_view k (fst (update_batch_item iid u by d)) = job_view k d"
proof (cases "row_find i_id iid (db_items d)")
  case None
  then show ?thesis by (simp add: update_batch_item_cases)
next
  case (Some item)
  have dist: "distinct (map i_id (db_items d))" using assms(1) by (simp add: db_ok_def)
  have unique: "r = item" if "i_id r = iid" "r \<in> set (db_items d)" for r
    using row_find_distinct[OF dist that(2)] Some that(1) by simp
  have items: "job_items k (fst (update_batch_item iid u by d)) = job_items k d"
    unfolding job_items_def update_batch_item_frame
    by (rule filter_row_update) (use assms(2)[OF Some] unique in auto)
  have "get_batch_job k (update_job_counts_from_item_status_change (i_batch_job_id item) old new d') =
      get_batch_job k d'" for old new d'
    using assms(2)[OF Some]
    by (simp add: update_job_counts_from_item_status_change_def Let_def service update_counts_def
        split: option.split)
  then have "get_batch_job k (fst (update_batch_item iid u by d)) = get_batch_job k d"
    by (simp add: update_batch_item_cases(2)[OF Some] Let_def)
      (simp add: get_batch_job_def)
  with items show ?thesis by (simp add: job_view_def)
qed

lemma view_create_batch_job [view]:
  assumes "db_ok d" and "get_batch_job k d \<noteq> None"
  shows "job_view k (fst (create_batch_job data by d)) = job_view k d"
proof -
  have "k \<in> j_id ` set (db_jobs d)" using assms(2) by (simp add: get_batch_job_def row_find_None_iff)
  then have "k \<noteq> db_uuids d (db_uuid_count d)" using new_job_id[OF assms(1)] by metis
  then show ?thesis
    by (simp add: job_view_def job_items_def get_batch_job_def row_find_append row_find_Cons service
        split: option.split)
qed

lemma view_create_batch_items [view]:
  assumes "k \<noteq> jid"
  shows "job_view k (fst (create_batch_items jid ns by d)) = job_view k d"
proof (cases "get_batch_job jid d")
  case None
  then show ?thesis by (simp add: service)
next
  case (Some job)
  have new: "filter (\<lambda>i. i_batch_job_id i = k) (snd (add_items jid by ns d)) = []"
    using assms by (auto simp: filter_empty_conv add_items_snd new_item_def)
  have "get_batch_job k (fst (create_batch_items jid ns by d)) = get_batch_job k d"
    using assms Some
    by (simp add: create_batch_items_def case_prod_unfold Let_def service)
      (simp add: get_batch_job_def service)
  then show ?thesis using Some new by (simp add: job_view_def job_items_def service)
qed

lemma write_job_ok:
  assumes "\<And>j. j_id (f j) = j_id j" and "db_ok d"
  shows "db_ok (write_job jid f d)"
  by (rule db_ok_cong[OF assms(2)]) (simp_all add: service map_row_update_id assms(1))

lemma write_job_counts:
  assumes "\<And>j. job_tally (f j) = job_tally j" and "counts_ok d"
  shows "counts_ok (write_job jid f d)"
  by (rule counts_ok_cong[OF assms(2)]) (simp_all add: service map_row_update_id assms(1))

lemma set_metadata_fields [simp]: "j_id (set_metadata md j) = j_id j"
  "j_success_count (set_metadata md j) = j_success_count j"
  "j_error_count (set_metadata md j) = j_error_count j" "j_status (set_metadata md j) = j_status j"
  by (simp_all add: set_metadata_def)

subsection \<open>The pieces of the world\<close>

lemma world_simps [simp]:
  "w_db (on_db f w) = f (w_db w)" "w_queue (on_db f w) = w_queue w"
  "w_locks (on_db f w) = w_locks w" "w_in_progress (on_db f w) = w_in_progress w"
  "w_db (update_jobs_in_progress p n w) = w_db w" "w_queue (update_jobs_in_progress p n w) = w_queue w"
  "w_locks (update_jobs_in_progress p n w) = w_locks w"
  "w_db (fst (delay T m w)) = w_db w" "w_locks (fst (delay T m w)) = w_locks w"
  "w_in_progress (fst (delay T m w)) = w_in_progress w"
  "w_db (fst (self_retry mx mk r e w)) = w_db w" "w_locks (fst (self_retry mx mk r e w)) = w_locks w"
  "w_in_progress (fst (self_retry mx mk r e w)) = w_in_progress w"
  by (simp_all add: on_db_def update_jobs_in_progress_def delay_def self_retry_def split: option.split)

lemma queue_delay: "w_queue (fst (delay T m w)) = w_queue w @ (if te_broker T m = None then [m] else [])"
  by (simp add: delay_def split: option.split)

subsection \<open>Submit\<close>

definition stored_metadata :: "batch_job \<Rightarrow> submit_result \<Rightarrow> exn + (string \<times> json) list option" where
  "stored_metadata job r =
     (case sr_submission_metadata r of
        None \<Rightarrow> Inr None
      | Some sm \<Rightarrow> if sm = [] then Inr None
          else bind_result (store_submission_metadata (j_id job) sm (get_metadata job)) (\<lambda>md. Inr (Some md)))"

definition submitted_db :: "batch_job \<Rightarrow> submit_result \<Rightarrow> (string \<times> json) list option \<Rightarrow> db \<Rightarrow> db" where
  "submitted_db job r md d =
     fst (create_semantic_event (j_id job) SUBMITTED_EVENT
       (Some [(''provider_batch_id'', JStr (sr_provider_batch_id r)), (''item_count'', number (sr_item_count r))]) None
       (fst (update_batch_job (j_id job)
         (no_job_update\<lparr>u_status := Some SUBMITTED,
            u_provider_batch_id := Some (Some (sr_provider_batch_id r)),
            u_submitted_at := Some (Some (sr_submitted_at r))\<rparr>) None
         (case md of None \<Rightarrow> d | Some m \<Rightarrow> write_job (j_id job) (set_metadata m) d))))"

lemma record_submission_cases:
  "record_submission job r w =
     (case stored_metadata job r of
        Inl e \<Rightarrow> (w, Inl e)
      | Inr md \<Rightarrow>
          (update_jobs_in_progress (j_provider job) 1 (on_db (submitted_db job r md) w),
           Inr [(''job_id'', JStr (j_id job)), (''provider_batch_id'', JStr (sr_provider_batch_id r)),
                (''status'', JStr ''submitted''), (''item_count'', number (sr_item_count r))]))"
  by (auto simp: record_submission_def stored_metadata_def submitted_db_def Let_def on_db_def
      update_jobs_in_progress_def split: option.split sum.split)
    (auto simp: bind_result_Inr_iff bind_result_Inl_iff)

lemma submitted_db_view [view]: "k \<noteq> j_id job \<Longrightarrow> job_view k (submitted_db job r md d) = job_view k d"
  "job_items k (submitted_db job r md d) = job_items k d"
  by (cases md; simp add: submitted_db_def view job_items_def service)+

lemma submitted_db_ok: "db_ok d \<Longrightarrow> db_ok (submitted_db job r md d)"
  by (cases md) (simp_all add: submitted_db_def create_semantic_event_ok update_batch_job_ok write_job_ok)

lemma submitted_db_counts: "counts_ok d \<Longrightarrow> counts_ok (submitted_db job r md d)"
  by (cases md)
    (simp_all add: submitted_db_def create_semantic_event_ok update_batch_job_counts write_job_counts
      no_job_update_def)

text \<open>Every way the submit task can change the database.\<close>

lemma batch_submit_db:
  "w_db (fst (batch_submit T jid n w)) = w_db w \<or>
   (\<exists>job. get_batch_job jid (w_db w) = Some job \<and> j_status job = CREATED \<and>
     ((\<exists>r md. submit_to_provider T job (get_batch_items jid None (w_db w)) = Inr r \<and>
         w_db (fst (batch_submit T jid n w)) = submitted_db job r md (w_db w)) \<or>
      (\<exists>e. w_db (fst (batch_submit T jid n w)) = mark_failed jid e (w_db w))))"
proof (cases "get_batch_job jid (w_db w)")
  case None
  then show ?thesis by (simp add: batch_submit_def submit_body_def)
next
  case (Some job)
  consider "j_status job \<noteq> CREATED" | "get_batch_items jid None (w_db w) = []"
    | (e) e where "j_status job = CREATED" "submit_to_provider T job (get_batch_items jid None (w_db w)) = Inl e"
    | (r) r where "j_status job = CREATED" "get_batch_items jid None (w_db w) \<noteq> []"
        "submit_to_provider T job (get_batch_items jid None (w_db w)) = Inr r"
    by (cases "submit_to_provider T job (get_batch_items jid None (w_db w))") auto
  then show ?thesis
  proof cases
    case e
    then show ?thesis using Some
      by (cases e) (auto simp: batch_submit_def submit_body_def Let_def)
  next
    case r
    then show ?thesis using Some
      by (cases "stored_metadata job r")
        (auto simp: batch_submit_def submit_body_def Let_def record_submission_cases split: exn.split)
  qed (use Some in \<open>simp_all add: batch_submit_def submit_body_def Let_def\<close>)
qed

lemma mark_failed_view [view]: "k \<noteq> jid \<Longrightarrow> job_view k (mark_failed jid e d) = job_view k d"
  "job_items k (mark_failed jid e d) = job_items k d"
  by (simp_all add: mark_failed_def view)

lemma mark_failed_ok: "db_ok d \<Longrightarrow> db_ok (mark_failed jid e d)" "counts_ok d \<Longrightarrow> counts_ok (mark_failed jid e d)"
  by (simp_all add: mark_failed_def update_batch_job_ok update_batch_job_counts no_job_update_def)

lemma get_batch_job_id: "get_batch_job k d = Some job \<Longrightarrow> j_id job = k"
  unfolding get_batch_job_def by (rule row_find_key)

lemma batch_submit_view [view]:
  "k \<noteq> jid \<Longrightarrow> job_view k (w_db (fst (batch_submit T jid n w))) = job_view k (w_db w)"
  "job_items k (w_db (fst (batch_submit T jid n w))) = job_items k (w_db w)"
  using batch_submit_db[of T jid n w] by (auto simp: view dest: get_batch_job_id)

lemma batch_submit_ok:
  "db_ok (w_db w) \<Longrightarrow> db_ok (w_db (fst (batch_submit T jid n w)))"
  "counts_ok (w_db w) \<Longrightarrow> counts_ok (w_db (fst (batch_submit T jid n w)))"
  using batch_submit_db[of T jid n w]
  by (auto simp: submitted_db_ok submitted_db_counts mark_failed_ok)

lemma batch_submit_settled:
  assumes "get_batch_job jid (w_db w) = Some job" and "j_status job \<noteq> CREATED"
  shows "batch_submit T jid n w = (w, Returned [(''job_id'', JStr jid),
    (''status'', JStr (job_status_value (j_status job))), (''message'', JStr ''Job already submitted'')])"
  using assms by (simp add: batch_submit_def submit_body_def)

subsection \<open>Poll\<close>

text \<open>
  What a poll decides about a job, as a function of the job, the provider's answer and the
  time: the exception it ends with, no change, or an update.
\<close>

definition status_update :: "job_status \<Rightarrow> int \<Rightarrow> job_update" where
  "status_update new_status now =
     (if new_status \<in> {COMPLETED, FAILED}
      then no_job_update\<lparr>u_status := Some new_status, u_completed_at := Some (Some (Aware now))\<rparr>
      else no_job_update\<lparr>u_status := Some new_status\<rparr>)"

lemma status_update_status: "u_status (status_update s now) = Some s"
  by (simp add: status_update_def)

definition poll_failure_update :: "exn \<Rightarrow> int \<Rightarrow> job_update" where
  "poll_failure_update e now =
     no_job_update\<lparr>u_status := Some FAILED, u_error_summary := Some (Some (exn_str e)),
       u_completed_at := Some (Some (Aware now))\<rparr>"

definition polled_status :: "task_env \<Rightarrow> batch_job \<Rightarrow> exn + job_status" where
  "polled_status T job =
     bind_result (bind_result (task_provider T (j_provider job)) (\<lambda>ops. op_poll ops (batch_id_text job))) (\<lambda>st.
       case job_status_of (st_normalized_status st) of
         None \<Rightarrow> Inl (ValueError (py_quote (st_normalized_status st) @ '' is not a valid BatchJobStatus''))
       | Some s \<Rightarrow> Inr s)"

definition job_start :: "task_env \<Rightarrow> batch_job \<Rightarrow> datetime" where
  "job_start T job = te_load_time T (case j_submitted_at job of Some t \<Rightarrow> t | None \<Rightarrow> j_created_at job)"

definition completion_check :: "task_env \<Rightarrow> batch_job \<Rightarrow> job_status \<Rightarrow> int \<Rightarrow> exn + unit" where
  "completion_check T job new_status now =
     (if new_status \<in> {COMPLETED, FAILED} then
        bind_result (dt_minus (Aware now) (job_start T job)) (\<lambda>_.
          if new_status = COMPLETED then
            (case te_broker T (FetchMessage (j_id job) 0) of None \<Rightarrow> Inr () | Some e \<Rightarrow> Inl e)
          else Inr ())
      else Inr ())"

definition poll_decision :: "task_env \<Rightarrow> batch_job \<Rightarrow> int \<Rightarrow> exn + job_update option" where
  "poll_decision T job now =
     bind_result (polled_status T job) (\<lambda>s.
       if s = j_status job then Inr None
       else bind_result (completion_check T job s now) (\<lambda>_. Inr (Some (status_update s now))))"

definition poll_update :: "task_env \<Rightarrow> batch_job \<Rightarrow> int \<Rightarrow> job_update option" where
  "poll_update T job now =
     (case poll_decision T job now of
        Inr u \<Rightarrow> u
      | Inl (ProviderPermanentError m) \<Rightarrow> Some (poll_failure_update (ProviderPermanentError m) now)
      | Inl _ \<Rightarrow> None)"

definition schedules_fetch :: "task_env \<Rightarrow> batch_job \<Rightarrow> int \<Rightarrow> bool" where
  "schedules_fetch T job now \<longleftrightarrow>
     (case poll_decision T job now of
        Inr (Some u) \<Rightarrow> u_status u = Some COMPLETED
      | _ \<Rightarrow> False)"

definition updated_db :: "batch_job \<Rightarrow> job_update option \<Rightarrow> db \<Rightarrow> db" where
  "updated_db job u d = (case u of None \<Rightarrow> d | Some u \<Rightarrow> fst (update_batch_job (j_id job) u None d))"

lemma complete_polled_job_cases:
  "w_db (fst (complete_polled_job T job s w)) = w_db w"
  "w_locks (fst (complete_polled_job T job s w)) = w_locks w"
  "s \<in> {COMPLETED, FAILED} \<Longrightarrow> snd (complete_polled_job T job s w) = completion_check T job s (db_clock (w_db w))"
  "s \<in> {COMPLETED, FAILED} \<Longrightarrow> w_queue (fst (complete_polled_job T job s w)) = w_queue w @
     (if s = COMPLETED \<and> completion_check T job s (db_clock (w_db w)) = Inr () then [FetchMessage (j_id job) 0] else [])"
  by (auto simp: complete_polled_job_def completion_check_def job_start_def Let_def delay_def
      split: sum.split option.split)

lemma poll_attempt_cases:
  fixes w :: world
  defines "now \<equiv> db_clock (w_db w)"
  shows "w_db (fst (fst (poll_attempt T job w a))) =
      (case poll_decision T job now of Inr u \<Rightarrow> updated_db job u (w_db w) | Inl _ \<Rightarrow> w_db w)"
    and "w_locks (fst (fst (poll_attempt T job w a))) = w_locks w"
    and "w_queue (fst (fst (poll_attempt T job w a))) =
      w_queue w @ (if schedules_fetch T job now then [FetchMessage (j_id job) 0] else [])"
    and "snd (poll_attempt T job w a) = bind_result (poll_decision T job now) (\<lambda>_. Inr ())"
proof -
  let ?p = "bind_result (task_provider T (j_provider job)) (\<lambda>ops. op_poll ops (batch_id_text job))"
  have all: "w_db (fst (fst (poll_attempt T job w a))) =
      (case poll_decision T job now of Inr u \<Rightarrow> updated_db job u (w_db w) | Inl _ \<Rightarrow> w_db w) \<and>
    w_locks (fst (fst (poll_attempt T job w a))) = w_locks w \<and>
    w_queue (fst (fst (poll_attempt T job w a))) =
      w_queue w @ (if schedules_fetch T job now then [FetchMessage (j_id job) 0] else []) \<and>
    snd (poll_attempt T job w a) = bind_result (poll_decision T job now) (\<lambda>_. Inr ())"
  proof (cases "polled_status T job")
    case (Inl e)
    then show ?thesis
      by (cases ?p; cases "job_status_of (st_normalized_status (projr ?p))")
        (auto simp: poll_attempt_def polled_status_def poll_decision_def schedules_fetch_def)
  next
    case (Inr s)
    then obtain st where st: "?p = Inr st" "job_status_of (st_normalized_status st) = Some s"
      by (cases ?p) (auto simp: polled_status_def split: option.split_asm)
    have none: "completion_check T job s now = Inr ()" if "s \<notin> {COMPLETED, FAILED}"
      using that by (simp add: completion_check_def)
    obtain w1 r where c: "complete_polled_job T job s w = (w1, r)" by fastforce
    note cs = complete_polled_job_cases[where T = T and job = job and s = s and w = w, unfolded c fst_conv snd_conv, folded now_def]
    have same: ?thesis if "s = j_status job"
      using that Inr st by (simp add: poll_attempt_def poll_decision_def schedules_fetch_def updated_db_def Let_def)
    have early: ?thesis if "s \<noteq> j_status job" "s \<notin> {COMPLETED, FAILED}"
      using that Inr st none
      by (simp add: poll_attempt_def poll_decision_def schedules_fetch_def status_update_status
          status_update_def updated_db_def Let_def)
    have finished: ?thesis if "s \<noteq> j_status job" "s \<in> {COMPLETED, FAILED}"
    proof (cases r)
      case (Inl e)
      then have "completion_check T job s now = Inl e" using cs(3) that(2) by metis
      then have "poll_decision T job now = Inl e"
        using that(1) \<open>polled_status T job = Inr s\<close> by (simp add: poll_decision_def)
      then show ?thesis using that Inl st c cs
        by (simp add: poll_attempt_def schedules_fetch_def Let_def now_def)
    next
      case (Inr u)
      then have "completion_check T job s now = Inr u" using cs(3) that(2) by metis
      then have "poll_decision T job now = Inr (Some (status_update s now))"
        using that(1) \<open>polled_status T job = Inr s\<close> by (simp add: poll_decision_def)
      then show ?thesis using that Inr st c cs
        by (simp add: poll_attempt_def schedules_fetch_def Let_def now_def updated_db_def
            status_update_status) (simp add: status_update_def)
    qed
    show ?thesis using same early finished by blast
  qed
  then show "w_db (fst (fst (poll_attempt T job w a))) =
      (case poll_decision T job now of Inr u \<Rightarrow> updated_db job u (w_db w) | Inl _ \<Rightarrow> w_db w)"
    and "w_locks (fst (fst (poll_attempt T job w a))) = w_locks w"
    and "w_queue (fst (fst (poll_attempt T job w a))) =
      w_queue w @ (if schedules_fetch T job now then [FetchMessage (j_id job) 0] else [])"
    and "snd (poll_attempt T job w a) = bind_result (poll_decision T job now) (\<lambda>_. Inr ())"
    by blast+
qed

lemma poll_job_cases:
  fixes w :: world
  defines "now \<equiv> db_clock (w_db w)"
  shows "w_db (fst (poll_job T (w, a) job)) = updated_db job (poll_update T job now) (w_db w)"
    and "w_locks (fst (poll_job T (w, a) job)) = w_locks w"
    and "w_queue (fst (poll_job T (w, a) job)) =
      w_queue w @ (if schedules_fetch T job now then [FetchMessage (j_id job) 0] else [])"
proof -
  obtain w1 a1 r where p: "poll_attempt T job w (add_stats (j_provider job) 0 0 0 a) = ((w1, a1), r)"
    by (metis prod.collapse)
  note pc = poll_attempt_cases[of T job w "add_stats (j_provider job) 0 0 0 a", unfolded p fst_conv snd_conv, folded now_def]
  have clock: "db_clock (w_db w1) = now" if "r = Inl e" for e
    using that pc by (cases "poll_decision T job now") (auto simp: now_def)
  have all: "w_db (fst (poll_job T (w, a) job)) = updated_db job (poll_update T job now) (w_db w) \<and>
    w_locks (fst (poll_job T (w, a) job)) = w_locks w \<and>
    w_queue (fst (poll_job T (w, a) job)) =
      w_queue w @ (if schedules_fetch T job now then [FetchMessage (j_id job) 0] else [])"
  proof (cases "poll_decision T job now")
    case (Inl e)
    then show ?thesis using pc p clock
      by (cases e) (auto simp: poll_job_def Let_def poll_update_def updated_db_def poll_failure_update_def)
  next
    case (Inr u)
    then show ?thesis using pc p by (auto simp: poll_job_def Let_def poll_update_def)
  qed
  then show "w_db (fst (poll_job T (w, a) job)) = updated_db job (poll_update T job now) (w_db w)"
    and "w_locks (fst (poll_job T (w, a) job)) = w_locks w"
    and "w_queue (fst (poll_job T (w, a) job)) =
      w_queue w @ (if schedules_fetch T job now then [FetchMessage (j_id job) 0] else [])"
    by blast+
qed

lemma updated_db_clock [simp]: "db_clock (updated_db job u d) = db_clock d"
  by (simp add: updated_db_def service split: option.split)

lemma updated_db_view [view]:
  "k \<noteq> j_id job \<Longrightarrow> job_view k (updated_db job u d) = job_view k d"
  "job_items k (updated_db job u d) = job_items k d"
  by (simp_all add: updated_db_def view split: option.split)

lemma poll_updates_no_counts:
  "poll_update T job now = Some u \<Longrightarrow> u_success_count u = None \<and> u_error_count u = None"
  by (auto simp: poll_update_def poll_decision_def poll_failure_update_def status_update_def
      no_job_update_def bind_result_Inr_iff split: sum.split_asm exn.split_asm if_split_asm)

lemma updated_db_ok:
  "db_ok d \<Longrightarrow> db_ok (updated_db job u d)"
  "counts_ok d \<Longrightarrow> counts_ok (updated_db job (poll_update T job now) d)"
  by (auto simp: updated_db_def update_batch_job_ok update_batch_job_counts split: option.split
      dest: poll_updates_no_counts)

text \<open>A cycle over several jobs: what is decided about one does not depend on the others.\<close>

definition poll_all :: "task_env \<Rightarrow> batch_job list \<Rightarrow> int \<Rightarrow> db \<Rightarrow> db" where
  "poll_all T jobs now d = foldl (\<lambda>d job. updated_db job (poll_update T job now) d) d jobs"

lemma poll_all_clock [simp]: "db_clock (poll_all T jobs now d) = db_clock d"
  by (induction jobs arbitrary: d) (simp_all add: poll_all_def)

lemma poll_cycle_cases:
  fixes w :: world
  defines "now \<equiv> db_clock (w_db w)"
  shows "w_db (fst (foldl (poll_job T) (w, a) jobs)) = poll_all T jobs now (w_db w)"
    and "w_locks (fst (foldl (poll_job T) (w, a) jobs)) = w_locks w"
    and "w_queue (fst (foldl (poll_job T) (w, a) jobs)) =
      w_queue w @ map (\<lambda>j. FetchMessage (j_id j) 0) (filter (\<lambda>j. schedules_fetch T j now) jobs)"
proof -
  have "w_db (fst (foldl (poll_job T) (w, a) jobs)) = poll_all T jobs (db_clock (w_db w)) (w_db w) \<and>
    w_locks (fst (foldl (poll_job T) (w, a) jobs)) = w_locks w \<and>
    w_queue (fst (foldl (poll_job T) (w, a) jobs)) =
      w_queue w @ map (\<lambda>j. FetchMessage (j_id j) 0) (filter (\<lambda>j. schedules_fetch T j (db_clock (w_db w))) jobs)"
  proof (induction jobs arbitrary: w a)
    case Nil
    then show ?case by (simp add: poll_all_def)
  next
    case (Cons job jobs)
    obtain w1 a1 where p: "poll_job T (w, a) job = (w1, a1)" by fastforce
    note pc = poll_job_cases[of T w a job, unfolded p fst_conv]
    show ?case
      using Cons[of w1 a1] by (simp add: p pc poll_all_def)
  qed
  then show "w_db (fst (foldl (poll_job T) (w, a) jobs)) = poll_all T jobs now (w_db w)"
    and "w_locks (fst (foldl (poll_job T) (w, a) jobs)) = w_locks w"
    and "w_queue (fst (foldl (poll_job T) (w, a) jobs)) =
      w_queue w @ map (\<lambda>j. FetchMessage (j_id j) 0) (filter (\<lambda>j. schedules_fetch T j now) jobs)"
    by (auto simp: now_def)
qed

lemma poll_all_view:
  "distinct (map j_id jobs) \<Longrightarrow>
   job_view k (poll_all T jobs now d) =
     (case row_find j_id k jobs of
        None \<Rightarrow> job_view k d
      | Some job \<Rightarrow> job_view k (updated_db job (poll_update T job now) d))"
proof (induction jobs arbitrary: d)
  case Nil
  then show ?case by (simp add: poll_all_def)
next
  case (Cons job jobs)
  let ?d = "updated_db job (poll_update T job now) d"
  have step: "poll_all T (job # jobs) now d = poll_all T jobs now ?d" by (simp add: poll_all_def)
  have rest: "job_view k (updated_db j (poll_update T j now) ?d) =
      job_view k (updated_db j (poll_update T j now) d)" if "k \<noteq> j_id job" for j
    using that
    by (cases "k = j_id j"; cases "poll_update T j now")
      (simp_all add: view, auto simp: updated_db_def job_view_def service view dest: job_view_eqD
        split: option.split)
  show ?case
  proof (cases "k = j_id job")
    case True
    then have "row_find j_id k jobs = None" using Cons.prems by (simp add: row_find_None_iff)
    then show ?thesis using Cons True by (simp add: step row_find_Cons)
  next
    case False
    then show ?thesis
      using Cons by (auto simp: step row_find_Cons rest view split: option.split)
  qed
qed

lemma poll_all_ok:
  "db_ok d \<Longrightarrow> db_ok (poll_all T jobs now d)"
  "counts_ok d \<Longrightarrow> counts_ok (poll_all T jobs now d)"
  by (induction jobs arbitrary: d) (auto simp: poll_all_def updated_db_ok)

lemma poll_all_items [view]: "job_items k (poll_all T jobs now d) = job_items k d"
  by (induction jobs arbitrary: d) (simp_all add: poll_all_def view)

lemma poll_body_cases:
  "w_db (fst (poll_body T w)) = poll_all T (jobs_to_poll (w_db w)) (db_clock (w_db w)) (w_db w)"
  "w_queue (fst (poll_body T w)) =
     w_queue w @ map (\<lambda>j. FetchMessage (j_id j) 0)
       (filter (\<lambda>j. schedules_fetch T j (db_clock (w_db w))) (jobs_to_poll (w_db w)))"
  "w_locks (fst (poll_body T w)) = w_locks w"
  using poll_cycle_cases[of T w "\<lparr>pa_polled = 0, pa_changes = 0, pa_stats = []\<rparr>" "jobs_to_poll (w_db w)"]
  by (auto simp: poll_body_def Let_def case_prod_unfold poll_all_def)

subsection \<open>Fetch\<close>

definition fetched_item :: "(string \<Rightarrow> result_row option) \<Rightarrow> batch_item \<Rightarrow> batch_item" where
  "fetched_item m i =
     (case m (i_id i) of
        None \<Rightarrow> i | Some r \<Rightarrow> (apply_item_update (result_update r) i)\<lparr>i_updated_by := None\<rparr>)"

definition row_succeeded :: "(string \<Rightarrow> result_row option) \<Rightarrow> batch_item \<Rightarrow> bool" where
  "row_succeeded m i \<longleftrightarrow> (case m (i_id i) of None \<Rightarrow> False | Some r \<Rightarrow> rr_is_success r)"

definition row_failed :: "(string \<Rightarrow> result_row option) \<Rightarrow> batch_item \<Rightarrow> bool" where
  "row_failed m i \<longleftrightarrow> (case m (i_id i) of None \<Rightarrow> False | Some r \<Rightarrow> \<not> rr_is_success r)"

lemma result_update_status: "v_status (result_update r) = Some (if rr_is_success r then ItemCOMPLETED else ItemFAILED)"
  by (simp add: result_update_def)

lemma fetched_item_simps [simp]:
  "i_id (fetched_item m i) = i_id i" "i_batch_job_id (fetched_item m i) = i_batch_job_id i"
  "i_sequence_index (fetched_item m i) = i_sequence_index i"
  "i_status (fetched_item m i) =
     (if row_succeeded m i then ItemCOMPLETED else if row_failed m i then ItemFAILED else i_status i)"
  by (auto simp: fetched_item_def row_succeeded_def row_failed_def result_update_status split: option.split)

text \<open>The status of a job under item updates: kept, or completed.\<close>

definition status_of :: "uuid \<Rightarrow> db \<Rightarrow> job_status option" where
  "status_of jid d = map_option j_status (get_batch_job jid d)"

lemma status_of_update_batch_item:
  assumes "status_of jid d = Some COMPLETED"
  shows "status_of jid (fst (update_batch_item iid u by d)) = Some COMPLETED"
proof -
  have "status_of jid (update_job_counts_from_item_status_change k old new d') = Some COMPLETED"
    if "status_of jid d' = Some COMPLETED" for k old new d'
  proof -
    obtain job where "get_batch_job jid d' = Some job" "j_status job = COMPLETED"
      using \<open>status_of jid d' = Some COMPLETED\<close> by (auto simp: status_of_def)
    then show ?thesis
      by (cases "k = jid"; cases "get_batch_job k d'")
        (simp_all add: status_of_def update_job_counts_from_item_status_change_def Let_def service update_counts_def)
  qed
  moreover have "status_of jid (d\<lparr>db_items := xs\<rparr>) = status_of jid d" for xs
    by (simp add: status_of_def get_batch_job_def)
  ultimately show ?thesis
    using assms
    by (cases "row_find i_id iid (db_items d)") (simp_all add: update_batch_item_cases Let_def)
qed

lemma apply_results_cases:
  fixes m :: "string \<Rightarrow> result_row option" and d :: db
  assumes "distinct (map i_id items)" and "db_ok d"
  defines "d' \<equiv> fst (apply_results m items d)"
  shows "db_items d' =
      map (\<lambda>i. if i_id i \<in> i_id ` set items then fetched_item m i else i) (db_items d)"
    and "snd (apply_results m items d) =
      (length (filter (row_succeeded m) items), length (filter (row_failed m) items))"
    and "db_ok d'" and "counts_ok d \<Longrightarrow> counts_ok d'"
    and "status_of jid d = Some COMPLETED \<Longrightarrow> status_of jid d' = Some COMPLETED"
    and "db_events d' = db_events d" and "db_clock d' = db_clock d"
proof -
  have "db_items (fst (apply_results m items d)) =
      map (\<lambda>i. if i_id i \<in> i_id ` set items then fetched_item m i else i) (db_items d) \<and>
    snd (apply_results m items d) =
      (length (filter (row_succeeded m) items), length (filter (row_failed m) items)) \<and>
    db_ok (fst (apply_results m items d)) \<and> (counts_ok d \<longrightarrow> counts_ok (fst (apply_results m items d))) \<and>
    (status_of jid d = Some COMPLETED \<longrightarrow> status_of jid (fst (apply_results m items d)) = Some COMPLETED) \<and>
    db_events (fst (apply_results m items d)) = db_events d \<and>
    db_clock (fst (apply_results m items d)) = db_clock d"
    using assms(1,2)
  proof (induction items arbitrary: d)
    case Nil
    then show ?case by simp
  next
    case (Cons i "is")
    show ?case
    proof (cases "m (i_id i)")
      case None
      have "(if i_id x \<in> i_id ` set (i # is) then fetched_item m x else x) =
          (if i_id x \<in> i_id ` set is then fetched_item m x else x)" for x
        using None by (auto simp: fetched_item_def)
      moreover have "\<not> row_succeeded m i" "\<not> row_failed m i"
        using None by (simp_all add: row_succeeded_def row_failed_def)
      ultimately show ?thesis using Cons None by simp
    next
      case (Some r)
      let ?d = "fst (update_batch_item (i_id i) (result_update r) None d)"
      obtain d1 s e where ar: "apply_results m is ?d = (d1, s, e)" by (metis prod_cases3)
      have IH: "db_items d1 = map (\<lambda>i. if i_id i \<in> i_id ` set is then fetched_item m i else i) (db_items ?d)"
        "s = length (filter (row_succeeded m) is)" "e = length (filter (row_failed m) is)" "db_ok d1"
        "counts_ok ?d \<Longrightarrow> counts_ok d1"
        "status_of jid ?d = Some COMPLETED \<Longrightarrow> status_of jid d1 = Some COMPLETED"
        "db_events d1 = db_events ?d" "db_clock d1 = db_clock ?d"
        using Cons.IH[of ?d] Cons.prems by (simp_all add: ar update_batch_item_ok)
      have upd: "fetched_item m x = (apply_item_update (result_update r) x)\<lparr>i_updated_by := None\<rparr>"
        if "i_id x = i_id i" for x
        using that Some by (simp add: fetched_item_def)
      have items: "db_items d1 =
          map (\<lambda>x. if i_id x \<in> i_id ` set (i # is) then fetched_item m x else x) (db_items d)"
        using Cons.prems(1) by (auto simp: IH(1) service row_update_def upd)
      have outcome: "row_succeeded m i = rr_is_success r" "row_failed m i = (\<not> rr_is_success r)"
        using Some by (simp_all add: row_succeeded_def row_failed_def)
      have snd: "fst (apply_results m (i # is) d) = d1"
        "snd (apply_results m (i # is) d) = (if rr_is_success r then (Suc s, e) else (s, Suc e))"
        using Some by (simp_all add: ar)
      have "counts_ok d \<longrightarrow> counts_ok d1"
        using IH(5) update_batch_item_counts Cons.prems(2) by blast
      moreover have "status_of jid d = Some COMPLETED \<longrightarrow> status_of jid d1 = Some COMPLETED"
        using IH(6) status_of_update_batch_item by blast
      ultimately show ?thesis
        unfolding snd using items IH(2-4,7,8) outcome by (simp add: service)
    qed
  qed
  then show "db_items d' = map (\<lambda>i. if i_id i \<in> i_id ` set items then fetched_item m i else i) (db_items d)"
    and "snd (apply_results m items d) =
      (length (filter (row_succeeded m) items), length (filter (row_failed m) items))"
    and "db_ok d'" and "counts_ok d \<Longrightarrow> counts_ok d'"
    and "status_of jid d = Some COMPLETED \<Longrightarrow> status_of jid d' = Some COMPLETED"
    and "db_events d' = db_events d" and "db_clock d' = db_clock d"
    by (auto simp: d'_def)
qed

lemma get_batch_items_distinct: "db_ok d \<Longrightarrow> distinct (map i_id (get_batch_items jid None d))"
  by (simp add: get_batch_items_job_items job_items_def db_ok_def distinct_map_filter distinct_map
      inj_on_def)

lemma apply_results_view [view]:
  assumes "db_ok d" and "k \<noteq> jid" and "\<And>i. i \<in> set items \<Longrightarrow> i \<in> set (db_items d) \<and> i_batch_job_id i = jid"
  shows "job_view k (fst (apply_results m items d)) = job_view k d"
proof -
  have "job_view k (fst (apply_results m items d)) = job_view k d"
    if "db_ok d" "\<And>i. i \<in> set items \<Longrightarrow> \<exists>x\<in>set (db_items d). i_id x = i_id i \<and> i_batch_job_id x = jid" for d
    using that
  proof (induction items arbitrary: d)
    case Nil
    then show ?case by simp
  next
    case (Cons i "is")
    show ?case
    proof (cases "m (i_id i)")
      case None
      then show ?thesis using Cons by simp
    next
      case (Some r)
      let ?d = "fst (update_batch_item (i_id i) (result_update r) None d)"
      have "job_view k ?d = job_view k d"
      proof (rule view_update_batch_item[OF Cons.prems(1)])
        fix x assume x: "row_find i_id (i_id i) (db_items d) = Some x"
        obtain y where y: "y \<in> set (db_items d)" "i_id y = i_id i" "i_batch_job_id y = jid"
          using Cons.prems(2)[of i] by auto
        have "row_find i_id (i_id y) (db_items d) = Some y"
          using Cons.prems(1) y(1) by (intro row_find_distinct) (auto simp: db_ok_def)
        then show "i_batch_job_id x \<noteq> k" using x y assms(2) by simp
      qed
      moreover have "\<exists>x\<in>set (db_items ?d). i_id x = i_id j \<and> i_batch_job_id x = jid" if "j \<in> set is" for j
      proof -
        obtain y where y: "y \<in> set (db_items d)" "i_id y = i_id j" "i_batch_job_id y = jid"
          using Cons.prems(2)[of j] \<open>j \<in> set is\<close> by auto
        have mem: "(if i_id y = i_id i then (apply_item_update (result_update r) y)\<lparr>i_updated_by := None\<rparr> else y)
            \<in> set (db_items ?d)"
          using y(1) unfolding update_batch_item_frame row_update_def by auto
        show ?thesis by (rule bexI[OF _ mem]) (use y in simp)
      qed
      ultimately show ?thesis
        using Cons.IH[of ?d] Cons.prems(1) Some
        by (simp add: update_batch_item_ok case_prod_unfold)
    qed
  qed
  then show ?thesis using assms(1,3) by blast
qed

definition fetched_db :: "uuid \<Rightarrow> (string \<Rightarrow> result_row option) \<Rightarrow> db \<Rightarrow> db" where
  "fetched_db jid m d =
     (let items = get_batch_items jid None d;
          (d, successes, errors) = apply_results m items d
      in fst (create_semantic_event jid FETCH_COMPLETED
           (Some [(''success_count'', number successes), (''error_count'', number errors),
                  (''total_items'', number (length items))]) None
           (fst (update_batch_job jid
             (no_job_update\<lparr>u_success_count := Some (int successes), u_error_count := Some (int errors)\<rparr>) None d))))"

text \<open>Every way the fetch task can change the database.\<close>

definition fetches :: "task_env \<Rightarrow> batch_job \<Rightarrow> db \<Rightarrow> exn + (string \<Rightarrow> result_row option)" where
  "fetches T job d =
     bind_result (task_provider T (j_provider job)) (\<lambda>ops.
     bind_result (op_fetch ops (batch_id_text job)) (\<lambda>rows.
       Inr (results_map (remap_gemini T job rows))))"

lemma fetch_body_cases:
  "w_db (fst (fetch_body T jid w)) = w_db w \<and> fst (fetch_body T jid w) = w \<or>
   (\<exists>job m. get_batch_job jid (w_db w) = Some job \<and> j_status job = COMPLETED \<and>
      fetches T job (w_db w) = Inr m \<and> fst (fetch_body T jid w) = on_db (\<lambda>_. fetched_db jid m (w_db w)) w)"
proof (cases "get_batch_job jid (w_db w)")
  case None
  then show ?thesis by (simp add: fetch_body_def)
next
  case (Some job)
  let ?f = "bind_result (task_provider T (j_provider job)) (\<lambda>ops. op_fetch ops (batch_id_text job))"
  show ?thesis
  proof (cases ?f)
    case (Inl e)
    then show ?thesis using Some by (simp add: fetch_body_def Let_def)
  next
    case (Inr rows)
    then have "fetches T job (w_db w) = Inr (results_map (remap_gemini T job rows))"
      by (auto simp: fetches_def bind_result_Inr_iff)
    then show ?thesis using Some Inr
      by (simp add: fetch_body_def Let_def fetched_db_def case_prod_unfold)
  qed
qed

lemma batch_fetch_db: "w_db (fst (batch_fetch T jid n w)) = w_db (fst (fetch_body T jid w))"
  by (auto simp: batch_fetch_def split: prod.split sum.split exn.split)

lemma fetched_db_view [view]:
  assumes "db_ok d" and "k \<noteq> jid"
  shows "job_view k (fetched_db jid m d) = job_view k d"
proof -
  have "i \<in> set (db_items d) \<and> i_batch_job_id i = jid" if "i \<in> set (get_batch_items jid None d)" for i
    using that by (auto simp: get_batch_items_job_items job_items_def)
  then show ?thesis
    using assms by (simp add: fetched_db_def Let_def case_prod_unfold view)
qed

lemma fetched_db_ok: "db_ok d \<Longrightarrow> db_ok (fetched_db jid m d)"
  by (simp add: fetched_db_def Let_def case_prod_unfold create_semantic_event_ok update_batch_job_ok
      apply_results_cases(3) get_batch_items_distinct)

lemma fetched_db_items: "db_ok d \<Longrightarrow> job_items jid (fetched_db jid m d) = map (fetched_item m) (job_items jid d)"
proof -
  assume ok: "db_ok d"
  have "job_items jid (fetched_db jid m d) = filter (\<lambda>i. i_batch_job_id i = jid)
     (map (\<lambda>i. if i_id i \<in> i_id ` set (get_batch_items jid None d) then fetched_item m i else i) (db_items d))"
    by (simp add: fetched_db_def Let_def case_prod_unfold view job_items_def service
        apply_results_cases(1)[OF get_batch_items_distinct[OF ok] ok])
  also have "\<dots> = map (fetched_item m) (job_items jid d)"
  proof -
    have "i_id i \<in> i_id ` set (get_batch_items jid None d)" if "i \<in> set (db_items d)" "i_batch_job_id i = jid" for i
      using that by (auto simp: get_batch_items_job_items job_items_def)
    then show ?thesis
      unfolding job_items_def filter_map comp_def
      by (intro map_cong filter_cong) (auto intro!: filter_cong)
  qed
  finally show ?thesis .
qed

lemma fetched_db_job:
  fixes m :: "string \<Rightarrow> result_row option" and d :: db
  assumes "db_ok d" and "get_batch_job jid d = Some job" and "j_status job = COMPLETED"
  defines "n \<equiv> length (filter (row_succeeded m) (job_items jid d))"
    and "k \<equiv> length (filter (row_failed m) (job_items jid d))"
  shows "\<exists>job'. get_batch_job jid (fetched_db jid m d) = Some job' \<and> j_status job' = COMPLETED \<and>
     j_success_count job' = int n \<and> j_error_count job' = int k"
proof -
  let ?items = "get_batch_items jid None d" let ?d = "fst (apply_results m ?items d)"
  note ar = apply_results_cases[OF get_batch_items_distinct[OF assms(1)] assms(1), where m = m]
  have len: "length (filter P ?items) = length (filter P (job_items jid d))" for P
    by (simp add: get_batch_items_job_items filter_sort)
  obtain job1 where "get_batch_job jid ?d = Some job1" "j_status job1 = COMPLETED"
    using ar(5) assms(2,3) by (auto simp: status_of_def)
  then show ?thesis
    by (simp add: fetched_db_def Let_def case_prod_unfold ar(2) len n_def k_def service
        get_batch_job_cong[OF create_semantic_event_frame(1)] no_job_update_def)
qed

subsection \<open>Dispatch, retry of failed items, locks\<close>

lemma dispatch_jobs_cases:
  defines "ok \<equiv> \<lambda>T j. te_broker T (SubmitMessage (j_id j) 0) = None"
  shows "dispatch_jobs T jobs w =
    (w\<lparr>w_queue := w_queue w @ map (\<lambda>j. SubmitMessage (j_id j) 0) (filter (ok T) jobs)\<rparr>,
     length (filter (ok T) jobs), length (filter (\<lambda>j. \<not> ok T j) jobs))"
  by (induction jobs arbitrary: w) (auto simp: delay_def ok_def split: option.split)

lemma with_lock_cases:
  "with_lock key ttl skipped body w =
     (if lock_held (w_locks w) key (db_clock (w_db w)) then (w, skipped)
      else let (w', r) = body (w\<lparr>w_locks := (w_locks w)(key \<mapsto> db_clock (w_db w) + ttl)\<rparr>)
           in (w'\<lparr>w_locks := (w_locks w')(key := None)\<rparr>, r))"
  by (simp add: with_lock_def redis_set_nx_def redis_delete_def Let_def case_prod_unfold)

lemma batch_dispatch_db [view]: "w_db (fst (batch_dispatch T w)) = w_db w"
  by (auto simp: batch_dispatch_def with_lock_cases dispatch_jobs_cases Let_def)

lemma batch_poll_db:
  "w_db (fst (batch_poll T w)) = w_db w \<or>
   w_db (fst (batch_poll T w)) = poll_all T (jobs_to_poll (w_db w)) (db_clock (w_db w)) (w_db w)"
  using poll_body_cases(1)[of T "w\<lparr>w_locks := (w_locks w)(BATCH_POLL_LOCK_KEY \<mapsto> db_clock (w_db w) + BATCH_POLL_LOCK_TIMEOUT)\<rparr>"]
  by (simp add: batch_poll_def with_lock_cases Let_def case_prod_unfold)

definition retry_create :: "batch_job \<Rightarrow> nat \<Rightarrow> job_create" where
  "retry_create original n =
     \<lparr>c_provider = j_provider original, c_model = j_model original, c_mode = j_mode original,
      c_request_count = int n, c_config_json = j_config_json original\<rparr>"

definition failed_items :: "uuid \<Rightarrow> db \<Rightarrow> batch_item list" where
  "failed_items jid d = filter (\<lambda>i. i_status i = ItemFAILED) (get_batch_items jid None d)"

definition retried_db :: "batch_job \<Rightarrow> batch_item list \<Rightarrow> db \<Rightarrow> db" where
  "retried_db original failed d =
     (let (d, job) = create_batch_job (retry_create original (length failed)) None d
      in fst (create_batch_items (j_id job) (map retry_item (enumerate 0 failed)) None d))"

lemma new_job_found:
  assumes "db_ok d"
  shows "get_batch_job (db_uuids d (db_uuid_count d)) (fst (create_batch_job data by d)) =
    Some (snd (create_batch_job data by d))"
  using new_job_id[OF assms]
  by (simp add: get_batch_job_def service row_find_append row_find_Cons row_find_None_iff split: option.split)
    (metis row_find_None_iff option.distinct(1))

lemma batch_retry_failed_cases:
  assumes "db_ok (w_db w)" and "get_batch_job jid (w_db w) = Some original"
    and "failed_items jid (w_db w) \<noteq> []"
  defines "w1 \<equiv> on_db (retried_db original (failed_items jid (w_db w))) w"
    and "new \<equiv> db_uuids (w_db w) (db_uuid_count (w_db w))"
  shows "batch_retry_failed T jid w =
    (case delay T (SubmitMessage new 0) w1 of
       (w2, Inl e) \<Rightarrow> (w2, error_result jid ''error'' e)
     | (w2, Inr _) \<Rightarrow>
         (w2, [(''original_job_id'', JStr jid), (''retry_job_id'', JStr new),
               (''status'', JStr ''retry_job_created''),
               (''failed_items_count'', number (length (failed_items jid (w_db w))))]))"
proof -
  have on_db_const: "on_db (\<lambda>_. f (w_db w)) w = on_db f w" for f by (simp add: on_db_def)
  show ?thesis
    using assms(2,3) new_job_found[OF assms(1), of "retry_create original (length (failed_items jid (w_db w)))" None]
    by (simp add: batch_retry_failed_def Let_def case_prod_unfold failed_items_def[symmetric]
        retry_create_def[symmetric] create_batch_items_def service retried_db_def w1_def new_def
        on_db_const on_db_def split: sum.split)
qed

lemma batch_retry_failed_db:
  assumes "db_ok (w_db w)"
  shows "w_db (fst (batch_retry_failed T jid w)) = w_db w \<or>
    (\<exists>original. get_batch_job jid (w_db w) = Some original \<and>
       w_db (fst (batch_retry_failed T jid w)) = retried_db original (failed_items jid (w_db w)) (w_db w))"
proof (cases "get_batch_job jid (w_db w)")
  case None
  then show ?thesis by (simp add: batch_retry_failed_def)
next
  case (Some original)
  show ?thesis
  proof (cases "failed_items jid (w_db w) = []")
    case True
    then show ?thesis using Some by (simp add: batch_retry_failed_def failed_items_def Let_def)
  next
    case False
    show ?thesis
      using Some by (simp add: batch_retry_failed_cases[OF assms Some False] delay_def split: option.split)
  qed
qed

lemma retried_db_ok:
  "db_ok d \<Longrightarrow> db_ok (retried_db original failed d)"
  "db_ok d \<Longrightarrow> counts_ok d \<Longrightarrow> counts_ok (retried_db original failed d)"
  by (simp_all add: retried_db_def Let_def case_prod_unfold create_batch_items_ok create_batch_job_ok)

lemma retried_db_view [view]:
  assumes "db_ok d" and "get_batch_job k d \<noteq> None"
  shows "job_view k (retried_db original failed d) = job_view k d"
proof -
  have "k \<in> j_id ` set (db_jobs d)" using assms(2) by (simp add: get_batch_job_def row_find_None_iff)
  then have "k \<noteq> db_uuids d (db_uuid_count d)" using new_job_id[OF assms(1)] by metis
  then show ?thesis using assms by (simp add: retried_db_def Let_def case_prod_unfold view service)
qed

subsection \<open>A new job with its items\<close>

lemma new_job_with_items:
  fixes d :: db and data :: job_create and ns :: "item_create list" and creator :: "uuid option"
  assumes "db_ok d"
  defines "new \<equiv> db_uuids d (db_uuid_count d)"
    and "d' \<equiv> fst (create_batch_items (db_uuids d (db_uuid_count d)) ns creator (fst (create_batch_job data creator d)))"
  shows "get_batch_job new d' = Some ((snd (create_batch_job data creator d))\<lparr>j_request_count := int (length ns)\<rparr>)"
    and "map (\<lambda>i. i\<lparr>i_id := []\<rparr>) (job_items new d') = map (\<lambda>n. new_item new creator [] n) ns"
    and "get_batch_job k d = None \<or> job_view k d' = job_view k d"
    and "db_ok d'"
proof -
  let ?d = "fst (create_batch_job data creator d)" and ?add = "snd (add_items new creator ns (fst (create_batch_job data creator d)))"
  have found: "get_batch_job new ?d = Some (snd (create_batch_job data creator d))"
    unfolding new_def by (rule new_job_found[OF assms(1)])
  show "get_batch_job new d' = Some ((snd (create_batch_job data creator d))\<lparr>j_request_count := int (length ns)\<rparr>)"
    using found
    by (simp add: d'_def new_def create_batch_items_def case_prod_unfold Let_def service)
      (simp add: get_batch_job_def service)
  have none: "filter (\<lambda>i. i_batch_job_id i = new) (db_items d) = []"
    using assms(1) new_job_id[OF assms(1)]
    by (auto simp: new_def db_ok_def filter_empty_conv) (metis image_eqI subsetD)
  have "filter (\<lambda>i. i_batch_job_id i = new) ?add = ?add"
    by (auto simp: filter_id_conv add_items_snd new_item_def)
  then have items: "job_items new d' = ?add"
    using found none by (simp add: d'_def job_items_def service flip: new_def)
  show "map (\<lambda>i. i\<lparr>i_id := []\<rparr>) (job_items new d') = map (\<lambda>n. new_item new creator [] n) ns"
    unfolding items by (rule nth_equalityI) (simp_all add: add_items_snd new_item_def)
  have "k \<noteq> new" if "get_batch_job k d \<noteq> None"
  proof -
    have "k \<in> j_id ` set (db_jobs d)" using that by (simp add: get_batch_job_def row_find_None_iff)
    then show ?thesis using new_job_id[OF assms(1)] unfolding new_def by metis
  qed
  then show "get_batch_job k d = None \<or> job_view k d' = job_view k d"
    using view_create_batch_items[of k new ns creator "fst (create_batch_job data creator d)"]
      view_create_batch_job[OF assms(1), of k data creator]
    unfolding d'_def new_def by metis
  show "db_ok d'" by (simp add: d'_def create_batch_items_ok create_batch_job_ok assms(1))
qed

end
