(* ===== verification/ServiceProperties.thy ===== *)
theory ServiceProperties
  imports BatchService
begin

text \<open>
  The properties of the batch service (\<open>inference_core/services/batch_service.py\<close>): the
  integrity of its tables, the counts of a job, its timeline, the completion of a job by its
  last item and the statistics. The preservation lemmas they rest on are in
  \<open>BatchService\<close>.
\<close>

text \<open>A small run of the service, used to show that the properties apply.\<close>

definition demo_job :: job_create where
  "demo_job = \<lparr>c_provider = ''openai'', c_model = ''gpt-4o'', c_mode = ''chat'', c_request_count = 2,
     c_config_json = None\<rparr>"

definition demo_item :: "int \<Rightarrow> item_create" where
  "demo_item k = \<lparr>n_sequence_index = k, n_custom_external_id = None, n_input_payload = None\<rparr>"

definition demo_done :: item_update where
  "demo_done = no_item_update\<lparr>v_status := Some ItemCOMPLETED\<rparr>"

definition demo_calls :: "service_call list" where
  "demo_calls = [CreateJob demo_job None, CreateItems (nat_str 0) [demo_item 0, demo_item 1] None,
     UpdateItem (nat_str 2) demo_done None, Tick 5]"

lemmas demo_eval =
  demo_job_def demo_item_def demo_done_def create_batch_job_def create_batch_items_def uuid4_def
  empty_db_def add_items_Cons new_item_def write_job_def get_batch_job_def row_find_def row_update_def
  create_status_change_event_def create_batch_event_def update_batch_item_def no_item_update_def
  apply_item_update_def update_job_counts_from_item_status_change_def success_delta_def
  error_delta_def update_counts_def Let_def case_prod_unfold update_batch_job_def
  apply_job_update_def no_job_update_def

text \<open>
  C6: Whatever calls are made on an empty database, primary keys stay unique and every item
  refers to a job that exists: deleting a job takes its items with it, and no operation leaves
  an orphan behind.
\<close>

theorem service_integrity:
  assumes "inj ids"
  shows "let d = foldl service_step (empty_db ids) calls in
    distinct (map j_id (db_jobs d)) \<and> distinct (map i_id (db_items d)) \<and>
    list_all (\<lambda>i. get_batch_job (i_batch_job_id i) d \<noteq> None) (db_items d)"
proof -
  have "db_ok (foldl service_step (empty_db ids) calls)"
    using assms by (intro service_run_ok) (simp add: empty_db_ok)
  then show ?thesis
    by (auto simp: Let_def db_ok_def list_all_iff get_batch_job_def row_find_None_iff)
qed

theorem service_integrity_witness:
  "let d = foldl service_step (empty_db nat_str) demo_calls in
    (distinct (map j_id (db_jobs d)) \<and> distinct (map i_id (db_items d)) \<and>
     list_all (\<lambda>i. get_batch_job (i_batch_job_id i) d \<noteq> None) (db_items d)) \<and>
    length (db_items d) = 2"
  using service_integrity[OF inj_nat_str, of demo_calls]
  by (simp add: Let_def) (simp add: demo_calls_def demo_eval)

text \<open>
  C5: The counts of a job are the numbers of its items that have completed and failed, after
  any calls that do not write the counts themselves: item updates, single or in bulk and in
  any order and repetition, keep them exact.
\<close>

theorem service_counts:
  assumes "inj ids" and "list_all (\<lambda>c. \<not> writes_counts c) calls"
  shows "let d = foldl service_step (empty_db ids) calls in
    list_all (\<lambda>j.
      j_success_count j = int (length (filter item_is_successful (get_batch_items (j_id j) None d))) \<and>
      j_success_count j + j_error_count j =
        int (length (filter item_is_completed (get_batch_items (j_id j) None d)))) (db_jobs d)"
proof -
  let ?d = "foldl service_step (empty_db ids) calls"
  have ok: "counts_ok ?d"
    using assms by (intro service_run_counts) (simp_all add: empty_db_ok)
  have cnt: "length (filter P (get_batch_items k None ?d)) =
      length (filter (\<lambda>i. i_batch_job_id i = k \<and> P i) (db_items ?d))" for P k
    by (simp add: get_batch_items_def filter_sort filter_filter flip: conj_commute)
  have split: "length (filter (\<lambda>i. i_batch_job_id i = k \<and> item_is_completed i) xs) =
      length (filter (\<lambda>i. i_batch_job_id i = k \<and> i_status i = ItemCOMPLETED) xs) +
      length (filter (\<lambda>i. i_batch_job_id i = k \<and> i_status i = ItemFAILED) xs)" for k xs
    by (induction xs) (auto simp: item_is_completed_def)
  show ?thesis
    using ok by (simp add: Let_def list_all_iff counts_ok_def cnt split count_items_def item_is_successful_def)
qed

theorem service_counts_witness:
  "let d = foldl service_step (empty_db nat_str) demo_calls in
    list_all (\<lambda>j.
      j_success_count j = int (length (filter item_is_successful (get_batch_items (j_id j) None d))) \<and>
      j_success_count j + j_error_count j =
        int (length (filter item_is_completed (get_batch_items (j_id j) None d)))) (db_jobs d) \<and>
    map j_success_count (db_jobs d) = [1]"
  using service_counts[OF inj_nat_str, of demo_calls]
  by (simp add: Let_def demo_calls_def) (simp add: demo_eval)




text \<open>
  The item that brings the successes and failures of its job up to the number of requests
  completes the job, whatever its status was (cancelled and failed jobs included), sets its
  completion time and records no status change; before that, the job keeps its status.
\<close>

theorem last_item_completes_job:
  assumes "row_find i_id iid (db_items d) = Some item"
    and "get_batch_job (i_batch_job_id item) d = Some job"
    and "v_status u = Some s" and "s \<noteq> i_status item"
    and "item_is_completed item \<or> s \<in> {ItemCOMPLETED, ItemFAILED}"
  shows "let d' = fst (update_batch_item iid u by d);
             n = j_success_count job + success_delta (i_status item) s;
             k = j_error_count job + error_delta (i_status item) s in
    get_batch_job (j_id job) d' =
      Some (if n + k \<ge> j_request_count job
            then job\<lparr>j_success_count := n, j_error_count := k, j_status := COMPLETED,
                     j_completed_at := Some (Aware (db_clock d))\<rparr>
            else job\<lparr>j_success_count := n, j_error_count := k\<rparr>) \<and>
    status_changes (j_id job) d' = status_changes (j_id job) d"
proof -
  let ?d = "d\<lparr>db_items := row_update i_id iid (\<lambda>i. (apply_item_update u i)\<lparr>i_updated_by := by\<rparr>) (db_items d)\<rparr>"
  have id: "j_id job = i_batch_job_id item"
    using assms(2) row_find_key by (force simp: get_batch_job_def)
  have job: "get_batch_job (i_batch_job_id item) ?d = Some job"
    using assms(2) by (simp add: get_batch_job_def)
  have delta: "success_delta (i_status item) s \<noteq> 0 \<or> error_delta (i_status item) s \<noteq> 0"
    using assms(4,5) by (auto simp: success_delta_def error_delta_def item_is_completed_def)
  have step: "fst (update_batch_item iid u by d) =
      update_job_counts_from_item_status_change (i_batch_job_id item) (i_status item) s ?d"
    using assms(3,4) by (simp add: update_batch_item_cases(2)[OF assms(1)] Let_def)
  show ?thesis
    using job delta
    by (simp add: step Let_def id status_events_cong(1)[OF update_counts_frame(2)])
      (simp add: update_job_counts_from_item_status_change_def Let_def service update_counts_def
        status_changes_def)
qed

definition demo_cancelled :: db where
  "demo_cancelled = foldl service_step (empty_db nat_str)
     [CreateJob demo_job None, CreateItems (nat_str 0) [demo_item 0] None,
      UpdateJob (nat_str 0) (no_job_update\<lparr>u_status := Some CANCELLED\<rparr>) None]"

lemma demo_cancelled_rows:
  "row_find i_id (nat_str 2) (db_items demo_cancelled) = Some (new_item (nat_str 0) None (nat_str 2) (demo_item 0))"
  "map_option j_status (get_batch_job (nat_str 0) demo_cancelled) = Some CANCELLED"
  "map_option j_request_count (get_batch_job (nat_str 0) demo_cancelled) = Some 1"
  "map_option j_success_count (get_batch_job (nat_str 0) demo_cancelled) = Some 0"
  "map_option j_error_count (get_batch_job (nat_str 0) demo_cancelled) = Some 0"
  "map_option j_id (get_batch_job (nat_str 0) demo_cancelled) = Some (nat_str 0)"
  by (simp_all add: demo_cancelled_def demo_eval)

theorem last_item_completes_job_witness:
  "map_option j_status (get_batch_job (nat_str 0) demo_cancelled) = Some CANCELLED \<and>
   map_option j_status (get_batch_job (nat_str 0)
     (fst (update_batch_item (nat_str 2) demo_done None demo_cancelled))) = Some COMPLETED"
proof -
  obtain job where job: "get_batch_job (nat_str 0) demo_cancelled = Some job" "j_request_count job = 1"
      "j_success_count job = 0" "j_error_count job = 0" "j_id job = nat_str 0"
    using demo_cancelled_rows(3-6) by auto
  have "v_status demo_done = Some ItemCOMPLETED" by (simp add: demo_done_def no_item_update_def)
  then show ?thesis
    using last_item_completes_job[OF demo_cancelled_rows(1), of job demo_done ItemCOMPLETED None] job
      demo_cancelled_rows(2)
    by (simp add: new_item_def Let_def success_delta_def error_delta_def)
qed

lemma sum_group_count:
  "distinct ks \<Longrightarrow> set (map key rows) \<subseteq> set ks \<Longrightarrow>
   (\<Sum>k\<leftarrow>ks. length (filter (\<lambda>r. key r = k) rows)) = length rows"
proof (induction rows)
  case Nil
  then show ?case by simp
next
  case (Cons r rows)
  have "(\<Sum>k\<leftarrow>ks. length (filter (\<lambda>r'. key r' = k) (r # rows))) =
      (\<Sum>k\<leftarrow>ks. (if key r = k then 1 else 0) + length (filter (\<lambda>r. key r = k) rows))"
    by (intro arg_cong[of _ _ sum_list] map_cong) auto
  also have "\<dots> = (\<Sum>k\<leftarrow>ks. if key r = k then 1 else 0) + length rows"
    using Cons by (simp add: sum_list_addf)
  also have "(\<Sum>k\<leftarrow>ks. if key r = k then 1 else 0) = (1::nat)"
    using Cons.prems by (simp add: sum_list_distinct_conv_sum_set)
  finally show ?case by simp
qed

lemma group_count_facts:
  "sum_list (map snd (group_count key rows)) = length rows" "distinct (map fst (group_count key rows))"
  "list_all (\<lambda>(k, n). 0 < n) (group_count key rows)"
proof -
  show "sum_list (map snd (group_count key rows)) = length rows"
    using sum_group_count[of "remdups (map key rows)" key rows] by (simp add: group_count_def comp_def)
  show "distinct (map fst (group_count key rows))" by (simp add: group_count_def comp_def)
  show "list_all (\<lambda>(k, n). 0 < n) (group_count key rows)"
    by (auto simp: group_count_def list_all_iff filter_empty_conv)
qed

text \<open>
  The statistics account for every job exactly once: the counts by status and by provider
  list each value that occurs once, with a positive count, and add up to the number of jobs;
  the average lies between 0 and 100 when the counts are not negative.
\<close>

theorem stats_account_for_all_jobs:
  "let s = get_batch_stats d in
     sum_list (map snd (jobs_by_status s)) = total_jobs s \<and>
     sum_list (map snd (jobs_by_provider s)) = total_jobs s \<and>
     distinct (map fst (jobs_by_status s)) \<and> distinct (map fst (jobs_by_provider s)) \<and>
     list_all (\<lambda>(_, n). 0 < n) (jobs_by_status s) \<and> list_all (\<lambda>(_, n). 0 < n) (jobs_by_provider s) \<and>
     (if 0 \<le> total_successes s \<and> 0 \<le> total_errors s
      then 0 \<le> average_success_rate s \<and> average_success_rate s \<le> 100 else True)"
proof -
  have rate: "0 \<le> a \<Longrightarrow> 0 \<le> b \<Longrightarrow> 0 < a + b \<Longrightarrow>
      0 \<le> (of_int a / of_int (a + b) * 100 :: rat) \<and> of_int a / of_int (a + b) * 100 \<le> (100 :: rat)" for a b :: int
    by (auto simp: divide_simps)
  show ?thesis
    using rate[of "sum_list (map j_success_count (db_jobs d))" "sum_list (map j_error_count (db_jobs d))"]
    by (simp add: get_batch_stats_def Let_def group_count_facts)
qed

end
