(* ===== verification/BatchSystem.thy ===== *)
theory BatchSystem
  imports TaskFrames ServiceProperties
begin

text \<open>
  The workers as a transition system: a step runs one task to its end, in any order and with
  any answers of the providers, the database and the broker (\<open>task_env\<close> may differ from step
  to step), or lets time pass. A message is taken from any position of the queue. The
  properties here hold of every world the workers can reach.
\<close>

definition run_message :: "task_env \<Rightarrow> message \<Rightarrow> world \<Rightarrow> world \<times> outcome" where
  "run_message T m w =
     (case m of
        SubmitMessage jid retries \<Rightarrow> batch_submit T jid retries w
      | FetchMessage jid retries \<Rightarrow> batch_fetch T jid retries w)"

definition take_message :: "nat \<Rightarrow> world \<Rightarrow> world" where
  "take_message k w = w\<lparr>w_queue := take k (w_queue w) @ drop (Suc k) (w_queue w)\<rparr>"

inductive task_step :: "world \<Rightarrow> world \<Rightarrow> bool" where
  dispatch: "task_step w (fst (batch_dispatch T w))"
| poll: "task_step w (fst (batch_poll T w))"
| message: "k < length (w_queue w) \<Longrightarrow>
    task_step w (fst (run_message T (w_queue w ! k) (take_message k w)))"
| retry: "task_step w (fst (batch_retry_failed T jid w))"
| tick: "task_step w (on_db (\<lambda>d. d\<lparr>db_clock := db_clock d + int n\<rparr>) w)"

abbreviation reaches :: "world \<Rightarrow> world \<Rightarrow> bool" where
  "reaches \<equiv> task_step\<^sup>*\<^sup>*"

inductive_cases task_stepE: "task_step w w'"

lemma take_message_simps [simp]: "w_db (take_message k w) = w_db w" "w_locks (take_message k w) = w_locks w"
  by (simp_all add: take_message_def)

lemma tick_view [view]: "job_view k (d\<lparr>db_clock := c\<rparr>) = job_view k d"
  by (rule job_view_cong) simp_all

lemma db_ok_tick [simp]: "db_ok (d\<lparr>db_clock := c\<rparr>) = db_ok d"
  by (simp add: db_ok_def issued_def)

lemma batch_fetch_ok: "db_ok (w_db w) \<Longrightarrow> db_ok (w_db (fst (batch_fetch T jid n w)))"
  unfolding batch_fetch_db using fetch_body_cases[of T jid w] by (auto simp: fetched_db_ok)

lemma task_step_ok:
  assumes "task_step w w'" and "db_ok (w_db w)"
  shows "db_ok (w_db w')"
  using assms
proof cases
  case (poll T)
  then show ?thesis using batch_poll_db[of T w] assms(2) by (auto simp: poll_all_ok)
next
  case (message k T)
  then show ?thesis using assms(2)
    by (auto simp: run_message_def batch_submit_ok batch_fetch_ok split: message.split)
next
  case (retry T jid)
  then show ?thesis using batch_retry_failed_db[OF assms(2), of T jid] assms(2) by (auto simp: retried_db_ok)
qed (simp_all add: view)

lemma reaches_ok: "reaches w w' \<Longrightarrow> db_ok (w_db w) \<Longrightarrow> db_ok (w_db w')"
  by (induction rule: rtranclp_induct) (auto intro: task_step_ok)

subsection \<open>Final statuses\<close>

definition final :: "job_status \<Rightarrow> bool" where
  "final s \<longleftrightarrow> s \<in> {COMPLETED, FAILED, CANCELLED, EXPIRED}"

lemma status_of_view: "status_of k d = map_option j_status (fst (job_view k d))"
  by (simp add: status_of_def job_view_def)

lemma jobs_to_poll_find:
  assumes "row_find j_id k (jobs_to_poll d) = Some job"
  shows "j_id job = k" and "job \<in> set (db_jobs d)" and "j_status job \<in> {SUBMITTED, IN_PROGRESS}"
  using row_find_key[OF assms] row_find_in[OF assms] by (auto simp: jobs_to_poll_def)

lemma jobs_to_poll_distinct: "db_ok d \<Longrightarrow> distinct (map j_id (jobs_to_poll d))"
  by (simp add: jobs_to_poll_def db_ok_def distinct_map_filter)

lemma poll_final_view:
  assumes "db_ok (w_db w)" and "status_of k (w_db w) = Some s" and "final s"
  shows "job_view k (w_db (fst (batch_poll T w))) = job_view k (w_db w)"
proof -
  have "row_find j_id k (jobs_to_poll (w_db w)) = None"
  proof (cases "row_find j_id k (jobs_to_poll (w_db w))")
    case (Some job)
    note job = jobs_to_poll_find[OF Some]
    have "row_find j_id (j_id job) (db_jobs (w_db w)) = Some job"
      using assms(1) job(2) by (intro row_find_distinct) (simp_all add: db_ok_def)
    then show ?thesis using job assms(2,3) by (auto simp: status_of_def get_batch_job_def final_def)
  qed
  then show ?thesis
    using batch_poll_db[of T w] poll_all_view[OF jobs_to_poll_distinct[OF assms(1)], of k T]
    by auto
qed

lemma submit_final_view:
  assumes "status_of k (w_db w) = Some s" and "final s"
  shows "job_view k (w_db (fst (batch_submit T jid n w))) = job_view k (w_db w)"
proof (cases "k = jid")
  case True
  then obtain job where "get_batch_job jid (w_db w) = Some job" "j_status job = s"
    using assms(1) by (auto simp: status_of_def)
  then show ?thesis using assms(2) by (subst batch_submit_settled) (auto simp: final_def)
next
  case False
  then show ?thesis by (rule batch_submit_view)
qed

lemma task_step_final:
  assumes "task_step w w'" and "db_ok (w_db w)" and "status_of k (w_db w) = Some s" and "final s"
  shows "status_of k (w_db w') = Some s"
  using assms(1)
proof cases
  case (poll T)
  then show ?thesis using assms poll_final_view[OF assms(2-4)] by (simp add: status_of_view)
next
  case (message i T)
  show ?thesis
  proof (cases "w_queue w ! i")
    case (SubmitMessage jid n)
    then show ?thesis
      using message assms(3,4) submit_final_view[of k "take_message i w" s T jid n]
      by (simp add: run_message_def status_of_view)
  next
    case (FetchMessage jid n)
    have "status_of k (w_db (fst (fetch_body T jid (take_message i w)))) = Some s"
    proof (cases "k = jid")
      case True
      consider "w_db (fst (fetch_body T jid (take_message i w))) = w_db w"
        | job m where "get_batch_job jid (w_db w) = Some job" "j_status job = COMPLETED"
            "w_db (fst (fetch_body T jid (take_message i w))) = fetched_db jid m (w_db w)"
        using fetch_body_cases[of T jid "take_message i w"] by auto
      then show ?thesis
      proof cases
        case 2
        then show ?thesis
          using fetched_db_job[OF assms(2) 2(1,2), of m] assms(3) True by (auto simp: status_of_def)
      qed (simp add: assms(3))
    next
      case False
      then show ?thesis
        using fetch_body_cases[of T jid "take_message i w"] assms(2,3)
        by (auto simp: status_of_view view)
    qed
    then show ?thesis using message FetchMessage by (simp add: run_message_def batch_fetch_db)
  qed
next
  case (retry T jid)
  have "get_batch_job k (w_db w) \<noteq> None" using assms(3) by (auto simp: status_of_def)
  then show ?thesis
    using retry batch_retry_failed_db[OF assms(2), of T jid] assms(2,3) by (auto simp: status_of_view view)
qed (use assms in \<open>simp_all add: status_of_view view\<close>)

lemma reaches_final:
  assumes "reaches w w'" and "db_ok (w_db w)" and "status_of k (w_db w) = Some s" and "final s"
  shows "status_of k (w_db w') = Some s"
  using assms(1)
proof (induction rule: rtranclp_induct)
  case base
  then show ?case by (simp add: assms(3))
next
  case (step v v')
  then show ?case using task_step_final[of v v' k s] reaches_ok[of w v] assms(2,4) by blast
qed


definition demo_env :: task_env where
  "demo_env = \<lparr>te_registry = [], te_config = (\<lambda>_. []), te_load_time = (\<lambda>t. t), te_broker = (\<lambda>_. None),
     te_str = (\<lambda>_. [])\<rparr>"

definition world_of :: "db \<Rightarrow> world" where
  "world_of d = \<lparr>w_db = d, w_queue = [], w_locks = (\<lambda>_. None), w_in_progress = (\<lambda>_. 0)\<rparr>"



subsection \<open>The single fetch message of a job\<close>

definition fetch_pending :: "uuid \<Rightarrow> world \<Rightarrow> bool" where
  "fetch_pending jid w \<longleftrightarrow> list_ex (\<lambda>m. case m of FetchMessage k _ \<Rightarrow> k = jid | _ \<Rightarrow> False) (w_queue w)"

lemma fetch_pending_iff: "fetch_pending jid w \<longleftrightarrow> (\<exists>n. FetchMessage jid n \<in> set (w_queue w))"
proof -
  have "(case m of FetchMessage k _ \<Rightarrow> k = jid | _ \<Rightarrow> False) \<longleftrightarrow> (\<exists>n. m = FetchMessage jid n)" for m
    by (cases m) auto
  then show ?thesis unfolding fetch_pending_def list_ex_iff by auto
qed

lemma set_take_message: "set (w_queue (take_message k w)) \<subseteq> set (w_queue w)"
  using set_take_subset set_drop_subset by (fastforce simp: take_message_def)

lemma submit_queue:
  "set (w_queue (fst (batch_submit T jid n w))) \<subseteq> insert (SubmitMessage jid (Suc n)) (set (w_queue w))"
proof -
  have body: "w_queue (fst (submit_body T jid w)) = w_queue w"
    by (auto simp: submit_body_def Let_def record_submission_cases split: option.split sum.split)
  obtain w1 r where p: "submit_body T jid w = (w1, r)" by fastforce
  then show ?thesis
    using body by (auto simp: batch_submit_def self_retry_def split: sum.split exn.split)
qed

lemma fetch_queue:
  "set (w_queue (fst (batch_fetch T jid n w))) \<subseteq> insert (FetchMessage jid (Suc n)) (set (w_queue w))"
proof -
  obtain w1 r where p: "fetch_body T jid w = (w1, r)" by fastforce
  have "w_queue w1 = w_queue w" using fetch_body_cases[of T jid w] p by auto
  then show ?thesis
    using p by (auto simp: batch_fetch_def self_retry_def split: sum.split exn.split)
qed

lemma retry_queue:
  assumes "db_ok (w_db w)"
  shows "\<exists>k. set (w_queue (fst (batch_retry_failed T jid w))) \<subseteq> insert (SubmitMessage k 0) (set (w_queue w))"
proof (cases "get_batch_job jid (w_db w)")
  case None
  then show ?thesis by (auto simp: batch_retry_failed_def)
next
  case (Some original)
  show ?thesis
  proof (cases "failed_items jid (w_db w) = []")
    case True
    then show ?thesis using Some by (auto simp: batch_retry_failed_def failed_items_def Let_def)
  next
    case False
    show ?thesis
      by (auto simp: batch_retry_failed_cases[OF assms Some False] delay_def split: option.split)
  qed
qed

lemma poll_queue:
  assumes "FetchMessage jid n \<in> set (w_queue (fst (batch_poll T w)))" and "db_ok (w_db w)"
  shows "FetchMessage jid n \<in> set (w_queue w) \<or> (\<exists>s. status_of jid (w_db w) = Some s \<and> \<not> final s)"
proof -
  let ?w = "w\<lparr>w_locks := (w_locks w)(BATCH_POLL_LOCK_KEY \<mapsto> db_clock (w_db w) + BATCH_POLL_LOCK_TIMEOUT)\<rparr>"
  have "FetchMessage jid n \<in> set (w_queue w) \<or> (\<exists>j\<in>set (jobs_to_poll (w_db w)). j_id j = jid)"
    using assms(1) poll_body_cases(2)[of T ?w]
    by (auto simp: batch_poll_def with_lock_cases Let_def case_prod_unfold split: if_split_asm)
  moreover have "status_of (j_id j) (w_db w) = Some (j_status j) \<and> \<not> final (j_status j)"
    if "j \<in> set (jobs_to_poll (w_db w))" for j
  proof -
    have "row_find j_id (j_id j) (db_jobs (w_db w)) = Some j"
      using that assms(2) by (intro row_find_distinct) (auto simp: db_ok_def jobs_to_poll_def)
    then show ?thesis using that by (auto simp: status_of_def get_batch_job_def jobs_to_poll_def final_def)
  qed
  ultimately show ?thesis by blast
qed

lemma dispatch_queue:
  "FetchMessage jid n \<in> set (w_queue (fst (batch_dispatch T w))) \<Longrightarrow> FetchMessage jid n \<in> set (w_queue w)"
  by (auto simp: batch_dispatch_def with_lock_cases dispatch_jobs_cases Let_def split: if_split_asm)

lemma task_step_no_fetch:
  assumes "task_step w w'" and "db_ok (w_db w)" and "status_of jid (w_db w) = Some s" and "final s"
    and "\<not> fetch_pending jid w"
  shows "\<not> fetch_pending jid w' \<and> job_items jid (w_db w') = job_items jid (w_db w)"
  using assms(1)
proof cases
  case (dispatch T)
  then show ?thesis using assms(5) by (auto simp: fetch_pending_iff view dest: dispatch_queue)
next
  case (poll T)
  have "\<not> fetch_pending jid w'"
    using poll poll_queue[OF _ assms(2)] assms(3-5) unfolding fetch_pending_iff by (metis option.inject)
  then show ?thesis
    using poll poll_final_view[OF assms(2-4)] by (auto dest: job_view_eqD)
next
  case (message i T)
  have in_queue: "w_queue w ! i \<in> set (w_queue w)" using message by simp
  show ?thesis
  proof (cases "w_queue w ! i")
    case (SubmitMessage k n)
    then show ?thesis
      using message assms(5) submit_queue[of T k n "take_message i w"] set_take_message[of i w]
      by (auto simp: run_message_def fetch_pending_iff view)
  next
    case (FetchMessage k n)
    then have "jid \<noteq> k" using in_queue assms(5) by (auto simp: fetch_pending_iff)
    moreover have "job_view jid (w_db (fst (fetch_body T k (take_message i w)))) = job_view jid (w_db w)"
      using fetch_body_cases[of T k "take_message i w"] assms(2) \<open>jid \<noteq> k\<close> by (auto simp: view)
    ultimately show ?thesis
      using message FetchMessage assms(5) fetch_queue[of T k n "take_message i w"] set_take_message[of i w]
      by (auto simp: run_message_def fetch_pending_iff batch_fetch_db dest: job_view_eqD)
  qed
next
  case (retry T k)
  obtain k' where "set (w_queue w') \<subseteq> insert (SubmitMessage k' 0) (set (w_queue w))"
    using retry_queue[OF assms(2)] retry by blast
  moreover have "get_batch_job jid (w_db w) \<noteq> None" using assms(3) by (auto simp: status_of_def)
  then have "job_items jid (retried_db original failed (w_db w)) = job_items jid (w_db w)" for original failed
    using retried_db_view[OF assms(2)] by (blast dest: job_view_eqD(2))
  ultimately show ?thesis
    using retry batch_retry_failed_db[OF assms(2), of T k] assms(5)
    by (auto simp: fetch_pending_iff)
next
  case (tick n)
  then show ?thesis using assms(5) by (simp add: fetch_pending_def job_items_def)
qed

lemma no_second_fetch:
  assumes "reaches w w'" and "db_ok (w_db w)" and "status_of jid (w_db w) = Some s" and "final s"
    and "\<not> fetch_pending jid w"
  shows "\<not> fetch_pending jid w' \<and> job_items jid (w_db w') = job_items jid (w_db w)"
  using assms(1)
proof (induction rule: rtranclp_induct)
  case base
  then show ?case by (simp add: assms(5))
next
  case (step v v')
  have "status_of jid (w_db v) = Some s \<and> db_ok (w_db v)"
    using step(1)
  proof (induction rule: rtranclp_induct)
    case base
    then show ?case by (simp add: assms(2,3))
  next
    case (step u u')
    then show ?case using task_step_final[of u u' jid s] task_step_ok[of u u'] assms(4) by blast
  qed
  then show ?case using task_step_no_fetch[OF step(2)] step(3) assms(4) by simp
qed

text \<open>
  The world between the two halves of a poll's work on a completed job: the fetch message has
  been sent, the new status has not been written. Then the world after the second half.
\<close>

definition poll_sent :: "task_env \<Rightarrow> batch_job \<Rightarrow> world \<Rightarrow> world" where
  "poll_sent T job w = fst (complete_polled_job T job COMPLETED w)"

definition poll_written :: "batch_job \<Rightarrow> world \<Rightarrow> world" where
  "poll_written job w =
     on_db (\<lambda>d. fst (update_batch_job (j_id job) (status_update COMPLETED (db_clock d)) None d)) w"

text \<open>
  C11: The poll task sends the fetch message of a completed job before it writes the job's new
  status. A worker that takes the message in between finds the job not completed and returns;
  the message is spent, the job becomes completed, and from then on no task ever fetches its
  results: whatever the workers do, no fetch message of the job appears and its items stay as
  they are.
\<close>

theorem fetch_overtaking_poll_is_lost:
  assumes "db_ok (w_db w)" and "get_batch_job jid (w_db w) = Some job"
    and "j_status job \<in> {SUBMITTED, IN_PROGRESS}" and "w_queue w = []"
    and "completion_check T job COMPLETED (db_clock (w_db w)) = Inr ()"
    and "reaches (poll_written job (fst (batch_fetch T' jid 0 (take_message 0 (poll_sent T job w))))) w'"
  shows "w_queue (poll_sent T job w) = [FetchMessage jid 0] \<and>
    snd (batch_fetch T' jid 0 (take_message 0 (poll_sent T job w))) =
      Returned [(''job_id'', JStr jid), (''status'', JStr (job_status_value (j_status job))),
                (''message'', JStr ''Job not completed'')] \<and>
    status_of jid (w_db w') = Some COMPLETED \<and> \<not> fetch_pending jid w' \<and>
    job_items jid (w_db w') = job_items jid (w_db w)"
proof -
  let ?s = "poll_sent T job w" let ?f = "fst (batch_fetch T' jid 0 (take_message 0 ?s))"
  let ?w = "poll_written job ?f"
  have id: "j_id job = jid" by (rule get_batch_job_id[OF assms(2)])
  have sent: "w_db ?s = w_db w" "w_queue ?s = [FetchMessage jid 0]"
    using complete_polled_job_cases(1,4)[where T = T and job = job and s = COMPLETED and w = w] assms(4,5) by (simp_all add: poll_sent_def id)
  have fetched: "batch_fetch T' jid 0 (take_message 0 ?s) = (take_message 0 ?s,
      Returned [(''job_id'', JStr jid), (''status'', JStr (job_status_value (j_status job))),
                (''message'', JStr ''Job not completed'')])"
    using assms(2,3) by (auto simp: batch_fetch_def fetch_body_def sent)
  have db: "w_db ?w = fst (update_batch_job jid (status_update COMPLETED (db_clock (w_db w))) None (w_db w))"
    by (simp add: poll_written_def fetched sent id)
  have "status_of jid (w_db ?w) = Some COMPLETED"
    by (simp add: db status_of_def service assms(2) status_update_status)
  moreover have "db_ok (w_db ?w)" using assms(1) by (simp add: db update_batch_job_ok)
  moreover have "\<not> fetch_pending jid ?w"
    by (simp add: fetch_pending_def poll_written_def fetched) (simp add: take_message_def sent)
  moreover have "job_items jid (w_db ?w) = job_items jid (w_db w)" by (simp add: db view)
  ultimately show ?thesis
    using sent fetched no_second_fetch[OF assms(6)] reaches_final[OF assms(6)]
    by (simp add: final_def)
qed

definition demo_submitted :: db where
  "demo_submitted = foldl service_step (empty_db nat_str)
     [CreateJob demo_job None, CreateItems (nat_str 0) [demo_item 0] None,
      UpdateJob (nat_str 0) (no_job_update\<lparr>u_status := Some SUBMITTED\<rparr>) None]"

definition demo_submitted_job :: batch_job where
  "demo_submitted_job =
     \<lparr>j_id = nat_str 0, j_provider = ''openai'', j_model = ''gpt-4o'', j_status = SUBMITTED,
      j_provider_batch_id = None, j_mode = ''chat'', j_submitted_at = None, j_completed_at = None,
      j_request_count = 1, j_success_count = 0, j_error_count = 0, j_config_json = None,
      j_error_summary = None, j_result_uri = None, j_metadata_json = None, j_created_by = None,
      j_updated_by = None, j_created_at = Aware 0\<rparr>"

lemma demo_submitted_facts:
  "db_ok demo_submitted" "get_batch_job (nat_str 0) demo_submitted = Some demo_submitted_job"
  "length (job_items (nat_str 0) demo_submitted) = 1"
proof -
  show "db_ok demo_submitted"
    unfolding demo_submitted_def by (rule service_run_ok) (simp add: empty_db_ok inj_nat_str)
  show "get_batch_job (nat_str 0) demo_submitted = Some demo_submitted_job"
    by (simp add: demo_submitted_def demo_eval demo_submitted_job_def)
  show "length (job_items (nat_str 0) demo_submitted) = 1"
    by (simp add: demo_submitted_def demo_eval job_items_def)
qed

theorem fetch_overtaking_poll_is_lost_witness:
  "let w = world_of demo_submitted;
       w1 = take_message 0 (poll_sent demo_env demo_submitted_job w);
       w2 = poll_written demo_submitted_job (fst (batch_fetch demo_env (nat_str 0) 0 w1));
       w' = fst (batch_poll demo_env (fst (batch_dispatch demo_env w2)))
   in status_of (nat_str 0) (w_db w') = Some COMPLETED \<and> \<not> fetch_pending (nat_str 0) w' \<and>
      length (job_items (nat_str 0) (w_db w')) = 1"
proof -
  let ?w2 = "poll_written demo_submitted_job
     (fst (batch_fetch demo_env (nat_str 0) 0 (take_message 0 (poll_sent demo_env demo_submitted_job (world_of demo_submitted)))))"
  have check: "completion_check demo_env demo_submitted_job COMPLETED (db_clock (w_db (world_of demo_submitted))) = Inr ()"
    by (simp add: completion_check_def job_start_def demo_submitted_job_def demo_env_def)
  have run: "reaches ?w2 (fst (batch_poll demo_env (fst (batch_dispatch demo_env ?w2))))"
    by (rule rtranclp_trans[of _ _ "fst (batch_dispatch demo_env ?w2)"])
      (auto intro: task_step.dispatch task_step.poll)
  show ?thesis
    using fetch_overtaking_poll_is_lost[of "world_of demo_submitted" "nat_str 0", OF _ _ _ _ check run]
      demo_submitted_facts
    by (simp add: Let_def world_of_def demo_submitted_job_def)
qed

end
