(* ===== verification/TaskProperties.thy ===== *)
theory TaskProperties
  imports BatchSystem
begin

text \<open>
  The properties of the single tasks (\<open>inference_core/celery/tasks/batch_tasks.py\<close>): what a
  submit, poll, fetch or retry does on every branch, and the bound on its retries.
\<close>

subsection \<open>Submit\<close>

lemma submitted_db_job:
  assumes "get_batch_job jid d = Some job"
  shows "\<exists>job'. get_batch_job jid (submitted_db job r md d) = Some job' \<and> j_status job' = SUBMITTED \<and>
     j_provider_batch_id job' = Some (sr_provider_batch_id r) \<and> j_submitted_at job' = Some (sr_submitted_at r) \<and>
     j_metadata_json job' = (case md of None \<Rightarrow> j_metadata_json job | Some m \<Rightarrow> Some m)"
proof -
  have id: "j_id job = jid" by (rule get_batch_job_id[OF assms])
  show ?thesis
    by (cases md)
      (simp_all add: submitted_db_def id get_batch_job_cong[OF create_semantic_event_frame(1)] service assms
        no_job_update_def apply_job_update_def set_metadata_def)
qed

lemma mark_failed_job:
  assumes "get_batch_job jid d = Some job"
  shows "\<exists>job'. get_batch_job jid (mark_failed jid e d) = Some job' \<and> j_status job' = FAILED \<and>
     j_error_summary job' = Some (exn_str e)"
  by (simp add: mark_failed_def service assms no_job_update_def apply_job_update_def)

text \<open>
  C3: What a submit task does with a job that waits and has items, by what preparing and
  handing over its items gives. Success: the job is submitted with the vendor's id and time,
  the gauge goes up by one. A permanent error: the job fails with that error. A transient
  error: nothing changes but the queue, where the task is put again, at most five times and
  after at most 300 seconds, whatever delay the vendor asked for. Any other error: nothing
  changes at all. The items of the job and all other jobs stay as they are in every case.
\<close>

theorem submit_outcome:
  assumes "get_batch_job jid (w_db w) = Some job" and "j_status job = CREATED"
    and "get_batch_items jid None (w_db w) \<noteq> []"
  shows "let (w', out) = batch_submit T jid n w;
             status' = map_option (\<lambda>j. (j_status j, j_provider_batch_id j, j_error_summary j)) (get_batch_job jid (w_db w'))
    in job_items jid (w_db w') = job_items jid (w_db w) \<and>
       (k = jid \<or> job_view k (w_db w') = job_view k (w_db w)) \<and>
       (case submit_to_provider T job (get_batch_items jid None (w_db w)) of
          Inr r \<Rightarrow>
            (case stored_metadata job r of
               Inl e \<Rightarrow> w' = w
             | Inr _ \<Rightarrow>
                 status' = Some (SUBMITTED, Some (sr_provider_batch_id r), j_error_summary job) \<and>
                 w_queue w' = w_queue w \<and>
                 w_in_progress w' = (w_in_progress w)(j_provider job := w_in_progress w (j_provider job) + 1))
        | Inl (ProviderPermanentError m) \<Rightarrow>
            status' = Some (FAILED, j_provider_batch_id job, Some m) \<and> w_queue w' = w_queue w \<and>
            w_in_progress w' = w_in_progress w \<and>
            out = Returned (error_result jid ''failed'' (ProviderPermanentError m))
        | Inl (ProviderTransientError m after) \<Rightarrow>
            w_db w' = w_db w \<and> w_in_progress w' = w_in_progress w \<and>
            (if n < 5 then w_queue w' = w_queue w @ [SubmitMessage jid (Suc n)] \<and> out = RetryAfter (min (2 ^ n) 300)
             else w_queue w' = w_queue w \<and> out = Raised (ProviderTransientError m after))
        | Inl e \<Rightarrow> w' = w \<and> out = Returned (error_result jid ''error'' e))"
proof -
  have id: "j_id job = jid" by (rule get_batch_job_id[OF assms(1)])
  have items: "job_items jid (w_db (fst (batch_submit T jid n w))) = job_items jid (w_db w)"
    by (rule batch_submit_view)
  have others: "k = jid \<or> job_view k (w_db (fst (batch_submit T jid n w))) = job_view k (w_db w)"
    by (cases "k = jid") (simp_all add: view)
  show ?thesis
  proof (cases "submit_to_provider T job (get_batch_items jid None (w_db w))")
    case (Inl e)
    then have body: "submit_body T jid w = (w, Inl e)"
      using assms by (simp add: submit_body_def Let_def)
    show ?thesis
      using items others Inl assms(1)
      by (cases e)
        (simp_all add: batch_submit_def body self_retry_def retry_countdown_def mark_failed_def service
          no_job_update_def apply_job_update_def on_db_def)
  next
    case (Inr r)
    show ?thesis
    proof (cases "stored_metadata job r")
      case (Inl e)
      then have "e = TypeError (exn_str e)"
        by (auto simp: stored_metadata_def store_submission_metadata_def bind_result_Inl_iff
            split: option.split_asm if_split_asm json.split_asm)
      then obtain m where "e = TypeError m" by blast
      then have "fst (batch_submit T jid n w) = w"
        using assms Inr Inl by (simp add: batch_submit_def submit_body_def Let_def record_submission_cases)
      then show ?thesis using Inr Inl items others by (simp add: case_prod_unfold)
    next
      case (Inr md)
      have sub: "fst (batch_submit T jid n w) =
          update_jobs_in_progress (j_provider job) 1 (on_db (submitted_db job r md) w)"
        using assms Inr \<open>submit_to_provider T job _ = Inr r\<close>
        by (simp add: batch_submit_def submit_body_def Let_def record_submission_cases)
      have err: "j_error_summary (the (get_batch_job jid (submitted_db job r md (w_db w)))) = j_error_summary job"
        by (cases md)
          (simp_all add: submitted_db_def id get_batch_job_cong[OF create_semantic_event_frame(1)] service
            assms(1) no_job_update_def apply_job_update_def set_metadata_def)
      obtain job' where "get_batch_job jid (submitted_db job r md (w_db w)) = Some job'"
          "j_status job' = SUBMITTED" "j_provider_batch_id job' = Some (sr_provider_batch_id r)"
        using submitted_db_job[OF assms(1), of r md] by blast
      then show ?thesis
        using items others Inr \<open>submit_to_provider T job _ = Inr r\<close> sub err
        by (simp add: case_prod_unfold Let_def) (simp add: update_jobs_in_progress_def on_db_def)
    qed
  qed
qed

text \<open>
  A vendor's client with fixed answers, and a job of one item for it: the properties of the
  tasks apply to it.
\<close>

definition demo_batch :: "string \<Rightarrow> openai_batch" where
  "demo_batch st = \<lparr>ob_id = ''batch-1'', ob_status = st, ob_created_at = 100, ob_endpoint = ''/v1'',
     ob_completion_window = ''24h'', ob_request_counts = None, ob_completed_at = None,
     ob_expires_at = None, ob_output_file_id = None, ob_error_file_id = None\<rparr>"

definition demo_client :: "string \<Rightarrow> openai_client" where
  "demo_client st = \<lparr>oc_upload = (\<lambda>_. Inr ''file-1''), oc_create = (\<lambda>_. Inr (demo_batch st)),
     oc_retrieve = (\<lambda>_. Inr (demo_batch st)), oc_content = (\<lambda>_. Inr []),
     oc_cancel = (\<lambda>_. Inr (demo_batch st))\<rparr>"

definition demo_json_env :: env where
  "demo_json_env = \<lparr>env_loads = (\<lambda>_. None), env_dumps = (\<lambda>_. ''{}''), env_str = (\<lambda>_. []),
     env_uuid = (\<lambda>_. None), env_uuid4 = ''u''\<rparr>"

definition demo_openai :: "string \<Rightarrow> task_env" where
  "demo_openai st = demo_env\<lparr>
     te_registry := [(''openai'', OpenAIBatchProvider demo_json_env (\<lambda>_. Inr (demo_client st)))],
     te_config := (\<lambda>_. [(''api_key'', JStr ''k'')])\<rparr>"

definition demo_chat_item :: item_create where
  "demo_chat_item = \<lparr>n_sequence_index = 0, n_custom_external_id = None,
     n_input_payload = Some (JObj [(''messages'', JArr [])])\<rparr>"

definition demo_waiting :: db where
  "demo_waiting = foldl service_step (empty_db nat_str)
     [CreateJob demo_job None, CreateItems (nat_str 0) [demo_chat_item] None]"

definition demo_waiting_job :: batch_job where
  "demo_waiting_job = demo_submitted_job\<lparr>j_status := CREATED\<rparr>"

definition demo_waiting_items :: "batch_item list" where
  "demo_waiting_items = [new_item (nat_str 0) None (nat_str 2) demo_chat_item]"

lemma demo_waiting_facts:
  "db_ok demo_waiting" "get_batch_job (nat_str 0) demo_waiting = Some demo_waiting_job"
  "get_batch_items (nat_str 0) None demo_waiting = demo_waiting_items"
proof -
  show "db_ok demo_waiting"
    unfolding demo_waiting_def by (rule service_run_ok) (simp add: empty_db_ok inj_nat_str)
  show "get_batch_job (nat_str 0) demo_waiting = Some demo_waiting_job"
    by (simp add: demo_waiting_def demo_eval demo_waiting_job_def demo_submitted_job_def)
  show "get_batch_items (nat_str 0) None demo_waiting = demo_waiting_items"
    by (simp add: demo_waiting_def demo_eval get_batch_items_def demo_waiting_items_def demo_chat_item_def)
qed

lemma demo_task_provider:
  "task_provider (demo_openai st) ''openai'' =
    Inr \<lparr>op_prepare = openai_prepare_payloads demo_json_env,
         op_submit = openai_submit demo_json_env (demo_client st),
         op_poll = openai_poll_status (demo_client st),
         op_fetch = openai_fetch_results demo_json_env (demo_client st),
         op_cancel = openai_cancel (demo_client st)\<rparr>"
  by (simp add: task_provider_def create_provider_def get_provider_def demo_openai_def demo_env_def
      OpenAIBatchProvider_def openai_new_def)

lemma demo_submit:
  "submit_to_provider (demo_openai ''validating'') demo_waiting_job demo_waiting_items =
   Inr \<lparr>sr_provider_batch_id = ''batch-1'', sr_status = ''validating'', sr_submitted_at = Naive 100,
        sr_estimated_completion = Some (Naive 86500),
        sr_submission_metadata = Some [(''input_file_id'', JStr ''file-1''), (''endpoint'', JStr ''/v1''),
          (''completion_window'', JStr ''24h'')], sr_item_count = 1\<rparr>"
  by (simp add: submit_to_provider_def demo_waiting_job_def demo_submitted_job_def demo_waiting_items_def
      demo_task_provider item_datum_def new_item_def demo_chat_item_def openai_prepare_payloads_def
      prepare_with_def openai_supports_model_def py_lower_def py_lower_char_def py_contains_def py_startswith_def
      openai_request_def item_id_payload_def dict_merge_def dict_set_def prepared_job_id_def
      openai_submit_def openai_upload_batch_file_def demo_client_def demo_batch_def
      openai_estimated_completion_def demo_json_env_def)

theorem submit_outcome_witness:
  "map_option (\<lambda>j. (j_status j, j_provider_batch_id j)) (get_batch_job (nat_str 0)
     (w_db (fst (batch_submit (demo_openai ''validating'') (nat_str 0) 0 (world_of demo_waiting))))) =
   Some (SUBMITTED, Some ''batch-1'')"
proof -
  have "j_status demo_waiting_job = CREATED" "demo_waiting_items \<noteq> []"
    by (simp_all add: demo_waiting_job_def demo_waiting_items_def)
  moreover have "j_metadata_json demo_waiting_job = None"
    by (simp add: demo_waiting_job_def demo_submitted_job_def)
  ultimately show ?thesis
    using submit_outcome[of "nat_str 0" "world_of demo_waiting" demo_waiting_job "demo_openai ''validating''" 0]
    by (simp add: world_of_def demo_waiting_facts demo_submit stored_metadata_def
        store_submission_metadata_def get_metadata_def case_prod_unfold)
      (auto simp: Let_def)
qed

text \<open>
  Submitting is idempotent for tasks that run one after the other: once a job has been
  submitted, further submit messages for it, with any number of retries and in any state of
  the vendor, change nothing and answer that the job was already submitted.
\<close>

theorem duplicate_submit_is_ignored:
  assumes "get_batch_job jid (w_db w) = Some job" and "j_status job = CREATED"
    and "get_batch_items jid None (w_db w) \<noteq> []"
    and "submit_to_provider T job (get_batch_items jid None (w_db w)) = Inr r"
    and "stored_metadata job r = Inr md"
  shows "let w1 = fst (batch_submit T jid n w) in
    batch_submit T' jid n' w1 = (w1, Returned [(''job_id'', JStr jid),
      (''status'', JStr ''submitted''), (''message'', JStr ''Job already submitted'')])"
proof -
  have "fst (batch_submit T jid n w) =
      update_jobs_in_progress (j_provider job) 1 (on_db (submitted_db job r md) w)"
    using assms by (simp add: batch_submit_def submit_body_def Let_def record_submission_cases)
  moreover obtain job' where "get_batch_job jid (submitted_db job r md (w_db w)) = Some job'" "j_status job' = SUBMITTED"
    using submitted_db_job[OF assms(1), of r md] by blast
  ultimately show ?thesis by (simp add: Let_def) (subst batch_submit_settled, auto)
qed

theorem duplicate_submit_is_ignored_witness:
  "let w1 = fst (batch_submit (demo_openai ''validating'') (nat_str 0) 0 (world_of demo_waiting)) in
    batch_submit demo_env (nat_str 0) 3 w1 = (w1, Returned [(''job_id'', JStr (nat_str 0)),
      (''status'', JStr ''submitted''), (''message'', JStr ''Job already submitted'')])"
proof -
  have "j_status demo_waiting_job = CREATED" "demo_waiting_items \<noteq> []"
    by (simp_all add: demo_waiting_job_def demo_waiting_items_def)
  moreover have "j_metadata_json demo_waiting_job = None"
    by (simp add: demo_waiting_job_def demo_submitted_job_def)
  ultimately show ?thesis
    using duplicate_submit_is_ignored[of "nat_str 0" "world_of demo_waiting" demo_waiting_job "demo_openai ''validating''"]
    by (simp add: world_of_def demo_waiting_facts demo_submit stored_metadata_def
        store_submission_metadata_def get_metadata_def)
qed

text \<open>
  Two submit tasks of one job that overlap, both past the check of the status, both reach
  the vendor: the second to finish overwrites the vendor's id of the first, whose batch is
  lost, and the gauge counts the job twice.
\<close>

theorem concurrent_submits_lose_a_batch:
  assumes "get_batch_job jid (w_db w) = Some job"
    and "stored_metadata job r1 = Inr md1" and "stored_metadata job r2 = Inr md2"
  shows "let w' = fst (record_submission job r2 (fst (record_submission job r1 w))) in
    map_option j_provider_batch_id (get_batch_job jid (w_db w')) = Some (Some (sr_provider_batch_id r2)) \<and>
    w_in_progress w' (j_provider job) = w_in_progress w (j_provider job) + 2"
proof -
  obtain job1 where "get_batch_job jid (submitted_db job r1 md1 (w_db w)) = Some job1"
    using submitted_db_job[OF assms(1), of r1 md1] by blast
  from submitted_db_job[OF this, of r2 md2] get_batch_job_id[OF assms(1)] get_batch_job_id[OF this]
  obtain job2 where "get_batch_job jid (submitted_db job1 r2 md2 (submitted_db job r1 md1 (w_db w))) = Some job2"
      "j_provider_batch_id job2 = Some (sr_provider_batch_id r2)" "j_id job1 = j_id job"
    by auto
  moreover from \<open>j_id job1 = j_id job\<close> have "submitted_db job r2 md2 d = submitted_db job1 r2 md2 d" for d
    by (simp add: submitted_db_def cong del: option.case_cong_weak)
  ultimately show ?thesis
    by (simp add: record_submission_cases assms(2,3)) (simp add: update_jobs_in_progress_def)
qed

theorem concurrent_submits_lose_a_batch_witness:
  "let r = (\<lambda>b. \<lparr>sr_provider_batch_id = b, sr_status = ''validating'', sr_submitted_at = Naive 100,
             sr_estimated_completion = None, sr_submission_metadata = None, sr_item_count = 1\<rparr>);
       w' = fst (record_submission demo_waiting_job (r ''batch-2'')
              (fst (record_submission demo_waiting_job (r ''batch-1'') (world_of demo_waiting)))) in
    map_option j_provider_batch_id (get_batch_job (nat_str 0) (w_db w')) = Some (Some ''batch-2'') \<and>
    w_in_progress w' (j_provider demo_waiting_job) = 2"
  using concurrent_submits_lose_a_batch[of "nat_str 0" "world_of demo_waiting" demo_waiting_job
      "\<lparr>sr_provider_batch_id = ''batch-1'', sr_status = ''validating'', sr_submitted_at = Naive 100,
        sr_estimated_completion = None, sr_submission_metadata = None, sr_item_count = 1\<rparr>" None
      "\<lparr>sr_provider_batch_id = ''batch-2'', sr_status = ''validating'', sr_submitted_at = Naive 100,
        sr_estimated_completion = None, sr_submission_metadata = None, sr_item_count = 1\<rparr>" None]
  by (simp add: Let_def world_of_def demo_waiting_facts stored_metadata_def)

text \<open>
  The attempts of a submit task: as long as it asks to be run again, the worker takes its
  message back from the queue and runs it, each time with other answers of the vendor. The
  fuel bounds the number of attempts; the waiting times are collected.
\<close>

fun run_attempts ::
  "nat \<Rightarrow> (nat \<Rightarrow> task_env) \<Rightarrow> uuid \<Rightarrow> nat \<Rightarrow> world \<Rightarrow> (world \<times> outcome \<times> nat list) option" where
  "run_attempts 0 Ts jid n w = None"
| "run_attempts (Suc fuel) Ts jid n w =
     (case batch_submit (Ts n) jid n w of
        (w, RetryAfter c) \<Rightarrow>
          map_option (\<lambda>(w, out, cs). (w, out, c # cs))
            (run_attempts fuel Ts jid (Suc n) (w\<lparr>w_queue := butlast (w_queue w)\<rparr>))
      | (w, out) \<Rightarrow> Some (w, out, []))"

lemma submit_retries:
  "snd (batch_submit T jid n w) = RetryAfter c \<Longrightarrow> n < 5 \<and> c = min (2 ^ n) 300"
  by (auto simp: batch_submit_def self_retry_def retry_countdown_def
      split: prod.split_asm sum.split_asm exn.split_asm if_split_asm)

definition waits_ok :: "nat \<Rightarrow> (world \<times> outcome \<times> nat list) option \<Rightarrow> bool" where
  "waits_ok n r \<longleftrightarrow>
     (case r of
        None \<Rightarrow> False
      | Some (w, out, waits) \<Rightarrow>
          n + length waits \<le> 5 \<and> map (\<lambda>k. 2 ^ k) [n ..< n + length waits] = waits \<and>
          (case out of RetryAfter _ \<Rightarrow> False | _ \<Rightarrow> True))"

lemma run_attempts_ends: "n \<le> 5 \<Longrightarrow> 5 - n < fuel \<Longrightarrow> waits_ok n (run_attempts fuel Ts jid n w)"
proof (induction fuel arbitrary: n w)
  case 0
  then show ?case by simp
next
  case (Suc fuel)
  obtain w1 out where p: "batch_submit (Ts n) jid n w = (w1, out)" by fastforce
  show ?case
  proof (cases out)
    case (RetryAfter c)
    then have "n < 5" "c = min (2 ^ n) 300"
      using submit_retries[of "Ts n" jid n w c] p by simp_all
    moreover from \<open>n < 5\<close> have "2 ^ n \<le> (2 ^ 4 :: nat)" by (intro power_increasing) auto
    ultimately have c: "n < 5" "c = 2 ^ n" by simp_all
    let ?r = "run_attempts fuel Ts jid (Suc n) (w1\<lparr>w_queue := butlast (w_queue w1)\<rparr>)"
    have "waits_ok (Suc n) ?r" using Suc c by simp
    then show ?thesis
      using RetryAfter p c
      by (cases ?r) (auto simp: waits_ok_def upt_conv_Cons simp del: upt_Suc)
  qed (use Suc p in \<open>simp_all add: waits_ok_def\<close>)
qed

text \<open>
  C9: A submit task ends: whatever the vendor answers at each attempt, it stops after at most
  six attempts, having waited 1, 2, 4, 8 and at most 16 seconds between them.
\<close>

theorem submit_retries_end:
  "case run_attempts 6 Ts jid 0 w of
     None \<Rightarrow> False
   | Some (w', out, waits) \<Rightarrow>
       length waits \<le> 5 \<and> map (\<lambda>k. 2 ^ k) [0 ..< length waits] = waits \<and>
       (case out of RetryAfter _ \<Rightarrow> False | _ \<Rightarrow> True)"
  using run_attempts_ends[of 0 6 Ts jid w] unfolding waits_ok_def add_0 by simp

subsection \<open>Poll\<close>

text \<open>
  C1: A poll cycle treats every job on its own. For each job that was submitted or is in
  progress, the outcome is the one that its own vendor's answer decides, whatever the answers,
  errors and updates of the other jobs polled before it; every other job and all items stay as
  they are. Exactly the jobs found completed get a fetch message, in order, and the lock is
  free again at the end.
\<close>

theorem poll_cycle_outcome:
  assumes "db_ok (w_db w)" and "\<not> lock_held (w_locks w) BATCH_POLL_LOCK_KEY (db_clock (w_db w))"
  shows "let w' = fst (batch_poll T w); now = db_clock (w_db w) in
    get_batch_job k (w_db w') =
      map_option (\<lambda>job.
        if j_status job \<in> {SUBMITTED, IN_PROGRESS} then
          (case poll_update T job now of
             None \<Rightarrow> job | Some u \<Rightarrow> (apply_job_update u job)\<lparr>j_updated_by := None\<rparr>)
        else job) (get_batch_job k (w_db w)) \<and>
    job_items k (w_db w') = job_items k (w_db w) \<and>
    w_queue w' = w_queue w @
      map (\<lambda>j. FetchMessage (j_id j) 0) (filter (\<lambda>j. schedules_fetch T j now) (jobs_to_poll (w_db w))) \<and>
    \<not> lock_held (w_locks w') BATCH_POLL_LOCK_KEY now"
proof -
  let ?now = "db_clock (w_db w)"
  let ?w = "w\<lparr>w_locks := (w_locks w)(BATCH_POLL_LOCK_KEY \<mapsto> ?now + BATCH_POLL_LOCK_TIMEOUT)\<rparr>"
  let ?d = "poll_all T (jobs_to_poll (w_db w)) ?now (w_db w)"
  note pb = poll_body_cases[of T ?w]
  have dist: "distinct (map j_id (db_jobs (w_db w)))" using assms(1) by (simp add: db_ok_def)
  have job: "get_batch_job k ?d = map_option (\<lambda>job.
      if j_status job \<in> {SUBMITTED, IN_PROGRESS} then
        (case poll_update T job ?now of
           None \<Rightarrow> job | Some u \<Rightarrow> (apply_job_update u job)\<lparr>j_updated_by := None\<rparr>)
      else job) (get_batch_job k (w_db w))"
  proof (cases "row_find j_id k (jobs_to_poll (w_db w))")
    case (Some job)
    note j = jobs_to_poll_find[OF Some]
    have "get_batch_job k (w_db w) = Some job"
      using row_find_distinct[OF dist j(2)] by (simp add: get_batch_job_def j(1))
    then show ?thesis
      using j poll_all_view[OF jobs_to_poll_distinct[OF assms(1)], of k T ?now "w_db w"] Some
      by (auto simp: job_view_def updated_db_def service split: option.split)
  next
    case None
    have "job \<notin> set (jobs_to_poll (w_db w))" if "get_batch_job k (w_db w) = Some job" for job
      using None get_batch_job_id[OF that] by (auto simp: row_find_None_iff)
    then have "j_status job \<notin> {SUBMITTED, IN_PROGRESS}" if "get_batch_job k (w_db w) = Some job" for job
      using that row_find_in[of j_id k "db_jobs (w_db w)" job] by (auto simp: jobs_to_poll_def get_batch_job_def)
    then show ?thesis
      using poll_all_view[OF jobs_to_poll_distinct[OF assms(1)], of k T ?now "w_db w"] None
      by (cases "get_batch_job k (w_db w)") (auto simp: job_view_def)
  qed
  show ?thesis
    using assms(2) pb job
    by (simp add: batch_poll_def with_lock_cases Let_def case_prod_unfold view lock_held_def)
qed

lemma demo_polled:
  "polled_status (demo_openai ''completed'') demo_submitted_job = Inr COMPLETED"
  by (simp add: polled_status_def demo_submitted_job_def demo_task_provider openai_poll_status_def
      demo_client_def demo_batch_def stamp_def given_text_def openai_normalize_def
      openai_STATUS_MAPPING_def job_status_of_def all_job_statuses_def)

lemma demo_poll_update:
  "poll_update (demo_openai ''completed'') demo_submitted_job 0 = Some (status_update COMPLETED 0)"
  "schedules_fetch (demo_openai ''completed'') demo_submitted_job 0"
proof -
  have "poll_decision (demo_openai ''completed'') demo_submitted_job 0 = Inr (Some (status_update COMPLETED 0))"
    by (simp add: poll_decision_def demo_polled completion_check_def job_start_def)
      (simp add: demo_submitted_job_def demo_openai_def demo_env_def)
  then show "poll_update (demo_openai ''completed'') demo_submitted_job 0 = Some (status_update COMPLETED 0)"
    "schedules_fetch (demo_openai ''completed'') demo_submitted_job 0"
    by (simp_all add: poll_update_def schedules_fetch_def status_update_status)
qed

lemma demo_submitted_rows: "db_jobs demo_submitted = [demo_submitted_job]" "db_clock demo_submitted = 0"
  by (simp_all add: demo_submitted_def demo_eval demo_submitted_job_def)

theorem poll_cycle_outcome_witness:
  "let w' = fst (batch_poll (demo_openai ''completed'') (world_of demo_submitted)) in
    map_option j_status (get_batch_job (nat_str 0) (w_db w')) = Some COMPLETED \<and>
    w_queue w' = [FetchMessage (nat_str 0) 0]"
proof -
  have free: "\<not> lock_held (w_locks (world_of demo_submitted)) k n" for k n
    by (simp add: world_of_def lock_held_def)
  have job: "j_status demo_submitted_job = SUBMITTED" "j_id demo_submitted_job = nat_str 0"
    by (simp_all add: demo_submitted_job_def)
  then have "jobs_to_poll demo_submitted = [demo_submitted_job]"
    by (simp add: jobs_to_poll_def demo_submitted_rows)
  then show ?thesis
    using poll_cycle_outcome[of "world_of demo_submitted", OF _ free, of "demo_openai ''completed''" "nat_str 0"]
      demo_submitted_facts(1,2) job demo_poll_update
    by (simp add: Let_def world_of_def demo_submitted_rows status_update_status)
qed

text \<open>
  C40: A database that returns datetimes without a zone (as SQLite does) keeps a finished job
  from ever being recorded: its age cannot be computed, the exception is taken for a passing
  one, and poll after poll leaves the job as it is and asks for no fetch.
\<close>

theorem naive_start_blocks_completion:
  assumes "polled_status T job = Inr s" and "s \<in> {COMPLETED, FAILED}" and "s \<noteq> j_status job"
    and "job_start T job = Naive t"
  shows "let w' = fst (poll_job T (w, a) job) in
    w_db w' = w_db w \<and> w_queue w' = w_queue w \<and> w_in_progress w' = w_in_progress w"
proof -
  obtain st where st: "bind_result (task_provider T (j_provider job)) (\<lambda>ops. op_poll ops (batch_id_text job)) = Inr st"
      "job_status_of (st_normalized_status st) = Some s"
    using assms(1) by (auto simp: polled_status_def bind_result_Inr_iff split: option.split_asm)
  have "complete_polled_job T job s w = (w, Inl (TypeError ''cannot subtract offset-naive and offset-aware datetimes''))"
    using assms(4) by (simp add: complete_polled_job_def job_start_def[symmetric] Let_def)
  then show ?thesis
    using st assms(2,3) by (simp add: poll_job_def poll_attempt_def Let_def)
qed

definition demo_naive :: task_env where
  "demo_naive = (demo_openai ''completed'')\<lparr>te_load_time := (\<lambda>t. Naive (dt_seconds t))\<rparr>"

theorem naive_start_blocks_completion_witness:
  "let w' = fst (poll_job demo_naive (world_of demo_submitted, \<lparr>pa_polled = 0, pa_changes = 0, pa_stats = []\<rparr>) demo_submitted_job) in
    w_db w' = demo_submitted \<and> w_queue w' = []"
proof -
  have "task_provider demo_naive p = task_provider (demo_openai ''completed'') p" for p
    by (simp add: task_provider_def demo_naive_def)
  then have "polled_status demo_naive demo_submitted_job = Inr COMPLETED"
    using demo_polled by (simp add: polled_status_def)
  moreover have "job_start demo_naive demo_submitted_job = Naive 0"
    by (simp add: job_start_def demo_naive_def demo_submitted_job_def)
  moreover have "COMPLETED \<noteq> j_status demo_submitted_job" by (simp add: demo_submitted_job_def)
  ultimately show ?thesis
    using naive_start_blocks_completion[of demo_naive demo_submitted_job COMPLETED 0 "world_of demo_submitted"
      "\<lparr>pa_polled = 0, pa_changes = 0, pa_stats = []\<rparr>"]
    by (simp add: world_of_def Let_def)
qed

text \<open>
  A job that its vendor reports cancelled or expired takes that status, which no later
  poll looks at, but keeps an empty completion time, and the gauge of jobs in progress goes on
  counting it.
\<close>

theorem cancelled_job_stays_in_gauge:
  assumes "polled_status T job = Inr s" and "s \<in> {CANCELLED, EXPIRED}" and "s \<noteq> j_status job"
    and "get_batch_job (j_id job) (w_db w) = Some job"
  shows "let w' = fst (poll_job T (w, a) job) in
    map_option (\<lambda>j. (j_status j, j_completed_at j)) (get_batch_job (j_id job) (w_db w')) =
      Some (s, j_completed_at job) \<and>
    w_in_progress w' = w_in_progress w"
proof -
  obtain st where st: "bind_result (task_provider T (j_provider job)) (\<lambda>ops. op_poll ops (batch_id_text job)) = Inr st"
      "job_status_of (st_normalized_status st) = Some s"
    using assms(1) by (auto simp: polled_status_def bind_result_Inr_iff split: option.split_asm)
  have "s \<noteq> COMPLETED \<and> s \<noteq> FAILED" using assms(2) by auto
  then show ?thesis
    using st assms(3,4)
    by (simp add: poll_job_def poll_attempt_def Let_def service no_job_update_def apply_job_update_def)
qed

lemma demo_polled_cancelled:
  "polled_status (demo_openai ''cancelled'') demo_submitted_job = Inr CANCELLED"
  by (simp add: polled_status_def demo_submitted_job_def demo_task_provider openai_poll_status_def
      demo_client_def demo_batch_def stamp_def given_text_def openai_normalize_def
      openai_STATUS_MAPPING_def job_status_of_def all_job_statuses_def)

theorem cancelled_job_stays_in_gauge_witness:
  "let w = update_jobs_in_progress ''openai'' 1 (world_of demo_submitted);
       w' = fst (poll_job (demo_openai ''cancelled'') (w, \<lparr>pa_polled = 0, pa_changes = 0, pa_stats = []\<rparr>) demo_submitted_job) in
    map_option j_status (get_batch_job (nat_str 0) (w_db w')) = Some CANCELLED \<and>
    w_in_progress w' ''openai'' = 1"
proof -
  have job: "CANCELLED \<noteq> j_status demo_submitted_job" "j_id demo_submitted_job = nat_str 0"
    "get_batch_job (nat_str 0) (w_db (update_jobs_in_progress ''openai'' 1 (world_of demo_submitted))) = Some demo_submitted_job"
    by (simp_all add: demo_submitted_job_def world_of_def demo_submitted_facts(2)[unfolded demo_submitted_job_def])
  then show ?thesis
    using cancelled_job_stays_in_gauge[OF demo_polled_cancelled _ _ _,
        of "update_jobs_in_progress ''openai'' 1 (world_of demo_submitted)"
          "\<lparr>pa_polled = 0, pa_changes = 0, pa_stats = []\<rparr>"]
    by (simp add: Let_def) (auto simp: update_jobs_in_progress_def world_of_def)
qed

subsection \<open>Fetch\<close>


definition demo_row :: json where
  "demo_row = JObj [(''custom_id'', JStr (nat_str 2)),
     (''response'', JObj [(''body'', JObj [(''choices'',
        JArr [JObj [(''message'', JObj [(''content'', JStr ''hi'')])]])])])]"

definition demo_row_env :: env where
  "demo_row_env = demo_json_env\<lparr>env_loads := (\<lambda>_. Some demo_row)\<rparr>"

definition demo_row_client :: openai_client where
  "demo_row_client = (demo_client ''completed'')\<lparr>
     oc_retrieve := (\<lambda>_. Inr ((demo_batch ''completed'')\<lparr>ob_output_file_id := Some ''f''\<rparr>)),
     oc_content := (\<lambda>_. Inr ''x'')\<rparr>"

definition demo_fetch :: task_env where
  "demo_fetch = (demo_openai ''completed'')\<lparr>
     te_registry := [(''openai'', OpenAIBatchProvider demo_row_env (\<lambda>_. Inr demo_row_client))]\<rparr>"

definition demo_result :: result_row where
  "demo_result = \<lparr>rr_custom_id = nat_str 2, rr_output_text = Some ''hi'',
     rr_output_data = Some (JObj [(''choices'', JArr [JObj [(''message'', JObj [(''content'', JStr ''hi'')])]])]),
     rr_raw_metadata = Some demo_row, rr_error_message = None, rr_is_success = True\<rparr>"

definition demo_completed :: db where
  "demo_completed = foldl service_step (empty_db nat_str)
     [CreateJob demo_job None, CreateItems (nat_str 0) [demo_item 0] None,
      UpdateJob (nat_str 0) (no_job_update\<lparr>u_status := Some COMPLETED\<rparr>) None]"

definition demo_completed_job :: batch_job where
  "demo_completed_job = demo_submitted_job\<lparr>j_status := COMPLETED\<rparr>"

lemma demo_completed_facts:
  "db_ok demo_completed" "get_batch_job (nat_str 0) demo_completed = Some demo_completed_job"
  "job_items (nat_str 0) demo_completed = [new_item (nat_str 0) None (nat_str 2) (demo_item 0)]"
proof -
  show "db_ok demo_completed"
    unfolding demo_completed_def by (rule service_run_ok) (simp add: empty_db_ok inj_nat_str)
  show "get_batch_job (nat_str 0) demo_completed = Some demo_completed_job"
    by (simp add: demo_completed_def demo_eval demo_completed_job_def demo_submitted_job_def)
  show "job_items (nat_str 0) demo_completed = [new_item (nat_str 0) None (nat_str 2) (demo_item 0)]"
    by (simp add: demo_completed_def demo_eval job_items_def)
qed

lemma demo_fetches: "fetches demo_fetch demo_completed_job d = Inr (results_map [demo_result])"
proof -
  have line: "openai_output_line demo_row_env s = Inr demo_result" for s
    by (simp add: openai_output_line_def demo_row_env_def demo_row_def mk_result_row_def demo_result_def)
  have rows: "openai_fetch_results demo_row_env demo_row_client b = Inr [demo_result]" for b
    by (simp add: openai_fetch_results_def demo_row_client_def demo_batch_def given_text_def
        openai_parse_output_file_def parse_lines_def line py_strip_def py_lstrip_def py_rstrip_def py_space_def)
  have "task_provider demo_fetch ''openai'' =
      Inr \<lparr>op_prepare = openai_prepare_payloads demo_row_env,
         op_submit = openai_submit demo_row_env demo_row_client,
         op_poll = openai_poll_status demo_row_client,
         op_fetch = openai_fetch_results demo_row_env demo_row_client,
         op_cancel = openai_cancel demo_row_client\<rparr>"
    by (simp add: task_provider_def create_provider_def get_provider_def demo_fetch_def demo_openai_def
        demo_env_def OpenAIBatchProvider_def openai_new_def)
  then show ?thesis
    by (simp add: fetches_def demo_completed_job_def demo_submitted_job_def rows remap_gemini_def)
qed


lemma fetched_counts:
  assumes "list_all (\<lambda>i. item_is_completed i \<longrightarrow> m (i_id i) \<noteq> None) items"
  shows "length (filter (\<lambda>i. i_status i = ItemCOMPLETED) (map (fetched_item m) items)) =
      length (filter (row_succeeded m) items)"
    and "length (filter (\<lambda>i. i_status i = ItemFAILED) (map (fetched_item m) items)) =
      length (filter (row_failed m) items)"
  using assms
  by (induction items)
    (auto simp: item_is_completed_def row_succeeded_def row_failed_def split: option.split_asm if_split_asm)

text \<open>
  After a fetch the counts of the job are exact, the numbers of its items that completed
  and that failed, provided the results cover the items that were already done before.
\<close>

theorem fetch_counts_exact:
  assumes "db_ok (w_db w)" and "get_batch_job jid (w_db w) = Some job" and "j_status job = COMPLETED"
    and "fetches T job (w_db w) = Inr m"
    and "list_all (\<lambda>i. item_is_completed i \<longrightarrow> m (i_id i) \<noteq> None) (job_items jid (w_db w))"
    and "list_ex (\<lambda>i. \<not> item_is_completed i) (job_items jid (w_db w))"
  shows "let w' = fst (batch_fetch T jid n w) in
    map_option (\<lambda>j. (j_success_count j, j_error_count j)) (get_batch_job jid (w_db w')) =
      Some (count_items jid ItemCOMPLETED (w_db w'), count_items jid ItemFAILED (w_db w'))"
proof -
  let ?d = "fetched_db jid m (w_db w)"
  have "\<not> (\<forall>i\<in>set (get_batch_items jid None (w_db w)). item_is_completed i)"
    using assms(6) by (auto simp: set_get_batch_items list_ex_iff)
  then have left: "length (filter item_is_completed (get_batch_items jid None (w_db w))) \<noteq>
      length (get_batch_items jid None (w_db w))"
    using length_filter_less by (metis less_irrefl)
  obtain rows where rows: "bind_result (task_provider T (j_provider job)) (\<lambda>ops. op_fetch ops (batch_id_text job)) = Inr rows"
      "m = results_map (remap_gemini T job rows)"
    using assms(4) by (auto simp: fetches_def bind_result_Inr_iff)
  have db: "w_db (fst (batch_fetch T jid n w)) = ?d"
    using assms(2,3) left rows
    by (simp add: batch_fetch_db fetch_body_def Let_def fetched_db_def case_prod_unfold)
  have count: "count_items jid st ?d = int (length (filter (\<lambda>i. i_status i = st) (job_items jid ?d)))" for st
    by (simp add: count_items_def job_items_def filter_filter)
  obtain job' where "get_batch_job jid ?d = Some job'"
      "j_success_count job' = int (length (filter (row_succeeded m) (job_items jid (w_db w))))"
      "j_error_count job' = int (length (filter (row_failed m) (job_items jid (w_db w))))"
    using fetched_db_job[OF assms(1-3), of m] by blast
  then show ?thesis
    using fetched_counts[OF assms(5)] by (simp add: db count fetched_db_items[OF assms(1)])
qed

theorem fetch_counts_exact_witness:
  "let w' = fst (batch_fetch demo_fetch (nat_str 0) 0 (world_of demo_completed)) in
    map_option (\<lambda>j. (j_success_count j, j_error_count j)) (get_batch_job (nat_str 0) (w_db w')) =
      Some (count_items (nat_str 0) ItemCOMPLETED (w_db w'), count_items (nat_str 0) ItemFAILED (w_db w'))"
proof -
  have "j_status demo_completed_job = COMPLETED" by (simp add: demo_completed_job_def)
  then show ?thesis
    using fetch_counts_exact[of "world_of demo_completed" "nat_str 0", OF _ _ _ demo_fetches, of 0]
      demo_completed_facts
    by (simp add: world_of_def item_is_completed_def new_item_def)
qed

text \<open>
  C30: Fetching is idempotent: once a fetch has given every item of a job a result, another
  fetch, whatever the vendor would answer now, changes nothing and says that all results were
  fetched already.
\<close>

theorem fetch_idempotent:
  assumes "db_ok (w_db w)" and "get_batch_job jid (w_db w) = Some job" and "j_status job = COMPLETED"
    and "fetches T job (w_db w) = Inr m"
    and "list_all (\<lambda>i. m (i_id i) \<noteq> None) (job_items jid (w_db w))"
  shows "let w' = fst (batch_fetch T jid n w) in
    batch_fetch T' jid n' w' = (w', Returned [(''job_id'', JStr jid),
      (''status'', JStr ''already_fetched''), (''message'', JStr ''All results already fetched'')])"
proof -
  let ?w = "fst (batch_fetch T jid n w)"
  have again: "batch_fetch T' jid n' v = (v, Returned [(''job_id'', JStr jid),
      (''status'', JStr ''already_fetched''), (''message'', JStr ''All results already fetched'')])"
    if "status_of jid (w_db v) = Some COMPLETED" and "list_all item_is_completed (job_items jid (w_db v))" for v
  proof -
    have "filter item_is_completed (get_batch_items jid None (w_db v)) = get_batch_items jid None (w_db v)"
      using that(2) by (auto simp: filter_id_conv set_get_batch_items list_all_iff)
    then show ?thesis
      using that(1) by (auto simp: batch_fetch_def fetch_body_def status_of_def)
  qed
  show ?thesis
  proof (cases "length (filter item_is_completed (get_batch_items jid None (w_db w))) =
      length (get_batch_items jid None (w_db w))")
    case True
    then have "fst (batch_fetch T jid n w) = w"
      using assms(2,3) by (simp add: batch_fetch_def fetch_body_def)
    moreover have "list_all item_is_completed (job_items jid (w_db w))"
      using True length_filter_less[of _ "get_batch_items jid None (w_db w)" item_is_completed]
      by (metis (no_types, lifting) less_irrefl list_all_iff set_get_batch_items)
    ultimately show ?thesis using assms(2,3) by (simp add: again status_of_def Let_def)
  next
    case False
    obtain rows where rows: "bind_result (task_provider T (j_provider job)) (\<lambda>ops. op_fetch ops (batch_id_text job)) = Inr rows"
        "m = results_map (remap_gemini T job rows)"
      using assms(4) by (auto simp: fetches_def bind_result_Inr_iff)
    have db: "w_db ?w = fetched_db jid m (w_db w)"
      using assms(2,3) False rows
      by (simp add: batch_fetch_db fetch_body_def Let_def fetched_db_def case_prod_unfold)
    have "item_is_completed (fetched_item m i)" if "m (i_id i) \<noteq> None" for i
      using that by (auto simp: item_is_completed_def row_succeeded_def row_failed_def)
    then have "list_all item_is_completed (job_items jid (w_db ?w))"
      using assms(5) by (auto simp: db fetched_db_items[OF assms(1)] list_all_iff)
    moreover have "status_of jid (w_db ?w) = Some COMPLETED"
      using fetched_db_job[OF assms(1-3), of m] by (auto simp: db status_of_def)
    ultimately show ?thesis by (simp add: again Let_def)
  qed
qed

theorem fetch_idempotent_witness:
  "let w' = fst (batch_fetch demo_fetch (nat_str 0) 0 (world_of demo_completed)) in
    batch_fetch demo_env (nat_str 0) 2 w' = (w', Returned [(''job_id'', JStr (nat_str 0)),
      (''status'', JStr ''already_fetched''), (''message'', JStr ''All results already fetched'')])"
proof -
  have "j_status demo_completed_job = COMPLETED" by (simp add: demo_completed_job_def)
  moreover have "results_map [demo_result] (nat_str 2) \<noteq> None"
    by (simp add: results_map_def demo_result_def)
  ultimately show ?thesis
    using fetch_idempotent[of "world_of demo_completed" "nat_str 0", OF _ _ _ demo_fetches, of 0 demo_env 2]
      demo_completed_facts
    by (simp add: world_of_def new_item_def)
qed

subsection \<open>Retry of failed items\<close>

text \<open>
  C31: Retrying the failed items of a job creates one new job, waiting, with the provider,
  model, mode and configuration of the original and as many requests as there are failed
  items; its items carry their external ids and payloads in the original order under
  consecutive indices, all of them queued; the original job, and every other, stays as it is,
  and one submit message is sent for the new job.
\<close>

theorem retry_creates_job_of_failed_items:
  assumes "db_ok (w_db w)" and "get_batch_job jid (w_db w) = Some original"
    and "failed_items jid (w_db w) \<noteq> []"
    and "te_broker T (SubmitMessage (db_uuids (w_db w) (db_uuid_count (w_db w))) 0) = None"
  shows "let w' = fst (batch_retry_failed T jid w);
             new = db_uuids (w_db w) (db_uuid_count (w_db w)) in
    map_option (\<lambda>j. (j_status j, j_provider j, j_model j, j_mode j, j_config_json j, j_request_count j,
        j_success_count j, j_error_count j)) (get_batch_job new (w_db w')) =
      Some (CREATED, j_provider original, j_model original, j_mode original, j_config_json original,
        int (length (failed_items jid (w_db w))), 0, 0) \<and>
    map (\<lambda>i. (i_sequence_index i, i_custom_external_id i, i_input_payload i, i_status i)) (job_items new (w_db w')) =
      map (\<lambda>(k, i). (int k, i_custom_external_id i, i_input_payload i, ItemQUEUED))
        (enumerate 0 (failed_items jid (w_db w))) \<and>
    (get_batch_job k (w_db w) = None \<or> job_view k (w_db w') = job_view k (w_db w)) \<and>
    w_queue w' = w_queue w @ [SubmitMessage new 0]"
proof -
  let ?new = "db_uuids (w_db w) (db_uuid_count (w_db w))" and ?failed = "failed_items jid (w_db w)"
  let ?ns = "map retry_item (enumerate 0 ?failed)" and ?c = "retry_create original (length ?failed)"
  let ?r = "retried_db original ?failed (w_db w)"
  have w': "fst (batch_retry_failed T jid w) =
      (on_db (retried_db original ?failed) w)\<lparr>w_queue := w_queue w @ [SubmitMessage ?new 0]\<rparr>"
    using assms(4) by (simp add: batch_retry_failed_cases[OF assms(1-3)] delay_def)
  have r: "?r = fst (create_batch_items ?new ?ns None (fst (create_batch_job ?c None (w_db w))))"
    by (simp add: retried_db_def Let_def case_prod_unfold service)
  note new = new_job_with_items[OF assms(1), where ns = ?ns and creator = None and data = ?c, folded r]
  have "map (\<lambda>i. (i_sequence_index i, i_custom_external_id i, i_input_payload i, i_status i)) (job_items ?new ?r) =
      map (\<lambda>i. (i_sequence_index i, i_custom_external_id i, i_input_payload i, i_status i))
        (map (\<lambda>i. i\<lparr>i_id := []\<rparr>) (job_items ?new ?r))"
    by simp
  also have "\<dots> = map (\<lambda>(k, i). (int k, i_custom_external_id i, i_input_payload i, ItemQUEUED)) (enumerate 0 ?failed)"
    unfolding new(2) by (simp add: new_item_def retry_item_def case_prod_unfold)
  finally show ?thesis
    using new(1,3)
    by (simp add: w' Let_def) (simp add: create_batch_job_def uuid4_def Let_def retry_create_def)
qed

definition demo_failed :: db where
  "demo_failed = foldl service_step (empty_db nat_str)
     [CreateJob demo_job None, CreateItems (nat_str 0) [demo_item 0, demo_item 1] None,
      UpdateItem (nat_str 3) (no_item_update\<lparr>v_status := Some ItemFAILED\<rparr>) None]"

theorem retry_creates_job_of_failed_items_witness:
  "let w' = fst (batch_retry_failed demo_env (nat_str 0) (world_of demo_failed)) in
    map_option (\<lambda>j. (j_status j, j_request_count j)) (get_batch_job (nat_str 4) (w_db w')) = Some (CREATED, 1) \<and>
    map i_sequence_index (job_items (nat_str 4) (w_db w')) = [0] \<and>
    w_queue w' = [SubmitMessage (nat_str 4) 0]"
proof -
  have ok: "db_ok demo_failed"
    unfolding demo_failed_def by (rule service_run_ok) (simp add: empty_db_ok inj_nat_str)
  have new: "db_uuids demo_failed (db_uuid_count demo_failed) = nat_str 4"
    by (simp add: demo_failed_def demo_eval)
  obtain job where job: "get_batch_job (nat_str 0) demo_failed = Some job"
    by (simp add: demo_failed_def demo_eval)
  have failed: "length (failed_items (nat_str 0) demo_failed) = 1"
    by (simp add: demo_failed_def demo_eval failed_items_def get_batch_items_def)
  then obtain i where i: "failed_items (nat_str 0) demo_failed = [i]"
    by (auto simp: length_Suc_conv)
  let ?w = "fst (batch_retry_failed demo_env (nat_str 0) (world_of demo_failed))"
  note facts = retry_creates_job_of_failed_items[of "world_of demo_failed" "nat_str 0" job demo_env]
  have "map (\<lambda>i. (i_sequence_index i, i_custom_external_id i, i_input_payload i, i_status i))
      (job_items (nat_str 4) (w_db ?w)) = [(0, i_custom_external_id i, i_input_payload i, ItemQUEUED)]"
    using facts ok job i by (simp add: world_of_def new demo_env_def Let_def)
  then have "map i_sequence_index (job_items (nat_str 4) (w_db ?w)) = [0]"
    by (auto simp: map_eq_Cons_conv)
  then show ?thesis
    using facts ok job i by (auto simp: world_of_def new demo_env_def Let_def)
qed

end
