(* ===== verification/ApiProperties.thy ===== *)
theory ApiProperties
  imports BatchApi TaskProperties
begin

text \<open>
  The properties of the batch endpoints (\<open>inference_core/api/v1/routes/batch.py\<close>): who sees a
  job, what creating one leaves in the database, pagination, and what cancelling does and
  does not reach.
\<close>

text \<open>
  C33: A job that belongs to another user, or does not exist, answers every request about it
  with the same 404, and cancelling it changes nothing: the endpoints do not tell a foreign
  job from one that is not there.
\<close>

theorem foreign_jobs_are_hidden:
  assumes "\<not> (case get_batch_job jid d of None \<Rightarrow> False | Some job \<Rightarrow> j_created_by job = Some uid)"
  shows "let missing = HTTPException 404 (''Batch job '' @ jid @ '' not found'') in
    api_get_batch_job (Inr uid) jid d = Inl missing \<and>
    api_get_batch_items (Inr uid) jid st limit offset d = Inl missing \<and>
    api_cancel_batch_job reg (Inr uid) jid d = (d, Inl missing)"
proof -
  have "owned_job (Inr uid) jid failure d = Inl (HTTPException 404 (''Batch job '' @ jid @ '' not found''))" for failure
    using assms by (auto simp: owned_job_def split: option.split)
  then show ?thesis
    by (simp add: Let_def api_get_batch_job_def api_get_batch_items_def api_cancel_batch_job_def)
qed

theorem foreign_jobs_are_hidden_witness:
  "api_cancel_batch_job [] (Inr ''mallory'') (nat_str 0) demo_submitted =
     (demo_submitted, Inl (HTTPException 404 (''Batch job '' @ nat_str 0 @ '' not found'')))"
  using foreign_jobs_are_hidden[where jid = "nat_str 0" and d = demo_submitted and uid = "''mallory''" and reg = "[]"] demo_submitted_facts(2)
  by (simp add: demo_submitted_job_def Let_def)

text \<open>
  C32: Creating a job from a valid request leaves a waiting job of the user with the requested
  provider, model, mode and parameters, and one queued item per input, in order, with its input
  and external id; the number of requests is the number of items, every other job is
  untouched and the tables stay consistent. An invalid request changes nothing and is
  answered with status 400.
\<close>

theorem create_job_contract:
  assumes "db_ok d"
  shows "let (d', res) = api_create_batch_job C (Inr uid) q d; new = db_uuids d (db_uuid_count d) in
    case validate_create C q of
      Inl e \<Rightarrow> d' = d \<and> res = Inl e \<and> http_status e = 400
    | Inr mode \<Rightarrow>
        res = Inr \<lparr>rs_job_id = new, rs_status = CREATED, rs_item_count = length (cr_items q)\<rparr> \<and>
        map_option (\<lambda>j. (j_status j, j_provider j, j_model j, j_mode j, j_config_json j, j_created_by j,
            j_request_count j)) (get_batch_job new d') =
          Some (CREATED, cr_provider q, cr_model q, mode, map_option JObj (cr_params q), Some uid,
            int (length (cr_items q))) \<and>
        map (\<lambda>i. (i_sequence_index i, i_input_payload i, i_custom_external_id i, i_status i)) (job_items new d') =
          map (\<lambda>(k, input, cid). (int k, Some input, cid, ItemQUEUED)) (enumerate 0 (cr_items q)) \<and>
        (get_batch_job k d = None \<or> job_view k d' = job_view k d) \<and> db_ok d'"
proof (cases "validate_create C q")
  case (Inl e)
  then have "http_status e = 400"
    by (auto simp: validate_create_def Let_def split: if_split_asm option.split_asm)
  then show ?thesis using Inl by (simp add: api_create_batch_job_def Let_def)
next
  case (Inr mode)
  let ?new = "db_uuids d (db_uuid_count d)" and ?ns = "map request_item (enumerate 0 (cr_items q))"
  let ?c = "\<lparr>c_provider = cr_provider q, c_model = cr_model q, c_mode = mode,
    c_request_count = int (length (cr_items q)), c_config_json = map_option JObj (cr_params q)\<rparr>"
  let ?d = "fst (create_batch_items ?new ?ns (Some uid) (fst (create_batch_job ?c (Some uid) d)))"
  note new = new_job_with_items[OF assms, where ns = ?ns and creator = "Some uid" and data = ?c]
  have "api_create_batch_job C (Inr uid) q d =
      (?d, Inr \<lparr>rs_job_id = ?new, rs_status = CREATED, rs_item_count = length (cr_items q)\<rparr>)"
    using Inr new_job_found[OF assms, of ?c "Some uid"]
    by (simp add: api_create_batch_job_def Let_def case_prod_unfold service create_batch_items_def)
  moreover have "map (\<lambda>i. (i_sequence_index i, i_input_payload i, i_custom_external_id i, i_status i)) (job_items ?new ?d) =
      map (\<lambda>(k, input, cid). (int k, Some input, cid, ItemQUEUED)) (enumerate 0 (cr_items q))"
  proof -
    have "map (\<lambda>i. (i_sequence_index i, i_input_payload i, i_custom_external_id i, i_status i)) (job_items ?new ?d) =
        map (\<lambda>i. (i_sequence_index i, i_input_payload i, i_custom_external_id i, i_status i))
          (map (\<lambda>i. i\<lparr>i_id := []\<rparr>) (job_items ?new ?d))"
      by simp
    also have "\<dots> = map (\<lambda>(k, input, cid). (int k, Some input, cid, ItemQUEUED)) (enumerate 0 (cr_items q))"
      unfolding new(2) by (simp add: new_item_def request_item_def case_prod_unfold)
    finally show ?thesis .
  qed
  ultimately show ?thesis
    using new(1,3,4) Inr by (simp add: Let_def) (simp add: create_batch_job_def uuid4_def Let_def)
qed

definition demo_config :: api_config where
  "demo_config = \<lparr>ac_providers = [''openai''], ac_model_provider = (\<lambda>_. Some ''openai''),
     ac_batch_enabled = (\<lambda>_. True), ac_batch_mode = (\<lambda>_ _. Some ''chat''), ac_str = (\<lambda>_. [])\<rparr>"

definition demo_request :: create_request where
  "demo_request = \<lparr>cr_provider = ''openai'', cr_model = ''gpt-4o'',
     cr_items = [(JObj [], None), (JObj [], Some ''x'')], cr_params = None\<rparr>"

theorem create_job_contract_witness:
  "let (d', res) = api_create_batch_job demo_config (Inr ''alice'') demo_request (empty_db nat_str) in
     map i_custom_external_id (job_items (nat_str 0) d') = [None, Some ''x''] \<and> db_ok d'"
proof -
  have "validate_create demo_config demo_request = Inr ''chat''"
    by (simp add: validate_create_def demo_config_def demo_request_def request_mode_def)
  moreover have "db_uuids (empty_db nat_str) (db_uuid_count (empty_db nat_str)) = nat_str 0"
    by (simp add: empty_db_def)
  moreover have "db_ok (empty_db nat_str)" by (simp add: empty_db_ok inj_nat_str)
  ultimately show ?thesis
    using create_job_contract[of "empty_db nat_str" demo_config "''alice''" demo_request "[]"]
    by (auto simp: case_prod_unfold Let_def demo_request_def)
qed

text \<open>
  A client that asks for page after page while there are more; the fuel bounds the number of
  pages.
\<close>

primrec all_pages ::
  "nat \<Rightarrow> exn + uuid \<Rightarrow> uuid \<Rightarrow> item_status option \<Rightarrow> nat \<Rightarrow> nat \<Rightarrow> db \<Rightarrow> batch_item list" where
  "all_pages 0 user jid st limit offset d = []"
| "all_pages (Suc fuel) user jid st limit offset d =
     (case api_get_batch_items user jid st limit offset d of
        Inl _ \<Rightarrow> []
      | Inr p \<Rightarrow> ip_items p @
          (if ip_has_more p then all_pages fuel user jid st limit (offset + limit) d else []))"

lemma all_pages_from:
  assumes "owned_job user jid ''Failed to get batch items: '' d = Inr job" and "0 < limit"
  shows "length (get_batch_items jid st d) < offset + fuel \<Longrightarrow>
    all_pages fuel user jid st limit offset d = drop offset (get_batch_items jid st d)"
proof (induction fuel arbitrary: offset)
  case 0
  then show ?case by simp
next
  case (Suc fuel)
  let ?xs = "get_batch_items jid st d"
  have "take limit (drop offset ?xs) @ drop (offset + limit) ?xs = drop offset ?xs"
    by (metis append_take_drop_id add.commute drop_drop)
  then show ?case
    using Suc assms by (auto simp: api_get_batch_items_def Let_def not_less)
qed

text \<open>
  C34: Asking for the pages of a job's items one after the other, with any page size and as
  long as the answer says that there are more, yields every item exactly once, in order.
\<close>

theorem pages_cover_all_items:
  assumes "get_batch_job jid d = Some job" and "j_created_by job = Some uid" and "0 < limit"
  shows "all_pages (Suc (length (get_batch_items jid st d))) (Inr uid) jid st limit 0 d =
    get_batch_items jid st d"
proof -
  have "owned_job (Inr uid) jid ''Failed to get batch items: '' d = Inr job"
    using assms(1,2) by (simp add: owned_job_def)
  from all_pages_from[OF this assms(3), of st 0 "Suc (length (get_batch_items jid st d))"]
  show ?thesis by simp
qed

definition demo_owned :: db where
  "demo_owned = foldl service_step (empty_db nat_str)
     [CreateJob demo_job (Some ''alice''), CreateItems (nat_str 0) [demo_item 1, demo_item 0, demo_item 2] None]"

theorem pages_cover_all_items_witness:
  "map i_sequence_index (all_pages 4 (Inr ''alice'') (nat_str 0) None 2 0 demo_owned) = [0, 1, 2]"
proof -
  obtain job where job: "get_batch_job (nat_str 0) demo_owned = Some job" "j_created_by job = Some ''alice''"
    by (simp add: demo_owned_def demo_eval)
  have items: "map i_sequence_index (get_batch_items (nat_str 0) None demo_owned) = [0, 1, 2]"
    by (simp add: demo_owned_def demo_eval get_batch_items_def)
  have "length (get_batch_items (nat_str 0) None demo_owned) = 3"
    using arg_cong[OF items, of length] by simp
  then show ?thesis using pages_cover_all_items[OF job, of 2 None] items by (simp add: numeral_eq_Suc)
qed

text \<open>
  C35: Cancelling a job of one's own. A job that has completed, failed or been cancelled is
  left as it is; any other is cancelled, the change of status is recorded under the user, and
  its counts, its items and all other jobs stay as they are.
\<close>

theorem cancel_outcome:
  assumes "get_batch_job jid d = Some job" and "j_created_by job = Some uid"
  shows "let (d', res) = api_cancel_batch_job reg (Inr uid) jid d in
    (case res of Inl _ \<Rightarrow> False
     | Inr r \<Rightarrow>
        (if j_status job \<in> {COMPLETED, FAILED, CANCELLED}
         then d' = d \<and> \<not> cn_cancelled r \<and> cn_status r = j_status job
         else cn_cancelled r \<and> cn_status r = CANCELLED \<and>
           get_batch_job jid d' = Some (job\<lparr>j_status := CANCELLED, j_updated_by := Some uid\<rparr>) \<and>
           status_changes jid d' =
             status_changes jid d @ [(Some (job_status_value (j_status job)), Some ''cancelled'')] \<and>
           job_items jid d' = job_items jid d \<and>
           (k = jid \<or> job_view k d' = job_view k d)))"
proof -
  have own: "owned_job (Inr uid) jid failure d = Inr job" for failure
    using assms by (simp add: owned_job_def)
  let ?u = "no_job_update\<lparr>u_status := Some CANCELLED\<rparr>"
  obtain d2 where d2: "d2 = fst (update_batch_job jid ?u (Some uid) d)" by blast
  have upd: "update_batch_job jid ?u (Some uid) d = (d2, Some ((apply_job_update ?u job)\<lparr>j_updated_by := Some uid\<rparr>))"
    using assms(1) unfolding d2 by (simp add: update_batch_job_cases Let_def)
  have row: "get_batch_job jid d2 = Some (job\<lparr>j_status := CANCELLED, j_updated_by := Some uid\<rparr>)"
    using assms(1) unfolding d2 by (simp add: service apply_job_update_def no_job_update_def)
  have cancelled: "job_status_of ''cancelled'' = Some CANCELLED" using job_status_of_value[of CANCELLED] by simp
  have changes: "status_changes jid d2 =
      status_changes jid d @ [(Some (job_status_value (j_status job)), Some ''cancelled'')]"
    if "CANCELLED \<noteq> j_status job"
    using that assms(1) unfolding d2
    by (simp add: update_batch_job_cases Let_def no_job_update_def status_change_event_changes
        cancelled status_events_cong(1)[OF write_job_frame(2)])
  have others: "k = jid \<or> job_view k d2 = job_view k d" unfolding d2 by (metis view_update_batch_job(1))
  have items: "job_items jid d2 = job_items jid d" unfolding d2 by (rule view_update_batch_job(2))
  show ?thesis
  proof (cases "j_status job \<in> {COMPLETED, FAILED, CANCELLED}")
    case True
    then show ?thesis by (simp add: api_cancel_batch_job_def own)
  next
    case False
    then obtain msg where api: "api_cancel_batch_job reg (Inr uid) jid d =
        (d2, Inr \<lparr>cn_status = CANCELLED, cn_message = msg, cn_cancelled = True\<rparr>)"
      by (simp add: api_cancel_batch_job_def own Let_def upd)
    have ne: "CANCELLED \<noteq> j_status job" using False by auto
    show ?thesis
      unfolding api Let_def prod.case sum.case if_not_P[OF False]
      by (simp only: cancel_response.simps row changes[OF ne] items others simp_thms)
  qed
qed

theorem cancel_outcome_witness:
  "let (d', res) = api_cancel_batch_job [] (Inr ''alice'') (nat_str 0) demo_owned in
    map_option j_status (get_batch_job (nat_str 0) d') = Some CANCELLED \<and>
    length (job_items (nat_str 0) d') = 3"
proof -
  obtain job where job: "get_batch_job (nat_str 0) demo_owned = Some job" "j_created_by job = Some ''alice''"
      "j_status job = CREATED"
    by (simp add: demo_owned_def demo_eval)
  have "length (job_items (nat_str 0) demo_owned) = 3"
    by (simp add: demo_owned_def demo_eval job_items_def)
  then show ?thesis
    using cancel_outcome[OF job(1,2), of "[]"] job(3)
    by (cases "snd (api_cancel_batch_job [] (Inr ''alice'') (nat_str 0) demo_owned)")
      (auto simp: case_prod_unfold Let_def)
qed

text \<open>
  Cancelling never reaches a vendor. The endpoint creates the provider without its
  configuration, and each of the three registered providers refuses to be created without an
  API key: whatever the vendors' clients would answer, the cancellation counts as local only.
\<close>

theorem cancel_never_reaches_vendor:
  "case register_providers [Some (OpenAIBatchProvider E mk), Some (GeminiBatchProvider E str_of mk'),
       Some (ClaudeBatchProvider E str_of' mk'')] [] of
     Inl _ \<Rightarrow> False
   | Inr reg \<Rightarrow> \<not> cancel_with_provider reg job"
proof -
  let ?reg = "[(''openai'', OpenAIBatchProvider E mk), (''gemini'', GeminiBatchProvider E str_of mk'),
    (''claude'', ClaudeBatchProvider E str_of' mk'')]"
  have reg: "register_providers [Some (OpenAIBatchProvider E mk), Some (GeminiBatchProvider E str_of mk'),
      Some (ClaudeBatchProvider E str_of' mk'')] [] = Inr ?reg"
    by (simp add: register_def OpenAIBatchProvider_def GeminiBatchProvider_def ClaudeBatchProvider_def)
  have "\<exists>e. create_provider p None ?reg = Inl e" for p
    by (simp add: create_provider_def get_provider_def OpenAIBatchProvider_def GeminiBatchProvider_def
        ClaudeBatchProvider_def openai_new_def gemini_new_def claude_new_def)
  then obtain e where "create_provider (j_provider job) None ?reg = Inl e" by blast
  then have "\<not> cancel_with_provider ?reg job"
    unfolding cancel_with_provider_def by (auto split: option.split)
  then show ?thesis by (simp only: reg sum.case simp_thms)
qed

end
