(* ===== verification/GeminiProperties.thy ===== *)
theory GeminiProperties
  imports TaskProperties
begin

text \<open>
  The properties of the Gemini provider
  (\<open>inference_core/llm/batch/providers/gemini_provider.py\<close>): the way an item's id takes through
  preparing, submitting, storing the metadata, fetching and remapping, and the states in which
  the provider's poll and its fetch disagree.
\<close>

subsection \<open>The way of an item's id\<close>

lemma item_id_payload_nonempty: "item_id_payload E item = Inr (bid, j) \<Longrightarrow> bid \<noteq> []"
  by (auto simp: item_id_payload_def split: option.split_asm if_split_asm json.split_asm)

lemma gemini_prepared_ids_nonempty:
  assumes "gemini_prepare_payloads E items model mode config = Inr p" and "i \<in> set items"
  shows "the (d_id i) \<noteq> []"
proof -
  obtain rs where "map_result (gemini_request E) items = Inr rs"
    using assms(1)
    by (auto simp: gemini_prepare_payloads_def prepare_with_def bind_result_Inr_iff split: if_split_asm)
  then obtain r where "gemini_request E i = Inr r"
    using assms(2) by (induction items arbitrary: rs) (auto split: sum.split_asm)
  then show ?thesis
    by (auto simp: gemini_request_def bind_result_Inr_iff)
      (metis item_id_payload_id item_id_payload_nonempty option.sel)
qed

lemma pop_custom_id_item:
  "pop_custom_id (idx, j) = Inr (c, j') \<Longrightarrow> json_item j ''_custom_id'' = Inr v \<Longrightarrow> c = v"
  by (cases j) (auto split: option.split_asm)

lemma popped_ids:
  "map_result pop_custom_id (enumerate n xs) = Inr popped \<Longrightarrow>
   map (\<lambda>r. json_item r ''_custom_id'') xs = map Inr cs \<Longrightarrow> map fst popped = cs"
proof (induction xs arbitrary: n popped cs)
  case Nil
  then show ?case by simp
next
  case (Cons x xs)
  then obtain c cs' where cs: "cs = c # cs'" by (cases cs) auto
  from Cons.prems(1) obtain y ys where y: "pop_custom_id (n, x) = Inr y"
      "map_result pop_custom_id (enumerate (Suc n) xs) = Inr ys" "popped = y # ys"
    by (auto split: sum.split_asm)
  have "fst y = c"
    using pop_custom_id_item[of n x "fst y" "snd y" c] y(1) Cons.prems(2) cs by simp
  then show ?case using Cons.IH[OF y(2), of cs'] Cons.prems(2) cs y(3) by simp
qed

lemma map_of_positions:
  "map_of (map (\<lambda>(idx, c). (nat_str idx, c)) (enumerate n cs)) (nat_str k) =
     (if n \<le> k \<and> k < n + length cs then Some (cs ! (k - n)) else None)"
  by (induction cs arbitrary: n) (auto simp: nth_Cons' not_less_eq_eq le_Suc_eq)

lemma stored_custom_map:
  assumes "store_submission_metadata (j_id job) sm (get_metadata job) = Inr md"
  shows "gemini_custom_map (set_metadata md job) = map_of sm ''custom_id_mapping''"
proof -
  obtain kvs where "map_of md ''submission_metadata'' = Some (JObj kvs)" "map_of kvs (j_id job) = Some (JObj sm)"
    using assms
    by (auto simp: store_submission_metadata_def split: option.split_asm json.split_asm)
  then show ?thesis
    by (simp add: gemini_custom_map_def get_metadata_def set_metadata_def)
qed

lemma parsed_row_ids:
  assumes "parse_inlined_responses str_of resps = Inr rows"
  shows "map rr_custom_id rows = map item_name [0 ..< length resps]"
proof -
  have row: "rr_custom_id r = item_name (fst x)" if "parse_inlined_response str_of x = Inr r" for x r
    using that
    by (cases x)
      (auto simp: parse_inlined_response_def gemini_failed_row_def gemini_response_row_def
        bind_result_Inr_iff dest!: mk_result_row_id split: sum.split_asm)
  have "map rr_custom_id rows = map (item_name \<circ> fst) (enumerate 0 resps)"
    using map_result_Inr_map[OF assms[unfolded parse_inlined_responses_def], of rr_custom_id "item_name \<circ> fst"]
    by (simp add: row)
  then show ?thesis by (simp flip: map_map)
qed

lemma remap_item_name:
  assumes "k < length cids" and "cids ! k = JStr s" and "s \<noteq> []" and "rr_custom_id r = item_name k"
  shows "remap_by_position T (JObj (gemini_custom_id_mapping cids)) r = r\<lparr>rr_custom_id := s\<rparr>"
  using assms map_of_positions[of 0 cids k]
  by (simp add: remap_by_position_def item_name_def py_startswith_def gemini_custom_id_mapping_def json_text_def)

text \<open>
  C8: A Gemini batch answers its requests in order and without ids, yet every row of results
  comes back under the id of its item: the ids that preparing puts into the requests, that
  submitting takes out again and that are stored with the job by position are the ids that
  the fetch task gives to the rows, row by row in the order of the items; nothing else of a row
  changes.
\<close>

theorem gemini_ids_round_trip:
  assumes "gemini_prepare_payloads E items model mode config = Inr p"
    and "gemini_submit cl p = Inr r"
    and "stored_metadata job r = Inr (Some md)" and "j_provider job = ''gemini''"
    and "parse_inlined_responses str_of resps = Inr rows" and "length resps = length items"
  shows "let rows' = remap_gemini T (set_metadata md job) rows in
    map rr_custom_id rows' = map (\<lambda>i. the (d_id i)) items \<and>
    map (\<lambda>row. row\<lparr>rr_custom_id := []\<rparr>) rows' = map (\<lambda>row. row\<lparr>rr_custom_id := []\<rparr>) rows"
proof -
  let ?ids = "map (\<lambda>i. the (d_id i)) items" and ?cids = "map (\<lambda>i. JStr (the (d_id i))) items"
  obtain popped b t where popped: "map_result pop_custom_id (enumerate 0 (ps_items p)) = Inr popped"
    and sub: "sr_submission_metadata r = Some
      [(''custom_id_mapping'', JObj (gemini_custom_id_mapping (map fst popped))),
       (''model'', JStr (ps_model p)), (''mode'', JStr (ps_mode p))]"
    using assms(2) by (auto simp: gemini_submit_def bind_result_Inr_iff split: option.split_asm)
  have "map (\<lambda>r. json_item r ''_custom_id'') (ps_items p) = map Inr ?cids"
    using gemini.prepare_ids[OF assms(1)] by (simp add: comp_def)
  then have cids: "map fst popped = ?cids" by (rule popped_ids[OF popped])
  have "gemini_custom_map (set_metadata md job) = Some (JObj (gemini_custom_id_mapping ?cids))"
    using assms(3) stored_custom_map[of job _ md]
    by (auto simp: stored_metadata_def sub cids bind_result_Inr_iff)
  moreover have "items \<noteq> []" using gemini.prepare_fields[OF assms(1)] by simp
  then have "gemini_custom_id_mapping ?cids \<noteq> []"
    by (simp add: gemini_custom_id_mapping_def enumerate_eq_zip)
  ultimately have remap: "remap_gemini T (set_metadata md job) rows =
      map (remap_by_position T (JObj (gemini_custom_id_mapping ?cids))) rows"
    using assms(4) by (simp add: remap_gemini_def set_metadata_def)
  have ids: "map rr_custom_id rows = map item_name [0 ..< length items]"
    using parsed_row_ids[OF assms(5)] assms(6) by simp
  have len: "length rows = length items" using arg_cong[OF ids, of length] by simp
  have each: "remap_by_position T (JObj (gemini_custom_id_mapping ?cids)) (rows ! k) =
      (rows ! k)\<lparr>rr_custom_id := ?ids ! k\<rparr>" if "k < length items" for k
  proof (rule remap_item_name)
    show "rr_custom_id (rows ! k) = item_name k" using arg_cong[OF ids, of "\<lambda>xs. xs ! k"] that len by simp
    show "?ids ! k \<noteq> []" using gemini_prepared_ids_nonempty[OF assms(1), of "items ! k"] that by simp
  qed (use that in simp_all)
  have "map rr_custom_id (map (remap_by_position T (JObj (gemini_custom_id_mapping ?cids))) rows) = ?ids"
    by (rule nth_equalityI) (simp_all add: len each)
  moreover have "map (\<lambda>row. row\<lparr>rr_custom_id := []\<rparr>)
      (map (remap_by_position T (JObj (gemini_custom_id_mapping ?cids))) rows) =
    map (\<lambda>row. row\<lparr>rr_custom_id := []\<rparr>) rows"
    by (rule nth_equalityI) (simp_all add: len each)
  ultimately show ?thesis by (simp only: remap Let_def)
qed

definition demo_gemini_items :: "item_data list" where
  "demo_gemini_items =
     [\<lparr>d_id = Some ''a'', d_sequence_index = 0, d_input_payload = JObj [(''text'', JStr ''hi'')]\<rparr>,
      \<lparr>d_id = Some ''b'', d_sequence_index = 1, d_input_payload = JObj [(''messages'', JArr [])]\<rparr>]"

definition demo_gemini_job :: "string \<Rightarrow> gemini_job" where
  "demo_gemini_job st = \<lparr>gj_name = ''batches/1'', gj_state = st, gj_create_time = Some (Aware 5),
     gj_update_time = None, gj_start_time = None, gj_end_time = None, gj_error = None, gj_dest = None\<rparr>"

definition demo_gemini_client :: "string \<Rightarrow> gemini_client" where
  "demo_gemini_client st = \<lparr>gc_create = (\<lambda>_ _. Inr (demo_gemini_job st)),
     gc_get = (\<lambda>_. Inr (demo_gemini_job st)), gc_cancel = (\<lambda>_. Inr None)\<rparr>"

definition demo_response :: pyobj where
  "demo_response = PModel [(''response'', PModel [(''text'', PStr ''hello'')])]"

theorem gemini_ids_round_trip_witness:
  "\<exists>p r md rows.
     gemini_prepare_payloads demo_json_env demo_gemini_items ''gemini-2.5-pro'' ''chat'' None = Inr p \<and>
     gemini_submit (demo_gemini_client ''JOB_STATE_PENDING'') p = Inr r \<and>
     stored_metadata (demo_waiting_job\<lparr>j_provider := ''gemini''\<rparr>) r = Inr (Some md) \<and>
     parse_inlined_responses (\<lambda>_. []) [demo_response, demo_response] = Inr rows \<and>
     map rr_custom_id (remap_gemini demo_env (set_metadata md (demo_waiting_job\<lparr>j_provider := ''gemini''\<rparr>)) rows) =
       [''a'', ''b'']"
proof -
  let ?job = "demo_waiting_job\<lparr>j_provider := ''gemini''\<rparr>"
  let ?cl = "demo_gemini_client ''JOB_STATE_PENDING''"
  obtain p where p: "gemini_prepare_payloads demo_json_env demo_gemini_items ''gemini-2.5-pro'' ''chat'' None = Inr p"
    "ps_items p =
      [JObj [(''contents'', JArr [gemini_parts (JStr ''user'') (JStr ''hi'')]),
             (''config'', JObj [(''response_modalities'', JArr [JStr ''text''])]), (''_custom_id'', JStr ''a'')],
       JObj [(''contents'', JArr []), (''config'', JObj [(''response_modalities'', JArr [JStr ''text''])]),
             (''_custom_id'', JStr ''b'')]]"
    by (simp add: gemini_prepare_payloads_def prepare_with_def demo_gemini_items_def
        gemini_supports_model_def py_lower_def py_lower_char_def py_strip_def py_lstrip_def
        py_rstrip_def py_space_def py_startswith_def py_contains_def gemini_request_def
        item_id_payload_def convert_to_gemini_format_def prepared_job_id_def)
  obtain r where r: "gemini_submit ?cl p = Inr r" "sr_submission_metadata r \<noteq> None" "sr_submission_metadata r \<noteq> Some []"
    by (simp add: gemini_submit_def p demo_gemini_client_def demo_gemini_job_def)
  obtain md where md: "stored_metadata ?job r = Inr (Some md)"
    using r(2,3)
    by (auto simp: stored_metadata_def store_submission_metadata_def get_metadata_def
        demo_waiting_job_def demo_submitted_job_def)
  obtain rows where rows: "parse_inlined_responses (\<lambda>_. []) [demo_response, demo_response] = Inr rows"
    by (simp add: parse_inlined_responses_def parse_inlined_response_def demo_response_def
        gemini_response_row_def response_text_def mk_result_row_def)
  have "map rr_custom_id (remap_gemini demo_env (set_metadata md ?job) rows) = map (\<lambda>i. the (d_id i)) demo_gemini_items"
    using gemini_ids_round_trip[OF p(1) r(1) md _ rows, of demo_env]
    by (simp add: demo_gemini_items_def Let_def)
  then have "map rr_custom_id (remap_gemini demo_env (set_metadata md ?job) rows) = [''a'', ''b'']"
    by (simp add: demo_gemini_items_def)
  with p(1) r(1) md rows show ?thesis
    by (intro exI[of _ p] exI[of _ r] exI[of _ md] exI[of _ rows] conjI)
qed

subsection \<open>Where polling and fetching disagree\<close>

text \<open>
  A Gemini batch in state \<open>JOB_STATE_PARTIALLY_SUCCEEDED\<close> or \<open>BATCH_STATE_SUCCEEDED\<close> is
  completed to the poll, which asks for its results, and not completed to the fetch, which
  refuses them with a permanent error: the results are never fetched.
\<close>

theorem partial_success_is_not_fetched:
  assumes "gc_get cl bid = Inr b"
    and "gj_state b \<in> {''JOB_STATE_PARTIALLY_SUCCEEDED'', ''BATCH_STATE_SUCCEEDED''}"
  shows "(case gemini_poll_status cl bid of
            Inl _ \<Rightarrow> False | Inr st \<Rightarrow> job_status_of (st_normalized_status st) = Some COMPLETED) \<and>
    gemini_fetch_results str_of cl bid m = Inl (ProviderPermanentError
      (''Cannot fetch results for batch '' @ bid @ '' with state '' @ gj_state b))"
proof -
  obtain st where st: "gemini_poll_status cl bid = Inr st"
    using assms(1) by (simp add: gemini_poll_status_def Let_def)
  then have "st_normalized_status st = gemini_normalize (gj_state b)"
    using assms(1) gemini_poll_status_Inr[OF st] by auto
  moreover have "gemini_normalize (gj_state b) = job_status_value COMPLETED"
    using assms(2) by (auto simp: gemini_normalize_def gemini_STATUS_MAPPING_def)
  moreover have "gj_state b \<noteq> ''JOB_STATE_SUCCEEDED''" using assms(2) by auto
  ultimately show ?thesis
    using assms(1) by (simp add: st gemini_fetch_results_def fetch_error_def del: job_status_value.simps)
qed

theorem partial_success_is_not_fetched_witness:
  "gemini_fetch_results (\<lambda>_. []) (demo_gemini_client ''JOB_STATE_PARTIALLY_SUCCEEDED'') ''b'' None =
     Inl (ProviderPermanentError
       ''Cannot fetch results for batch b with state JOB_STATE_PARTIALLY_SUCCEEDED'')"
  using partial_success_is_not_fetched[of "demo_gemini_client ''JOB_STATE_PARTIALLY_SUCCEEDED''" "''b''"
      "demo_gemini_job ''JOB_STATE_PARTIALLY_SUCCEEDED''"]
  by (simp add: demo_gemini_client_def demo_gemini_job_def)

text \<open>
  The vendor's own error of a response never reaches the user: a row either succeeds
  without an error text, or carries the text of the parser's failure. The branch that reads
  the error of the response cannot produce a row.
\<close>

theorem gemini_error_text_is_lost:
  assumes "parse_inlined_response str_of (idx, item) = Inr row"
  shows "case rr_error_message row of
      None \<Rightarrow> rr_is_success row
    | Some m \<Rightarrow> \<not> rr_is_success row \<and> py_startswith m ''Failed to parse response: ''"
proof -
  have failed: ?thesis if "gemini_failed_row idx response e = Inr row" for response e
    using that
    by (auto simp: gemini_failed_row_def mk_result_row_def bind_result_Inr_iff py_startswith_def)
  have fine: ?thesis if "gemini_response_row str_of idx item response = Inr row" for response
    using that
    by (cases response)
      (auto simp: gemini_response_row_def bind_result_Inr_iff mk_result_row_def split: if_split_asm)
  show ?thesis
    using assms failed fine by (auto simp: parse_inlined_response_def split: sum.split_asm)
qed

theorem gemini_error_text_is_lost_witness:
  "\<exists>row. parse_inlined_response (\<lambda>_. []) (0, PModel [(''response'', PNone), (''error'', PStr ''quota exceeded'')]) =
     Inr row \<and> \<not> rr_is_success row \<and>
     py_startswith (the (rr_error_message row)) ''Failed to parse response: ''"
proof -
  obtain row where row: "parse_inlined_response (\<lambda>_. [])
      (0, PModel [(''response'', PNone), (''error'', PStr ''quota exceeded'')]) = Inr row"
      "rr_error_message row \<noteq> None"
    by (simp add: parse_inlined_response_def gemini_response_row_def response_text_def
        candidate_text_def gemini_failed_row_def mk_result_row_def)
  then show ?thesis using gemini_error_text_is_lost[OF row(1)] by auto
qed

end
