(* ===== verification/Security.thy ===== *)
theory Security
  imports BatchModels
begin

text \<open>
  \<open>inference_core/core/security.py\<close> and \<open>inference_core/services/refresh_session_store.py\<close>:
  the tokens of the service, the passwords, and the sessions of refresh tokens in Redis. The
  JWT library, bcrypt, the source of random strings and the availability of Redis and of the
  mail queue are parameters, the fields of the environment.
\<close>

subsection \<open>Users, the state and the environment\<close>

record user =
  us_id :: uuid
  us_email :: string
  us_username :: string
  us_hashed_password :: string
  us_first_name :: "string option"
  us_last_name :: "string option"
  us_is_active :: bool
  us_is_superuser :: bool
  us_is_verified :: bool

text \<open>A Redis hash with the two fields of a session and the time at which Redis drops it.\<close>

record session_hash =
  sh_sub :: string
  sh_exp :: int
  sh_expiry :: "int option"

text \<open>A mail: the recipient, the template and the token in its link.\<close>

datatype mail = Mail string string string

record auth_world =
  aw_users :: "user list"
  aw_redis :: "string \<Rightarrow> session_hash option"
  aw_clock :: int
  aw_drawn :: nat
  aw_redis_calls :: nat
  aw_outbox :: "mail list"

type_synonym claims = "(string \<times> json) list"

text \<open>
  \<open>jwt_decode\<close> checks signature, times and the types of the registered claims at a given
  time; \<^const>\<open>None\<close> is a \<open>JWTError\<close>. \<open>ae_redis_up n\<close> tells whether the call
  number \<open>n\<close> to Redis goes through, \<open>ae_random n\<close> is the random string number \<open>n\<close>.
\<close>

record auth_env =
  ae_jwt_encode :: "claims \<Rightarrow> string"
  ae_jwt_decode :: "int \<Rightarrow> string \<Rightarrow> claims option"
  ae_utf8 :: "string \<Rightarrow> string"
  ae_bcrypt_hash :: "nat \<Rightarrow> string \<Rightarrow> string"
  ae_bcrypt_check :: "string \<Rightarrow> string \<Rightarrow> exn + bool"
  ae_random :: "nat \<Rightarrow> string"
  ae_redis_up :: "nat \<Rightarrow> bool"
  ae_uuid :: "string \<Rightarrow> uuid option"
  ae_new_uuid :: "nat \<Rightarrow> uuid"
  ae_email_available :: bool
  ae_queue_up :: bool
  ae_email_service :: bool
  ae_access_minutes :: int
  ae_refresh_days :: int
  ae_verification_minutes :: int
  ae_prefix :: string
  ae_login_require_active :: bool
  ae_login_require_verified :: bool
  ae_register_enabled :: bool
  ae_register_active :: bool
  ae_verification_on_register :: bool
  ae_forgot_enabled :: bool
  ae_verification_makes_active :: bool
  ae_access_mode :: string

definition draw :: "auth_world \<Rightarrow> auth_world \<times> nat" where
  "draw w = (w\<lparr>aw_drawn := Suc (aw_drawn w)\<rparr>, aw_drawn w)"

subsection \<open>Passwords\<close>

definition encode_password :: "auth_env \<Rightarrow> string \<Rightarrow> string" where
  "encode_password E password = take 72 (ae_utf8 E password)"

definition verify_password :: "auth_env \<Rightarrow> string \<Rightarrow> string \<Rightarrow> exn + bool" where
  "verify_password E plain hashed =
     (case ae_bcrypt_check E (encode_password E plain) (ae_utf8 E hashed) of
        Inl (ValueError _) \<Rightarrow> Inr False
      | Inl (TypeError _) \<Rightarrow> Inr False
      | r \<Rightarrow> r)"

definition get_password_hash :: "auth_env \<Rightarrow> string \<Rightarrow> auth_world \<Rightarrow> auth_world \<times> string" where
  "get_password_hash E password w =
     (let (w, salt) = draw w in (w, ae_bcrypt_hash E salt (encode_password E password)))"

subsection \<open>Tokens\<close>

text \<open>
  The library refuses a token whose subject or id is not a string and gives times as numbers,
  so a claim of another type counts as missing.
\<close>

definition claim_text :: "claims \<Rightarrow> string \<Rightarrow> string option" where
  "claim_text c k = (case map_of c k of Some (JStr s) \<Rightarrow> Some s | _ \<Rightarrow> None)"

definition claim_int :: "claims \<Rightarrow> string \<Rightarrow> int option" where
  "claim_int c k = (case map_of c k of Some (JNum n) \<Rightarrow> Some \<lfloor>n\<rfloor> | _ \<Rightarrow> None)"

definition claim_type :: "claims \<Rightarrow> string option" where
  "claim_type c = claim_text c ''type''"

definition create_access_token ::
  "auth_env \<Rightarrow> claims \<Rightarrow> int option \<Rightarrow> auth_world \<Rightarrow> auth_world \<times> string" where
  "create_access_token E data expires_delta w =
     (let expire = aw_clock w + (case expires_delta of Some s \<Rightarrow> (if s \<noteq> 0 then s else ae_access_minutes E * 60)
                                 | None \<Rightarrow> ae_access_minutes E * 60);
          (w, n) = draw w
      in (w, ae_jwt_encode E (dict_merge data
            [(''exp'', JNum (of_int expire)), (''type'', JStr ''access''), (''jti'', JStr (ae_random E n))])))"

definition create_refresh_token :: "auth_env \<Rightarrow> claims \<Rightarrow> auth_world \<Rightarrow> auth_world \<times> string" where
  "create_refresh_token E data w =
     (let expire = aw_clock w + ae_refresh_days E * 86400;
          (w, n) = draw w
      in (w, ae_jwt_encode E (dict_merge data
            [(''exp'', JNum (of_int expire)), (''type'', JStr ''refresh''), (''jti'', JStr (ae_random E n))])))"

definition verify_token :: "auth_env \<Rightarrow> int \<Rightarrow> string \<Rightarrow> string option" where
  "verify_token E now token =
     (case ae_jwt_decode E now token of
        None \<Rightarrow> None
      | Some c \<Rightarrow> if claim_type c \<noteq> Some ''access'' then None else claim_text c ''sub'')"

definition timed_token :: "auth_env \<Rightarrow> string \<Rightarrow> int \<Rightarrow> string \<Rightarrow> auth_world \<Rightarrow> string" where
  "timed_token E kind seconds sub w =
     ae_jwt_encode E [(''exp'', JNum (of_int (aw_clock w + seconds))), (''nbf'', JNum (of_int (aw_clock w))),
       (''sub'', JStr sub), (''type'', JStr kind)]"

definition typed_subject :: "auth_env \<Rightarrow> string \<Rightarrow> int \<Rightarrow> string \<Rightarrow> exn + string option" where
  "typed_subject E kind now token =
     (case ae_jwt_decode E now token of
        None \<Rightarrow> Inr None
      | Some c \<Rightarrow>
          if claim_type c \<noteq> Some kind then Inr None
          else (case claim_text c ''sub'' of None \<Rightarrow> Inl (LookupError ''sub'') | Some s \<Rightarrow> Inr (Some s)))"

definition generate_password_reset_token :: "auth_env \<Rightarrow> string \<Rightarrow> auth_world \<Rightarrow> string" where
  "generate_password_reset_token E email = timed_token E ''reset'' 3600 email"

definition verify_password_reset_token :: "auth_env \<Rightarrow> int \<Rightarrow> string \<Rightarrow> exn + string option" where
  "verify_password_reset_token E = typed_subject E ''reset''"

definition generate_email_verification_token :: "auth_env \<Rightarrow> uuid \<Rightarrow> auth_world \<Rightarrow> string" where
  "generate_email_verification_token E uid = timed_token E ''email_verify'' (ae_verification_minutes E * 60) uid"

definition verify_email_verification_token :: "auth_env \<Rightarrow> int \<Rightarrow> string \<Rightarrow> exn + string option" where
  "verify_email_verification_token E = typed_subject E ''email_verify''"

subsection \<open>The sessions of refresh tokens\<close>

text \<open>
  One call to Redis: it goes through, or raises and changes nothing. A hash whose time has
  come is gone.
\<close>

definition redis_call ::
  "auth_env \<Rightarrow> ((string \<Rightarrow> session_hash option) \<Rightarrow> (string \<Rightarrow> session_hash option)) \<Rightarrow>
   auth_world \<Rightarrow> auth_world \<times> bool" where
  "redis_call E f w =
     (let w' = w\<lparr>aw_redis_calls := Suc (aw_redis_calls w)\<rparr> in
      if ae_redis_up E (aw_redis_calls w) then (w'\<lparr>aw_redis := f (aw_redis w)\<rparr>, True) else (w', False))"

definition session_live :: "int \<Rightarrow> session_hash option \<Rightarrow> bool" where
  "session_live now h \<longleftrightarrow>
     (case h of None \<Rightarrow> False | Some s \<Rightarrow> (case sh_expiry s of None \<Rightarrow> True | Some t \<Rightarrow> now < t))"

text \<open>\<open>HSET\<close> of both fields keeps the time to live of a hash that is there.\<close>

definition redis_hset ::
  "int \<Rightarrow> string \<Rightarrow> string \<Rightarrow> int \<Rightarrow> (string \<Rightarrow> session_hash option) \<Rightarrow> (string \<Rightarrow> session_hash option)" where
  "redis_hset now key sub expires r =
     r(key \<mapsto> \<lparr>sh_sub = sub, sh_exp = expires,
                 sh_expiry = (if session_live now (r key) then sh_expiry (the (r key)) else None)\<rparr>)"

definition redis_expire ::
  "int \<Rightarrow> string \<Rightarrow> int \<Rightarrow> (string \<Rightarrow> session_hash option) \<Rightarrow> (string \<Rightarrow> session_hash option)" where
  "redis_expire now key ttl r =
     (if session_live now (r key) then r(key := map_option (\<lambda>s. s\<lparr>sh_expiry := Some (now + ttl)\<rparr>) (r key)) else r)"

definition store_key :: "auth_env \<Rightarrow> string \<Rightarrow> string" where
  "store_key E jti = ae_prefix E @ jti"

definition store_add :: "auth_env \<Rightarrow> string \<Rightarrow> string \<Rightarrow> int \<Rightarrow> auth_world \<Rightarrow> auth_world" where
  "store_add E jti sub expires w =
     (let ttl = max 0 (expires - aw_clock w);
          (w, ok) = redis_call E (redis_hset (aw_clock w) (store_key E jti) sub expires) w
      in if ok \<and> ttl > 0 then fst (redis_call E (redis_expire (aw_clock w) (store_key E jti) ttl) w) else w)"

definition store_exists :: "auth_env \<Rightarrow> string \<Rightarrow> auth_world \<Rightarrow> auth_world \<times> bool" where
  "store_exists E jti w =
     (let (w, ok) = redis_call E id w in (w, ok \<and> session_live (aw_clock w) (aw_redis w (store_key E jti))))"

definition store_revoke :: "auth_env \<Rightarrow> string \<Rightarrow> auth_world \<Rightarrow> auth_world" where
  "store_revoke E jti w = fst (redis_call E (\<lambda>r. r(store_key E jti := None)) w)"

definition store_get_subject :: "auth_env \<Rightarrow> string \<Rightarrow> auth_world \<Rightarrow> auth_world \<times> string option" where
  "store_get_subject E jti w =
     (let (w, ok) = redis_call E id w; h = aw_redis w (store_key E jti)
      in (w, if ok \<and> session_live (aw_clock w) h then map_option sh_sub h else None))"

text \<open>\<^const>\<open>None\<close> stands for the \<open>JWTError\<close> of the decoder.\<close>

definition decode_and_validate_refresh ::
  "auth_env \<Rightarrow> string \<Rightarrow> auth_world \<Rightarrow> auth_world \<times> (exn option + claims)" where
  "decode_and_validate_refresh E token w =
     (case ae_jwt_decode E (aw_clock w) token of
        None \<Rightarrow> (w, Inl None)
      | Some c \<Rightarrow>
          if claim_type c \<noteq> Some ''refresh'' then (w, Inl (Some (ValueError ''Not a refresh token'')))
          else (case (claim_text c ''jti'', claim_text c ''sub'', claim_int c ''exp'') of
              (Some jti, Some sub, Some expires) \<Rightarrow>
                if jti = [] \<or> sub = [] \<or> expires = 0 then (w, Inl (Some (ValueError ''Malformed refresh token'')))
                else (case store_exists E jti w of
                  (w, True) \<Rightarrow> (w, Inr c)
                | (w, False) \<Rightarrow> (w, Inl (Some (ValueError ''Refresh session not found or revoked''))))
            | _ \<Rightarrow> (w, Inl (Some (ValueError ''Malformed refresh token'')))))"

end
