(* ===== verification/AuthService.thy ===== *)
theory AuthService
  imports Security
begin

text \<open>
  \<open>inference_core/services/auth_service.py\<close>, the endpoints of
  \<open>inference_core/api/v1/routes/auth.py\<close> and the dependencies of
  \<open>inference_core/core/dependecies.py\<close> that identify the caller. Rendering the mails is left
  out; a mail is its recipient, its kind and its token. An exception that no handler catches
  is answered by the framework with status 500.
\<close>

definition unhandled :: "exn \<Rightarrow> http_error" where
  "unhandled e = HTTPException 500 ''Internal Server Error''"

subsection \<open>The users table\<close>

definition get_user_by_id :: "auth_env \<Rightarrow> string \<Rightarrow> auth_world \<Rightarrow> user option" where
  "get_user_by_id E uid w =
     row_find us_id (case ae_uuid E uid of Some u \<Rightarrow> u | None \<Rightarrow> uid) (aw_users w)"

definition get_user_by_email :: "string \<Rightarrow> auth_world \<Rightarrow> user option" where
  "get_user_by_email email w = row_find us_email email (aw_users w)"

definition get_user_by_username :: "string \<Rightarrow> auth_world \<Rightarrow> user option" where
  "get_user_by_username name w = row_find us_username name (aw_users w)"

definition write_user :: "uuid \<Rightarrow> (user \<Rightarrow> user) \<Rightarrow> auth_world \<Rightarrow> auth_world" where
  "write_user uid f w = w\<lparr>aw_users := row_update us_id uid f (aw_users w)\<rparr>"

text \<open>A commit fails when it would store an email or a username twice.\<close>

definition integrity_error :: exn where
  "integrity_error = OtherError ''IntegrityError''"

definition authenticate_user :: "auth_env \<Rightarrow> string \<Rightarrow> string \<Rightarrow> auth_world \<Rightarrow> exn + user option" where
  "authenticate_user E name password w =
     (case (case get_user_by_username name w of None \<Rightarrow> get_user_by_email name w | u \<Rightarrow> u) of
        None \<Rightarrow> Inr None
      | Some u \<Rightarrow> map_sum id (\<lambda>ok. if ok then Some u else None) (verify_password E password (us_hashed_password u)))"

definition create_user ::
  "auth_env \<Rightarrow> string \<Rightarrow> string \<Rightarrow> string \<Rightarrow> string option \<Rightarrow> string option \<Rightarrow> bool \<Rightarrow> auth_world \<Rightarrow>
   auth_world \<times> (exn + user)" where
  "create_user E name email password forename surname active w =
     (let (w, hashed) = get_password_hash E password w; (w, n) = draw w;
          u = \<lparr>us_id = ae_new_uuid E n, us_email = email, us_username = name, us_hashed_password = hashed,
               us_first_name = forename, us_last_name = surname, us_is_active = active, us_is_superuser = False,
               us_is_verified = False\<rparr>
      in if get_user_by_email email w \<noteq> None \<or> get_user_by_username name w \<noteq> None then (w, Inl integrity_error)
         else (w\<lparr>aw_users := aw_users w @ [u]\<rparr>, Inr u))"

definition update_user_profile ::
  "auth_env \<Rightarrow> string \<Rightarrow> string option \<Rightarrow> string option \<Rightarrow> string option \<Rightarrow> auth_world \<Rightarrow>
   auth_world \<times> (exn + user option)" where
  "update_user_profile E uid forename surname email w =
     (case get_user_by_id E uid w of
        None \<Rightarrow> (w, Inr None)
      | Some u \<Rightarrow>
          let u' = u\<lparr>us_first_name := (if forename = None then us_first_name u else forename),
                      us_last_name := (if surname = None then us_last_name u else surname),
                      us_email := (case email of None \<Rightarrow> us_email u | Some e \<Rightarrow> e)\<rparr>
          in if list_ex (\<lambda>v. us_id v \<noteq> us_id u \<and> us_email v = us_email u') (aw_users w)
             then (w, Inl integrity_error)
             else (write_user (us_id u) (\<lambda>_. u') w, Inr (Some u')))"

definition update_user_password :: "auth_env \<Rightarrow> string \<Rightarrow> string \<Rightarrow> auth_world \<Rightarrow> auth_world \<times> bool" where
  "update_user_password E uid password w =
     (case get_user_by_id E uid w of
        None \<Rightarrow> (w, False)
      | Some u \<Rightarrow>
          let (w, hashed) = get_password_hash E password w
          in (write_user (us_id u) (\<lambda>u. u\<lparr>us_hashed_password := hashed\<rparr>) w, True))"

definition set_active :: "bool \<Rightarrow> auth_env \<Rightarrow> string \<Rightarrow> auth_world \<Rightarrow> auth_world \<times> bool" where
  "set_active b E uid w =
     (case get_user_by_id E uid w of
        None \<Rightarrow> (w, False)
      | Some u \<Rightarrow> (write_user (us_id u) (\<lambda>u. u\<lparr>us_is_active := b\<rparr>) w, True))"

definition deactivate_user :: "auth_env \<Rightarrow> string \<Rightarrow> auth_world \<Rightarrow> auth_world \<times> bool" where
  "deactivate_user = set_active False"

definition activate_user :: "auth_env \<Rightarrow> string \<Rightarrow> auth_world \<Rightarrow> auth_world \<times> bool" where
  "activate_user = set_active True"

subsection \<open>Password reset and email verification\<close>

definition send_password_reset_email :: "auth_env \<Rightarrow> string \<Rightarrow> string \<Rightarrow> auth_world \<Rightarrow> auth_world" where
  "send_password_reset_email E email token w =
     (if ae_email_available E \<and> (ae_queue_up E \<or> ae_email_service E)
      then w\<lparr>aw_outbox := aw_outbox w @ [Mail email ''reset_password'' token]\<rparr> else w)"

definition request_password_reset :: "auth_env \<Rightarrow> string \<Rightarrow> auth_world \<Rightarrow> auth_world \<times> bool" where
  "request_password_reset E email w =
     (case get_user_by_email email w of
        None \<Rightarrow> (w, True)
      | Some _ \<Rightarrow> (send_password_reset_email E email (generate_password_reset_token E email w) w, True))"

definition reset_password :: "auth_env \<Rightarrow> string \<Rightarrow> string \<Rightarrow> auth_world \<Rightarrow> auth_world \<times> (exn + bool)" where
  "reset_password E token password w =
     (case verify_password_reset_token E (aw_clock w) token of
        Inl e \<Rightarrow> (w, Inl e)
      | Inr None \<Rightarrow> (w, Inr False)
      | Inr (Some email) \<Rightarrow>
          if email = [] then (w, Inr False)
          else (case get_user_by_email email w of
              None \<Rightarrow> (w, Inr False)
            | Some u \<Rightarrow>
                let (w, hashed) = get_password_hash E password w
                in (write_user (us_id u) (\<lambda>u. u\<lparr>us_hashed_password := hashed\<rparr>) w, Inr True)))"

definition send_verification_email :: "auth_env \<Rightarrow> user \<Rightarrow> string \<Rightarrow> auth_world \<Rightarrow> auth_world" where
  "send_verification_email E u token w =
     (if ae_email_available E \<and> ae_queue_up E
      then w\<lparr>aw_outbox := aw_outbox w @ [Mail (us_email u) ''verify_email'' token]\<rparr> else w)"

definition request_verification_email :: "auth_env \<Rightarrow> string \<Rightarrow> auth_world \<Rightarrow> auth_world \<times> bool" where
  "request_verification_email E email w =
     (case get_user_by_email email w of
        None \<Rightarrow> (w, True)
      | Some u \<Rightarrow>
          (send_verification_email E u (generate_email_verification_token E (us_id u) w) w, True))"

definition verify_email_with_token :: "auth_env \<Rightarrow> string \<Rightarrow> auth_world \<Rightarrow> auth_world \<times> (exn + bool)" where
  "verify_email_with_token E token w =
     (case verify_email_verification_token E (aw_clock w) token of
        Inl e \<Rightarrow> (w, Inl e)
      | Inr None \<Rightarrow> (w, Inr False)
      | Inr (Some uid) \<Rightarrow>
          if uid = [] then (w, Inr False)
          else (case get_user_by_id E uid w of
              None \<Rightarrow> (w, Inr False)
            | Some u \<Rightarrow>
                (write_user (us_id u) (\<lambda>u. u\<lparr>us_is_active := us_is_active u \<or> ae_verification_makes_active E,
                                              us_is_verified := True\<rparr>) w, Inr True)))"

subsection \<open>Registration and login\<close>

text \<open>The validators of \<open>RegisterRequest\<close>, for ASCII text; the address is checked by pydantic.\<close>

definition is_upper :: "char \<Rightarrow> bool" where
  "is_upper c \<longleftrightarrow> (let n = of_char c :: nat in 65 \<le> n \<and> n \<le> 90)"

definition is_lower :: "char \<Rightarrow> bool" where
  "is_lower c \<longleftrightarrow> (let n = of_char c :: nat in 97 \<le> n \<and> n \<le> 122)"

definition validate_registration :: "string \<Rightarrow> string \<Rightarrow> http_error + string" where
  "validate_registration name password =
     (if length name < 3 \<or> 50 < length name \<or>
         \<not> list_all (\<lambda>c. is_upper c \<or> is_lower c \<or> is_digit c) name \<or>
         length password < 8 \<or> 128 < length password \<or>
         \<not> (list_ex is_upper password \<and> list_ex is_lower password \<and> list_ex is_digit password)
      then Inl (HTTPException 422 ''Unprocessable Entity'')
      else Inr (py_lower name))"

definition api_register ::
  "auth_env \<Rightarrow> string \<Rightarrow> string \<Rightarrow> string \<Rightarrow> string option \<Rightarrow> string option \<Rightarrow> auth_world \<Rightarrow>
   auth_world \<times> (http_error + user)" where
  "api_register E name email password forename surname w =
     (case validate_registration name password of
        Inl e \<Rightarrow> (w, Inl e)
      | Inr name \<Rightarrow>
          if \<not> ae_register_enabled E then (w, Inl (HTTPException 404 ''Not Found''))
          else if get_user_by_email email w \<noteq> None then (w, Inl (HTTPException 400 ''Email already registered''))
          else if get_user_by_username name w \<noteq> None then (w, Inl (HTTPException 400 ''Username already taken''))
          else (case create_user E name email password forename surname (ae_register_active E) w of
              (w, Inl e) \<Rightarrow> (w, Inl (unhandled e))
            | (w, Inr u) \<Rightarrow>
                (if ae_verification_on_register E
                 then send_verification_email E u (generate_email_verification_token E (us_id u) w) w else w,
                 Inr u)))"

text \<open>Both tokens of a user, and the session of the refresh token.\<close>

definition register_session :: "auth_env \<Rightarrow> string \<Rightarrow> string \<Rightarrow> auth_world \<Rightarrow> auth_world" where
  "register_session E token uid w =
     (case ae_jwt_decode E (aw_clock w) token of
        None \<Rightarrow> w
      | Some c \<Rightarrow>
          (case (claim_text c ''jti'', claim_int c ''exp'') of
             (Some jti, Some expires) \<Rightarrow> if jti \<noteq> [] \<and> expires \<noteq> 0 then store_add E jti uid expires w else w
           | _ \<Rightarrow> w))"

definition issue_tokens ::
  "auth_env \<Rightarrow> string \<Rightarrow> int option \<Rightarrow> auth_world \<Rightarrow> auth_world \<times> string \<times> string" where
  "issue_tokens E sub expires_delta w =
     (let (w, access) = create_access_token E [(''sub'', JStr sub)] expires_delta w;
          (w, refresh) = create_refresh_token E [(''sub'', JStr sub)] w
      in (register_session E refresh sub w, access, refresh))"

text \<open>The access token of the response, and the refresh token in its cookie.\<close>

definition api_login ::
  "auth_env \<Rightarrow> string \<Rightarrow> string \<Rightarrow> auth_world \<Rightarrow> auth_world \<times> (http_error + string \<times> string)" where
  "api_login E name password w =
     (if name = [] \<or> 50 < length name \<or> password = [] then (w, Inl (HTTPException 422 ''Unprocessable Entity''))
      else case authenticate_user E name password w of
        Inl e \<Rightarrow> (w, Inl (unhandled e))
      | Inr None \<Rightarrow> (w, Inl (HTTPException 401 ''Incorrect username or password''))
      | Inr (Some u) \<Rightarrow>
          if ae_login_require_active E \<and> \<not> us_is_active u then (w, Inl (HTTPException 400 ''Inactive user''))
          else if ae_login_require_verified E \<and> \<not> us_is_verified u then
            (w, Inl (HTTPException 400 ''Email not verified''))
          else map_prod id Inr (issue_tokens E (us_id u) (Some (ae_access_minutes E * 60)) w))"

subsection \<open>Refreshing and ending a session\<close>

definition api_refresh ::
  "auth_env \<Rightarrow> string option \<Rightarrow> auth_world \<Rightarrow> auth_world \<times> (http_error + string \<times> string)" where
  "api_refresh E cookie w =
     (case cookie of
        None \<Rightarrow> (w, Inl (HTTPException 401 ''Refresh token not found in cookie''))
      | Some token \<Rightarrow>
          if token = [] then (w, Inl (HTTPException 401 ''Refresh token not found in cookie''))
          else case ae_jwt_decode E (aw_clock w) token of
            None \<Rightarrow> (w, Inl (HTTPException 401 ''Invalid refresh token''))
          | Some c \<Rightarrow>
              if claim_type c \<noteq> Some ''refresh'' then (w, Inl (HTTPException 400 ''Invalid token type''))
              else (case (claim_text c ''jti'', claim_text c ''sub'') of
                  (Some jti, Some sub) \<Rightarrow>
                    if jti = [] \<or> sub = [] then (w, Inl (HTTPException 400 ''Malformed refresh token''))
                    else (case store_exists E jti w of
                        (w, False) \<Rightarrow> (w, Inl (HTTPException 401 ''Refresh token revoked''))
                      | (w, True) \<Rightarrow> map_prod id Inr (issue_tokens E sub None (store_revoke E jti w)))
                | _ \<Rightarrow> (w, Inl (HTTPException 400 ''Malformed refresh token''))))"

definition api_introspect :: "auth_env \<Rightarrow> string option \<Rightarrow> auth_world \<Rightarrow> auth_world \<times> (uuid \<times> int) option" where
  "api_introspect E cookie w =
     (case cookie of
        None \<Rightarrow> (w, None)
      | Some token \<Rightarrow>
          if token = [] then (w, None)
          else case ae_jwt_decode E (aw_clock w) token of
            None \<Rightarrow> (w, None)
          | Some c \<Rightarrow>
              if claim_type c \<noteq> Some ''refresh'' then (w, None)
              else (case (claim_text c ''jti'', claim_text c ''sub'', claim_int c ''exp'') of
                  (Some jti, Some sub, Some expires) \<Rightarrow>
                    if jti = [] \<or> sub = [] \<or> expires = 0 then (w, None)
                    else (case store_exists E jti w of
                        (w, False) \<Rightarrow> (w, None)
                      | (w, True) \<Rightarrow> (w, Some (sub, expires)))
                | _ \<Rightarrow> (w, None)))"

definition api_logout :: "auth_env \<Rightarrow> string option \<Rightarrow> auth_world \<Rightarrow> auth_world" where
  "api_logout E cookie w =
     (case cookie of
        None \<Rightarrow> w
      | Some token \<Rightarrow>
          if token = [] then w
          else case ae_jwt_decode E (aw_clock w) token of
            None \<Rightarrow> w
          | Some c \<Rightarrow>
              (case claim_text c ''jti'' of
                 Some jti \<Rightarrow> if claim_type c = Some ''refresh'' \<and> jti \<noteq> [] then store_revoke E jti w else w
               | None \<Rightarrow> w))"

end
