(* ===== verification/AuthAccess.thy ===== *)
theory AuthAccess
  imports AuthService
begin

text \<open>
  The dependencies of \<open>inference_core/core/dependecies.py\<close> that identify the caller of an
  endpoint, the shared account of \<open>inference_core/core/public_user.py\<close>, and the endpoints of
  \<open>auth.py\<close> that act for an identified caller or for the bearer of a mailed token.
\<close>

definition PUBLIC_USER_ID :: uuid where
  "PUBLIC_USER_ID = ''00000000-0000-0000-0000-000000000001''"

definition get_public_user :: "auth_world \<Rightarrow> user option" where
  "get_public_user w = row_find us_id PUBLIC_USER_ID (aw_users w)"

definition get_current_user_token :: "auth_env \<Rightarrow> string \<Rightarrow> auth_world \<Rightarrow> http_error + string" where
  "get_current_user_token E bearer w =
     (case verify_token E (aw_clock w) bearer of
        None \<Rightarrow> Inl (HTTPException 401 ''Could not validate credentials'')
      | Some uid \<Rightarrow> Inr uid)"

text \<open>The user of a token's subject: \<open>UUID(...)\<close> raises for a text that is no UUID.\<close>

definition token_user :: "auth_env \<Rightarrow> string \<Rightarrow> auth_world \<Rightarrow> http_error + user" where
  "token_user E uid w =
     (case ae_uuid E uid of
        None \<Rightarrow> Inl (unhandled (ValueError ''badly formed hexadecimal UUID string''))
      | Some k \<Rightarrow>
          (case row_find us_id k (aw_users w) of
             None \<Rightarrow> Inl (HTTPException 404 ''User not found'')
           | Some u \<Rightarrow> Inr u))"

definition get_current_user :: "auth_env \<Rightarrow> string \<Rightarrow> auth_world \<Rightarrow> http_error + user" where
  "get_current_user E bearer w =
     bind_result (get_current_user_token E bearer w) (\<lambda>uid. token_user E uid w)"

definition get_optional_current_user :: "auth_env \<Rightarrow> string option \<Rightarrow> auth_world \<Rightarrow> user option" where
  "get_optional_current_user E bearer w =
     (case bearer of
        None \<Rightarrow> None
      | Some t \<Rightarrow>
          (case verify_token E (aw_clock w) t of
             None \<Rightarrow> None
           | Some uid \<Rightarrow> (case token_user E uid w of Inl _ \<Rightarrow> None | Inr u \<Rightarrow> Some u)))"

definition get_current_active_user :: "auth_env \<Rightarrow> string \<Rightarrow> auth_world \<Rightarrow> http_error + user" where
  "get_current_active_user E bearer w =
     bind_result (get_current_user E bearer w) (\<lambda>u.
       if us_is_active u then Inr u else Inl (HTTPException 400 ''Inactive user''))"

definition get_current_superuser :: "auth_env \<Rightarrow> string \<Rightarrow> auth_world \<Rightarrow> http_error + user" where
  "get_current_superuser E bearer w =
     bind_result (get_current_user E bearer w) (\<lambda>u.
       if us_is_superuser u then Inr u else Inl (HTTPException 403 ''Not enough permissions''))"

definition get_current_user_or_public :: "auth_env \<Rightarrow> string option \<Rightarrow> auth_world \<Rightarrow> http_error + user" where
  "get_current_user_or_public E bearer w =
     (case bearer of
        None \<Rightarrow>
          if ae_access_mode E \<noteq> ''public'' then Inl (HTTPException 401 ''Not authenticated'')
          else (case get_public_user w of
              None \<Rightarrow> Inl (HTTPException 503 ''Public user not seeded. Run alembic upgrade head to enable public access mode.'')
            | Some u \<Rightarrow> if us_is_active u then Inr u else Inl (HTTPException 503 ''Public user is disabled''))
      | Some t \<Rightarrow>
          (case verify_token E (aw_clock w) t of
             None \<Rightarrow> Inl (HTTPException 401 ''Invalid or expired token'')
           | Some uid \<Rightarrow>
               bind_result (token_user E uid w) (\<lambda>u.
                 if \<not> us_is_active u then Inl (HTTPException 400 ''Inactive user'')
                 else if ae_access_mode E = ''superuser'' \<and> \<not> us_is_superuser u then
                   Inl (HTTPException 403 ''Not enough permissions'')
                 else Inr u)))"

subsection \<open>Endpoints of an identified caller\<close>

definition api_update_profile ::
  "auth_env \<Rightarrow> string \<Rightarrow> string option \<Rightarrow> string option \<Rightarrow> string option \<Rightarrow> auth_world \<Rightarrow>
   auth_world \<times> (http_error + user)" where
  "api_update_profile E bearer forename surname email w =
     (case get_current_active_user E bearer w of
        Inl e \<Rightarrow> (w, Inl e)
      | Inr caller \<Rightarrow>
          (case update_user_profile E (us_id caller) forename surname email w of
             (w, Inr (Some u)) \<Rightarrow> (w, Inr u)
           | (w, Inr None) \<Rightarrow> (w, Inl (unhandled (ValueError ''validation error for UserProfile'')))
           | (w, Inl e) \<Rightarrow> (w, Inl (unhandled e))))"

text \<open>The new password has at least 8 and at most 128 characters.\<close>

definition new_password_ok :: "string \<Rightarrow> bool" where
  "new_password_ok p \<longleftrightarrow> 8 \<le> length p \<and> length p \<le> 128"

definition api_change_password ::
  "auth_env \<Rightarrow> string \<Rightarrow> string \<Rightarrow> string \<Rightarrow> auth_world \<Rightarrow> auth_world \<times> (http_error + unit)" where
  "api_change_password E bearer current new w =
     (case get_current_active_user E bearer w of
        Inl e \<Rightarrow> (w, Inl e)
      | Inr caller \<Rightarrow>
          if \<not> new_password_ok new then (w, Inl (HTTPException 422 ''Unprocessable Entity''))
          else (case get_user_by_id E (us_id caller) w of
              None \<Rightarrow> (w, Inl (HTTPException 400 ''Incorrect current password''))
            | Some u \<Rightarrow>
                (case verify_password E current (us_hashed_password u) of
                   Inl e \<Rightarrow> (w, Inl (unhandled e))
                 | Inr False \<Rightarrow> (w, Inl (HTTPException 400 ''Incorrect current password''))
                 | Inr True \<Rightarrow> (fst (update_user_password E (us_id caller) new w), Inr ()))))"

subsection \<open>Endpoints of a mailed token\<close>

definition api_forgot_password :: "auth_env \<Rightarrow> string \<Rightarrow> auth_world \<Rightarrow> auth_world \<times> (http_error + unit)" where
  "api_forgot_password E email w =
     (if \<not> ae_forgot_enabled E then (w, Inl (HTTPException 404 ''Not Found''))
      else (fst (request_password_reset E email w), Inr ()))"

definition api_reset_password ::
  "auth_env \<Rightarrow> string \<Rightarrow> string \<Rightarrow> auth_world \<Rightarrow> auth_world \<times> (http_error + unit)" where
  "api_reset_password E token password w =
     (if \<not> new_password_ok password then (w, Inl (HTTPException 422 ''Unprocessable Entity''))
      else case reset_password E token password w of
        (w, Inl e) \<Rightarrow> (w, Inl (unhandled e))
      | (w, Inr False) \<Rightarrow> (w, Inl (HTTPException 400 ''Invalid or expired reset token''))
      | (w, Inr True) \<Rightarrow> (w, Inr ()))"

definition api_request_verification_email :: "auth_env \<Rightarrow> string \<Rightarrow> auth_world \<Rightarrow> auth_world \<times> (http_error + unit)" where
  "api_request_verification_email E email w = (fst (request_verification_email E email w), Inr ())"

definition api_verify_email :: "auth_env \<Rightarrow> string \<Rightarrow> auth_world \<Rightarrow> auth_world \<times> (http_error + unit)" where
  "api_verify_email E token w =
     (case verify_email_with_token E token w of
        (w, Inl e) \<Rightarrow> (w, Inl (unhandled e))
      | (w, Inr False) \<Rightarrow> (w, Inl (HTTPException 400 ''Invalid or expired verification token''))
      | (w, Inr True) \<Rightarrow> (w, Inr ()))"

end
