(* ===== verification/AuthSystem.thy ===== *)
theory AuthSystem
  imports AuthAccess
begin

text \<open>
  The sessions of refresh tokens as an interface, which the Redis store provides, and the
  authentication service as a transition system over all its endpoints.
\<close>

subsection \<open>The contract of a session store\<close>

locale session_store =
  fixes add :: "string \<Rightarrow> string \<Rightarrow> int \<Rightarrow> 's \<Rightarrow> 's"
    and revoke :: "string \<Rightarrow> 's \<Rightarrow> 's"
    and tick :: "nat \<Rightarrow> 's \<Rightarrow> 's"
    and live :: "'s \<Rightarrow> string \<Rightarrow> bool"
    and up :: "'s \<Rightarrow> bool"
  assumes live_add: "live (add j sub e s) k \<Longrightarrow> k = j \<or> live s k"
    and live_revoke: "live (revoke j s) k \<Longrightarrow> live s k"
    and revoke_dead: "up s \<Longrightarrow> \<not> live (revoke j s) j"
    and live_tick: "live (tick n s) k \<Longrightarrow> live s k"
begin

lemma rotated_dead: "up s \<Longrightarrow> j' \<noteq> j \<Longrightarrow> \<not> live (add j' sub e (revoke j s)) j"
  using live_add revoke_dead by blast

lemma add_within: "(\<And>k. live s k \<Longrightarrow> P k) \<Longrightarrow> P j \<Longrightarrow> live (add j sub e s) k \<Longrightarrow> P k"
  using live_add by blast

lemma dead_after_add: "\<not> live s k \<Longrightarrow> j \<noteq> k \<Longrightarrow> \<not> live (add j sub e s) k"
  using live_add by blast

lemma dead_after_tick: "\<not> live s k \<Longrightarrow> \<not> live (tick n s) k"
  using live_tick by blast

lemma dead_after_revoke: "\<not> live s k \<Longrightarrow> \<not> live (revoke j s) k"
  using live_revoke by blast

end

definition session_open :: "auth_env \<Rightarrow> auth_world \<Rightarrow> string \<Rightarrow> bool" where
  "session_open E w jti \<longleftrightarrow> session_live (aw_clock w) (aw_redis w (store_key E jti))"

definition pass_time :: "nat \<Rightarrow> auth_world \<Rightarrow> auth_world" where
  "pass_time n w = w\<lparr>aw_clock := aw_clock w + int n\<rparr>"

lemma store_key_inject [simp]: "store_key E j = store_key E k \<longleftrightarrow> j = k"
  by (simp add: store_key_def)

lemma redis_call_frame [simp]:
  "aw_clock (fst (redis_call E f w)) = aw_clock w" "aw_drawn (fst (redis_call E f w)) = aw_drawn w"
  "aw_users (fst (redis_call E f w)) = aw_users w" "aw_outbox (fst (redis_call E f w)) = aw_outbox w"
  "aw_redis (fst (redis_call E f w)) = (if snd (redis_call E f w) then f (aw_redis w) else aw_redis w)"
  "snd (redis_call E f w) = ae_redis_up E (aw_redis_calls w)"
  "aw_redis_calls (fst (redis_call E f w)) = Suc (aw_redis_calls w)"
  by (simp_all add: redis_call_def Let_def)

lemma store_frame [simp]:
  "aw_clock (store_add E j sub e w) = aw_clock w" "aw_drawn (store_add E j sub e w) = aw_drawn w"
  "aw_users (store_add E j sub e w) = aw_users w"
  "aw_clock (store_revoke E j w) = aw_clock w" "aw_drawn (store_revoke E j w) = aw_drawn w"
  "aw_users (store_revoke E j w) = aw_users w"
  "aw_clock (fst (store_exists E j w)) = aw_clock w" "aw_drawn (fst (store_exists E j w)) = aw_drawn w"
  "aw_users (fst (store_exists E j w)) = aw_users w" "aw_redis (fst (store_exists E j w)) = aw_redis w"
  by (simp_all add: store_add_def store_revoke_def store_exists_def Let_def case_prod_unfold)

lemma store_exists_iff:
  "snd (store_exists E j w) \<longleftrightarrow> ae_redis_up E (aw_redis_calls w) \<and> session_open E w j"
  by (simp add: store_exists_def session_open_def Let_def case_prod_unfold)

lemma store_add_redis:
  "key \<noteq> store_key E j \<Longrightarrow> aw_redis (store_add E j sub e w) key = aw_redis w key"
  by (simp add: store_add_def Let_def case_prod_unfold redis_hset_def redis_expire_def)

interpretation redis: session_store "store_add E" "store_revoke E" pass_time "session_open E"
    "\<lambda>w. ae_redis_up E (aw_redis_calls w)"
proof
  show "session_open E (store_add E j sub e s) k \<Longrightarrow> k = j \<or> session_open E s k" for j sub e s k
    by (cases "k = j") (simp_all add: session_open_def store_add_redis)
  show "session_open E (store_revoke E j s) k \<Longrightarrow> session_open E s k" for j s k
    by (auto simp: session_open_def store_revoke_def session_live_def split: if_splits)
  show "ae_redis_up E (aw_redis_calls s) \<Longrightarrow> \<not> session_open E (store_revoke E j s) j" for j s
    by (simp add: session_open_def store_revoke_def session_live_def)
  show "session_open E (pass_time n s) k \<Longrightarrow> session_open E s k" for n s k
    by (auto simp: session_open_def pass_time_def session_live_def split: option.splits)
qed

subsection \<open>The service as a transition system\<close>

inductive auth_step :: "auth_env \<Rightarrow> auth_world \<Rightarrow> auth_world \<Rightarrow> bool" for E where
  register: "auth_step E w (fst (api_register E name email password forename surname w))"
| login: "auth_step E w (fst (api_login E name password w))"
| refresh: "auth_step E w (fst (api_refresh E cookie w))"
| introspect: "auth_step E w (fst (api_introspect E cookie w))"
| logout: "auth_step E w (api_logout E cookie w)"
| profile: "auth_step E w (fst (api_update_profile E bearer forename surname new_email w))"
| change_password: "auth_step E w (fst (api_change_password E bearer current password w))"
| forgot_password: "auth_step E w (fst (api_forgot_password E email w))"
| reset_password: "auth_step E w (fst (api_reset_password E token password w))"
| request_verification: "auth_step E w (fst (api_request_verification_email E email w))"
| verify_email: "auth_step E w (fst (api_verify_email E token w))"
| activation: "auth_step E w (fst (set_active b E uid w))"
| time: "auth_step E w (pass_time n w)"

abbreviation auth_run :: "auth_env \<Rightarrow> auth_world \<Rightarrow> auth_world \<Rightarrow> bool" where
  "auth_run E \<equiv> (auth_step E)\<^sup>*\<^sup>*"

text \<open>
  What the service relies on of the JWT library: decoding a token it has encoded gives its
  claims or fails, and whenever a text decodes, it decodes to the same claims.
\<close>

definition jwt_sound :: "auth_env \<Rightarrow> bool" where
  "jwt_sound E \<longleftrightarrow>
     (\<forall>c now. ae_jwt_decode E now (ae_jwt_encode E c) \<in> {None, Some c}) \<and>
     (\<forall>t now now' c c'. ae_jwt_decode E now t = Some c \<longrightarrow> ae_jwt_decode E now' t = Some c' \<longrightarrow> c = c')"

lemma jwt_encoded: "jwt_sound E \<Longrightarrow> ae_jwt_decode E now (ae_jwt_encode E c) = Some c' \<Longrightarrow> c' = c"
  unfolding jwt_sound_def by (metis insertE option.distinct(1) option.inject singletonD)

lemma jwt_same: "jwt_sound E \<Longrightarrow> ae_jwt_decode E now t = Some c \<Longrightarrow> ae_jwt_decode E now' t = Some c' \<Longrightarrow> c' = c"
  unfolding jwt_sound_def by blast

text \<open>Transitions that leave the sessions and the clock as they are.\<close>

definition keeps_sessions :: "auth_world \<Rightarrow> auth_world \<Rightarrow> bool" where
  "keeps_sessions w w' \<longleftrightarrow>
     aw_redis w' = aw_redis w \<and> aw_clock w' = aw_clock w \<and> aw_drawn w \<le> aw_drawn w'"

named_theorems sessions \<open>the effect of the endpoints on the sessions\<close>

lemma keeps_sessions_open: "keeps_sessions w w' \<Longrightarrow> session_open E w' j = session_open E w j"
  by (simp add: keeps_sessions_def session_open_def)

lemma keeps_sessions_refl [simp, sessions]: "keeps_sessions w w"
  by (simp add: keeps_sessions_def)

lemma keeps_sessions_trans [trans]: "keeps_sessions w w' \<Longrightarrow> keeps_sessions w' w'' \<Longrightarrow> keeps_sessions w w''"
  by (simp add: keeps_sessions_def)

lemma keeps_sessions_simps [simp, sessions]:
  "keeps_sessions w (fst (draw w))" "keeps_sessions w (fst (get_password_hash E p w))"
  "keeps_sessions w (write_user k f w') = keeps_sessions w w'"
  "keeps_sessions w (w'\<lparr>aw_users := us\<rparr>) = keeps_sessions w w'"
  "keeps_sessions w (w'\<lparr>aw_outbox := ms\<rparr>) = keeps_sessions w w'"
  "keeps_sessions w (fst (store_exists E j w))"
  by (simp_all add: keeps_sessions_def draw_def get_password_hash_def write_user_def case_prod_unfold Let_def)

lemma service_keeps_sessions [sessions]:
  "keeps_sessions w (fst (create_user E name email password forename surname b w))"
  "keeps_sessions w (fst (update_user_profile E uid forename surname new_email w))"
  "keeps_sessions w (fst (update_user_password E uid password w))"
  "keeps_sessions w (fst (set_active b E uid w))"
  "keeps_sessions w (fst (request_password_reset E email w))"
  "keeps_sessions w (fst (reset_password E token password w))"
  "keeps_sessions w (fst (request_verification_email E email w))"
  "keeps_sessions w (fst (verify_email_with_token E token w))"
  "keeps_sessions w (send_verification_email E u t w') = keeps_sessions w w'"
  by (simp_all add: create_user_def update_user_profile_def update_user_password_def set_active_def
      request_password_reset_def send_password_reset_email_def reset_password_def
      request_verification_email_def send_verification_email_def verify_email_with_token_def
      get_password_hash_def draw_def keeps_sessions_def write_user_def
      Let_def case_prod_unfold split: option.split sum.split)

lemma endpoint_keeps_sessions [sessions]:
  "keeps_sessions w (fst (api_register E name email password forename surname w))"
  "keeps_sessions w (fst (api_introspect E cookie w))"
  "keeps_sessions w (fst (api_update_profile E bearer forename surname new_email w))"
  "keeps_sessions w (fst (api_change_password E bearer current password w))"
  "keeps_sessions w (fst (api_forgot_password E email w))"
  "keeps_sessions w (fst (api_reset_password E token password w))"
  "keeps_sessions w (fst (api_request_verification_email E email w))"
  "keeps_sessions w (fst (api_verify_email E token w))"
proof -
  have fst_snd: "keeps_sessions w (fst r) \<Longrightarrow> r = (w', x) \<Longrightarrow> keeps_sessions w w'" for r :: "auth_world \<times> 'x" and w' x
    by simp
  show "keeps_sessions w (fst (api_register E name email password forename surname w))"
    using fst_snd[OF service_keeps_sessions(1)]
    by (auto simp: api_register_def sessions split: sum.split prod.split)
  show "keeps_sessions w (fst (api_introspect E cookie w))"
    using fst_snd[OF keeps_sessions_simps(6)]
    by (auto simp: api_introspect_def split: option.split prod.split bool.split)
  show "keeps_sessions w (fst (api_update_profile E bearer forename surname new_email w))"
    using fst_snd[OF service_keeps_sessions(2)]
    by (auto simp: api_update_profile_def split: sum.split option.split prod.split)
  show "keeps_sessions w (fst (api_change_password E bearer current password w))"
    by (auto simp: api_change_password_def sessions split: sum.split option.split bool.split)
  show "keeps_sessions w (fst (api_forgot_password E email w))"
    by (simp add: api_forgot_password_def sessions)
  show "keeps_sessions w (fst (api_reset_password E token password w))"
    using fst_snd[OF service_keeps_sessions(6)]
    by (auto simp: api_reset_password_def split: sum.split prod.split bool.split)
  show "keeps_sessions w (fst (api_request_verification_email E email w))"
    by (simp add: api_request_verification_email_def sessions)
  show "keeps_sessions w (fst (api_verify_email E token w))"
    using fst_snd[OF service_keeps_sessions(8)]
    by (auto simp: api_verify_email_def split: sum.split prod.split bool.split)
qed

subsection \<open>Where sessions come from\<close>

text \<open>
  Session ids are random strings the service has drawn. An id is spent when it was drawn and
  has no session (any more).
\<close>

definition issued :: "auth_env \<Rightarrow> auth_world \<Rightarrow> bool" where
  "issued E w \<longleftrightarrow> (\<forall>k. session_open E w k \<longrightarrow> k \<in> ae_random E ` {..<aw_drawn w})"

definition spent :: "auth_env \<Rightarrow> string \<Rightarrow> auth_world \<Rightarrow> bool" where
  "spent E k w \<longleftrightarrow> \<not> session_open E w k \<and> k \<in> ae_random E ` {..<aw_drawn w}"

lemma kept_issued: "keeps_sessions w w' \<Longrightarrow> issued E w \<Longrightarrow> issued E w'"
  unfolding issued_def by (metis (no_types) keeps_sessions_open keeps_sessions_def image_mono lessThan_subset_iff subsetD)

lemma kept_spent: "keeps_sessions w w' \<Longrightarrow> spent E k w \<Longrightarrow> spent E k w'"
  unfolding spent_def by (metis (no_types) keeps_sessions_open keeps_sessions_def image_mono lessThan_subset_iff subsetD)

lemma register_session_add:
  assumes "ae_jwt_decode E (aw_clock w) token \<in> {None, Some c}" and "claim_text c ''jti'' = Some jti"
  shows "register_session E token uid w = w \<or> (\<exists>e. register_session E token uid w = store_add E jti uid e w)"
  using assms by (auto simp: register_session_def split: option.split)

lemma issue_tokens_effect:
  assumes "jwt_sound E"
  shows "aw_drawn (fst (issue_tokens E sub d w)) = aw_drawn w + 2"
    "aw_clock (fst (issue_tokens E sub d w)) = aw_clock w"
    "aw_users (fst (issue_tokens E sub d w)) = aw_users w"
    "session_open E (fst (issue_tokens E sub d w)) k \<Longrightarrow>
       k = ae_random E (Suc (aw_drawn w)) \<or> session_open E w k"
proof -
  let ?w = "w\<lparr>aw_drawn := aw_drawn w + 2\<rparr>"
  let ?c = "dict_merge [(''sub'', JStr sub)] [(''exp'', JNum (of_int (aw_clock w + ae_refresh_days E * 86400))),
      (''type'', JStr ''refresh''), (''jti'', JStr (ae_random E (Suc (aw_drawn w))))]"
  have w': "fst (issue_tokens E sub d w) = register_session E (ae_jwt_encode E ?c) sub ?w"
    by (simp add: issue_tokens_def create_access_token_def create_refresh_token_def draw_def Let_def)
  have "claim_text ?c ''jti'' = Some (ae_random E (Suc (aw_drawn w)))"
    by (simp add: claim_text_def dict_merge_def)
  moreover have "ae_jwt_decode E (aw_clock ?w) (ae_jwt_encode E ?c) \<in> {None, Some ?c}"
    using assms unfolding jwt_sound_def by blast
  ultimately have cases: "fst (issue_tokens E sub d w) = ?w \<or>
      (\<exists>e. fst (issue_tokens E sub d w) = store_add E (ae_random E (Suc (aw_drawn w))) sub e ?w)"
    unfolding w' by (intro register_session_add)
  have same: "session_open E ?w k = session_open E w k" by (simp add: session_open_def)
  show "aw_drawn (fst (issue_tokens E sub d w)) = aw_drawn w + 2"
    "aw_clock (fst (issue_tokens E sub d w)) = aw_clock w"
    "aw_users (fst (issue_tokens E sub d w)) = aw_users w"
    using cases by auto
  show "k = ae_random E (Suc (aw_drawn w)) \<or> session_open E w k"
    if opened: "session_open E (fst (issue_tokens E sub d w)) k"
    using cases
  proof (elim disjE exE)
    assume "fst (issue_tokens E sub d w) = ?w"
    then show ?thesis using opened by (simp only: same simp_thms)
  next
    fix e assume "fst (issue_tokens E sub d w) = store_add E (ae_random E (Suc (aw_drawn w))) sub e ?w"
    then show ?thesis using opened redis.live_add same by metis
  qed
qed

lemma issue_tokens_issued:
  assumes "jwt_sound E" and "issued E w"
  shows "issued E (fst (issue_tokens E sub d w))"
  using assms(2) issue_tokens_effect(4)[OF assms(1)]
  by (fastforce simp: issued_def issue_tokens_effect(1)[OF assms(1)])

lemma issue_tokens_spent:
  assumes "jwt_sound E" and "inj (ae_random E)" and "spent E k w"
  shows "spent E k (fst (issue_tokens E sub d w))"
  using assms(3) issue_tokens_effect(4)[OF assms(1), of sub d w k] inj_eq[OF assms(2)]
  by (auto simp: spent_def issue_tokens_effect(1)[OF assms(1)])

lemma revoke_issued: "issued E w \<Longrightarrow> issued E (store_revoke E j w)"
  using redis.live_revoke by (fastforce simp: issued_def)

lemma revoke_spent: "spent E k w \<Longrightarrow> spent E k (store_revoke E j w)"
  using redis.dead_after_revoke by (simp add: spent_def)

end
