(* ===== verification/AuthProperties.thy ===== *)
theory AuthProperties
  imports AuthSystem
begin

text \<open>The properties of the tokens, the sessions and the accounts.\<close>

subsection \<open>Steps and sessions\<close>


text \<open>A refresh either changes no session and fails, or rotates the session of its token.\<close>

lemma refresh_cases:
  obtains (refused) e where "snd (api_refresh E cookie w) = Inl e" "keeps_sessions w (fst (api_refresh E cookie w))"
  | (rotated) token c jti sub where "cookie = Some token" "token \<noteq> []"
      "ae_jwt_decode E (aw_clock w) token = Some c" "claim_type c = Some ''refresh''"
      "claim_text c ''jti'' = Some jti" "claim_text c ''sub'' = Some sub" "jti \<noteq> []" "sub \<noteq> []"
      "snd (store_exists E jti w)"
      "api_refresh E cookie w =
         map_prod id Inr (issue_tokens E sub None (store_revoke E jti (fst (store_exists E jti w))))"
proof (cases "\<exists>token c jti sub. cookie = Some token \<and> token \<noteq> [] \<and>
    ae_jwt_decode E (aw_clock w) token = Some c \<and> claim_type c = Some ''refresh'' \<and>
    claim_text c ''jti'' = Some jti \<and> claim_text c ''sub'' = Some sub \<and> jti \<noteq> [] \<and> sub \<noteq> []")
  case True
  then obtain token c jti sub where c: "cookie = Some token" "token \<noteq> []"
      "ae_jwt_decode E (aw_clock w) token = Some c" "claim_type c = Some ''refresh''"
      "claim_text c ''jti'' = Some jti" "claim_text c ''sub'' = Some sub" "jti \<noteq> []" "sub \<noteq> []"
    by blast
  obtain w' b where e: "store_exists E jti w = (w', b)" by fastforce
  then have kept: "keeps_sessions w w'" using keeps_sessions_simps(6)[of w E jti] by simp
  show thesis
  proof (cases b)
    case True
    show thesis by (rule rotated[OF c]) (simp_all add: c e True api_refresh_def)
  next
    case False
    show thesis by (rule refused) (simp_all add: c e False api_refresh_def kept)
  qed
next
  case False
  then have "fst (api_refresh E cookie w) = w \<and> (\<exists>e. snd (api_refresh E cookie w) = Inl e)"
    by (auto simp: api_refresh_def split: option.split)
  then show thesis using refused by auto
qed









subsection \<open>Rotation\<close>


definition demo_claims :: "string \<Rightarrow> claims" where
  "demo_claims jti = [(''sub'', JStr ''u1''), (''exp'', JNum 86400), (''type'', JStr ''refresh''), (''jti'', JStr jti)]"

definition demo_auth :: auth_env where
  "demo_auth = \<lparr>ae_jwt_encode = (\<lambda>c. case claim_text c ''jti'' of
        Some j \<Rightarrow> if c = demo_claims j then j else [] | None \<Rightarrow> []),
     ae_jwt_decode = (\<lambda>now t. if t = [] then None else Some (demo_claims t)),
     ae_utf8 = (\<lambda>s. s), ae_bcrypt_hash = (\<lambda>n p. p), ae_bcrypt_check = (\<lambda>p h. Inr (p = h)),
     ae_random = nat_str, ae_redis_up = (\<lambda>_. True), ae_uuid = Some, ae_new_uuid = nat_str,
     ae_email_available = True, ae_queue_up = True, ae_email_service = True,
     ae_access_minutes = 30, ae_refresh_days = 1, ae_verification_minutes = 60, ae_prefix = ''refresh:'',
     ae_login_require_active = True, ae_login_require_verified = False, ae_register_enabled = True,
     ae_register_active = True, ae_verification_on_register = False, ae_forgot_enabled = True,
     ae_verification_makes_active = True, ae_access_mode = ''user''\<rparr>"

definition demo_user :: user where
  "demo_user = \<lparr>us_id = ''u1'', us_email = ''alice@example.org'', us_username = ''alice'',
     us_hashed_password = ''Passw0rd'', us_first_name = None, us_last_name = None, us_is_active = True,
     us_is_superuser = False, us_is_verified = True\<rparr>"

definition demo_start :: auth_world where
  "demo_start = \<lparr>aw_users = [demo_user], aw_redis = (\<lambda>_. None), aw_clock = 0, aw_drawn = 0,
     aw_redis_calls = 0, aw_outbox = []\<rparr>"

lemma demo_jwt_sound: "jwt_sound demo_auth"
  by (auto simp: jwt_sound_def demo_auth_def split: option.split)

lemmas demo_auth_eval = demo_auth_def demo_start_def demo_user_def demo_claims_def

definition demo_session :: auth_world where
  "demo_session = demo_start\<lparr>aw_redis := [''refresh:'' @ nat_str 1 \<mapsto> \<lparr>sh_sub = ''u1'', sh_exp = 86400, sh_expiry = Some 86400\<rparr>],
     aw_drawn := 2, aw_redis_calls := 2\<rparr>"




subsection \<open>Kinds of tokens\<close>

lemma issued_kind:
  assumes "jwt_sound E" and "claim_type c = Some k"
  shows "ae_jwt_decode E now (ae_jwt_encode E c) = Some c' \<Longrightarrow> claim_type c' = Some k"
  using assms jwt_encoded by metis

lemma claim_types:
  "claim_type (dict_merge d [(''exp'', x), (''type'', JStr k), (''jti'', y)]) = Some k"
  "claim_type [(''exp'', x), (''nbf'', z), (''sub'', y), (''type'', JStr k)] = Some k"
  by (simp_all add: claim_type_def claim_text_def dict_merge_def)

text \<open>A token of one kind, as the service issues it.\<close>

definition of_kind :: "auth_env \<Rightarrow> string \<Rightarrow> string \<Rightarrow> bool" where
  "of_kind E k t \<longleftrightarrow> (\<forall>now c. ae_jwt_decode E now t = Some c \<longrightarrow> claim_type c = Some k)"

lemma tokens_of_kind:
  assumes "jwt_sound E"
  shows "of_kind E ''access'' (snd (create_access_token E data d w))"
    "of_kind E ''refresh'' (snd (create_refresh_token E data w))"
    "of_kind E ''reset'' (generate_password_reset_token E email w)"
    "of_kind E ''email_verify'' (generate_email_verification_token E uid w)"
  using issued_kind[OF assms claim_types(1)] issued_kind[OF assms claim_types(2)]
  by (auto simp: of_kind_def create_access_token_def create_refresh_token_def draw_def Let_def
      generate_password_reset_token_def generate_email_verification_token_def timed_token_def)

lemma wrong_kind:
  assumes "of_kind E k t"
  shows "k \<noteq> ''access'' \<Longrightarrow> verify_token E now t = None"
    "k \<noteq> ''reset'' \<Longrightarrow> verify_password_reset_token E now t = Inr None"
    "k \<noteq> ''email_verify'' \<Longrightarrow> verify_email_verification_token E now t = Inr None"
    "k \<noteq> ''refresh'' \<Longrightarrow> case api_refresh E (Some t) w of (w', Inl _) \<Rightarrow> w' = w | (_, Inr _) \<Rightarrow> False"
  using assms
  by (auto simp: of_kind_def verify_token_def verify_password_reset_token_def typed_subject_def
      verify_email_verification_token_def api_refresh_def split: option.split)

text \<open>
  C14: The four kinds of token are not interchangeable. Each token the service issues is
  refused at any time by every check but the one of its own kind; in particular only a
  refresh token can be exchanged.
\<close>

theorem token_kinds_are_separate:
  assumes "jwt_sound E"
  shows "let access = snd (create_access_token E data d w); refresh = snd (create_refresh_token E data w);
      reset = generate_password_reset_token E email w; verify = generate_email_verification_token E uid w in
    list_all (\<lambda>t. verify_token E now t = None) [refresh, reset, verify] \<and>
    list_all (\<lambda>t. verify_password_reset_token E now t = Inr None) [access, refresh, verify] \<and>
    list_all (\<lambda>t. verify_email_verification_token E now t = Inr None) [access, refresh, reset] \<and>
    list_all (\<lambda>t. case api_refresh E (Some t) w' of (v, Inl _) \<Rightarrow> v = w' | (_, Inr _) \<Rightarrow> False)
      [access, reset, verify]"
  using tokens_of_kind[OF assms, THEN wrong_kind(1)] tokens_of_kind[OF assms, THEN wrong_kind(2)]
    tokens_of_kind[OF assms, THEN wrong_kind(3)] tokens_of_kind[OF assms, THEN wrong_kind(4)]
  by (simp add: Let_def)

theorem token_kinds_are_separate_witness:
  "snd (create_refresh_token demo_auth [(''sub'', JStr ''u1'')] (demo_start\<lparr>aw_drawn := 1\<rparr>)) = nat_str 1 \<and>
   verify_token demo_auth 0 (nat_str 1) = None"
proof -
  have "snd (create_refresh_token demo_auth [(''sub'', JStr ''u1'')] (demo_start\<lparr>aw_drawn := 1\<rparr>)) = nat_str 1"
    by (simp add: create_refresh_token_def draw_def Let_def dict_merge_def dict_set_def claim_text_def demo_auth_eval)
  then show ?thesis
    using token_kinds_are_separate[OF demo_jwt_sound, of "[(''sub'', JStr ''u1'')]" None
        "demo_start\<lparr>aw_drawn := 1\<rparr>" "[]" "[]" 0 demo_start]
    by (simp add: Let_def)
qed

subsection \<open>Changed passwords and sessions\<close>

lemma refresh_survives:
  assumes "keeps_sessions w w'" and "\<And>n. ae_redis_up E n"
    and "snd (api_refresh E (Some t) w) = Inr r"
  shows "case snd (api_refresh E (Some t) w') of Inl _ \<Rightarrow> False | Inr _ \<Rightarrow> True"
proof -
  obtain c jti sub where c: "t \<noteq> []" "ae_jwt_decode E (aw_clock w) t = Some c"
      "claim_type c = Some ''refresh''" "claim_text c ''jti'' = Some jti" "claim_text c ''sub'' = Some sub"
      "jti \<noteq> []" "sub \<noteq> []" "snd (store_exists E jti w)"
    using assms(3) by (cases rule: refresh_cases[of E "Some t" w]) auto
  have "snd (store_exists E jti w')"
    using c(8) assms(2) keeps_sessions_open[OF assms(1)] by (simp add: store_exists_iff)
  then obtain v where "store_exists E jti w' = (v, True)" by (metis prod.collapse)
  moreover have "aw_clock w' = aw_clock w" using assms(1) by (simp add: keeps_sessions_def)
  ultimately show ?thesis using c by (simp add: api_refresh_def)
qed

text \<open>
  C36: Sessions outlive what should end them. A refresh token that could be exchanged can still
  be exchanged after the password was changed or reset, and after the account was deactivated.
\<close>

theorem sessions_survive_password_change:
  assumes "\<forall>n. ae_redis_up E n" and "snd (api_refresh E (Some t) w) = Inr r"
  shows "list_all (\<lambda>w'. case snd (api_refresh E (Some t) w') of Inl _ \<Rightarrow> False | Inr _ \<Rightarrow> True)
    [fst (api_change_password E bearer current password w), fst (api_reset_password E token password w),
     fst (deactivate_user E uid w)]"
  using refresh_survives[OF endpoint_keeps_sessions(4) _ assms(2)]
    refresh_survives[OF endpoint_keeps_sessions(6) _ assms(2)]
    refresh_survives[OF service_keeps_sessions(4)[of _ False E] _ assms(2)] assms(1)
  by (simp add: deactivate_user_def)

theorem sessions_survive_password_change_witness:
  "let w = fst (deactivate_user demo_auth ''u1'' demo_session) in
     map us_is_active (aw_users w) = [False] \<and>
     (case snd (api_refresh demo_auth (Some (nat_str 1)) w) of Inl _ \<Rightarrow> False | Inr _ \<Rightarrow> True)"
proof -
  obtain tokens where "snd (api_refresh demo_auth (Some (nat_str 1)) demo_session) = Inr tokens"
    by (simp add: api_refresh_def store_exists_def redis_call_def session_live_def store_key_def
        claim_type_def claim_text_def demo_session_def Let_def map_prod_def case_prod_unfold demo_auth_eval)
  moreover have "\<forall>n. ae_redis_up demo_auth n" by (simp add: demo_auth_def)
  moreover have "map us_is_active (aw_users (fst (deactivate_user demo_auth ''u1'' demo_session))) = [False]"
    by (simp add: deactivate_user_def set_active_def get_user_by_id_def row_find_def write_user_def row_update_def
        demo_session_def demo_auth_eval)
  ultimately show ?thesis
    using sessions_survive_password_change[of demo_auth "nat_str 1" demo_session tokens "[]" "[]" "[]" "[]" "''u1''"]
    by (simp add: Let_def)
qed

subsection \<open>Who may call\<close>

lemma token_user_iff:
  "token_user E s w = Inr u \<longleftrightarrow> (\<exists>k. ae_uuid E s = Some k \<and> row_find us_id k (aw_users w) = Some u)"
  by (simp add: token_user_def split: option.split)

lemma stored_user_id: "row_find us_id k us = Some u \<Longrightarrow> row_find us_id (us_id u) us = Some u"
  using row_find_key by metis

text \<open>
  C15: The table of access decisions. The callers the agent endpoints accept are exactly the
  stored, active users that either are the shared public account, without credentials and in
  public mode, or are named by a valid access token and, in superuser mode, are superusers.
\<close>

theorem access_decision:
  "get_current_user_or_public E bearer w = Inr u \<longleftrightarrow>
     row_find us_id (us_id u) (aw_users w) = Some u \<and> us_is_active u \<and>
     (case bearer of
        None \<Rightarrow> ae_access_mode E = ''public'' \<and> us_id u = PUBLIC_USER_ID
      | Some t \<Rightarrow>
          map_option (ae_uuid E) (verify_token E (aw_clock w) t) = Some (Some (us_id u)) \<and>
          (if ae_access_mode E = ''superuser'' then us_is_superuser u else True))"
proof (cases bearer)
  case None
  then show ?thesis
    using stored_user_id[of PUBLIC_USER_ID "aw_users w" u]
    by (auto simp: get_current_user_or_public_def get_public_user_def split: option.split dest: row_find_key)
next
  case (Some t)
  show ?thesis
  proof (cases "verify_token E (aw_clock w) t")
    case None
    then show ?thesis by (simp add: get_current_user_or_public_def Some)
  next
    case (Some s)
    then show ?thesis
      using stored_user_id[of _ "aw_users w" u] row_find_key[of us_id _ "aw_users w" u]
      by (auto simp: get_current_user_or_public_def \<open>bearer = Some t\<close> bind_result_Inr_iff token_user_iff)
  qed
qed

subsection \<open>Registering and logging in\<close>






end
