(* ===== verification/ParamPolicy.thy ===== *)
theory ParamPolicy
  imports Json
begin

text \<open>
  \<open>inference_core/llm/param_policy.py\<close>: which parameters of a model call reach a vendor, and
  under which names. The module's variables are the state: the policies of the providers, the
  policies of single models, which are resolved when they are first asked for, and the global
  prefixes. The overrides of the YAML file are taken as the documentation of the file has them,
  lists and dictionaries of strings.
\<close>

datatype model_provider =
    OPENAI | XAI | CUSTOM_OPENAI_COMPATIBLE | DEEPINFRA | FIREWORKS | GEMINI | CLAUDE | OLLAMA

fun provider_value :: "model_provider \<Rightarrow> string" where
  "provider_value OPENAI = ''openai''"
| "provider_value XAI = ''xai''"
| "provider_value CUSTOM_OPENAI_COMPATIBLE = ''custom_openai_compatible''"
| "provider_value DEEPINFRA = ''deepinfra''"
| "provider_value FIREWORKS = ''fireworks''"
| "provider_value GEMINI = ''gemini''"
| "provider_value CLAUDE = ''claude''"
| "provider_value OLLAMA = ''ollama''"

definition provider_of :: "string \<Rightarrow> model_provider option" where
  "provider_of s = List.find (\<lambda>p. provider_value p = s)
     [OPENAI, XAI, CUSTOM_OPENAI_COMPATIBLE, DEEPINFRA, FIREWORKS, GEMINI, CLAUDE, OLLAMA]"

record param_policy =
  pp_allowed :: "string set"
  pp_renamed :: "(string \<times> string) list"
  pp_dropped :: "string set"
  pp_prefixes :: "string set"

definition empty_policy :: param_policy where
  "empty_policy = \<lparr>pp_allowed = {}, pp_renamed = [], pp_dropped = {}, pp_prefixes = {}\<rparr>"

text \<open>
  The entries of an override; \<^const>\<open>None\<close> is a missing entry. A replacing entry that is
  null counts as empty, a patching entry that is null as missing.
\<close>

record policy_change =
  ch_allowed :: "string list option"
  ch_dropped :: "string list option"
  ch_renamed :: "(string \<times> string) list option"
  ch_prefixes :: "string list option"

record policy_override =
  ov_provider :: "string option"
  ov_replace :: policy_change
  ov_patch :: policy_change

definition set_entry :: "string list option \<Rightarrow> string set" where
  "set_entry e = (case e of None \<Rightarrow> {} | Some xs \<Rightarrow> set xs)"

definition apply_patch :: "policy_change \<Rightarrow> param_policy \<Rightarrow> param_policy" where
  "apply_patch ch p =
     \<lparr>pp_allowed = pp_allowed p \<union> set_entry (ch_allowed ch),
      pp_renamed = (case ch_renamed ch of None \<Rightarrow> pp_renamed p
                    | Some r \<Rightarrow> foldl (\<lambda>d (k, v). AList.update k v d) (pp_renamed p) r),
      pp_dropped = pp_dropped p \<union> set_entry (ch_dropped ch),
      pp_prefixes = pp_prefixes p \<union> set_entry (ch_prefixes ch)\<rparr>"

definition apply_replace :: "policy_change \<Rightarrow> param_policy \<Rightarrow> param_policy" where
  "apply_replace ch p =
     \<lparr>pp_allowed = (case ch_allowed ch of None \<Rightarrow> pp_allowed p | Some xs \<Rightarrow> set xs),
      pp_renamed = (case ch_renamed ch of None \<Rightarrow> pp_renamed p | Some r \<Rightarrow> r),
      pp_dropped = (case ch_dropped ch of None \<Rightarrow> pp_dropped p | Some xs \<Rightarrow> set xs),
      pp_prefixes = (case ch_prefixes ch of None \<Rightarrow> pp_prefixes p | Some xs \<Rightarrow> set xs)\<rparr>"

definition merge_policy :: "param_policy \<Rightarrow> policy_override \<Rightarrow> param_policy" where
  "merge_policy base override = apply_patch (ov_patch override) (apply_replace (ov_replace override) base)"

subsection \<open>The built-in policies\<close>

definition sampling_params :: "string set" where
  "sampling_params = {''temperature'', ''max_tokens'', ''top_p''}"

definition penalties :: "string set" where
  "penalties = {''frequency_penalty'', ''presence_penalty''}"

fun POLICIES :: "model_provider \<Rightarrow> param_policy" where
  "POLICIES OPENAI =
     \<lparr>pp_allowed = sampling_params \<union> penalties \<union> {''request_timeout''},
      pp_renamed = [], pp_dropped = {}, pp_prefixes = {}\<rparr>"
| "POLICIES XAI =
     \<lparr>pp_allowed = sampling_params \<union> {''timeout'', ''reasoning_effort''},
      pp_renamed = [(''request_timeout'', ''timeout'')], pp_dropped = penalties, pp_prefixes = {}\<rparr>"
| "POLICIES CUSTOM_OPENAI_COMPATIBLE =
     \<lparr>pp_allowed = sampling_params \<union> penalties \<union> {''request_timeout''},
      pp_renamed = [], pp_dropped = {}, pp_prefixes = {}\<rparr>"
| "POLICIES DEEPINFRA =
     \<lparr>pp_allowed = sampling_params \<union> {''top_k'', ''timeout''},
      pp_renamed = [(''request_timeout'', ''timeout'')], pp_dropped = penalties, pp_prefixes = {}\<rparr>"
| "POLICIES FIREWORKS =
     \<lparr>pp_allowed = sampling_params \<union>
        {''top_k'', ''request_timeout'', ''reasoning_effort'', ''thinking'', ''reasoning_history''},
      pp_renamed = [], pp_dropped = penalties, pp_prefixes = {}\<rparr>"
| "POLICIES GEMINI =
     \<lparr>pp_allowed = {''temperature'', ''max_output_tokens'', ''top_p'', ''thinking_level'', ''include_thoughts'',
        ''thinking_budget''},
      pp_renamed = [(''max_tokens'', ''max_output_tokens'')],
      pp_dropped = penalties \<union> {''request_timeout''}, pp_prefixes = {}\<rparr>"
| "POLICIES CLAUDE =
     \<lparr>pp_allowed = sampling_params \<union> {''timeout''},
      pp_renamed = [(''request_timeout'', ''timeout'')], pp_dropped = penalties, pp_prefixes = {}\<rparr>"
| "POLICIES OLLAMA =
     \<lparr>pp_allowed = {''temperature'', ''top_p'', ''stop'', ''num_ctx'', ''num_predict'', ''repeat_penalty'', ''top_k'',
        ''options'', ''base_url'', ''timeout''},
      pp_renamed = [(''max_tokens'', ''num_predict''), (''request_timeout'', ''timeout'')],
      pp_dropped = penalties, pp_prefixes = {''num_''}\<rparr>"

subsection \<open>The module's state and the loading of overrides\<close>

datatype model_policy =
    RawOverride policy_override "model_provider option"
  | Effective param_policy

record policy_state =
  st_loaded :: bool
  st_policies :: "model_provider \<Rightarrow> param_policy"
  st_models :: "string \<Rightarrow> model_policy option"
  st_global_prefixes :: "string set"

definition initial_policies :: policy_state where
  "initial_policies = \<lparr>st_loaded = False, st_policies = POLICIES, st_models = (\<lambda>_. None), st_global_prefixes = {}\<rparr>"

record policy_yaml =
  py_prefixes :: "string list"
  py_providers :: "(string \<times> policy_override) list"
  py_models :: "(string \<times> policy_override) list"

definition override_provider :: "string \<times> policy_override \<Rightarrow> policy_state \<Rightarrow> policy_state" where
  "override_provider = (\<lambda>(name, ov) st.
     case provider_of name of
       None \<Rightarrow> st
     | Some p \<Rightarrow> st\<lparr>st_policies := (st_policies st)(p := merge_policy (st_policies st p) ov)\<rparr>)"

definition override_model :: "string \<times> policy_override \<Rightarrow> policy_state \<Rightarrow> policy_state" where
  "override_model = (\<lambda>(name, ov) st.
     case ov_provider ov of
       None \<Rightarrow> st\<lparr>st_models := (st_models st)(name \<mapsto> RawOverride ov None)\<rparr>
     | Some s \<Rightarrow>
         if s = [] then st\<lparr>st_models := (st_models st)(name \<mapsto> RawOverride ov None)\<rparr>
         else (case provider_of s of
             None \<Rightarrow> st
           | Some p \<Rightarrow> st\<lparr>st_models := (st_models st)(name \<mapsto> RawOverride ov (Some p))\<rparr>))"

definition ensure_dynamic_loaded :: "policy_yaml option \<Rightarrow> policy_state \<Rightarrow> policy_state" where
  "ensure_dynamic_loaded yaml st =
     (if st_loaded st then st
      else case yaml of
        None \<Rightarrow> st\<lparr>st_loaded := True\<rparr>
      | Some y \<Rightarrow>
          (let st = st\<lparr>st_global_prefixes := st_global_prefixes st \<union> set (py_prefixes y)\<rparr>;
               st = foldl (\<lambda>st e. override_provider e st) st (py_providers y);
               st = foldl (\<lambda>st e. override_model e st) st (py_models y)
           in st\<lparr>st_loaded := True\<rparr>))"

definition resolve_model_policy ::
  "policy_yaml option \<Rightarrow> string \<Rightarrow> model_provider \<Rightarrow> policy_state \<Rightarrow> policy_state \<times> param_policy" where
  "resolve_model_policy yaml name provider st =
     (let st = ensure_dynamic_loaded yaml st in
      case st_models st name of
        Some (Effective p) \<Rightarrow> (st, p)
      | Some (RawOverride ov p) \<Rightarrow>
          let base = st_policies st (case p of Some q \<Rightarrow> q | None \<Rightarrow> provider);
              eff = merge_policy base ov
          in (st\<lparr>st_models := (st_models st)(name \<mapsto> Effective eff)\<rparr>, eff)
      | None \<Rightarrow> (st, st_policies st provider))"

definition get_effective_policy ::
  "policy_yaml option \<Rightarrow> model_provider \<Rightarrow> string option \<Rightarrow> policy_state \<Rightarrow> policy_state \<times> param_policy" where
  "get_effective_policy yaml provider model st =
     (let st = ensure_dynamic_loaded yaml st in
      case model of
        None \<Rightarrow> (st, st_policies st provider)
      | Some name \<Rightarrow>
          if name = [] then (st, st_policies st provider) else resolve_model_policy yaml name provider st)"

definition get_provider_policy ::
  "policy_yaml option \<Rightarrow> model_provider \<Rightarrow> policy_state \<Rightarrow> policy_state \<times> param_policy" where
  "get_provider_policy yaml provider st =
     (let st = ensure_dynamic_loaded yaml st in (st, st_policies st provider))"

subsection \<open>Normalising the parameters of a call\<close>

definition STREAMING_PARAMS :: "string set" where
  "STREAMING_PARAMS = {''streaming'', ''callbacks''}"

text \<open>The name under which a parameter with a value goes on, if it does.\<close>

definition param_target :: "param_policy \<Rightarrow> string set \<Rightarrow> string \<Rightarrow> string option" where
  "param_target p global k =
     (if k \<in> STREAMING_PARAMS then None
      else case map_of (pp_renamed p) k of
        Some k' \<Rightarrow> Some k'
      | None \<Rightarrow>
          if k \<in> pp_dropped p then None
          else if k \<in> pp_allowed p then Some k
          else if \<exists>pref \<in> pp_prefixes p \<union> global. py_startswith k pref then Some k
          else None)"

definition normalize_param ::
  "param_policy \<Rightarrow> string set \<Rightarrow> (string \<times> json) list \<Rightarrow> string \<times> json \<Rightarrow> (string \<times> json) list" where
  "normalize_param p global out = (\<lambda>(k, v).
     if v = JNull then out
     else case param_target p global k of None \<Rightarrow> out | Some k' \<Rightarrow> dict_set out k' v)"

definition normalize_params ::
  "policy_yaml option \<Rightarrow> model_provider \<Rightarrow> (string \<times> json) list \<Rightarrow> string option \<Rightarrow> policy_state \<Rightarrow>
   policy_state \<times> (string \<times> json) list" where
  "normalize_params yaml provider raw model st =
     (let (st, p) = get_effective_policy yaml provider model st
      in (st, foldl (normalize_param p (st_global_prefixes st)) [] raw))"

definition validate_provider_params :: "model_provider \<Rightarrow> (string \<times> json) list \<Rightarrow> policy_state \<Rightarrow> bool" where
  "validate_provider_params provider params st =
     (let p = st_policies st provider in
      list_all (\<lambda>(k, v). v = JNull \<or> k \<in> pp_allowed p \<or> k \<in> fst ` set (pp_renamed p) \<or> k \<in> pp_dropped p) params)"

end
