(* ===== verification/ParamProperties.thy ===== *)
theory ParamProperties
  imports ParamPolicy
begin

text \<open>The properties of the parameter policies: what reaches a vendor, and what caching decides.\<close>

subsection \<open>Normalisation\<close>








subsection \<open>The cache of model policies\<close>

definition policy_call :: "policy_yaml option \<Rightarrow> policy_state \<Rightarrow> model_provider \<times> string option \<Rightarrow> policy_state" where
  "policy_call yaml st = (\<lambda>(p, m). fst (get_effective_policy yaml p m st))"

text \<open>The provider with which a model was first asked for.\<close>

definition first_provider :: "string \<Rightarrow> (model_provider \<times> string option) list \<Rightarrow> model_provider option" where
  "first_provider m calls = map_option fst (List.find (\<lambda>(_, m'). m' = Some m) calls)"

text \<open>The state after loading, and the cache entries that a sequence of calls leaves.\<close>

abbreviation loaded_policies :: "policy_yaml option \<Rightarrow> policy_state" where
  "loaded_policies yaml \<equiv> ensure_dynamic_loaded yaml initial_policies"

definition resolved_entry ::
  "policy_state \<Rightarrow> model_provider option \<Rightarrow> string \<Rightarrow> model_policy option" where
  "resolved_entry L first m =
     (case (st_models L m, first) of
        (Some (RawOverride ov po), Some q) \<Rightarrow>
          Some (Effective (merge_policy (st_policies L (case po of Some r \<Rightarrow> r | None \<Rightarrow> q)) ov))
      | (e, _) \<Rightarrow> e)"

lemma override_frames:
  "st_loaded (override_provider e st) = st_loaded st" "st_models (override_provider e st) = st_models st"
  "st_loaded (override_model e st) = st_loaded st"
  by (auto simp: override_provider_def override_model_def split: prod.split option.split)

lemma loaded: "st_loaded (ensure_dynamic_loaded yaml st)"
  by (simp add: ensure_dynamic_loaded_def Let_def split: option.split)

lemma ensure_loaded_idem [simp]:
  "ensure_dynamic_loaded yaml (ensure_dynamic_loaded yaml st) = ensure_dynamic_loaded yaml st"
  using loaded by (simp add: ensure_dynamic_loaded_def[of yaml "ensure_dynamic_loaded yaml st"])

lemma loaded_raw: "st_models (loaded_policies yaml) m \<noteq> Some (Effective p)"
proof -
  have providers: "st_models (foldl (\<lambda>st e. override_provider e st) st es) = st_models st" for st es
    by (induction es arbitrary: st) (simp_all add: override_frames)
  have models: "(\<forall>m p. st_models st m \<noteq> Some (Effective p)) \<Longrightarrow>
      st_models (foldl (\<lambda>st e. override_model e st) st es) m \<noteq> Some (Effective p)" for st es
    by (induction es arbitrary: st)
      (auto simp: override_model_def split: prod.split option.split)
  show ?thesis
    by (cases yaml)
      (auto simp: ensure_dynamic_loaded_def initial_policies_def Let_def providers intro!: models)
qed

text \<open>The state that the calls leave, seen after loading.\<close>

definition cache_ok :: "policy_yaml option \<Rightarrow> (model_provider \<times> string option) list \<Rightarrow> policy_state \<Rightarrow> bool" where
  "cache_ok yaml calls st \<longleftrightarrow>
     (let L = loaded_policies yaml; s = ensure_dynamic_loaded yaml st in
      st_policies s = st_policies L \<and>
      (\<forall>m. m \<noteq> [] \<longrightarrow> st_models s m = resolved_entry L (first_provider m calls) m))"

lemma first_provider_snoc:
  "first_provider m (calls @ [(p, m')]) =
     (case first_provider m calls of Some q \<Rightarrow> Some q | None \<Rightarrow> if m' = Some m then Some p else None)"
  by (induction calls) (auto simp: first_provider_def)

lemma get_effective_policy_cases:
  "get_effective_policy yaml p m st =
     (let s = ensure_dynamic_loaded yaml st in
      case m of
        None \<Rightarrow> (s, st_policies s p)
      | Some n \<Rightarrow>
          if n = [] then (s, st_policies s p)
          else case st_models s n of
            Some (Effective e) \<Rightarrow> (s, e)
          | Some (RawOverride ov po) \<Rightarrow>
              (let e = merge_policy (st_policies s (case po of Some r \<Rightarrow> r | None \<Rightarrow> p)) ov
               in (s\<lparr>st_models := (st_models s)(n \<mapsto> Effective e)\<rparr>, e))
          | None \<Rightarrow> (s, st_policies s p))"
  by (auto simp: get_effective_policy_def resolve_model_policy_def Let_def split: option.split model_policy.split)

lemma loaded_same: "st_loaded s \<Longrightarrow> ensure_dynamic_loaded yaml s = s"
  by (simp add: ensure_dynamic_loaded_def)

lemma policy_call_ok:
  assumes "cache_ok yaml calls st"
  shows "cache_ok yaml (calls @ [(p, m)]) (policy_call yaml st (p, m))"
proof -
  let ?L = "loaded_policies yaml" let ?s = "ensure_dynamic_loaded yaml st"
  have s: "st_policies ?s = st_policies ?L" "st_loaded ?s"
      "\<And>m. m \<noteq> [] \<Longrightarrow> st_models ?s m = resolved_entry ?L (first_provider m calls) m"
    using assms loaded by (simp_all add: cache_ok_def Let_def)
  have plain: ?thesis
    if same: "fst (get_effective_policy yaml p m st) = ?s"
      and known: "\<And>n. n \<noteq> [] \<Longrightarrow> m = Some n \<Longrightarrow> (st_models ?L n = None \<or> first_provider n calls \<noteq> None)"
  proof -
    have "resolved_entry ?L (first_provider n (calls @ [(p, m)])) n = resolved_entry ?L (first_provider n calls) n"
      if "n \<noteq> []" for n
      using known[OF that]
      by (cases "first_provider n calls") (auto simp: first_provider_snoc resolved_entry_def)
    then show ?thesis
      using s by (simp add: cache_ok_def Let_def policy_call_def same)
  qed
  show ?thesis
  proof (cases m)
    case None
    then show ?thesis by (intro plain) (simp_all add: get_effective_policy_cases Let_def)
  next
    case (Some n)
    show ?thesis
    proof (cases "n = [] \<or> st_models ?L n = None \<or> first_provider n calls \<noteq> None")
      case True
      then show ?thesis
      proof (intro plain)
        show "fst (get_effective_policy yaml p m st) = ?s"
          using True s(3)[of n] loaded_raw[of yaml n]
          by (auto simp: get_effective_policy_cases Let_def Some resolved_entry_def
              split: option.split model_policy.split)
      qed (use Some in auto)
    next
      case False
      then obtain ov po where raw: "st_models ?L n = Some (RawOverride ov po)"
        using loaded_raw[of yaml n] by (metis model_policy.exhaust not_Some_eq)
      then have now: "st_models ?s n = Some (RawOverride ov po)"
        using s(3)[of n] False by (simp add: resolved_entry_def)
      have call: "policy_call yaml st (p, m) = ?s\<lparr>st_models := (st_models ?s)(n \<mapsto> Effective
          (merge_policy (st_policies ?L (case po of Some r \<Rightarrow> r | None \<Rightarrow> p)) ov))\<rparr>"
        by (simp add: policy_call_def get_effective_policy_cases Some now Let_def False[simplified] s(1))
      have "st_models (policy_call yaml st (p, m)) k = resolved_entry ?L (first_provider k (calls @ [(p, m)])) k"
        if "k \<noteq> []" for k
      proof (cases "k = n")
        case True
        then show ?thesis
          unfolding call using False raw by (simp add: first_provider_snoc Some resolved_entry_def)
      next
        case other: False
        then have "first_provider k (calls @ [(p, m)]) = first_provider k calls"
          by (simp add: first_provider_snoc Some split: option.split)
        then show ?thesis unfolding call using s(3)[OF that] other by simp
      qed
      then show ?thesis unfolding cache_ok_def Let_def using s by (simp add: call loaded_same)
    qed
  qed
qed

lemma calls_cache_ok: "cache_ok yaml calls (foldl (policy_call yaml) initial_policies calls)"
proof (induction calls rule: rev_induct)
  case Nil
  show ?case
    by (auto simp: cache_ok_def Let_def resolved_entry_def first_provider_def split: option.split model_policy.split)
next
  case (snoc c calls)
  then show ?case using policy_call_ok by (cases c) simp
qed

text \<open>
  The policy of a model after any calls is the override of the YAML file applied to the
  policy of one provider: the one the override names, or else the one with which the model was
  first asked for, whatever provider is asked for now. Without an override it is the policy of
  the provider asked for, and the other calls have no influence.
\<close>

theorem first_call_decides_policy:
  "snd (get_effective_policy yaml p (Some m) (foldl (policy_call yaml) initial_policies calls)) =
     (let L = ensure_dynamic_loaded yaml initial_policies in
      case (if m = [] then None else st_models L m) of
        Some (RawOverride ov named) \<Rightarrow>
          merge_policy (st_policies L
            (case named of Some q \<Rightarrow> q
             | None \<Rightarrow> (case first_provider m calls of Some q \<Rightarrow> q | None \<Rightarrow> p))) ov
      | _ \<Rightarrow> st_policies L p)"
proof -
  let ?L = "loaded_policies yaml" let ?s = "ensure_dynamic_loaded yaml (foldl (policy_call yaml) initial_policies calls)"
  have s: "st_policies ?s = st_policies ?L"
      "m \<noteq> [] \<Longrightarrow> st_models ?s m = resolved_entry ?L (first_provider m calls) m"
    using calls_cache_ok[of yaml calls] by (simp_all add: cache_ok_def Let_def)
  show ?thesis
    using s loaded_raw[of yaml m]
    by (auto simp: get_effective_policy_cases Let_def resolved_entry_def split: option.split model_policy.split)
qed

end
