(* ===== verification/ToolGuard.thy ===== *)
theory ToolGuard
  imports Json "HOL-Library.Char_ord" "HOL-Library.List_Lexorder" "HOL-Library.Product_Lexorder"
begin










subsection \<open>When the guard ends the loop\<close>



end
