(* ===== verification/ContentCipher.thy ===== *)
theory ContentCipher
  imports Json
begin

text \<open>
  \<open>inference_core/services/content_cipher.py\<close>: versioned tokens for encrypted fields, written
  with the first key of a purpose and readable with every key of the purpose and its fallback.
  Fernet, the hash behind the key ids, JSON and the environment variables are parameters; the
  number of a call stands for the randomness of the encryption. The cache of keys is the
  module's state.
\<close>

record cipher_env =
  ce_getenv :: "string \<Rightarrow> string option"
  ce_encrypt :: "nat \<Rightarrow> string \<Rightarrow> string \<Rightarrow> exn + string"
  ce_decrypt :: "string \<Rightarrow> string \<Rightarrow> string option"
  ce_key_id :: "string \<Rightarrow> string"
  ce_dumps :: "json \<Rightarrow> string"
  ce_loads :: "string \<Rightarrow> json option"

type_synonym key_cache = "string \<Rightarrow> string list option"

definition TOKEN_START :: string where
  "TOKEN_START = ''enc.v1.''"

definition PURPOSES :: "(string \<times> string \<times> string option) list" where
  "PURPOSES =
     [(''content'', ''CONTENT_ENCRYPTION_KEY'', None),
      (''memory'', ''MEMORY_ENCRYPTION_KEY'', Some ''content''),
      (''checkpoints'', ''CHECKPOINT_ENCRYPTION_KEY'', Some ''content'')]"

definition ContentCipherError :: "string \<Rightarrow> exn" where
  "ContentCipherError = OtherError"

subsection \<open>Rings of keys\<close>

definition env_text :: "cipher_env \<Rightarrow> string \<Rightarrow> string" where
  "env_text E var = py_strip (case ce_getenv E var of None \<Rightarrow> [] | Some s \<Rightarrow> s)"

definition split_keys :: "string \<Rightarrow> string list" where
  "split_keys raw = filter (\<lambda>k. k \<noteq> []) (map py_strip (py_split (CHR '','') raw))"

text \<open>
  The walk along the fallback chain ends, since a purpose is visited once. Encrypting stops at
  the first purpose with a key, in the cache or in the environment, and caches its ring.
\<close>

definition unseen :: "string list \<Rightarrow> nat" where
  "unseen seen = card (fst ` set PURPOSES - set seen)"

lemma unseen_decreases:
  assumes "map_of PURPOSES p = Some e" and "p \<notin> set seen"
  shows "unseen (p # seen) < unseen seen"
proof -
  have "p \<in> fst ` set PURPOSES" using assms(1) by (force dest: map_of_SomeD)
  then show ?thesis using assms(2) unfolding unseen_def by (intro psubset_card_mono) auto
qed

definition missing_key :: "string \<Rightarrow> exn" where
  "missing_key purpose =
     (case map_of PURPOSES purpose of
        None \<Rightarrow> LookupError purpose
      | Some (var, _) \<Rightarrow> ContentCipherError (''No encryption key configured for purpose '' @ py_quote purpose @
          '' (set '' @ var @ '' or its fallback)''))"

function resolve_keys_from ::
  "cipher_env \<Rightarrow> string \<Rightarrow> string list \<Rightarrow> string option \<Rightarrow> key_cache \<Rightarrow>
   key_cache \<times> (exn + string \<times> string list)" where
  "resolve_keys_from E purpose seen current cache =
     (case current of
        None \<Rightarrow> (cache, Inl (missing_key purpose))
      | Some p \<Rightarrow>
          if p = [] \<or> p \<in> set seen then (cache, Inl (missing_key purpose))
          else (case map_of PURPOSES p of
              None \<Rightarrow> (cache, Inl (LookupError p))
            | Some (var, fallback) \<Rightarrow>
                (case cache p of
                   Some keys \<Rightarrow> (cache, Inr (p, keys))
                 | None \<Rightarrow>
                     if env_text E var \<noteq> [] then
                       (cache(p \<mapsto> split_keys (env_text E var)), Inr (p, split_keys (env_text E var)))
                     else resolve_keys_from E purpose (p # seen) fallback cache)))"
  by pat_completeness auto
termination
  by (relation "measure (\<lambda>(E, purpose, seen, current, cache). unseen seen)") (auto intro: unseen_decreases)

declare resolve_keys_from.simps [simp del]

definition resolve_keys :: "cipher_env \<Rightarrow> string \<Rightarrow> key_cache \<Rightarrow> key_cache \<times> (exn + string \<times> string list)" where
  "resolve_keys E purpose = resolve_keys_from E purpose [] (Some purpose)"

text \<open>Decrypting walks the whole chain and joins the rings, without the cache.\<close>

definition add_keys :: "string list \<Rightarrow> string list \<Rightarrow> string list" where
  "add_keys out keys = foldl (\<lambda>out k. if k \<in> set out then out else out @ [k]) out keys"

function resolve_all_from ::
  "cipher_env \<Rightarrow> string list \<Rightarrow> string option \<Rightarrow> string list \<Rightarrow> exn + string list" where
  "resolve_all_from E seen current out =
     (case current of
        None \<Rightarrow> Inr out
      | Some p \<Rightarrow>
          if p = [] \<or> p \<in> set seen then Inr out
          else (case map_of PURPOSES p of
              None \<Rightarrow> Inl (LookupError p)
            | Some (var, fallback) \<Rightarrow>
                resolve_all_from E (p # seen) fallback (add_keys out (split_keys (env_text E var)))))"
  by pat_completeness auto
termination
  by (relation "measure (\<lambda>(E, seen, current, out). unseen seen)") (auto intro: unseen_decreases)

declare resolve_all_from.simps [simp del]

definition resolve_all_keys :: "cipher_env \<Rightarrow> string \<Rightarrow> exn + string list" where
  "resolve_all_keys E purpose = resolve_all_from E [] (Some purpose) []"

subsection \<open>Tokens\<close>

definition is_cipher_token :: "string \<Rightarrow> bool" where
  "is_cipher_token v \<longleftrightarrow> py_startswith v TOKEN_START \<or> py_startswith v ''gAAAA''"

definition encrypt_text ::
  "cipher_env \<Rightarrow> nat \<Rightarrow> string \<Rightarrow> string \<Rightarrow> key_cache \<Rightarrow> key_cache \<times> (exn + string)" where
  "encrypt_text E n purpose v cache =
     (case resolve_keys E purpose cache of
        (cache, Inl e) \<Rightarrow> (cache, Inl e)
      | (cache, Inr (effective, [])) \<Rightarrow> (cache, Inl (LookupError ''list index out of range''))
      | (cache, Inr (effective, primary # _)) \<Rightarrow>
          (cache, bind_result (ce_encrypt E n primary v) (\<lambda>t.
             Inr (TOKEN_START @ effective @ ''.'' @ ce_key_id E primary @ ''.'' @ t))))"

text \<open>\<open>split(".", 4)\<close> into five parts, of which the last one is the payload.\<close>

fun after_dots :: "nat \<Rightarrow> string \<Rightarrow> string option" where
  "after_dots 0 s = Some s"
| "after_dots (Suc n) [] = None"
| "after_dots (Suc n) (c # s) = (if c = CHR ''.'' then after_dots n s else after_dots (Suc n) s)"

definition token_payload :: "string \<Rightarrow> string" where
  "token_payload token =
     (if py_startswith token TOKEN_START then (case after_dots 4 token of None \<Rightarrow> token | Some p \<Rightarrow> p) else token)"

definition decrypt_text :: "cipher_env \<Rightarrow> string \<Rightarrow> string \<Rightarrow> exn + string" where
  "decrypt_text E purpose token =
     bind_result (resolve_all_keys E purpose) (\<lambda>keys.
       if keys = [] then Inl (missing_key purpose)
       else case List.find (\<lambda>k. ce_decrypt E k (token_payload token) \<noteq> None) keys of
         None \<Rightarrow> Inl (ContentCipherError ''Decryption failed'')
       | Some k \<Rightarrow> Inr (the (ce_decrypt E k (token_payload token))))"

text \<open>The error of a decryption also names the last key's exception, which is the library's.\<close>

subsection \<open>Fields\<close>

definition env_flag :: "cipher_env \<Rightarrow> string \<Rightarrow> bool \<Rightarrow> bool" where
  "env_flag E name dflt =
     (case ce_getenv E name of
        None \<Rightarrow> dflt
      | Some raw \<Rightarrow> py_lower (py_strip raw) \<in> {''1'', ''true'', ''yes'', ''on''})"

definition instances_enc_enabled :: "cipher_env \<Rightarrow> bool" where
  "instances_enc_enabled E = env_flag E ''ENCRYPT_INSTANCES_WRITES'' False"

definition memory_enc_enabled :: "cipher_env \<Rightarrow> bool" where
  "memory_enc_enabled E = env_flag E ''ENCRYPT_MEMORY_WRITES'' False"

definition qdrant_enc_enabled :: "cipher_env \<Rightarrow> bool" where
  "qdrant_enc_enabled E = env_flag E ''ENCRYPT_QDRANT_WRITES'' False"

definition enc_field ::
  "cipher_env \<Rightarrow> nat \<Rightarrow> string \<Rightarrow> bool \<Rightarrow> string option \<Rightarrow> key_cache \<Rightarrow> key_cache \<times> (exn + string option)" where
  "enc_field E n purpose enabled value cache =
     (case value of
        None \<Rightarrow> (cache, Inr None)
      | Some v \<Rightarrow>
          if v = [] \<or> \<not> enabled \<or> is_cipher_token v then (cache, Inr (Some v))
          else map_prod id (map_sum id Some) (encrypt_text E n purpose v cache))"

definition dec_field :: "cipher_env \<Rightarrow> string \<Rightarrow> string option \<Rightarrow> string option" where
  "dec_field E purpose value =
     (case value of
        None \<Rightarrow> None
      | Some v \<Rightarrow>
          if \<not> is_cipher_token v then Some v
          else (case decrypt_text E purpose v of Inl _ \<Rightarrow> Some v | Inr t \<Rightarrow> Some t))"

definition enc_json ::
  "cipher_env \<Rightarrow> nat \<Rightarrow> string \<Rightarrow> bool \<Rightarrow> json \<Rightarrow> key_cache \<Rightarrow> key_cache \<times> (exn + json)" where
  "enc_json E n purpose enabled v cache =
     (if v = JNull \<or> \<not> enabled then (cache, Inr v)
      else case v of
        JStr s \<Rightarrow>
          if is_cipher_token s then (cache, Inr v)
          else map_prod id (map_sum id JStr) (encrypt_text E n purpose (ce_dumps E v) cache)
      | _ \<Rightarrow> map_prod id (map_sum id JStr) (encrypt_text E n purpose (ce_dumps E v) cache))"

text \<open>The value that a stored token stands for, if it decrypts and parses.\<close>

definition token_json :: "cipher_env \<Rightarrow> string \<Rightarrow> string \<Rightarrow> json option" where
  "token_json E purpose s =
     (case decrypt_text E purpose s of Inl _ \<Rightarrow> None | Inr t \<Rightarrow> ce_loads E t)"

definition dec_json :: "cipher_env \<Rightarrow> string \<Rightarrow> json \<Rightarrow> json" where
  "dec_json E purpose v =
     (case v of
        JStr s \<Rightarrow>
          if is_cipher_token s then (case token_json E purpose s of None \<Rightarrow> JNull | Some j \<Rightarrow> j) else v
      | _ \<Rightarrow> v)"

definition assert_decryptable_json :: "cipher_env \<Rightarrow> string \<Rightarrow> json \<Rightarrow> exn + unit" where
  "assert_decryptable_json E purpose v =
     (case v of
        JStr s \<Rightarrow>
          if is_cipher_token s \<and> token_json E purpose s = None
          then Inl (OtherError (''UndecryptableToken '' @ purpose)) else Inr ()
      | _ \<Rightarrow> Inr ())"

end
