(* ===== verification/CipherProperties.thy ===== *)
theory CipherProperties
  imports ContentCipher
begin

text \<open>
  Reading back what was written, across changes of the keys. What the code relies on of Fernet
  and of the key ids: a text decrypts to what was encrypted, with no other key, and an id is
  hexadecimal.
\<close>

definition fernet_sound :: "cipher_env \<Rightarrow> bool" where
  "fernet_sound E \<longleftrightarrow>
     (\<forall>k n v t. ce_encrypt E n k v = Inr t \<longrightarrow>
        ce_decrypt E k t = Some v \<and> (\<forall>k'. k' \<noteq> k \<longrightarrow> ce_decrypt E k' t = None)) \<and>
     (\<forall>k. CHR ''.'' \<notin> set (ce_key_id E k))"

text \<open>The ring of a purpose in an environment.\<close>

definition key_ring :: "cipher_env \<Rightarrow> string \<Rightarrow> string list" where
  "key_ring E p = (case map_of PURPOSES p of None \<Rightarrow> [] | Some (var, _) \<Rightarrow> split_keys (env_text E var))"

lemma purpose_cases:
  "map_of PURPOSES p = Some e \<Longrightarrow> p \<in> {''content'', ''memory'', ''checkpoints''}"
  by (auto simp: PURPOSES_def split: if_splits)

lemma set_add_keys: "set (add_keys out keys) = set out \<union> set keys"
  unfolding add_keys_def by (induction keys arbitrary: out) auto

text \<open>The purpose a token is written for is the given one or its fallback, both read later.\<close>

lemma resolve_keys_effective:
  assumes "snd (resolve_keys E purpose cache) = Inr (effective, keys)"
  shows "purpose \<in> {''content'', ''memory'', ''checkpoints''} \<and> (effective = purpose \<or> effective = ''content'')"
  using assms
  by (auto simp: resolve_keys_def resolve_keys_from.simps PURPOSES_def
      split: if_splits option.split_asm prod.split_asm)

lemma resolve_all_keys_ring:
  assumes "purpose \<in> {''content'', ''memory'', ''checkpoints''}"
  obtains keys where "resolve_all_keys E purpose = Inr keys"
    "set keys = set (key_ring E purpose) \<union> set (key_ring E ''content'')"
  using assms
  by (auto simp: resolve_all_keys_def resolve_all_from.simps PURPOSES_def key_ring_def set_add_keys)

lemma after_dots_append: "CHR ''.'' \<notin> set w \<Longrightarrow> after_dots (Suc n) (w @ CHR ''.'' # s) = after_dots n s"
  by (induction w) auto

lemma payload_of_token:
  assumes "CHR ''.'' \<notin> set effective" and "CHR ''.'' \<notin> set kid"
  shows "token_payload (TOKEN_START @ effective @ ''.'' @ kid @ ''.'' @ t) = t"
proof -
  have "after_dots 4 (TOKEN_START @ effective @ ''.'' @ kid @ ''.'' @ t) =
      after_dots 2 (effective @ CHR ''.'' # kid @ CHR ''.'' # t)"
    by (simp add: TOKEN_START_def numeral_eq_Suc)
  also have "\<dots> = Some t"
    by (simp add: numeral_eq_Suc after_dots_append assms)
  finally show ?thesis by (simp add: token_payload_def py_startswith_def TOKEN_START_def)
qed

lemma encrypt_text_Inr:
  assumes "snd (encrypt_text E n purpose v cache) = Inr token"
  obtains effective k ks t where "snd (resolve_keys E purpose cache) = Inr (effective, k # ks)"
    "ce_encrypt E n k v = Inr t" "token = TOKEN_START @ effective @ ''.'' @ ce_key_id E k @ ''.'' @ t"
  using assms
  by (auto simp: encrypt_text_def bind_result_Inr_iff split: prod.split_asm sum.split_asm list.split_asm)

lemma decrypt_encrypted:
  assumes "fernet_sound E" and "snd (encrypt_text E n purpose v cache) = Inr token"
    and "\<And>effective k ks. snd (resolve_keys E purpose cache) = Inr (effective, k # ks) \<Longrightarrow>
      k \<in> set (key_ring (E\<lparr>ce_getenv := g\<rparr>) effective)"
  shows "decrypt_text (E\<lparr>ce_getenv := g\<rparr>) purpose token = Inr v"
proof -
  let ?E = "E\<lparr>ce_getenv := g\<rparr>"
  obtain effective k ks t where t: "snd (resolve_keys E purpose cache) = Inr (effective, k # ks)"
      "ce_encrypt E n k v = Inr t" "token = TOKEN_START @ effective @ ''.'' @ ce_key_id E k @ ''.'' @ t"
    using encrypt_text_Inr[OF assms(2)] by metis
  have purpose: "purpose \<in> {''content'', ''memory'', ''checkpoints''}" "effective = purpose \<or> effective = ''content''"
    using resolve_keys_effective[OF t(1)] by auto
  then obtain keys where keys: "resolve_all_keys ?E purpose = Inr keys" "k \<in> set keys"
    using resolve_all_keys_ring[of purpose ?E] assms(3)[OF t(1)] by (metis UnCI)
  have "CHR ''.'' \<notin> set effective" using purpose by auto
  then have payload: "token_payload token = t"
    using assms(1) t(3) payload_of_token by (simp add: fernet_sound_def)
  have "ce_decrypt E k t = Some v" "k' \<noteq> k \<Longrightarrow> ce_decrypt E k' t = None" for k'
    using assms(1) t(2) by (auto simp: fernet_sound_def)
  moreover from this have "List.find (\<lambda>k. ce_decrypt ?E k t \<noteq> None) keys = Some k"
    using keys(2) by (induction keys) (auto split: if_splits, metis option.distinct(1))
  ultimately show ?thesis
    using keys by (auto simp: decrypt_text_def payload)
qed

text \<open>
  C28: What is written to an encrypted field is read back, also after the keys have changed:
  as long as the key it was written with is still in the ring of the purpose it was written
  for, be it that keys were added in front or that a purpose got keys of its own. Only a value
  that itself looks like a token is stored as it is, and read as what it decrypts to, if it
  does.
\<close>

theorem fields_survive_key_rotation:
  assumes "fernet_sound E" and "snd (enc_field E n purpose enabled (Some v) cache) = Inr w"
    and "case snd (resolve_keys E purpose cache) of
        Inr (effective, k # _) \<Rightarrow> k \<in> set (key_ring (E\<lparr>ce_getenv := g\<rparr>) effective)
      | _ \<Rightarrow> True"
  shows "dec_field (E\<lparr>ce_getenv := g\<rparr>) purpose w =
    (if is_cipher_token v
     then (case decrypt_text (E\<lparr>ce_getenv := g\<rparr>) purpose v of Inl _ \<Rightarrow> Some v | Inr t \<Rightarrow> Some t)
     else Some v)"
proof (cases "v = [] \<or> \<not> enabled \<or> is_cipher_token v")
  case True
  then show ?thesis
    using assms(2) by (auto simp: enc_field_def dec_field_def is_cipher_token_def split: sum.split)
next
  case False
  then obtain token where token: "snd (encrypt_text E n purpose v cache) = Inr token" "w = Some token"
    using assms(2) by (cases "snd (encrypt_text E n purpose v cache)") (auto simp: enc_field_def)
  have "is_cipher_token token"
    using encrypt_text_Inr[OF token(1)] by (metis is_cipher_token_def append_eq_conv_conj py_startswith_def)
  moreover have "decrypt_text (E\<lparr>ce_getenv := g\<rparr>) purpose token = Inr v"
    using assms(3) by (intro decrypt_encrypted[OF assms(1) token(1)]) auto
  ultimately show ?thesis using False token(2) by (simp add: dec_field_def)
qed

definition demo_cipher :: cipher_env where
  "demo_cipher = \<lparr>ce_getenv = [''CONTENT_ENCRYPTION_KEY'' \<mapsto> ''k1''],
     ce_encrypt = (\<lambda>_ k v. if CHR '':'' \<in> set k then Inl (ValueError ''key'') else Inr (k @ '':'' @ v)),
     ce_decrypt = (\<lambda>k t. if CHR '':'' \<notin> set k \<and> py_startswith t (k @ '':'') then Some (drop (Suc (length k)) t) else None),
     ce_key_id = (\<lambda>_. ''00000000''), ce_dumps = (\<lambda>_. []), ce_loads = (\<lambda>_. None)\<rparr>"

lemma demo_fernet: "fernet_sound demo_cipher"
proof -
  have upto: "takeWhile (\<lambda>c. c \<noteq> CHR '':'') (k @ CHR '':'' # v) = k" if "CHR '':'' \<notin> set k" for k v
    using that by (induction k) auto
  have same: "k' = k" if no: "CHR '':'' \<notin> set k" "CHR '':'' \<notin> set k'"
    and pre: "py_startswith (k @ CHR '':'' # v) (k' @ '':'')" for k k' v
  proof -
    obtain s where "k @ CHR '':'' # v = k' @ CHR '':'' # s"
      using pre by (auto simp: py_startswith_prefix prefix_def)
    then have "takeWhile (\<lambda>c. c \<noteq> CHR '':'') (k @ CHR '':'' # v) = takeWhile (\<lambda>c. c \<noteq> CHR '':'') (k' @ CHR '':'' # s)"
      by (rule arg_cong)
    then show ?thesis using upto[OF no(1)] upto[OF no(2)] by (simp only:)
  qed
  have self: "py_startswith (k @ CHR '':'' # v) (k @ '':'')" for k v
    by (simp add: py_startswith_prefix)
  have "ce_decrypt demo_cipher k t = Some v \<and> (\<forall>k'. k' \<noteq> k \<longrightarrow> ce_decrypt demo_cipher k' t = None)"
    if encrypted: "ce_encrypt demo_cipher n k v = Inr t" for k n v t
  proof -
    have t: "CHR '':'' \<notin> set k" "t = k @ CHR '':'' # v"
      using encrypted by (simp_all add: demo_cipher_def split: if_splits)
    then have "k' \<noteq> k \<Longrightarrow> \<not> (CHR '':'' \<notin> set k' \<and> py_startswith t (k' @ '':''))" for k'
      using same by blast
    then show ?thesis using t self by (auto simp: demo_cipher_def)
  qed
  moreover have "CHR ''.'' \<notin> set (ce_key_id demo_cipher k)" for k by (simp add: demo_cipher_def)
  ultimately show ?thesis unfolding fernet_sound_def by blast
qed

theorem fields_survive_key_rotation_witness:
  "snd (enc_field demo_cipher 0 ''memory'' True (Some ''hi'') (\<lambda>_. None)) =
     Inr (Some ''enc.v1.content.00000000.k1:hi'') \<and>
   dec_field (demo_cipher\<lparr>ce_getenv := [''CONTENT_ENCRYPTION_KEY'' \<mapsto> ''k2,k1'', ''MEMORY_ENCRYPTION_KEY'' \<mapsto> ''k3'']\<rparr>)
     ''memory'' (Some ''enc.v1.content.00000000.k1:hi'') = Some ''hi''"
proof -
  let ?g = "[''CONTENT_ENCRYPTION_KEY'' \<mapsto> ''k2,k1'', ''MEMORY_ENCRYPTION_KEY'' \<mapsto> ''k3'']"
  have keys: "resolve_keys demo_cipher ''memory'' (\<lambda>_. None) = ((\<lambda>_. None)(''content'' \<mapsto> [''k1'']), Inr (''content'', [''k1'']))"
    by (simp add: resolve_keys_def resolve_keys_from.simps PURPOSES_def env_text_def split_keys_def demo_cipher_def
        py_strip_def py_rstrip_def py_lstrip_def py_space_def)
  then have w: "snd (enc_field demo_cipher 0 ''memory'' True (Some ''hi'') (\<lambda>_. None)) =
      Inr (Some ''enc.v1.content.00000000.k1:hi'')"
    by (simp add: enc_field_def is_cipher_token_def py_startswith_def TOKEN_START_def encrypt_text_def demo_cipher_def)
  moreover have "\<not> is_cipher_token ''hi''" by (simp add: is_cipher_token_def py_startswith_def TOKEN_START_def)
  moreover have "''k1'' \<in> set (key_ring (demo_cipher\<lparr>ce_getenv := ?g\<rparr>) ''content'')"
    by (simp add: key_ring_def PURPOSES_def env_text_def split_keys_def py_strip_def py_rstrip_def py_lstrip_def
        py_space_def)
  ultimately show ?thesis
    using fields_survive_key_rotation[OF demo_fernet w, of ?g] keys by simp
qed

end
