(* ===== verification/AgentInstances.thy ===== *)
theory AgentInstances
  imports BatchModels
begin

text \<open>
  \<open>inference_core/services/user_agent_instance_service.py\<close> with the limits of
  \<open>inference_core/schemas/agent_prompt_limits.py\<close> and the fallback aliases of
  \<open>inference_core/agents/middleware/model_fallback.py\<close>: the agent instances of the users.
  Encrypted columns are seen as the values of their properties (the cipher has a theory of its
  own); the configuration a user's requests are resolved against, the environment variables
  and Python's \<open>int\<close> and \<open>repr\<close> are parameters. A call that raises commits nothing.
\<close>

subsection \<open>Limits of prompts\<close>

record prompt_limits =
  pl_override :: "int option"
  pl_append :: "int option"

record limits_state =
  ls_configured :: prompt_limits
  ls_runtime :: bool

record limits_env =
  le_getenv :: "string \<Rightarrow> string option"
  le_int :: "string \<Rightarrow> int option"

definition no_limits :: prompt_limits where
  "no_limits = \<lparr>pl_override = None, pl_append = None\<rparr>"

definition OVERRIDE_ENV :: string where
  "OVERRIDE_ENV = ''INFERENCE_CORE_AGENT_SYSTEM_PROMPT_OVERRIDE_MAX_LENGTH''"

definition APPEND_ENV :: string where
  "APPEND_ENV = ''INFERENCE_CORE_AGENT_SYSTEM_PROMPT_APPEND_MAX_LENGTH''"

definition validate_limit_value :: "string \<Rightarrow> int option \<Rightarrow> exn + unit" where
  "validate_limit_value field v =
     (case v of
        Some n \<Rightarrow> if n < 1 then Inl (ValueError (field @ '' limit must be a positive integer'')) else Inr ()
      | None \<Rightarrow> Inr ())"

definition read_limit_from_env :: "limits_env \<Rightarrow> string \<Rightarrow> exn + int option" where
  "read_limit_from_env L var =
     (case le_getenv L var of
        None \<Rightarrow> Inr None
      | Some raw \<Rightarrow>
          if py_strip raw = [] then Inr None
          else (case le_int L (py_strip raw) of
              None \<Rightarrow> Inl (ValueError (var @ '' must be an integer''))
            | Some n \<Rightarrow> if n < 1 then Inl (ValueError (var @ '' must be a positive integer'')) else Inr (Some n)))"

definition limits_from_env :: "limits_env \<Rightarrow> exn + prompt_limits" where
  "limits_from_env L =
     bind_result (read_limit_from_env L OVERRIDE_ENV) (\<lambda>a.
     bind_result (read_limit_from_env L APPEND_ENV) (\<lambda>b. Inr \<lparr>pl_override = a, pl_append = b\<rparr>))"

definition clear_limits :: "limits_state \<Rightarrow> limits_state" where
  "clear_limits st = \<lparr>ls_configured = no_limits, ls_runtime = False\<rparr>"

definition configure_limits :: "int option \<Rightarrow> int option \<Rightarrow> limits_state \<Rightarrow> exn + limits_state" where
  "configure_limits a b st =
     bind_result (validate_limit_value ''system_prompt_override'' a) (\<lambda>_.
     bind_result (validate_limit_value ''system_prompt_append'' b) (\<lambda>_.
       Inr \<lparr>ls_configured = \<lparr>pl_override = a, pl_append = b\<rparr>, ls_runtime = True\<rparr>))"

definition get_limits :: "limits_env \<Rightarrow> limits_state \<Rightarrow> exn + prompt_limits" where
  "get_limits L st = (if ls_runtime st then Inr (ls_configured st) else limits_from_env L)"

definition validate_prompt_length ::
  "limits_env \<Rightarrow> limits_state \<Rightarrow> string \<Rightarrow> (prompt_limits \<Rightarrow> int option) \<Rightarrow> string option \<Rightarrow> exn + unit" where
  "validate_prompt_length L st field limit value =
     (case value of
        None \<Rightarrow> Inr ()
      | Some v \<Rightarrow>
          bind_result (get_limits L st) (\<lambda>limits.
            case limit limits of
              None \<Rightarrow> Inr ()
            | Some n \<Rightarrow>
                if int (length v) > n then Inl (ValueError (field @ '' exceeds '' @ int_str n @ '' characters''))
                else Inr ()))"

definition validate_prompt_lengths ::
  "limits_env \<Rightarrow> limits_state \<Rightarrow> string option \<Rightarrow> string option \<Rightarrow> exn + unit" where
  "validate_prompt_lengths L st override addition =
     bind_result (validate_prompt_length L st ''system_prompt_override'' pl_override override) (\<lambda>_.
       validate_prompt_length L st ''system_prompt_append'' pl_append addition)"

subsection \<open>Overrides of the configuration\<close>

definition fallback_from_mapping :: "(string \<times> json) list \<Rightarrow> json option" where
  "fallback_from_mapping m =
     (case map_of m ''fallback'' of Some v \<Rightarrow> Some v | None \<Rightarrow> map_of m ''fallback_models'')"

definition canonicalize_fallback :: "(string \<times> json) list \<Rightarrow> (string \<times> json) list" where
  "canonicalize_fallback m =
     (case fallback_from_mapping m of
        None \<Rightarrow> m
      | Some v \<Rightarrow> dict_set (dict_set m ''fallback'' v) ''fallback_models'' v)"

definition check :: "bool \<Rightarrow> string \<Rightarrow> exn + unit" where
  "check ok message = (if ok then Inr () else Inl (ValueError message))"

definition valid_response_format :: "json \<Rightarrow> exn + unit" where
  "valid_response_format rf =
     (case rf of
        JNull \<Rightarrow> Inr ()
      | JObj kvs \<Rightarrow>
          if kvs = [] then Inl (ValueError ''config_overrides.response_format must be a non-empty JSON Schema dict or null'')
          else check (list_ex (\<lambda>k. k \<in> fst ` set kvs) [''type'', ''$ref'', ''oneOf'', ''anyOf'', ''allOf''])
            ''config_overrides.response_format must look like a JSON Schema: expected at least one of 'type', '$ref', 'oneOf', 'anyOf', or 'allOf' at the top level''
      | _ \<Rightarrow> Inl (ValueError ''config_overrides.response_format must be a non-empty JSON Schema dict or null''))"

fun strings_of :: "json list \<Rightarrow> string list option" where
  "strings_of [] = Some []"
| "strings_of (JStr s # js) = map_option ((#) s) (strings_of js)"
| "strings_of _ = None"

definition normalize_overrides ::
  "(string list \<Rightarrow> string) \<Rightarrow> string list \<Rightarrow> (string \<times> json) list option \<Rightarrow> exn + (string \<times> json) list option" where
  "normalize_overrides repr models overrides =
     (case overrides of
        None \<Rightarrow> Inr None
      | Some m \<Rightarrow>
          let n = canonicalize_fallback m in
          bind_result (case map_of n ''memory_access_enabled'' of
              Some (JBool _) \<Rightarrow> Inr () | None \<Rightarrow> Inr ()
            | _ \<Rightarrow> Inl (ValueError ''config_overrides.memory_access_enabled must be a boolean'')) (\<lambda>_.
          bind_result (case map_of n ''memory_scope'' of
              None \<Rightarrow> Inr ()
            | Some v \<Rightarrow> check (v = JStr ''shared'' \<or> v = JStr ''dedicated'')
                (''config_overrides.memory_scope must be 'shared' or '' @ py_quote ''dedicated'')) (\<lambda>_.
          bind_result (case map_of n ''response_format'' of None \<Rightarrow> Inr () | Some rf \<Rightarrow> valid_response_format rf) (\<lambda>_.
            case map_of n ''fallback'' of
              None \<Rightarrow> Inr (Some n)
            | Some f \<Rightarrow>
                let n = (if f = JNull then dict_set (dict_set n ''fallback'' (JArr [])) ''fallback_models'' (JArr []) else n);
                    f = (if f = JNull then JArr [] else f)
                in (case (case f of JArr js \<Rightarrow> strings_of js | _ \<Rightarrow> None) of
                      None \<Rightarrow> Inl (ValueError ''config_overrides.fallback must be a list of model names'')
                    | Some names \<Rightarrow>
                        let invalid = filter (\<lambda>x. x \<notin> set models) names in
                        if invalid \<noteq> [] then
                          Inl (ValueError (''Fallback model(s) not found: '' @ repr invalid @ ''. Available models: '' @ repr models))
                        else Inr (Some n))))))"

subsection \<open>The instances\<close>

record agent_instance =
  in_id :: uuid
  in_user_id :: uuid
  in_instance_name :: string
  in_display_name :: string
  in_base_agent_name :: string
  in_description :: "string option"
  in_primary_model :: "string option"
  in_system_prompt_override :: "string option"
  in_system_prompt_append :: "string option"
  in_config_overrides :: "(string \<times> json) list option"
  in_skills :: "json option"
  in_is_default :: bool
  in_is_deepagent :: bool
  in_is_active :: bool
  in_subagents :: "uuid list"

record instance_db =
  id_instances :: "agent_instance list"
  id_uuids :: "nat \<Rightarrow> uuid"
  id_uuid_count :: nat

text \<open>A base agent of the resolved configuration: its name and whether users may select it.\<close>

record resolved_config =
  rc_agents :: "(string \<times> bool) list"
  rc_models :: "string list"

record instance_env =
  ie_resolved :: "uuid \<Rightarrow> resolved_config"
  ie_limits_env :: limits_env
  ie_limits :: limits_state
  ie_repr :: "string list \<Rightarrow> string"

text \<open>The row order of \<open>list_instances\<close>: defaults first, then by display name.\<close>

definition list_instances ::
  "(agent_instance list \<Rightarrow> agent_instance list) \<Rightarrow> uuid \<Rightarrow> bool \<Rightarrow> instance_db \<Rightarrow> agent_instance list" where
  "list_instances by_display_name uid active_only d =
     (let rows = by_display_name (filter (\<lambda>i. in_user_id i = uid \<and> (active_only \<longrightarrow> in_is_active i)) (id_instances d))
      in filter in_is_default rows @ filter (\<lambda>i. \<not> in_is_default i) rows)"

definition get_instance :: "uuid \<Rightarrow> uuid \<Rightarrow> instance_db \<Rightarrow> agent_instance option" where
  "get_instance uid iid d = List.find (\<lambda>i. in_id i = iid \<and> in_user_id i = uid) (id_instances d)"

definition get_instance_by_name :: "uuid \<Rightarrow> string \<Rightarrow> instance_db \<Rightarrow> agent_instance option" where
  "get_instance_by_name uid name d =
     List.find (\<lambda>i. in_instance_name i = name \<and> in_user_id i = uid) (id_instances d)"

text \<open>\<open>scalar_one_or_none\<close> raises when there are several rows.\<close>

definition get_default_instance :: "uuid \<Rightarrow> instance_db \<Rightarrow> exn + agent_instance option" where
  "get_default_instance uid d =
     (case filter (\<lambda>i. in_user_id i = uid \<and> in_is_default i \<and> in_is_active i) (id_instances d) of
        [] \<Rightarrow> Inr None
      | [i] \<Rightarrow> Inr (Some i)
      | _ \<Rightarrow> Inl (OtherError ''Multiple rows were found when one or none was required''))"

definition clear_user_defaults :: "uuid \<Rightarrow> instance_db \<Rightarrow> instance_db" where
  "clear_user_defaults uid d =
     d\<lparr>id_instances := map (\<lambda>i. if in_user_id i = uid then i\<lparr>in_is_default := False\<rparr> else i) (id_instances d)\<rparr>"

text \<open>The base agent must exist and be selectable by users.\<close>

definition check_base :: "instance_env \<Rightarrow> resolved_config \<Rightarrow> string \<Rightarrow> exn + unit" where
  "check_base E rc name =
     (case map_of (rc_agents rc) name of
        None \<Rightarrow> Inl (ValueError (''Base agent '' @ py_quote name @ '' not found. Available agents: '' @
          ie_repr E (map fst (rc_agents rc))))
      | Some selectable \<Rightarrow> check selectable (''Base agent '' @ py_quote name @ '' is not available for user instances''))"

definition check_model :: "instance_env \<Rightarrow> resolved_config \<Rightarrow> string \<Rightarrow> exn + unit" where
  "check_model E rc name =
     check (name \<in> set (rc_models rc)) (''Model '' @ py_quote name @ '' not found. Available models: '' @ ie_repr E (rc_models rc))"

definition find_subagents :: "uuid \<Rightarrow> uuid list \<Rightarrow> instance_db \<Rightarrow> exn + uuid list" where
  "find_subagents uid ids d =
     (let rows = filter (\<lambda>i. in_id i \<in> set ids \<and> in_user_id i = uid) (id_instances d) in
      if length rows \<noteq> length ids then
        Inl (ValueError ''One or more subagents not found or do not belong to the user'')
      else Inr (map in_id rows))"

record instance_create =
  nc_instance_name :: string
  nc_display_name :: string
  nc_base_agent_name :: string
  nc_description :: "string option"
  nc_primary_model :: "string option"
  nc_system_prompt_override :: "string option"
  nc_system_prompt_append :: "string option"
  nc_config_overrides :: "(string \<times> json) list option"
  nc_skills :: "json option"
  nc_is_default :: bool
  nc_is_deepagent :: bool
  nc_subagent_ids :: "uuid list option"

definition check_create ::
  "instance_env \<Rightarrow> uuid \<Rightarrow> instance_create \<Rightarrow> instance_db \<Rightarrow> exn + (string \<times> json) list option \<times> uuid list" where
  "check_create E uid c d =
     (let rc = ie_resolved E uid in
      bind_result (validate_prompt_lengths (ie_limits_env E) (ie_limits E)
        (nc_system_prompt_override c) (nc_system_prompt_append c)) (\<lambda>_.
      bind_result (check_base E rc (nc_base_agent_name c)) (\<lambda>_.
      bind_result (case nc_primary_model c of
          None \<Rightarrow> Inr () | Some m \<Rightarrow> if m = [] then Inr () else check_model E rc m) (\<lambda>_.
      bind_result (normalize_overrides (ie_repr E) (rc_models rc) (nc_config_overrides c)) (\<lambda>overrides.
      bind_result (check (get_instance_by_name uid (nc_instance_name c) d = None)
        (''Agent instance '' @ py_quote (nc_instance_name c) @ '' already exists for this user'')) (\<lambda>_.
      bind_result (case nc_subagent_ids c of
          None \<Rightarrow> Inr []
        | Some ids \<Rightarrow> if nc_is_deepagent c \<and> ids \<noteq> [] then find_subagents uid ids d else Inr []) (\<lambda>subagents.
        Inr (overrides, subagents))))))))"

definition create_instance ::
  "instance_env \<Rightarrow> uuid \<Rightarrow> instance_create \<Rightarrow> instance_db \<Rightarrow> instance_db \<times> (exn + agent_instance)" where
  "create_instance E uid c d =
     (case check_create E uid c d of
        Inl e \<Rightarrow> (d, Inl e)
      | Inr (overrides, subagents) \<Rightarrow>
          let d = (if nc_is_default c then clear_user_defaults uid d else d);
              i = \<lparr>in_id = id_uuids d (id_uuid_count d), in_user_id = uid, in_instance_name = nc_instance_name c,
                   in_display_name = nc_display_name c, in_base_agent_name = nc_base_agent_name c,
                   in_description = nc_description c, in_primary_model = nc_primary_model c,
                   in_system_prompt_override = nc_system_prompt_override c,
                   in_system_prompt_append = nc_system_prompt_append c, in_config_overrides = overrides,
                   in_skills = nc_skills c, in_is_default = nc_is_default c, in_is_deepagent = nc_is_deepagent c,
                   in_is_active = True, in_subagents = subagents\<rparr>
          in (d\<lparr>id_instances := id_instances d @ [i], id_uuid_count := Suc (id_uuid_count d)\<rparr>, Inr i))"

text \<open>
  The fields of a request to update; \<^const>\<open>None\<close> is a field that is missing or null. The
  flag of a deep agent tells the two apart: null counts as false where subagents are assigned,
  and is then not written.
\<close>

record instance_update =
  nu_display_name :: "string option"
  nu_base_agent_name :: "string option"
  nu_description :: "string option"
  nu_primary_model :: "string option"
  nu_system_prompt_override :: "string option"
  nu_system_prompt_append :: "string option"
  nu_config_overrides :: "(string \<times> json) list option"
  nu_skills :: "json option"
  nu_is_default :: "bool option"
  nu_is_deepagent :: "bool option option"
  nu_is_active :: "bool option"
  nu_subagent_ids :: "uuid list option"

definition given :: "'a option \<Rightarrow> 'a \<Rightarrow> 'a" where
  "given v old = (case v of None \<Rightarrow> old | Some new \<Rightarrow> new)"

definition given_some :: "'a option \<Rightarrow> 'a option \<Rightarrow> 'a option" where
  "given_some v old = (case v of None \<Rightarrow> old | Some new \<Rightarrow> Some new)"

definition apply_instance_update :: "instance_update \<Rightarrow> agent_instance \<Rightarrow> agent_instance" where
  "apply_instance_update u i =
     i\<lparr>in_display_name := given (nu_display_name u) (in_display_name i),
       in_base_agent_name := given (nu_base_agent_name u) (in_base_agent_name i),
       in_description := given_some (nu_description u) (in_description i),
       in_primary_model := given_some (nu_primary_model u) (in_primary_model i),
       in_system_prompt_override := given_some (nu_system_prompt_override u) (in_system_prompt_override i),
       in_system_prompt_append := given_some (nu_system_prompt_append u) (in_system_prompt_append i),
       in_config_overrides := given_some (nu_config_overrides u) (in_config_overrides i),
       in_skills := given_some (nu_skills u) (in_skills i),
       in_is_default := given (nu_is_default u) (in_is_default i),
       in_is_deepagent := given (Option.bind (nu_is_deepagent u) id) (in_is_deepagent i),
       in_is_active := given (nu_is_active u) (in_is_active i)\<rparr>"

text \<open>The checks of an update: the new subagents, if any are given, and the normalised overrides.\<close>

definition check_update ::
  "instance_env \<Rightarrow> uuid \<Rightarrow> instance_update \<Rightarrow> agent_instance \<Rightarrow> instance_db \<Rightarrow>
   exn + (string \<times> json) list option \<times> uuid list option" where
  "check_update E uid u i d =
     (let rc = ie_resolved E uid in
      bind_result (case nu_primary_model u of None \<Rightarrow> Inr () | Some m \<Rightarrow> check_model E rc m) (\<lambda>_.
      bind_result (case nu_base_agent_name u of None \<Rightarrow> Inr () | Some b \<Rightarrow> check_base E rc b) (\<lambda>_.
      bind_result (normalize_overrides (ie_repr E) (rc_models rc) (nu_config_overrides u)) (\<lambda>overrides.
      bind_result (case nu_subagent_ids u of
          None \<Rightarrow> Inr None
        | Some ids \<Rightarrow>
            if ids = [] then Inr None
            else if given (nu_is_deepagent u) (Some (in_is_deepagent i)) \<noteq> Some True then
              Inl (ValueError ''Cannot assign subagents to a non-deep agent'')
            else map_sum id Some (find_subagents uid ids d)) (\<lambda>subagents.
        Inr (overrides, subagents))))))"

definition update_instance ::
  "instance_env \<Rightarrow> uuid \<Rightarrow> uuid \<Rightarrow> instance_update \<Rightarrow> instance_db \<Rightarrow>
   instance_db \<times> (exn + agent_instance option)" where
  "update_instance E uid iid u d =
     (case validate_prompt_lengths (ie_limits_env E) (ie_limits E)
         (nu_system_prompt_override u) (nu_system_prompt_append u) of
        Inl e \<Rightarrow> (d, Inl e)
      | Inr _ \<Rightarrow>
          (case get_instance uid iid d of
             None \<Rightarrow> (d, Inr None)
           | Some i \<Rightarrow>
               (case check_update E uid u i d of
                  Inl e \<Rightarrow> (d, Inl e)
                | Inr (overrides, subagents) \<Rightarrow>
                    let d = (if nu_is_default u = Some True \<and> \<not> in_is_default i then clear_user_defaults uid d else d);
                        f = (\<lambda>i. (apply_instance_update (u\<lparr>nu_config_overrides := overrides\<rparr>) i)
                              \<lparr>in_subagents := given subagents (in_subagents i)\<rparr>);
                        d = d\<lparr>id_instances := row_update in_id iid f (id_instances d)\<rparr>
                    in (d, Inr (row_find in_id iid (id_instances d))))))"

text \<open>Deleting an instance also removes it from the subagents of others.\<close>

definition delete_instance :: "uuid \<Rightarrow> uuid \<Rightarrow> instance_db \<Rightarrow> instance_db \<times> bool" where
  "delete_instance uid iid d =
     (case get_instance uid iid d of
        None \<Rightarrow> (d, False)
      | Some _ \<Rightarrow>
          (d\<lparr>id_instances := map (\<lambda>i. i\<lparr>in_subagents := filter (\<lambda>k. k \<noteq> iid) (in_subagents i)\<rparr>)
               (filter (\<lambda>i. in_id i \<noteq> iid) (id_instances d))\<rparr>, True))"

end
