(* ===== verification/AgentProperties.thy ===== *)
theory AgentProperties
  imports AgentInstances
begin

text \<open>
  The invariants of the agent instances under all operations, by any users in any order, and
  the isolation of the users from each other.
\<close>

datatype instance_call =
    CreateInstance uuid instance_create
  | UpdateInstance uuid uuid instance_update
  | DeleteInstance uuid uuid

fun instance_step :: "instance_env \<Rightarrow> instance_db \<Rightarrow> instance_call \<Rightarrow> instance_db" where
  "instance_step E d (CreateInstance uid c) = fst (create_instance E uid c d)"
| "instance_step E d (UpdateInstance uid iid u) = fst (update_instance E uid iid u d)"
| "instance_step E d (DeleteInstance uid iid) = fst (delete_instance uid iid d)"

definition no_instances :: "(nat \<Rightarrow> uuid) \<Rightarrow> instance_db" where
  "no_instances ids = \<lparr>id_instances = [], id_uuids = ids, id_uuid_count = 0\<rparr>"

abbreviation same_key :: "agent_instance \<Rightarrow> agent_instance \<Rightarrow> bool" where
  "same_key i j \<equiv> in_id i = in_id j \<and> in_user_id i = in_user_id j \<and> in_instance_name i = in_instance_name j"

definition one_default :: "agent_instance list \<Rightarrow> bool" where
  "one_default rows \<longleftrightarrow> (\<forall>i\<in>set rows. \<forall>j\<in>set rows.
     in_user_id i = in_user_id j \<longrightarrow> in_is_default i \<longrightarrow> in_is_default j \<longrightarrow> in_id i = in_id j)"

lemma one_defaultI:
  "(\<And>i j. i \<in> set rows \<Longrightarrow> j \<in> set rows \<Longrightarrow> in_user_id i = in_user_id j \<Longrightarrow>
     in_is_default i \<Longrightarrow> in_is_default j \<Longrightarrow> in_id i = in_id j) \<Longrightarrow> one_default rows"
  unfolding one_default_def by blast

lemma one_defaultD:
  "one_default rows \<Longrightarrow> i \<in> set rows \<Longrightarrow> j \<in> set rows \<Longrightarrow> in_user_id i = in_user_id j \<Longrightarrow>
     in_is_default i \<Longrightarrow> in_is_default j \<Longrightarrow> in_id i = in_id j"
  unfolding one_default_def by blast

lemma one_default_map:
  assumes "one_default rows" and "\<And>i. same_key (g i) i"
    and "\<And>i. i \<in> set rows \<Longrightarrow> in_is_default (g i) \<Longrightarrow> in_is_default i"
  shows "one_default (map g rows)"
proof (rule one_defaultI)
  fix i' j' assume "i' \<in> set (map g rows)" "j' \<in> set (map g rows)" and same: "in_user_id i' = in_user_id j'"
    and both: "in_is_default i'" "in_is_default j'"
  then obtain i j where rows: "i \<in> set rows" "i' = g i" "j \<in> set rows" "j' = g j" by auto
  have key: "in_id (g x) = in_id x" "in_user_id (g x) = in_user_id x" for x using assms(2)[of x] by simp_all
  have "in_id i = in_id j"
    using one_defaultD[OF assms(1) rows(1,3)] same both assms(3) rows key by auto
  then show "in_id i' = in_id j'" by (simp only: rows(2,4) key)
qed

definition subagents_owned :: "agent_instance list \<Rightarrow> bool" where
  "subagents_owned rows \<longleftrightarrow> (\<forall>i\<in>set rows. \<forall>k\<in>set (in_subagents i).
     \<exists>j\<in>set rows. in_id j = k \<and> in_user_id j = in_user_id i)"

definition instances_ok :: "instance_db \<Rightarrow> bool" where
  "instances_ok d \<longleftrightarrow>
     inj (id_uuids d) \<and> in_id ` set (id_instances d) \<subseteq> id_uuids d ` {..<id_uuid_count d} \<and>
     distinct (map in_id (id_instances d)) \<and>
     distinct (map (\<lambda>i. (in_user_id i, in_instance_name i)) (id_instances d)) \<and>
     one_default (id_instances d) \<and> subagents_owned (id_instances d)"

text \<open>Transformations of the rows that keep their keys.\<close>

lemma keyed_rows:
  assumes "\<And>i. same_key (g i) i"
  shows "map in_id (map g rows) = map in_id rows"
    "map (\<lambda>i. (in_user_id i, in_instance_name i)) (map g rows) = map (\<lambda>i. (in_user_id i, in_instance_name i)) rows"
    "in_id ` set (map g rows) = in_id ` set rows"
  using assms by (simp_all add: image_image)

lemma instances_ok_map:
  assumes "instances_ok d" and "\<And>i. same_key (g i) i"
    and "one_default (map g (id_instances d))" and "subagents_owned (map g (id_instances d))"
  shows "instances_ok (d\<lparr>id_instances := map g (id_instances d)\<rparr>)"
  using assms(1,3,4) unfolding instances_ok_def
  by (cases d) (simp only: instance_db.simps keyed_rows[OF assms(2)] simp_thms)

lemma row_update_map: "row_update key k f rows = map (\<lambda>r. if key r = k then f r else r) rows"
  by (simp add: row_update_def)

lemma find_row: "List.find P rows = Some i \<Longrightarrow> i \<in> set rows \<and> P i"
  by (auto simp: find_Some_iff)

lemma subagents_map:
  assumes "subagents_owned rows" and "\<And>i. same_key (g i) i"
    and "\<And>i k. i \<in> set rows \<Longrightarrow> k \<in> set (in_subagents (g i)) \<Longrightarrow>
      k \<in> set (in_subagents i) \<or> (\<exists>j\<in>set rows. in_id j = k \<and> in_user_id j = in_user_id i)"
  shows "subagents_owned (map g rows)"
  unfolding subagents_owned_def
proof (intro ballI)
  fix i' k assume "i' \<in> set (map g rows)" and k: "k \<in> set (in_subagents i')"
  then obtain i where i: "i \<in> set rows" "i' = g i" by auto
  obtain j where "j \<in> set rows" "in_id j = k" "in_user_id j = in_user_id i"
    using assms(1,3) i k unfolding subagents_owned_def by blast
  then show "\<exists>j\<in>set (map g rows). in_id j = k \<and> in_user_id j = in_user_id i'"
    using assms(2) i(2) by (intro bexI[of _ "g j"]) auto
qed

lemma find_subagents_owned:
  "find_subagents uid ids d = Inr ks \<Longrightarrow> k \<in> set ks \<Longrightarrow> \<exists>j\<in>set (id_instances d). in_id j = k \<and> in_user_id j = uid"
  by (auto simp: find_subagents_def Let_def split: if_splits)

definition undefault :: "uuid \<Rightarrow> agent_instance \<Rightarrow> agent_instance" where
  "undefault uid i = (if in_user_id i = uid then i\<lparr>in_is_default := False\<rparr> else i)"

lemma undefault_simps [simp]:
  "in_id (undefault uid i) = in_id i" "in_user_id (undefault uid i) = in_user_id i"
  "in_instance_name (undefault uid i) = in_instance_name i" "in_subagents (undefault uid i) = in_subagents i"
  "in_is_default (undefault uid i) \<longleftrightarrow> in_is_default i \<and> in_user_id i \<noteq> uid"
  by (simp_all add: undefault_def)

lemma clear_user_defaults_map:
  "clear_user_defaults uid d = d\<lparr>id_instances := map (undefault uid) (id_instances d)\<rparr>"
  by (simp add: clear_user_defaults_def undefault_def)

lemma clear_defaults_ok:
  assumes "instances_ok d"
  shows "instances_ok (clear_user_defaults uid d)"
  unfolding clear_user_defaults_map
proof (rule instances_ok_map[OF assms])
  have ok: "one_default (id_instances d)" "subagents_owned (id_instances d)"
    using assms unfolding instances_ok_def by blast+
  show "one_default (map (undefault uid) (id_instances d))" by (rule one_default_map[OF ok(1)]) simp_all
  show "subagents_owned (map (undefault uid) (id_instances d))" by (rule subagents_map[OF ok(2)]) simp_all
qed simp

lemma cleared: "i \<in> set (id_instances (clear_user_defaults uid d)) \<Longrightarrow> in_user_id i = uid \<Longrightarrow> \<not> in_is_default i"
proof -
  assume i: "i \<in> set (id_instances (clear_user_defaults uid d))" "in_user_id i = uid"
  then obtain x where "i = undefault uid x" by (auto simp: clear_user_defaults_map)
  then show ?thesis using i(2) by simp
qed

lemma clear_keeps_owner:
  "\<exists>j\<in>set (id_instances d). in_id j = k \<and> in_user_id j = v \<Longrightarrow>
   \<exists>j\<in>set (id_instances (clear_user_defaults uid d)). in_id j = k \<and> in_user_id j = v"
  by (auto simp: clear_user_defaults_map)

lemma create_instance_ok:
  assumes "instances_ok d"
  shows "instances_ok (fst (create_instance E uid c d))"
proof (cases "check_create E uid c d")
  case (Inl e)
  then show ?thesis using assms by (simp add: create_instance_def)
next
  case (Inr r)
  obtain overrides subagents where r: "r = (overrides, subagents)" by fastforce
  have fresh: "get_instance_by_name uid (nc_instance_name c) d = None"
    using Inr r by (auto simp: check_create_def Let_def bind_result_Inr_iff check_def split: if_splits)
  have subs: "\<exists>j\<in>set (id_instances d). in_id j = k \<and> in_user_id j = uid" if "k \<in> set subagents" for k
    using Inr r that find_subagents_owned
    by (force simp: check_create_def Let_def bind_result_Inr_iff split: option.split_asm if_splits)
  let ?d = "if nc_is_default c then clear_user_defaults uid d else d"
  have ok: "instances_ok ?d" using assms clear_defaults_ok by simp
  have older: "\<exists>y\<in>set (id_instances d). in_user_id y = in_user_id x \<and> in_instance_name y = in_instance_name x"
    if "x \<in> set (id_instances ?d)" for x
    using that by (cases "nc_is_default c") (auto simp: clear_user_defaults_map)
  have names: "(uid, nc_instance_name c) \<notin> (\<lambda>i. (in_user_id i, in_instance_name i)) ` set (id_instances ?d)"
  proof
    assume "(uid, nc_instance_name c) \<in> (\<lambda>i. (in_user_id i, in_instance_name i)) ` set (id_instances ?d)"
    then obtain x where "x \<in> set (id_instances ?d)" "uid = in_user_id x" "nc_instance_name c = in_instance_name x"
      by (elim imageE) simp
    then obtain y where "y \<in> set (id_instances d)" "in_user_id y = uid" "in_instance_name y = nc_instance_name c"
      using older by metis
    then show False using fresh unfolding get_instance_by_name_def find_None_iff by blast
  qed
  have owned: "\<exists>j\<in>set (id_instances ?d). in_id j = k \<and> in_user_id j = uid" if "k \<in> set subagents" for k
    using subs[OF that] clear_keeps_owner[of d k uid uid] by (cases "nc_is_default c") auto
  have count: "id_uuids ?d = id_uuids d" "id_uuid_count ?d = id_uuid_count d"
    by (simp_all add: clear_user_defaults_def)
  have new_id: "id_uuids d (id_uuid_count d) \<notin> in_id ` set (id_instances ?d)"
  proof -
    have "inj (id_uuids d)" using assms unfolding instances_ok_def by blast
    then have "id_uuids d (id_uuid_count d) \<notin> id_uuids d ` {..<id_uuid_count d}" by (auto simp: inj_eq)
    moreover have "in_id ` set (id_instances ?d) \<subseteq> id_uuids d ` {..<id_uuid_count d}"
      using ok count unfolding instances_ok_def by metis
    ultimately show ?thesis by blast
  qed
  obtain i where new: "i = \<lparr>in_id = id_uuids ?d (id_uuid_count ?d), in_user_id = uid,
      in_instance_name = nc_instance_name c, in_display_name = nc_display_name c,
      in_base_agent_name = nc_base_agent_name c, in_description = nc_description c,
      in_primary_model = nc_primary_model c, in_system_prompt_override = nc_system_prompt_override c,
      in_system_prompt_append = nc_system_prompt_append c, in_config_overrides = overrides,
      in_skills = nc_skills c, in_is_default = nc_is_default c, in_is_deepagent = nc_is_deepagent c,
      in_is_active = True, in_subagents = subagents\<rparr>"
    by blast
  then have i: "in_id i = id_uuids d (id_uuid_count d)" "in_user_id i = uid"
      "in_instance_name i = nc_instance_name c" "in_is_default i = nc_is_default c" "in_subagents i = subagents"
    using count by simp_all
  have d': "fst (create_instance E uid c d) =
      ?d\<lparr>id_instances := id_instances ?d @ [i], id_uuid_count := Suc (id_uuid_count ?d)\<rparr>"
    by (simp only: create_instance_def Inr r sum.case prod.case Let_def fst_conv new)
  have "one_default (id_instances ?d @ [i])"
  proof (rule one_defaultI)
    fix a b assume a: "a \<in> set (id_instances ?d @ [i])" "b \<in> set (id_instances ?d @ [i])"
      "in_user_id a = in_user_id b" "in_is_default a" "in_is_default b"
    have old: "one_default (id_instances ?d)" using ok unfolding instances_ok_def by blast
    have "x \<notin> set (id_instances ?d)" if "in_is_default i" "in_user_id x = uid" "in_is_default x" for x
      using cleared[of x uid d] that i(4) by auto
    then show "in_id a = in_id b"
      using a i(2) one_defaultD[OF old, of a b] by (cases "a = i"; cases "b = i") auto
  qed
  moreover have "subagents_owned (id_instances ?d @ [i])"
  proof -
    have "subagents_owned (id_instances ?d)" using ok unfolding instances_ok_def by blast
    then show ?thesis using owned i(2,5) unfolding subagents_owned_def by simp
  qed
  moreover have "in_id ` set (id_instances ?d @ [i]) \<subseteq> id_uuids ?d ` {..<Suc (id_uuid_count ?d)}"
  proof -
    have "in_id ` set (id_instances ?d) \<subseteq> id_uuids d ` {..<id_uuid_count d}"
      using ok count unfolding instances_ok_def by metis
    then have "in_id ` set (id_instances ?d) \<subseteq> id_uuids d ` insert (id_uuid_count d) {..<id_uuid_count d}" by blast
    then show ?thesis unfolding count by (simp add: i(1) lessThan_Suc image_Un)
  qed
  ultimately show ?thesis
    using ok new_id names i unfolding d' by (simp add: instances_ok_def)
qed

lemma get_instance_row:
  assumes "instances_ok d" and "get_instance uid iid d = Some i" and "r \<in> set (id_instances d)" and "in_id r = iid"
  shows "r = i" "in_user_id i = uid"
proof -
  have i: "i \<in> set (id_instances d)" "in_id i = iid" "in_user_id i = uid"
    using find_row[OF assms(2)[unfolded get_instance_def]] by simp_all
  show "in_user_id i = uid" by (rule i(3))
  have "distinct (map in_id (id_instances d))" using assms(1) unfolding instances_ok_def by blast
  then have "inj_on in_id (set (id_instances d))" by (simp add: distinct_map)
  then show "r = i" using i assms(3,4) by (metis inj_onD)
qed

lemma map_sum_Some: "map_sum id Some x = Inr (Some ks) \<longleftrightarrow> x = Inr ks" "map_sum id Some x \<noteq> Inr None"
  by (cases x; simp)+

lemma update_instance_ok:
  assumes "instances_ok d"
  shows "instances_ok (fst (update_instance E uid iid u d))"
proof (cases "validate_prompt_lengths (ie_limits_env E) (ie_limits E) (nu_system_prompt_override u)
    (nu_system_prompt_append u)")
  case (Inl e)
  then show ?thesis using assms by (simp add: update_instance_def)
next
  case limits: (Inr x)
  show ?thesis
  proof (cases "get_instance uid iid d")
    case None
    then show ?thesis using assms limits by (simp add: update_instance_def)
  next
    case i: (Some i)
    show ?thesis
    proof (cases "check_update E uid u i d")
      case (Inl e)
      then show ?thesis using assms limits i by (simp add: update_instance_def)
    next
      case (Inr r)
      obtain overrides subagents where r: "r = (overrides, subagents)" by fastforce
      let ?fresh = "nu_is_default u = Some True \<and> \<not> in_is_default i"
      obtain d1 where d1: "d1 = (if ?fresh then clear_user_defaults uid d else d)" by blast
      obtain g where g: "\<And>r. g r = (if in_id r = iid then (apply_instance_update (u\<lparr>nu_config_overrides := overrides\<rparr>) r)
          \<lparr>in_subagents := given subagents (in_subagents r)\<rparr> else r)"
        by fast
      have d': "fst (update_instance E uid iid u d) = d1\<lparr>id_instances := map g (id_instances d1)\<rparr>"
        by (simp add: update_instance_def limits i Inr r Let_def row_update_map d1 g)
      have ok: "instances_ok d1" using assms clear_defaults_ok d1 by simp
      then have rows: "one_default (id_instances d1)" "subagents_owned (id_instances d1)"
        unfolding instances_ok_def by blast+
      have key: "same_key (g r) r" for r by (simp add: g apply_instance_update_def)
      have row: "in_user_id r = uid \<and> (in_is_default r \<longrightarrow> in_is_default i)"
        if "r \<in> set (id_instances d1)" "in_id r = iid" for r
        using that get_instance_row[OF assms i]
        by (auto simp: d1 clear_user_defaults_map split: if_splits)
      have grown: "in_is_default (g r) \<Longrightarrow> in_is_default r \<or> in_id r = iid \<and> ?fresh"
        if "r \<in> set (id_instances d1)" for r
        using that get_instance_row(1)[OF assms i, of r]
        by (auto simp: g apply_instance_update_def given_def d1 split: if_splits option.splits)
      have "one_default (map g (id_instances d1))"
      proof (cases ?fresh)
        case False
        show ?thesis by (rule one_default_map[OF rows(1) key]) (use grown False in blast)
      next
        case True
        have none: "in_user_id r = uid \<Longrightarrow> \<not> in_is_default r" if "r \<in> set (id_instances d1)" for r
          using that cleared[of r uid d] True unfolding d1 if_P[OF True] by blast
        show ?thesis
        proof (rule one_defaultI)
          fix a' b' assume "a' \<in> set (map g (id_instances d1))" "b' \<in> set (map g (id_instances d1))"
            and same: "in_user_id a' = in_user_id b'" and both: "in_is_default a'" "in_is_default b'"
          then obtain a b where ab: "a \<in> set (id_instances d1)" "a' = g a" "b \<in> set (id_instances d1)" "b' = g b"
            by auto
          have users: "in_user_id a = in_user_id b" using same ab key by metis
          have "in_id a = in_id b"
          proof (cases "in_user_id a = uid")
            case True
            then show ?thesis using grown ab both none users by metis
          next
            case False
            then have "in_id a \<noteq> iid" "in_id b \<noteq> iid" using row ab users by metis+
            then show ?thesis using grown ab both users one_defaultD[OF rows(1)] by metis
          qed
          then show "in_id a' = in_id b'" using ab key by metis
        qed
      qed
      moreover have "subagents_owned (map g (id_instances d1))"
      proof (rule subagents_map[OF rows(2) key])
        fix r k assume r': "r \<in> set (id_instances d1)" and k: "k \<in> set (in_subagents (g r))"
        show "k \<in> set (in_subagents r) \<or> (\<exists>j\<in>set (id_instances d1). in_id j = k \<and> in_user_id j = in_user_id r)"
        proof (cases "in_id r = iid \<and> subagents \<noteq> None")
          case False
          then show ?thesis using k by (auto simp: g given_def split: if_splits)
        next
          case True
          then obtain ks where ks: "subagents = Some ks" "k \<in> set ks" using k by (auto simp: g given_def)
          obtain ids where "find_subagents uid ids d = Inr ks"
            using Inr r ks(1)
            by (auto simp: check_update_def Let_def bind_result_Inr_iff map_sum_Some split: option.split_asm if_splits)
          then have "\<exists>j\<in>set (id_instances d). in_id j = k \<and> in_user_id j = uid"
            using find_subagents_owned ks(2) by metis
          then have "\<exists>j\<in>set (id_instances d1). in_id j = k \<and> in_user_id j = uid"
            using clear_keeps_owner[of d k uid uid] by (simp only: d1 split: if_split) blast
          then show ?thesis using row r' True by metis
        qed
      qed
      ultimately show ?thesis unfolding d' by (rule instances_ok_map[OF ok key])
    qed
  qed
qed

lemma delete_instance_ok:
  assumes "instances_ok d"
  shows "instances_ok (fst (delete_instance uid iid d))"
proof (cases "get_instance uid iid d")
  case None
  then show ?thesis using assms by (simp add: delete_instance_def)
next
  case (Some i)
  let ?rows = "filter (\<lambda>i. in_id i \<noteq> iid) (id_instances d)"
  obtain g :: "agent_instance \<Rightarrow> agent_instance" where g: "\<And>i. g i = i\<lparr>in_subagents := filter (\<lambda>k. k \<noteq> iid) (in_subagents i)\<rparr>" by fast
  have key: "same_key (g i) i" for i by (simp add: g)
  have ok: "one_default (id_instances d)" "subagents_owned (id_instances d)"
    "inj (id_uuids d)" "in_id ` set (id_instances d) \<subseteq> id_uuids d ` {..<id_uuid_count d}"
    "distinct (map in_id (id_instances d))"
    "distinct (map (\<lambda>i. (in_user_id i, in_instance_name i)) (id_instances d))"
    using assms unfolding instances_ok_def by blast+
  have rows: "one_default ?rows" using ok(1) unfolding one_default_def by auto
  have "one_default (map g ?rows)" by (rule one_default_map[OF rows key]) (simp add: g)
  moreover have "subagents_owned (map g ?rows)"
    using ok(2) by (auto simp: subagents_owned_def g) metis
  moreover have "in_id ` set (map g ?rows) \<subseteq> id_uuids d ` {..<id_uuid_count d}"
    unfolding keyed_rows[OF key] using ok(4) by auto
  moreover have "distinct (map in_id (map g ?rows))"
    unfolding keyed_rows[OF key] by (rule distinct_map_filter[OF ok(5)])
  moreover have "distinct (map (\<lambda>i. (in_user_id i, in_instance_name i)) (map g ?rows))"
    unfolding keyed_rows[OF key] by (rule distinct_map_filter[OF ok(6)])
  moreover have "fst (delete_instance uid iid d) = d\<lparr>id_instances := map g ?rows\<rparr>"
    by (simp add: delete_instance_def Some g)
  ultimately show ?thesis
    using ok(3) unfolding instances_ok_def by (cases d) (simp only: instance_db.simps simp_thms)
qed

lemma instance_step_ok:
  assumes "instances_ok d"
  shows "instances_ok (instance_step E d c)"
proof (cases c)
  case (CreateInstance uid n)
  show ?thesis unfolding CreateInstance instance_step.simps by (rule create_instance_ok[OF assms])
next
  case (UpdateInstance uid iid u)
  show ?thesis unfolding UpdateInstance instance_step.simps by (rule update_instance_ok[OF assms])
next
  case (DeleteInstance uid iid)
  show ?thesis unfolding DeleteInstance instance_step.simps by (rule delete_instance_ok[OF assms])
qed

subsection \<open>All calls\<close>

definition run_instances :: "(nat \<Rightarrow> uuid) \<Rightarrow> (instance_env \<times> instance_call) list \<Rightarrow> instance_db" where
  "run_instances ids calls = foldl (\<lambda>d (E, c). instance_step E d c) (no_instances ids) calls"

lemma run_instances_snoc:
  "run_instances ids (calls @ [(E, c)]) = instance_step E (run_instances ids calls) c"
  by (simp add: run_instances_def)

lemma run_instances_ok:
  assumes "inj ids"
  shows "instances_ok (run_instances ids calls)"
proof (induction calls rule: rev_induct)
  case Nil
  have "run_instances ids [] = no_instances ids" by (simp add: run_instances_def)
  moreover have "instances_ok (no_instances ids)"
    unfolding instances_ok_def
  proof (intro conjI)
    show "inj (id_uuids (no_instances ids))" using assms by (simp add: no_instances_def)
  qed (simp_all add: no_instances_def one_default_def subagents_owned_def)
  ultimately show ?case by simp
next
  case (snoc c calls)
  show ?case
    by (cases c) (simp only: run_instances_snoc instance_step_ok[OF snoc])
qed

lemma single_default:
  assumes "instances_ok d"
  shows "case get_default_instance uid d of Inl _ \<Rightarrow> False | Inr _ \<Rightarrow> True"
proof -
  let ?P = "\<lambda>i. in_user_id i = uid \<and> in_is_default i \<and> in_is_active i"
  have ok: "distinct (map in_id (id_instances d))" "one_default (id_instances d)"
    using assms unfolding instances_ok_def by blast+
  have no_two: "filter ?P (id_instances d) \<noteq> a # b # xs" for a b xs
  proof
    assume ab: "filter ?P (id_instances d) = a # b # xs"
    have "set (a # b # xs) = {i \<in> set (id_instances d). ?P i}" unfolding ab[symmetric] by (rule set_filter)
    then have "a \<in> {i \<in> set (id_instances d). ?P i}" "b \<in> {i \<in> set (id_instances d). ?P i}" by auto
    then have "in_id a = in_id b" by (intro one_defaultD[OF ok(2)]) simp_all
    moreover have "distinct (map in_id (a # b # xs))" unfolding ab[symmetric] by (rule distinct_map_filter[OF ok(1)])
    ultimately show False by simp
  qed
  show ?thesis
  proof (cases "filter ?P (id_instances d)")
    case Nil
    then show ?thesis by (simp add: get_default_instance_def)
  next
    case (Cons a xs)
    then show ?thesis using no_two[of a] by (cases xs) (simp_all add: get_default_instance_def)
  qed
qed

text \<open>
  C27: The agent instances stay consistent. Whatever the users create, update and delete, in any
  order and under any configuration, no user has two default instances (so asking for the
  default never fails), no user has two instances of one name, and every subagent of an
  instance is an existing instance of the same user.
\<close>

theorem instances_stay_consistent:
  assumes "inj ids"
  shows "let d = run_instances ids calls in
    (case get_default_instance uid d of Inl _ \<Rightarrow> False | Inr _ \<Rightarrow> True) \<and>
    distinct (map (\<lambda>i. (in_user_id i, in_instance_name i)) (id_instances d)) \<and>
    list_all (\<lambda>i. list_all (\<lambda>k. get_instance (in_user_id i) k d \<noteq> None) (in_subagents i)) (id_instances d)"
proof -
  let ?d = "run_instances ids calls"
  have ok: "instances_ok ?d" by (rule run_instances_ok[OF assms])
  then have parts: "distinct (map (\<lambda>i. (in_user_id i, in_instance_name i)) (id_instances ?d))"
      "subagents_owned (id_instances ?d)"
    unfolding instances_ok_def by blast+
  have "get_instance (in_user_id i) k ?d \<noteq> None"
    if "i \<in> set (id_instances ?d)" "k \<in> set (in_subagents i)" for i k
    using parts(2) that unfolding get_instance_def find_None_iff subagents_owned_def by blast
  then show ?thesis
    unfolding Let_def list_all_iff using single_default[OF ok] parts(1) by blast
qed

definition demo_instances :: instance_env where
  "demo_instances = \<lparr>ie_resolved = (\<lambda>_. \<lparr>rc_agents = [(''assistant'', True)], rc_models = [''m'']\<rparr>),
     ie_limits_env = \<lparr>le_getenv = (\<lambda>_. None), le_int = (\<lambda>_. None)\<rparr>,
     ie_limits = \<lparr>ls_configured = no_limits, ls_runtime = False\<rparr>, ie_repr = (\<lambda>_. [])\<rparr>"

definition demo_create :: "string \<Rightarrow> instance_create" where
  "demo_create name = \<lparr>nc_instance_name = name, nc_display_name = name, nc_base_agent_name = ''assistant'',
     nc_description = None, nc_primary_model = None, nc_system_prompt_override = None,
     nc_system_prompt_append = None, nc_config_overrides = None, nc_skills = None, nc_is_default = True,
     nc_is_deepagent = False, nc_subagent_ids = None\<rparr>"

definition demo_instance_calls :: "(instance_env \<times> instance_call) list" where
  "demo_instance_calls = [(demo_instances, CreateInstance ''u'' (demo_create ''a'')),
     (demo_instances, CreateInstance ''u'' (demo_create ''b'')), (demo_instances, CreateInstance ''v'' (demo_create ''a''))]"

lemma demo_instances_rows:
  "map (\<lambda>i. (in_user_id i, in_instance_name i, in_is_default i)) (id_instances (run_instances nat_str demo_instance_calls)) =
     [(''u'', ''a'', False), (''u'', ''b'', True), (''v'', ''a'', True)]"
  by (simp add: run_instances_def demo_instance_calls_def demo_instances_def demo_create_def no_instances_def
      create_instance_def check_create_def check_base_def check_def normalize_overrides_def validate_prompt_lengths_def
      validate_prompt_length_def get_instance_by_name_def clear_user_defaults_def Let_def)

theorem instances_stay_consistent_witness:
  "(case get_default_instance ''u'' (run_instances nat_str demo_instance_calls) of Inl _ \<Rightarrow> False | Inr _ \<Rightarrow> True) \<and>
   length (id_instances (run_instances nat_str demo_instance_calls)) = 3"
  using instances_stay_consistent[OF inj_nat_str, of demo_instance_calls "''u''"]
    arg_cong[OF demo_instances_rows, of length] by (simp add: Let_def)

subsection \<open>Isolation\<close>

fun call_user :: "instance_call \<Rightarrow> uuid" where
  "call_user (CreateInstance uid _) = uid"
| "call_user (UpdateInstance uid _ _) = uid"
| "call_user (DeleteInstance uid _) = uid"

lemma filter_map_others:
  assumes "\<And>i. i \<in> set rows \<Longrightarrow> in_user_id (g i) = in_user_id i"
    and "\<And>i. i \<in> set rows \<Longrightarrow> in_user_id i \<noteq> uid \<Longrightarrow> g i = i"
  shows "filter (\<lambda>i. in_user_id i \<noteq> uid) (map g rows) = filter (\<lambda>i. in_user_id i \<noteq> uid) rows"
  using assms by (induction rows) auto

lemma clear_others:
  "filter (\<lambda>i. in_user_id i \<noteq> uid) (id_instances (clear_user_defaults uid d)) =
     filter (\<lambda>i. in_user_id i \<noteq> uid) (id_instances d)"
  unfolding clear_user_defaults_map by (simp, rule filter_map_others) (simp_all add: undefault_def)

lemma row_update_others:
  assumes "\<And>r. r \<in> set rows \<Longrightarrow> in_id r = iid \<Longrightarrow> in_user_id r = uid"
    and "\<And>r. in_user_id (f r) = in_user_id r"
  shows "filter (\<lambda>i. in_user_id i \<noteq> uid) (row_update in_id iid f rows) = filter (\<lambda>i. in_user_id i \<noteq> uid) rows"
  unfolding row_update_map by (rule filter_map_others) (use assms in auto)

lemma create_others:
  "filter (\<lambda>i. in_user_id i \<noteq> uid) (id_instances (fst (create_instance E uid n d))) =
     filter (\<lambda>i. in_user_id i \<noteq> uid) (id_instances d)"
proof (cases "check_create E uid n d")
  case (Inl e)
  then show ?thesis by (simp add: create_instance_def)
next
  case (Inr r)
  obtain overrides subagents where "r = (overrides, subagents)" by fastforce
  then show ?thesis
    using Inr clear_others[of uid d] by (cases "nc_is_default n") (simp_all add: create_instance_def Let_def)
qed

lemma update_others:
  assumes "instances_ok d"
  shows "filter (\<lambda>i. in_user_id i \<noteq> uid) (id_instances (fst (update_instance E uid iid u d))) =
    filter (\<lambda>i. in_user_id i \<noteq> uid) (id_instances d)"
proof (cases "validate_prompt_lengths (ie_limits_env E) (ie_limits E) (nu_system_prompt_override u)
    (nu_system_prompt_append u)")
  case (Inl e)
  then show ?thesis by (simp add: update_instance_def)
next
  case limits: (Inr x)
  show ?thesis
  proof (cases "get_instance uid iid d")
    case None
    then show ?thesis using limits by (simp add: update_instance_def)
  next
    case i: (Some i)
    show ?thesis
    proof (cases "check_update E uid u i d")
      case (Inl e)
      then show ?thesis using limits i by (simp add: update_instance_def)
    next
      case (Inr r)
      obtain overrides subagents where r: "r = (overrides, subagents)" by fastforce
      obtain d1 where d1: "d1 = (if nu_is_default u = Some True \<and> \<not> in_is_default i then clear_user_defaults uid d else d)"
        by blast
      obtain f where f: "f = (\<lambda>i. (apply_instance_update (u\<lparr>nu_config_overrides := overrides\<rparr>) i)
          \<lparr>in_subagents := given subagents (in_subagents i)\<rparr>)" by blast
      have "in_user_id r = uid" if "r \<in> set (id_instances d1)" "in_id r = iid" for r
        using that get_instance_row[OF assms i] by (auto simp: d1 clear_user_defaults_map split: if_splits)
      then have "filter (\<lambda>i. in_user_id i \<noteq> uid) (row_update in_id iid f (id_instances d1)) =
          filter (\<lambda>i. in_user_id i \<noteq> uid) (id_instances d1)"
        by (rule row_update_others) (simp_all add: f apply_instance_update_def)
      moreover have "filter (\<lambda>i. in_user_id i \<noteq> uid) (id_instances d1) = filter (\<lambda>i. in_user_id i \<noteq> uid) (id_instances d)"
        unfolding d1 using clear_others by (simp split: if_split)
      moreover have "fst (update_instance E uid iid u d) = d1\<lparr>id_instances := row_update in_id iid f (id_instances d1)\<rparr>"
        by (simp add: update_instance_def limits i Inr r Let_def d1 f)
      ultimately show ?thesis by simp
    qed
  qed
qed

lemma delete_others:
  assumes "instances_ok d"
  shows "filter (\<lambda>i. in_user_id i \<noteq> uid) (id_instances (fst (delete_instance uid iid d))) =
    filter (\<lambda>i. in_user_id i \<noteq> uid) (id_instances d)"
proof (cases "get_instance uid iid d")
  case None
  then show ?thesis by (simp add: delete_instance_def)
next
  case (Some i)
  let ?g = "\<lambda>i. i\<lparr>in_subagents := filter (\<lambda>k. k \<noteq> iid) (in_subagents i)\<rparr>"
  have kept: "?g r = r" if r: "r \<in> set (id_instances d)" "in_user_id r \<noteq> uid" for r
  proof -
    have "k \<noteq> iid" if k: "k \<in> set (in_subagents r)" for k
    proof
      assume "k = iid"
      then obtain j where "j \<in> set (id_instances d)" "in_id j = iid" "in_user_id j = in_user_id r"
        using assms k r(1) unfolding instances_ok_def subagents_owned_def by blast
      then show False using get_instance_row[OF assms Some] r(2) by metis
    qed
    then have "filter (\<lambda>k. k \<noteq> iid) (in_subagents r) = in_subagents r" by (simp add: filter_id_conv)
    then show ?thesis by simp
  qed
  have "filter (\<lambda>i. in_user_id i \<noteq> uid) (map ?g (filter (\<lambda>i. in_id i \<noteq> iid) (id_instances d))) =
      filter (\<lambda>i. in_user_id i \<noteq> uid) (filter (\<lambda>i. in_id i \<noteq> iid) (id_instances d))"
  proof (rule filter_map_others)
    fix r assume "r \<in> set (filter (\<lambda>i. in_id i \<noteq> iid) (id_instances d))" "in_user_id r \<noteq> uid"
    then show "?g r = r" by (intro kept) simp_all
  qed simp
  also have "\<dots> = filter (\<lambda>i. in_user_id i \<noteq> uid) (id_instances d)"
  proof -
    have "in_id r \<noteq> iid" if "r \<in> set (id_instances d)" "in_user_id r \<noteq> uid" for r
      using get_instance_row[OF assms Some that(1)] that(2) by blast
    then show ?thesis unfolding filter_filter by (intro filter_cong) auto
  qed
  finally show ?thesis by (simp add: delete_instance_def Some)
qed

lemma step_others:
  assumes "instances_ok d"
  shows "filter (\<lambda>i. in_user_id i \<noteq> call_user c) (id_instances (instance_step E d c)) =
    filter (\<lambda>i. in_user_id i \<noteq> call_user c) (id_instances d)"
  using create_others update_others[OF assms] delete_others[OF assms] by (cases c) (simp_all only: instance_step.simps call_user.simps)

text \<open>
  Users do not touch each other's instances: after anything has happened, a call of one
  user leaves the instances of all other users exactly as they are, in the same order.
\<close>

theorem users_are_isolated:
  assumes "inj ids"
  shows "let d = run_instances ids calls; others = filter (\<lambda>i. in_user_id i \<noteq> call_user c) in
    others (id_instances (instance_step E d c)) = others (id_instances d)"
  using step_others[OF run_instances_ok[OF assms]] by (simp add: Let_def)

theorem users_are_isolated_witness:
  "filter (\<lambda>i. in_user_id i \<noteq> ''v'') (id_instances (instance_step demo_instances
       (run_instances nat_str demo_instance_calls) (DeleteInstance ''v'' (nat_str 0)))) =
     filter (\<lambda>i. in_user_id i \<noteq> ''v'') (id_instances (run_instances nat_str demo_instance_calls))"
  using users_are_isolated[OF inj_nat_str, of demo_instance_calls "DeleteInstance ''v'' (nat_str 0)" demo_instances]
  by (simp only: Let_def call_user.simps)

end
