(* ===== verification/LlmConfig.thy ===== *)
theory LlmConfig
  imports AgentInstances
begin

text \<open>
  \<open>inference_core/services/llm_config_service.py\<close> with its tables
  (\<open>database/sql/models/llm_config.py\<close>) and \<open>LLMConfig.with_overrides\<close> of
  \<open>inference_core/llm/config.py\<close>: the effective LLM configuration, resolved in layers from the
  YAML base, the overrides of the administrators and the preferences of the users, and cached
  in Redis. A call to Redis goes through or raises without effect; cached values are seen as
  the values they encode. The attributes of a model or an agent of the base configuration are
  a dictionary.
\<close>

type_synonym jobj = "(string \<times> json) list"

subsection \<open>Tables\<close>

datatype config_scope = GLOBAL | MODEL | AGENT

datatype preference_type = DEFAULT_MODEL | MODEL_PARAMS | AGENT_PARAMS

record config_override =
  co_id :: uuid
  co_scope :: config_scope
  co_scope_key :: "string option"
  co_config_key :: string
  co_config_value :: jobj
  co_priority :: int
  co_is_active :: bool
  co_created_by :: "uuid option"
  co_description :: "string option"
  co_expires_at :: "int option"

record user_preference =
  up_id :: uuid
  up_user_id :: uuid
  up_type :: preference_type
  up_key :: string
  up_value :: jobj
  up_is_active :: bool

record allowed_override =
  ao_id :: uuid
  ao_config_key :: string
  ao_constraints :: "jobj option"
  ao_scopes :: "string list option"
  ao_display_name :: "string option"
  ao_description :: "string option"
  ao_is_active :: bool

record config_rows =
  cr_overrides :: "config_override list"
  cr_prefs :: "user_preference list"
  cr_allowed :: "allowed_override list"
  cr_uuids :: "nat \<Rightarrow> uuid"
  cr_uuid_count :: nat

subsection \<open>Layers and resolved configurations\<close>

record base_config =
  bc_models :: "(string \<times> jobj) list"
  bc_agent_models :: "(string \<times> json) list"
  bc_agent_configs :: "(string \<times> jobj) list"

record admin_dict =
  ad_global :: "(string \<times> jobj) list"
  ad_model :: "(string \<times> (string \<times> jobj) list) list"
  ad_agent :: "(string \<times> (string \<times> jobj) list) list"

record user_prefs =
  ud_default_model :: "(string \<times> jobj) list"
  ud_model_params :: "(string \<times> jobj) list"
  ud_agent_params :: "(string \<times> jobj) list"

record resolved_agent =
  ra_primary_model :: string
  ra_fallback_models :: "string list option"
  ra_allowed_tools :: "string list option"
  ra_mcp_profile :: "string option"
  ra_local_tool_providers :: "string list option"
  ra_skills :: "string list option"
  ra_subagents :: "string list option"
  ra_description :: "string option"
  ra_user_selectable :: bool

record resolved_response =
  rr_sources :: "(string \<times> string) list"
  rr_available_models :: "string list"
  rr_agents :: "(string \<times> resolved_agent) list"
  rr_prompt_limits :: prompt_limits
  rr_defaults :: jobj

text \<open>
  The service's world: the rows, the two kinds of cache entries with the time at which they
  expire, the clock in seconds and the number of calls to Redis so far. \<open>ce_by_priority\<close> is the
  order in which the database returns rows sorted by falling priority, which leaves the order
  of equal priorities open; \<open>ce_str\<close> is \<open>str\<close> of a value.
\<close>

record config_world =
  cw_rows :: config_rows
  cw_admin_cache :: "(admin_dict \<times> int) option"
  cw_user_cache :: "(uuid \<times> resolved_response \<times> int) list"
  cw_clock :: int
  cw_redis_calls :: nat

record config_env =
  ce_base :: base_config
  ce_redis_up :: "nat \<Rightarrow> bool"
  ce_by_priority :: "config_override list \<Rightarrow> config_override list"
  ce_limits_env :: limits_env
  ce_limits :: limits_state
  ce_str :: "json \<Rightarrow> string"

definition CACHE_TTL_SECONDS :: int where
  "CACHE_TTL_SECONDS = 60"

subsection \<open>The cache\<close>

text \<open>Whether the next call to Redis goes through.\<close>

definition redis_try :: "config_env \<Rightarrow> config_world \<Rightarrow> config_world \<times> bool" where
  "redis_try E w = (w\<lparr>cw_redis_calls := Suc (cw_redis_calls w)\<rparr>, ce_redis_up E (cw_redis_calls w))"

definition cache_live :: "config_world \<Rightarrow> ('a \<times> int) option \<Rightarrow> 'a option" where
  "cache_live w entry = (case entry of Some (v, expiry) \<Rightarrow> if cw_clock w < expiry then Some v else None | None \<Rightarrow> None)"

definition get_cached_admin :: "config_env \<Rightarrow> config_world \<Rightarrow> config_world \<times> admin_dict option" where
  "get_cached_admin E w =
     (let (w, ok) = redis_try E w in (w, if ok then cache_live w (cw_admin_cache w) else None))"

definition get_cached_user :: "config_env \<Rightarrow> uuid \<Rightarrow> config_world \<Rightarrow> config_world \<times> resolved_response option" where
  "get_cached_user E uid w =
     (let (w, ok) = redis_try E w in (w, if ok then cache_live w (map_of (cw_user_cache w) uid) else None))"

definition set_cached_admin :: "config_env \<Rightarrow> admin_dict \<Rightarrow> config_world \<Rightarrow> config_world" where
  "set_cached_admin E d w =
     (let (w, ok) = redis_try E w in
      if ok then w\<lparr>cw_admin_cache := Some (d, cw_clock w + CACHE_TTL_SECONDS)\<rparr> else w)"

definition set_cached_user :: "config_env \<Rightarrow> uuid \<Rightarrow> resolved_response \<Rightarrow> config_world \<Rightarrow> config_world" where
  "set_cached_user E uid r w =
     (let (w, ok) = redis_try E w in
      if ok then w\<lparr>cw_user_cache := AList.update uid (r, cw_clock w + CACHE_TTL_SECONDS) (cw_user_cache w)\<rparr> else w)"

definition invalidate_user_cache :: "config_env \<Rightarrow> uuid \<Rightarrow> config_world \<Rightarrow> config_world" where
  "invalidate_user_cache E uid w =
     (let (w, ok) = redis_try E w in
      if ok then w\<lparr>cw_user_cache := AList.delete uid (cw_user_cache w)\<rparr> else w)"

text \<open>Deleting the entry of the overrides, scanning for the keys of users, deleting these.\<close>

definition invalidate_admin_cache :: "config_env \<Rightarrow> config_world \<Rightarrow> config_world" where
  "invalidate_admin_cache E w =
     (let (w, ok) = redis_try E w in
      if \<not> ok then w
      else let w = w\<lparr>cw_admin_cache := None\<rparr>; (w, ok) = redis_try E w in
        if \<not> ok \<or> filter (\<lambda>(_, _, expiry). cw_clock w < expiry) (cw_user_cache w) = [] then w
        else let (w, ok) = redis_try E w in
          if ok then w\<lparr>cw_user_cache := []\<rparr> else w)"

subsection \<open>Overrides of the administrators\<close>

definition active_override :: "int \<Rightarrow> config_override \<Rightarrow> bool" where
  "active_override now c \<longleftrightarrow> co_is_active c \<and> (case co_expires_at c of None \<Rightarrow> True | Some t \<Rightarrow> t > now)"

definition get_admin_overrides ::
  "config_env \<Rightarrow> config_scope option \<Rightarrow> string option \<Rightarrow> bool \<Rightarrow> config_world \<Rightarrow> config_override list" where
  "get_admin_overrides E scope scope_key active_only w =
     ce_by_priority E (filter (\<lambda>c. (active_only \<longrightarrow> active_override (cw_clock w) c) \<and>
       (case scope of None \<Rightarrow> True | Some s \<Rightarrow> co_scope c = s) \<and>
       (case scope_key of None \<Rightarrow> True | Some k \<Rightarrow> k = [] \<or> co_scope_key c = Some k)) (cr_overrides (cw_rows w)))"

definition fresh_row :: "config_rows \<Rightarrow> config_rows \<times> uuid" where
  "fresh_row db = (db\<lparr>cr_uuid_count := Suc (cr_uuid_count db)\<rparr>, cr_uuids db (cr_uuid_count db))"

text \<open>
  The unique constraint on scope, scope key and configuration key does not compare rows whose
  scope key is null.
\<close>

definition create_admin_override ::
  "config_env \<Rightarrow> config_scope \<Rightarrow> string \<Rightarrow> jobj \<Rightarrow> string option \<Rightarrow> int \<Rightarrow> string option \<Rightarrow> int option \<Rightarrow>
   uuid option \<Rightarrow> config_world \<Rightarrow> config_world \<times> (exn + config_override)" where
  "create_admin_override E scope key v scope_key priority description expires_at created_by w =
     (if scope_key \<noteq> None \<and>
         list_ex (\<lambda>c. co_scope c = scope \<and> co_scope_key c = scope_key \<and> co_config_key c = key) (cr_overrides (cw_rows w))
      then (w, Inl (OtherError ''UNIQUE constraint failed''))
      else
        let (db, i) = fresh_row (cw_rows w);
            c = \<lparr>co_id = i, co_scope = scope, co_scope_key = scope_key, co_config_key = key, co_config_value = v,
                 co_priority = priority, co_is_active = True, co_created_by = created_by,
                 co_description = description, co_expires_at = expires_at\<rparr>
        in (invalidate_admin_cache E (w\<lparr>cw_rows := db\<lparr>cr_overrides := cr_overrides db @ [c]\<rparr>\<rparr>), Inr c))"

record override_update =
  ou_config_value :: "jobj option"
  ou_priority :: "int option"
  ou_description :: "string option"
  ou_expires_at :: "int option"
  ou_is_active :: "bool option"

definition apply_override_update :: "override_update \<Rightarrow> config_override \<Rightarrow> config_override" where
  "apply_override_update u c =
     c\<lparr>co_config_value := given (ou_config_value u) (co_config_value c),
       co_priority := given (ou_priority u) (co_priority c),
       co_description := given_some (ou_description u) (co_description c),
       co_expires_at := given_some (ou_expires_at u) (co_expires_at c),
       co_is_active := given (ou_is_active u) (co_is_active c)\<rparr>"

definition update_admin_override ::
  "config_env \<Rightarrow> uuid \<Rightarrow> override_update \<Rightarrow> config_world \<Rightarrow> config_world \<times> config_override option" where
  "update_admin_override E i u w =
     (let db = cw_rows w in
      case row_find co_id i (cr_overrides db) of
        None \<Rightarrow> (w, None)
      | Some c \<Rightarrow>
          (invalidate_admin_cache E
             (w\<lparr>cw_rows := db\<lparr>cr_overrides := row_update co_id i (apply_override_update u) (cr_overrides db)\<rparr>\<rparr>),
           Some (apply_override_update u c)))"

definition delete_admin_override :: "config_env \<Rightarrow> uuid \<Rightarrow> config_world \<Rightarrow> config_world \<times> bool" where
  "delete_admin_override E i w =
     (let db = cw_rows w in
      case row_find co_id i (cr_overrides db) of
        None \<Rightarrow> (w, False)
      | Some _ \<Rightarrow>
          (invalidate_admin_cache E (w\<lparr>cw_rows := db\<lparr>cr_overrides := filter (\<lambda>c. co_id c \<noteq> i) (cr_overrides db)\<rparr>\<rparr>),
           True))"

subsection \<open>Preferences of the users\<close>

definition get_user_preferences ::
  "uuid \<Rightarrow> preference_type option \<Rightarrow> bool \<Rightarrow> config_rows \<Rightarrow> user_preference list" where
  "get_user_preferences uid t active_only db =
     filter (\<lambda>p. up_user_id p = uid \<and> (active_only \<longrightarrow> up_is_active p) \<and>
       (case t of None \<Rightarrow> True | Some t \<Rightarrow> up_type p = t)) (cr_prefs db)"

definition get_allowed_overrides :: "bool \<Rightarrow> config_rows \<Rightarrow> allowed_override list" where
  "get_allowed_overrides active_only db = filter (\<lambda>a. active_only \<longrightarrow> ao_is_active a) (cr_allowed db)"

text \<open>A validation error has a key and a message; any other exception is raised as it is.\<close>

datatype config_error = ConfigValidationError string string | Raised exn

text \<open>\<open>x < bound\<close> on numbers, and membership.\<close>

definition compare_number :: "(rat \<Rightarrow> bool) \<Rightarrow> json \<Rightarrow> exn + bool" where
  "compare_number P bound =
     (case json_number bound of Some m \<Rightarrow> Inr (P m)
      | None \<Rightarrow> Inl (TypeError (describe bound '' cannot be compared with a number'')))"

definition json_member :: "json \<Rightarrow> json \<Rightarrow> exn + bool" where
  "json_member v c =
     (case (v, c) of (_, JArr xs) \<Rightarrow> Inr (v \<in> set xs) | (JStr s, _) \<Rightarrow> json_in s c
      | _ \<Rightarrow> Inl (TypeError (describe c '' is not a container'')))"

text \<open>A check of one constraint, skipped when the constraint has no such entry.\<close>

definition constraint_check ::
  "string \<Rightarrow> jobj \<Rightarrow> string \<Rightarrow> (json \<Rightarrow> exn + bool) \<Rightarrow> (json \<Rightarrow> string) \<Rightarrow> config_error + unit" where
  "constraint_check key c entry violated message =
     (case map_of c entry of
        None \<Rightarrow> Inr ()
      | Some bound \<Rightarrow>
          bind_result (map_sum Raised id (violated bound))
            (\<lambda>b. if b then Inl (ConfigValidationError key (message bound)) else Inr ()))"

definition check_number :: "config_env \<Rightarrow> string \<Rightarrow> jobj \<Rightarrow> json \<Rightarrow> config_error + unit" where
  "check_number E key c v =
     (case json_number v of
        Some n \<Rightarrow>
          if map_of c ''type'' = Some (JStr ''number'') then
            bind_result (constraint_check key c ''min'' (compare_number (\<lambda>m. n < m))
              (\<lambda>b. ''Value '' @ ce_str E v @ '' is below minimum '' @ ce_str E b)) (\<lambda>_.
            constraint_check key c ''max'' (compare_number (\<lambda>m. n > m))
              (\<lambda>b. ''Value '' @ ce_str E v @ '' is above maximum '' @ ce_str E b))
          else Inr ()
      | None \<Rightarrow> Inr ())"

definition check_string :: "config_env \<Rightarrow> string \<Rightarrow> jobj \<Rightarrow> json \<Rightarrow> config_error + unit" where
  "check_string E key c v =
     (case v of
        JStr s \<Rightarrow>
          if map_of c ''type'' = Some (JStr ''string'') then
            bind_result (constraint_check key c ''allowed_values'' (\<lambda>b. map_sum id Not (json_member v b))
              (\<lambda>_. ''Value '' @ py_quote s @ '' not in allowed values'')) (\<lambda>_.
            constraint_check key c ''max_length'' (compare_number (\<lambda>m. of_nat (length s) > m))
              (\<lambda>b. ''Value exceeds max length '' @ ce_str E b))
          else Inr ()
      | _ \<Rightarrow> Inr ())"

definition check_select :: "config_env \<Rightarrow> string \<Rightarrow> jobj \<Rightarrow> json \<Rightarrow> config_error + unit" where
  "check_select E key c v =
     (if map_of c ''type'' = Some (JStr ''select'') then
        constraint_check key c ''allowed_values'' (\<lambda>b. map_sum id Not (json_member v b))
          (\<lambda>_. ''Value '' @ py_quote (ce_str E v) @ '' not in allowed options'')
      else Inr ())"

definition value_of :: "jobj \<Rightarrow> json" where
  "value_of v = (case map_of v ''value'' of Some x \<Rightarrow> x | None \<Rightarrow> JObj v)"

definition find_allowed :: "string \<Rightarrow> config_rows \<Rightarrow> allowed_override option" where
  "find_allowed key db = List.find (\<lambda>a. ao_config_key a = key) (rev (get_allowed_overrides True db))"

definition validate_user_preference :: "config_env \<Rightarrow> string \<Rightarrow> jobj \<Rightarrow> config_rows \<Rightarrow> config_error + unit" where
  "validate_user_preference E key v db =
     (case find_allowed key db of
        None \<Rightarrow> Inl (ConfigValidationError key (''Configuration key '' @ py_quote key @ '' is not user-overridable''))
      | Some a \<Rightarrow>
          (case ao_constraints a of
             None \<Rightarrow> Inr ()
           | Some c \<Rightarrow>
               if c = [] then Inr ()
               else
                 bind_result (check_number E key c (value_of v)) (\<lambda>_.
                 bind_result (check_string E key c (value_of v)) (\<lambda>_.
                   check_select E key c (value_of v)))))"

text \<open>The part of a key after its last dot.\<close>

definition last_part :: "string \<Rightarrow> string" where
  "last_part key = last (py_split (CHR ''.'') key)"

definition create_user_preference ::
  "config_env \<Rightarrow> uuid \<Rightarrow> preference_type \<Rightarrow> string \<Rightarrow> jobj \<Rightarrow> config_world \<Rightarrow>
   config_world \<times> (config_error + user_preference)" where
  "create_user_preference E uid t key v w =
     (let db = cw_rows w;
          same = (\<lambda>p. up_user_id p = uid \<and> up_type p = t \<and> up_key p = key)
      in case validate_user_preference E (last_part key) v db of
        Inl e \<Rightarrow> (w, Inl e)
      | Inr _ \<Rightarrow>
          (case List.find same (cr_prefs db) of
             Some p \<Rightarrow>
               let stored = (\<lambda>p. p\<lparr>up_value := v, up_is_active := True\<rparr>);
                   db = db\<lparr>cr_prefs := map (\<lambda>p. if same p then stored p else p) (cr_prefs db)\<rparr>
               in (invalidate_user_cache E uid (w\<lparr>cw_rows := db\<rparr>), Inr (stored p))
           | None \<Rightarrow>
               let (db, i) = fresh_row db;
                   p = \<lparr>up_id = i, up_user_id = uid, up_type = t, up_key = key, up_value = v, up_is_active = True\<rparr>
               in (invalidate_user_cache E uid (w\<lparr>cw_rows := db\<lparr>cr_prefs := cr_prefs db @ [p]\<rparr>\<rparr>), Inr p)))"

text \<open>\<open>scalar_one_or_none\<close> raises when the user has the key under several types.\<close>

definition delete_user_preference :: "config_env \<Rightarrow> uuid \<Rightarrow> string \<Rightarrow> config_world \<Rightarrow> config_world \<times> (exn + bool)" where
  "delete_user_preference E uid key w =
     (let db = cw_rows w; mine = (\<lambda>p. up_user_id p = uid \<and> up_key p = key) in
      case filter mine (cr_prefs db) of
        [] \<Rightarrow> (w, Inr False)
      | [_] \<Rightarrow>
          (invalidate_user_cache E uid (w\<lparr>cw_rows := db\<lparr>cr_prefs := filter (\<lambda>p. \<not> mine p) (cr_prefs db)\<rparr>\<rparr>), Inr True)
      | _ \<Rightarrow> (w, Inl (OtherError ''Multiple rows were found when one or none was required'')))"

text \<open>
  The entry that is deleted from the cache here is never written; the call is not protected,
  so that a failure of Redis is raised after the row has been stored.
\<close>

definition create_allowed_override ::
  "config_env \<Rightarrow> string \<Rightarrow> jobj option \<Rightarrow> string list option \<Rightarrow> string option \<Rightarrow> string option \<Rightarrow>
   config_world \<Rightarrow> config_world \<times> (exn + allowed_override)" where
  "create_allowed_override E key constraints scopes display_name description w =
     (if list_ex (\<lambda>a. ao_config_key a = key) (cr_allowed (cw_rows w))
      then (w, Inl (OtherError ''UNIQUE constraint failed''))
      else
        let (db, i) = fresh_row (cw_rows w);
            a = \<lparr>ao_id = i, ao_config_key = key, ao_constraints = constraints,
                 ao_scopes = (if scopes = Some [] then None else scopes), ao_display_name = display_name,
                 ao_description = description, ao_is_active = True\<rparr>;
            (w, ok) = redis_try E (w\<lparr>cw_rows := db\<lparr>cr_allowed := cr_allowed db @ [a]\<rparr>\<rparr>)
        in (w, if ok then Inr a else Inl (OtherError ''Redis call failed'')))"

end
