(* ===== verification/ConfigResolution.thy ===== *)
theory ConfigResolution
  imports LlmConfig
begin

text \<open>
  The second half of \<open>inference_core/services/llm_config_service.py\<close>, the resolution of the
  layers, with \<open>LLMConfig.with_overrides\<close> and the bulk endpoint of
  \<open>inference_core/api/v1/routes/config.py\<close>, and the service as a function of its calls.
\<close>

subsection \<open>Loading the layers\<close>

definition put_override :: "config_override \<Rightarrow> (string \<times> (string \<times> jobj) list) list \<Rightarrow> (string \<times> (string \<times> jobj) list) list" where
  "put_override c d =
     (let k = (case co_scope_key c of Some k \<Rightarrow> if k = [] then ''__global__'' else k | None \<Rightarrow> ''__global__'');
          inner = (case map_of d k of Some i \<Rightarrow> i | None \<Rightarrow> [])
      in AList.update k (AList.update (co_config_key c) (co_config_value c) inner) d)"

fun add_override :: "admin_dict \<Rightarrow> config_override \<Rightarrow> admin_dict" where
  "add_override d c =
     (case co_scope c of
        GLOBAL \<Rightarrow> d\<lparr>ad_global := AList.update (co_config_key c) (co_config_value c) (ad_global d)\<rparr>
      | MODEL \<Rightarrow> d\<lparr>ad_model := put_override c (ad_model d)\<rparr>
      | AGENT \<Rightarrow> d\<lparr>ad_agent := put_override c (ad_agent d)\<rparr>)"

declare add_override.simps [simp del]

definition admin_dict_of :: "config_override list \<Rightarrow> admin_dict" where
  "admin_dict_of cs = foldl add_override \<lparr>ad_global = [], ad_model = [], ad_agent = []\<rparr> cs"

definition load_admin_overrides_dict :: "config_env \<Rightarrow> config_world \<Rightarrow> config_world \<times> admin_dict" where
  "load_admin_overrides_dict E w =
     (let (w, cached) = get_cached_admin E w in
      case cached of
        Some d \<Rightarrow> (w, d)
      | None \<Rightarrow>
          let d = admin_dict_of (get_admin_overrides E None None True w)
          in (set_cached_admin E d w, d))"

fun add_preference :: "user_prefs \<Rightarrow> user_preference \<Rightarrow> user_prefs" where
  "add_preference d p =
     (case up_type p of
        DEFAULT_MODEL \<Rightarrow> d\<lparr>ud_default_model := AList.update (up_key p) (up_value p) (ud_default_model d)\<rparr>
      | MODEL_PARAMS \<Rightarrow> d\<lparr>ud_model_params := AList.update (up_key p) (up_value p) (ud_model_params d)\<rparr>
      | AGENT_PARAMS \<Rightarrow> d\<lparr>ud_agent_params := AList.update (up_key p) (up_value p) (ud_agent_params d)\<rparr>)"

definition load_user_preferences_dict :: "uuid \<Rightarrow> config_rows \<Rightarrow> user_prefs" where
  "load_user_preferences_dict uid db =
     foldl add_preference \<lparr>ud_default_model = [], ud_model_params = [], ud_agent_params = []\<rparr>
       (get_user_preferences uid None True db)"

subsection \<open>The resolved configuration\<close>

text \<open>\<open>d.get("value", default)\<close>.\<close>

definition get_value :: "jobj \<Rightarrow> json \<Rightarrow> json" where
  "get_value d dflt = (case map_of d ''value'' of Some v \<Rightarrow> v | None \<Rightarrow> dflt)"

definition entry_or_null :: "jobj \<Rightarrow> string \<Rightarrow> json" where
  "entry_or_null d k = (case map_of d k of Some v \<Rightarrow> v | None \<Rightarrow> JNull)"

definition available_models_of :: "base_config \<Rightarrow> admin_dict \<Rightarrow> exn + string list \<times> (string \<times> string) list" where
  "available_models_of base admin =
     (let names = map fst (bc_models base) in
      case map_of (ad_global admin) ''models'' of
        Some ms \<Rightarrow> Inr (map fst ms, [(''available_models'', ''admin'')])
      | None \<Rightarrow>
          (case map_of (ad_global admin) ''disabled_models'' of
             None \<Rightarrow> Inr (names, [])
           | Some d \<Rightarrow>
               let disabled = get_value d (JArr []) in
               bind_result (map_result (\<lambda>m. map_sum id (Pair m) (json_in m disabled)) names) (\<lambda>rs.
                 Inr (map fst (filter (\<lambda>(_, b). \<not> b) rs), [(''available_models'', ''admin'')]))))"

definition invalid_agent :: exn where
  "invalid_agent = ValueError ''validation error for ResolvedAgentConfig''"

fun as_text :: "json \<Rightarrow> exn + string" where
  "as_text (JStr s) = Inr s"
| "as_text _ = Inl invalid_agent"

fun as_optional_text :: "json \<Rightarrow> exn + string option" where
  "as_optional_text (JStr s) = Inr (Some s)"
| "as_optional_text JNull = Inr None"
| "as_optional_text _ = Inl invalid_agent"

fun as_optional_texts :: "json \<Rightarrow> exn + string list option" where
  "as_optional_texts (JArr js) = (case strings_of js of Some ss \<Rightarrow> Inr (Some ss) | None \<Rightarrow> Inl invalid_agent)"
| "as_optional_texts JNull = Inr None"
| "as_optional_texts _ = Inl invalid_agent"

definition overridable_fields :: "string list" where
  "overridable_fields = [''primary'', ''fallback'', ''allowed_tools'', ''local_tool_providers'', ''skills'', ''subagents'']"

text \<open>A field of an agent after the overrides of the administrators.\<close>

definition agent_field :: "(string \<times> jobj) list \<Rightarrow> jobj \<Rightarrow> string \<Rightarrow> json" where
  "agent_field ov attrs field =
     (case map_of ov field of
        Some v \<Rightarrow> get_value v (entry_or_null attrs field) | None \<Rightarrow> entry_or_null attrs field)"

definition agent_overrides_of :: "admin_dict \<Rightarrow> string \<Rightarrow> (string \<times> jobj) list" where
  "agent_overrides_of admin name = (case map_of (ad_agent admin) name of Some ov \<Rightarrow> ov | None \<Rightarrow> [])"

definition resolve_agent :: "(string \<times> jobj) list \<Rightarrow> jobj \<Rightarrow> exn + resolved_agent" where
  "resolve_agent ov attrs =
     bind_result (as_text (agent_field ov attrs ''primary'')) (\<lambda>primary.
     bind_result (as_optional_texts (agent_field ov attrs ''fallback'')) (\<lambda>fallback.
     bind_result (as_optional_texts (agent_field ov attrs ''allowed_tools'')) (\<lambda>allowed_tools.
     bind_result (as_optional_text (entry_or_null attrs ''mcp_profile'')) (\<lambda>mcp_profile.
     bind_result (as_optional_texts (agent_field ov attrs ''local_tool_providers'')) (\<lambda>providers.
     bind_result (as_optional_texts (agent_field ov attrs ''skills'')) (\<lambda>skills.
     bind_result (as_optional_texts (agent_field ov attrs ''subagents'')) (\<lambda>subagents.
     bind_result (as_optional_text (entry_or_null attrs ''description'')) (\<lambda>description.
       Inr \<lparr>ra_primary_model = primary, ra_fallback_models = fallback, ra_allowed_tools = allowed_tools,
            ra_mcp_profile = mcp_profile, ra_local_tool_providers = providers, ra_skills = skills,
            ra_subagents = subagents, ra_description = description,
            ra_user_selectable = json_truthy (entry_or_null attrs ''user_selectable'')\<rparr>))))))))"

definition agent_sources :: "string \<Rightarrow> (string \<times> jobj) list \<Rightarrow> (string \<times> string) list" where
  "agent_sources name ov =
     map (\<lambda>f. (''agents.'' @ name @ ''.'' @ f, ''admin'')) (filter (\<lambda>f. f \<in> fst ` set ov) overridable_fields)"

definition default_params :: "string list" where
  "default_params = [''temperature'', ''max_tokens'', ''top_p'']"

definition base_defaults :: jobj where
  "base_defaults = [(''temperature'', JNum (7 / 10)), (''max_tokens'', JNum 2048)]"

text \<open>One default, set from an entry of a layer.\<close>

definition set_default ::
  "string \<Rightarrow> string \<Rightarrow> jobj \<Rightarrow> jobj \<times> (string \<times> string) list \<Rightarrow> jobj \<times> (string \<times> string) list" where
  "set_default source key v = (\<lambda>(defaults, sources).
     (dict_set defaults key (get_value v (entry_or_null defaults key)),
      AList.update (''defaults.'' @ key) source sources))"

definition admin_defaults :: "admin_dict \<Rightarrow> jobj \<times> (string \<times> string) list \<Rightarrow> jobj \<times> (string \<times> string) list" where
  "admin_defaults admin r =
     foldl (\<lambda>r key. case map_of (ad_global admin) key of Some v \<Rightarrow> set_default ''admin'' key v r | None \<Rightarrow> r) r default_params"

definition user_default_model ::
  "user_prefs \<Rightarrow> string list \<Rightarrow> jobj \<times> (string \<times> string) list \<Rightarrow> jobj \<times> (string \<times> string) list" where
  "user_default_model prefs available = (\<lambda>(defaults, sources).
     case map_of (ud_default_model prefs) ''default_model'' of
       None \<Rightarrow> (defaults, sources)
     | Some v \<Rightarrow>
         (case get_value v JNull of
            JStr m \<Rightarrow>
              if m \<noteq> [] \<and> m \<in> set available
              then (dict_set defaults ''default_model'' (JStr m), AList.update ''defaults.default_model'' ''user'' sources)
              else (defaults, sources)
          | _ \<Rightarrow> (defaults, sources)))"

definition user_defaults :: "user_prefs \<Rightarrow> jobj \<times> (string \<times> string) list \<Rightarrow> jobj \<times> (string \<times> string) list" where
  "user_defaults prefs r =
     foldl (\<lambda>r (key, v). if last_part key \<in> set default_params then set_default ''user'' (last_part key) v r else r)
       r (ud_model_params prefs)"

definition compute_resolved :: "config_env \<Rightarrow> admin_dict \<Rightarrow> user_prefs option \<Rightarrow> exn + resolved_response" where
  "compute_resolved E admin prefs =
     (let base = ce_base E in
      bind_result (available_models_of base admin) (\<lambda>(available, sources).
      bind_result (map_result (\<lambda>(name, attrs). map_sum id (Pair name) (resolve_agent (agent_overrides_of admin name) attrs))
          (bc_agent_configs base)) (\<lambda>agents.
      bind_result (get_limits (ce_limits_env E) (ce_limits E)) (\<lambda>limits.
        let sources = foldl (\<lambda>s (name, _). foldl (\<lambda>s (k, v). AList.update k v s) s
                (agent_sources name (agent_overrides_of admin name))) sources (bc_agent_configs base);
            r = admin_defaults admin (base_defaults, sources);
            (defaults, sources) = (case prefs of None \<Rightarrow> r
              | Some prefs \<Rightarrow> user_defaults prefs (user_default_model prefs available r))
        in Inr \<lparr>rr_sources = sources, rr_available_models = available, rr_agents = agents,
                rr_prompt_limits = limits, rr_defaults = defaults\<rparr>))))"

text \<open>The time at which a cached answer is handed out is returned beside it.\<close>

definition get_resolved_config ::
  "config_env \<Rightarrow> uuid option \<Rightarrow> bool \<Rightarrow> config_world \<Rightarrow> config_world \<times> (exn + resolved_response \<times> int option)" where
  "get_resolved_config E uid use_cache w =
     (let (w, cached) = (case uid of Some u \<Rightarrow> if use_cache then get_cached_user E u w else (w, None) | None \<Rightarrow> (w, None)) in
      case cached of
        Some r \<Rightarrow> (w, Inr (r, Some (cw_clock w)))
      | None \<Rightarrow>
          let (w, admin) = load_admin_overrides_dict E w;
              prefs = map_option (\<lambda>u. load_user_preferences_dict u (cw_rows w)) uid
          in case compute_resolved E admin prefs of
            Inl e \<Rightarrow> (w, Inl e)
          | Inr r \<Rightarrow>
              (case uid of
                 Some u \<Rightarrow> (if use_cache then set_cached_user E u r w else w, Inr (r, None))
               | None \<Rightarrow> (w, Inr (r, None))))"

subsection \<open>Parameters of a model call\<close>

definition admin_params :: "admin_dict \<Rightarrow> string \<Rightarrow> jobj \<Rightarrow> jobj" where
  "admin_params admin model params =
     (case map_of (ad_model admin) model of
        None \<Rightarrow> params
      | Some ov \<Rightarrow>
          foldl (\<lambda>ps key. case map_of ov key of
              Some v \<Rightarrow> dict_set ps key (get_value v (entry_or_null ps key)) | None \<Rightarrow> ps) params default_params)"

definition user_params :: "user_prefs \<Rightarrow> string \<Rightarrow> jobj \<Rightarrow> jobj" where
  "user_params prefs model params =
     (let own = ud_model_params prefs;
          params = (case map_of own (model @ ''.temperature'') of
            Some v \<Rightarrow> dict_set params ''temperature'' (get_value v (entry_or_null params ''temperature'')) | None \<Rightarrow> params)
      in foldl (\<lambda>ps key. case map_of own key of
             Some v \<Rightarrow>
               if map_of own (model @ ''.'' @ key) \<noteq> None then ps
               else dict_set ps key (get_value v (entry_or_null ps key))
           | None \<Rightarrow> ps) params default_params)"

definition get_effective_model_params ::
  "config_env \<Rightarrow> uuid option \<Rightarrow> string \<Rightarrow> config_world \<Rightarrow> config_world \<times> jobj" where
  "get_effective_model_params E uid model w =
     (case map_of (bc_models (ce_base E)) model of
        None \<Rightarrow> (w, [])
      | Some attrs \<Rightarrow>
          let params = [(''temperature'', entry_or_null attrs ''temperature''), (''max_tokens'', entry_or_null attrs ''max_tokens'')];
              (w, admin) = load_admin_overrides_dict E w;
              params = admin_params admin model params
          in (w, case uid of
               None \<Rightarrow> params
             | Some u \<Rightarrow> user_params (load_user_preferences_dict u (cw_rows w)) model params))"

subsection \<open>A configuration with all overrides\<close>

text \<open>\<open>_unwrap\<close>: each dictionary with a value entry is replaced by that value.\<close>

primrec unwrap_entry :: "json \<Rightarrow> json" where
  "unwrap_entry JNull = JNull"
| "unwrap_entry (JBool b) = JBool b"
| "unwrap_entry (JNum n) = JNum n"
| "unwrap_entry (JStr s) = JStr s"
| "unwrap_entry (JArr xs) = JArr xs"
| "unwrap_entry (JObj kvs) =
     (case map_of kvs ''value'' of
        Some v \<Rightarrow> v
      | None \<Rightarrow> JObj (map (map_prod id unwrap_entry) kvs))"

definition unwrap :: "(string \<times> (string \<times> jobj) list) list \<Rightarrow> jobj" where
  "unwrap d = map (\<lambda>(name, ov). (name, unwrap_entry (JObj (map (map_prod id JObj) ov)))) d"

fun json_items :: "json \<Rightarrow> exn + jobj" where
  "json_items (JObj kvs) = Inr kvs"
| "json_items j = Inl (AttributeError (describe j '' object has no attribute items''))"

fun fold_result :: "('b \<Rightarrow> 'a \<Rightarrow> exn + 'b) \<Rightarrow> 'b \<Rightarrow> 'a list \<Rightarrow> exn + 'b" where
  "fold_result f b [] = Inr b"
| "fold_result f b (x # xs) = bind_result (f b x) (\<lambda>b. fold_result f b xs)"

definition override_model_attrs :: "base_config \<Rightarrow> string \<times> json \<Rightarrow> exn + base_config" where
  "override_model_attrs cfg = (\<lambda>(name, ov).
     case map_of (bc_models cfg) name of
       None \<Rightarrow> Inr cfg
     | Some attrs \<Rightarrow>
         map_sum id (\<lambda>kvs. cfg\<lparr>bc_models := AList.update name (dict_merge attrs kvs) (bc_models cfg)\<rparr>) (json_items ov))"

text \<open>Only attributes that an agent has are set; the main model of an agent is kept twice.\<close>

definition override_agent_attrs :: "base_config \<Rightarrow> string \<times> json \<Rightarrow> exn + base_config" where
  "override_agent_attrs cfg = (\<lambda>(name, ov).
     bind_result (json_in ''primary'' ov) (\<lambda>has_primary.
     bind_result (if has_primary
         then map_sum id (\<lambda>v. cfg\<lparr>bc_agent_models := AList.update name v (bc_agent_models cfg)\<rparr>) (json_item ov ''primary'')
         else Inr cfg) (\<lambda>cfg.
       case map_of (bc_agent_configs cfg) name of
         None \<Rightarrow> Inr cfg
       | Some attrs \<Rightarrow>
           map_sum id (\<lambda>kvs. cfg\<lparr>bc_agent_configs := AList.update name
               (dict_merge attrs (filter (\<lambda>(k, _). k \<in> fst ` set attrs) kvs)) (bc_agent_configs cfg)\<rparr>) (json_items ov))))"

definition with_overrides :: "base_config \<Rightarrow> jobj \<Rightarrow> jobj \<Rightarrow> exn + base_config" where
  "with_overrides cfg models agents =
     bind_result (fold_result override_model_attrs cfg models) (\<lambda>cfg. fold_result override_agent_attrs cfg agents)"

text \<open>A preference for a parameter of an agent; a key without a dot is ignored.\<close>

definition add_agent_param :: "jobj \<Rightarrow> string \<times> jobj \<Rightarrow> exn + jobj" where
  "add_agent_param ovs = (\<lambda>(key, v).
     if CHR ''.'' \<notin> set key then Inr ovs
     else
       let name = takeWhile (\<lambda>c. c \<noteq> CHR ''.'') key; param = drop (Suc (length name)) key;
           own = (case map_of ovs name of Some j \<Rightarrow> j | None \<Rightarrow> JObj [])
       in case (map_of v ''value'', own) of
            (None, _) \<Rightarrow> Inl (LookupError ''value'')
          | (Some x, JObj kvs) \<Rightarrow> Inr (dict_set ovs name (JObj (dict_set kvs param x)))
          | _ \<Rightarrow> Inl (TypeError (describe own '' object does not support item assignment'')))"

definition get_config_with_overrides ::
  "config_env \<Rightarrow> uuid option \<Rightarrow> config_world \<Rightarrow> config_world \<times> (exn + base_config)" where
  "get_config_with_overrides E uid w =
     (let (w, admin) = load_admin_overrides_dict E w;
          prefs = (case uid of None \<Rightarrow> [] | Some u \<Rightarrow> ud_agent_params (load_user_preferences_dict u (cw_rows w)))
      in (w, bind_result (fold_result add_agent_param (unwrap (ad_agent admin)) prefs) (\<lambda>agents.
             with_overrides (ce_base E) (unwrap (ad_model admin)) agents)))"

subsection \<open>Options, bulk updates and the calls of the service\<close>

definition option_constraints :: "string list \<Rightarrow> allowed_override \<Rightarrow> jobj option" where
  "option_constraints available a =
     (case ao_constraints a of
        None \<Rightarrow> None
      | Some c \<Rightarrow>
          if c = [] then None
          else if ao_config_key a = ''default_model'' \<and> map_of c ''type'' = Some (JStr ''select'') \<and>
              map_of c ''allowed_values'' = None
          then Some (dict_set c ''allowed_values'' (JArr (map JStr available))) else Some c)"

definition get_available_options ::
  "config_env \<Rightarrow> uuid \<Rightarrow> config_world \<Rightarrow>
   config_world \<times> (exn + (allowed_override \<times> jobj option) list \<times> string list \<times> string list)" where
  "get_available_options E uid w =
     (let allowed = get_allowed_overrides True (cw_rows w);
          (w, res) = get_resolved_config E (Some uid) True w
      in (w, map_sum id (\<lambda>(r, _). (map (\<lambda>a. (a, option_constraints (rr_available_models r) a)) allowed,
            rr_available_models r, map fst (rr_agents r))) res))"

text \<open>
  The bulk endpoint stores the preferences one by one and reports the invalid ones at the end;
  only a validation error is caught.
\<close>

fun bulk_update_preferences ::
  "config_env \<Rightarrow> uuid \<Rightarrow> (preference_type \<times> string \<times> jobj) list \<Rightarrow> config_world \<Rightarrow>
   config_world \<times> (exn + user_preference list \<times> string list)" where
  "bulk_update_preferences E uid [] w = (w, Inr ([], []))"
| "bulk_update_preferences E uid ((t, key, v) # ps) w =
     (let (w, res) = create_user_preference E uid t key v w in
      case res of
        Inr p \<Rightarrow>
          let (w, rest) = bulk_update_preferences E uid ps w
          in (w, map_sum id (\<lambda>(rs, es). (p # rs, es)) rest)
      | Inl (ConfigValidationError _ m) \<Rightarrow>
          let (w, rest) = bulk_update_preferences E uid ps w
          in (w, map_sum id (\<lambda>(rs, es). (rs, (key @ '': '' @ m) # es)) rest)
      | Inl (Raised e) \<Rightarrow> (w, Inl e))"

datatype config_call =
    CreateOverride config_scope string jobj "string option" int "string option" "int option" "uuid option"
  | UpdateOverride uuid override_update
  | DeleteOverride uuid
  | SetPreference uuid preference_type string jobj
  | DeletePreference uuid string
  | SetPreferences uuid "(preference_type \<times> string \<times> jobj) list"
  | CreateAllowed string "jobj option" "string list option" "string option" "string option"
  | Resolve "uuid option" bool
  | ModelParams "uuid option" string
  | ConfigWithOverrides "uuid option"
  | AvailableOptions uuid
  | PassTime nat

fun config_step :: "config_env \<Rightarrow> config_world \<Rightarrow> config_call \<Rightarrow> config_world" where
  "config_step E w (CreateOverride s k v sk p d e b) = fst (create_admin_override E s k v sk p d e b w)"
| "config_step E w (UpdateOverride i u) = fst (update_admin_override E i u w)"
| "config_step E w (DeleteOverride i) = fst (delete_admin_override E i w)"
| "config_step E w (SetPreference uid t k v) = fst (create_user_preference E uid t k v w)"
| "config_step E w (DeletePreference uid k) = fst (delete_user_preference E uid k w)"
| "config_step E w (SetPreferences uid ps) = fst (bulk_update_preferences E uid ps w)"
| "config_step E w (CreateAllowed k c s n d) = fst (create_allowed_override E k c s n d w)"
| "config_step E w (Resolve uid use_cache) = fst (get_resolved_config E uid use_cache w)"
| "config_step E w (ModelParams uid m) = fst (get_effective_model_params E uid m w)"
| "config_step E w (ConfigWithOverrides uid) = fst (get_config_with_overrides E uid w)"
| "config_step E w (AvailableOptions uid) = fst (get_available_options E uid w)"
| "config_step E w (PassTime n) = w\<lparr>cw_clock := cw_clock w + int n\<rparr>"

end
