(* ===== verification/ConfigCache.thy ===== *)
theory ConfigCache
  imports ConfigResolution
begin

text \<open>
  What the cached entries of the LLM configuration service say: the contract of a layered
  cache, in which a resolved configuration may have been computed from cached overrides, and
  its two interpretations, by the history of the service and by its present rows.
\<close>

subsection \<open>Entries that are alive\<close>

text \<open>The overrides as they are read from the database at a time.\<close>

definition admin_at :: "config_env \<Rightarrow> config_rows \<Rightarrow> int \<Rightarrow> admin_dict" where
  "admin_at E db now = admin_dict_of (ce_by_priority E (filter (active_override now) (cr_overrides db)))"

text \<open>
  Every entry that is alive satisfies a predicate of its value and the time it was stored, which
  is not in the future.
\<close>

definition caches_ok ::
  "(admin_dict \<Rightarrow> int \<Rightarrow> bool) \<Rightarrow> (uuid \<Rightarrow> resolved_response \<Rightarrow> int \<Rightarrow> bool) \<Rightarrow> config_world \<Rightarrow> bool" where
  "caches_ok A U w \<longleftrightarrow>
     (\<forall>d e. cw_admin_cache w = Some (d, e) \<longrightarrow> cw_clock w < e \<longrightarrow>
        A d (e - CACHE_TTL_SECONDS) \<and> e - CACHE_TTL_SECONDS \<le> cw_clock w) \<and>
     (\<forall>u r e. map_of (cw_user_cache w) u = Some (r, e) \<longrightarrow> cw_clock w < e \<longrightarrow>
        U u r (e - CACHE_TTL_SECONDS) \<and> e - CACHE_TTL_SECONDS \<le> cw_clock w)"

text \<open>\<open>recent now t\<close>: an entry stored at \<open>t\<close> is alive at \<open>now\<close>.\<close>

definition recent :: "int \<Rightarrow> int \<Rightarrow> bool" where
  "recent now t \<longleftrightarrow> t \<le> now \<and> now < t + CACHE_TTL_SECONDS"

lemma recent_now [simp]: "recent now now"
  by (simp add: recent_def CACHE_TTL_SECONDS_def)

lemma caches_ok_mono:
  "caches_ok A U w \<Longrightarrow> (\<And>d t. A d t \<Longrightarrow> A' d t) \<Longrightarrow> (\<And>u r t. U u r t \<Longrightarrow> U' u r t) \<Longrightarrow> caches_ok A' U' w"
  unfolding caches_ok_def by blast

lemma caches_ok_admin:
  "caches_ok A U w \<Longrightarrow> cache_live w (cw_admin_cache w) = Some d \<Longrightarrow> \<exists>t. A d t \<and> recent (cw_clock w) t"
  unfolding caches_ok_def cache_live_def recent_def
  by (auto split: option.split_asm if_splits intro!: exI[of _ "_ - CACHE_TTL_SECONDS"])

lemma caches_ok_user:
  "caches_ok A U w \<Longrightarrow> cache_live w (map_of (cw_user_cache w) u) = Some r \<Longrightarrow> \<exists>t. U u r t \<and> recent (cw_clock w) t"
  unfolding caches_ok_def cache_live_def recent_def
  by (auto split: option.split_asm if_splits intro!: exI[of _ "_ - CACHE_TTL_SECONDS"])

text \<open>Worlds with the same rows and the same time, and worlds with fewer entries.\<close>

definition same_time :: "config_world \<Rightarrow> config_world \<Rightarrow> bool" where
  "same_time w w' \<longleftrightarrow> cw_rows w' = cw_rows w \<and> cw_clock w' = cw_clock w"

lemma same_time_refl [simp]: "same_time w w"
  and same_time_trans: "same_time w w' \<Longrightarrow> same_time w' w'' \<Longrightarrow> same_time w w''"
  by (simp_all add: same_time_def)

definition fewer_entries :: "config_world \<Rightarrow> config_world \<Rightarrow> bool" where
  "fewer_entries w w' \<longleftrightarrow> cw_clock w' = cw_clock w \<and>
     cw_admin_cache w' \<in> {None, cw_admin_cache w} \<and>
     (\<forall>u. map_of (cw_user_cache w') u \<in> {None, map_of (cw_user_cache w) u})"

lemma fewer_entries_refl [simp]: "fewer_entries w w"
  by (simp add: fewer_entries_def)

lemma fewer_entries_trans: "fewer_entries w w' \<Longrightarrow> fewer_entries w' w'' \<Longrightarrow> fewer_entries w w''"
  unfolding fewer_entries_def by (metis insertCI insertE singletonD)

lemma caches_ok_fewer: "caches_ok A U w \<Longrightarrow> fewer_entries w w' \<Longrightarrow> caches_ok A U w'"
  unfolding caches_ok_def fewer_entries_def by (metis insertE option.distinct(1) singletonD)

lemma caches_ok_time: "caches_ok A U w \<Longrightarrow> caches_ok A U (w\<lparr>cw_clock := cw_clock w + int n\<rparr>)"
  unfolding caches_ok_def by fastforce

lemma redis_try_simps [simp]:
  "cw_rows (fst (redis_try E w)) = cw_rows w" "cw_clock (fst (redis_try E w)) = cw_clock w"
  "cw_admin_cache (fst (redis_try E w)) = cw_admin_cache w" "cw_user_cache (fst (redis_try E w)) = cw_user_cache w"
  by (simp_all add: redis_try_def)

lemma redis_try_fewer [simp]: "fewer_entries w (fst (redis_try E w))"
  and redis_try_same [simp]: "same_time w (fst (redis_try E w))"
  by (simp_all add: fewer_entries_def same_time_def)

lemma invalidate_fewer [simp]:
  "fewer_entries w (invalidate_user_cache E uid w)" "fewer_entries w (invalidate_admin_cache E w)"
  by (simp_all add: invalidate_user_cache_def invalidate_admin_cache_def redis_try_def fewer_entries_def
      AList.delete_conv' Let_def)

text \<open>The calls that only read rows.\<close>

fun reads :: "config_call \<Rightarrow> bool" where
  "reads (Resolve _ _) = True"
| "reads (ModelParams _ _) = True"
| "reads (ConfigWithOverrides _) = True"
| "reads (AvailableOptions _) = True"
| "reads _ = False"

subsection \<open>The contract of a layered cache\<close>

locale layered_cache =
  fixes E :: config_env and db :: config_rows and now :: int
    and A :: "admin_dict \<Rightarrow> int \<Rightarrow> bool" and U :: "uuid \<Rightarrow> resolved_response \<Rightarrow> int \<Rightarrow> bool"
  assumes fresh_overrides: "A (admin_at E db now) now"
    and resolved_from: "A d t \<Longrightarrow> recent now t \<Longrightarrow>
      compute_resolved E d (Some (load_user_preferences_dict u db)) = Inr r \<Longrightarrow> U u r now"
begin

definition at_now :: "config_world \<Rightarrow> bool" where
  "at_now w \<longleftrightarrow> cw_rows w = db \<and> cw_clock w = now \<and> caches_ok A U w"

lemma at_now_try: "at_now w \<Longrightarrow> at_now (fst (redis_try E w))"
  using caches_ok_fewer[OF _ redis_try_fewer] by (simp add: at_now_def)

lemma load_admin:
  assumes "at_now w"
  shows "at_now (fst (load_admin_overrides_dict E w))"
    and "\<exists>t. A (snd (load_admin_overrides_dict E w)) t \<and> recent now t"
proof -
  obtain w1 where w1: "w1 = fst (redis_try E w)" by blast
  have n1: "at_now w1" unfolding w1 by (rule at_now_try[OF assms])
  let ?d = "admin_dict_of (get_admin_overrides E None None True w1)"
  have d: "?d = admin_at E db now"
    using n1 by (simp add: get_admin_overrides_def admin_at_def at_now_def)
  have stored: "at_now (set_cached_admin E ?d w1)"
    using at_now_try[OF n1] fresh_overrides unfolding d
    by (auto simp: set_cached_admin_def redis_try_def at_now_def caches_ok_def Let_def)
  show "at_now (fst (load_admin_overrides_dict E w))"
    using n1 stored
    by (auto simp: load_admin_overrides_dict_def get_cached_admin_def w1 Let_def case_prod_unfold split: option.split)
  show "\<exists>t. A (snd (load_admin_overrides_dict E w)) t \<and> recent now t"
  proof (cases "snd (get_cached_admin E w)")
    case None
    then have "snd (load_admin_overrides_dict E w) = admin_at E db now"
      using d by (simp add: load_admin_overrides_dict_def get_cached_admin_def w1 Let_def case_prod_unfold)
    then show ?thesis using fresh_overrides recent_now by metis
  next
    case (Some d')
    then have "cache_live w1 (cw_admin_cache w1) = Some d'"
      by (simp add: get_cached_admin_def w1 Let_def case_prod_unfold split: if_splits)
    moreover have "snd (load_admin_overrides_dict E w) = d'"
      using Some by (simp add: load_admin_overrides_dict_def case_prod_unfold)
    ultimately show ?thesis using caches_ok_admin n1 unfolding at_now_def by blast
  qed
qed

lemma cached_user:
  assumes "at_now w"
  shows "at_now (fst (get_cached_user E u w))"
    and "snd (get_cached_user E u w) = Some r \<Longrightarrow> \<exists>t. U u r t \<and> recent now t"
  using at_now_try[OF assms] caches_ok_user[of A U "fst (redis_try E w)" u r]
  by (auto simp: get_cached_user_def Let_def case_prod_unfold at_now_def split: if_splits)

lemma store_user:
  assumes "at_now w" and "U u r now"
  shows "at_now (set_cached_user E u r w)"
  using at_now_try[OF assms(1)] assms(2)
  by (auto simp: set_cached_user_def redis_try_def at_now_def caches_ok_def Let_def update_conv' split: if_splits)

lemma resolve_parts:
  assumes "at_now w"
  obtains w1 w2 admin t cached where
    "at_now w1" "at_now w2" "A admin t" "recent now t"
    "\<And>u r. uid = Some u \<Longrightarrow> cached = Some r \<Longrightarrow> snd (get_cached_user E u w) = Some r"
    "get_resolved_config E uid use_cache w =
      (case cached of
         Some r \<Rightarrow> (w1, Inr (r, Some (cw_clock w1)))
       | None \<Rightarrow>
           (case compute_resolved E admin (map_option (\<lambda>u. load_user_preferences_dict u db) uid) of
              Inl e \<Rightarrow> (w2, Inl e)
            | Inr r \<Rightarrow>
                (case uid of
                   Some u \<Rightarrow> (if use_cache then set_cached_user E u r w2 else w2, Inr (r, None))
                 | None \<Rightarrow> (w2, Inr (r, None)))))"
proof -
  obtain w1 cached where c:
    "(case uid of Some u \<Rightarrow> if use_cache then get_cached_user E u w else (w, None) | None \<Rightarrow> (w, None)) = (w1, cached)"
    by fastforce
  then have n1: "at_now w1"
    using assms cached_user(1)[OF assms] by (auto split: option.split_asm if_splits) (metis fst_conv)
  obtain w2 admin where a: "load_admin_overrides_dict E w1 = (w2, admin)" by fastforce
  have n2: "at_now w2" using load_admin(1)[OF n1] a by simp
  then have rows: "cw_rows w2 = db" by (simp add: at_now_def)
  obtain t where t: "A admin t" "recent now t" using load_admin(2)[OF n1] a by auto
  show thesis
  proof (rule that[OF n1 n2 t])
    show "snd (get_cached_user E u w) = Some r" if "uid = Some u" "cached = Some r" for u r
      using c that by (auto split: if_splits)
  qed (simp add: get_resolved_config_def c a rows)
qed

lemma resolve_keeps:
  assumes "at_now w"
  shows "at_now (fst (get_resolved_config E uid use_cache w))"
proof (rule resolve_parts[OF assms, of uid use_cache])
  fix w1 w2 admin t cached
  assume p: "at_now w1" "at_now w2" "A admin t" "recent now t" and r: "get_resolved_config E uid use_cache w =
      (case cached of
         Some r \<Rightarrow> (w1, Inr (r, Some (cw_clock w1)))
       | None \<Rightarrow>
           (case compute_resolved E admin (map_option (\<lambda>u. load_user_preferences_dict u db) uid) of
              Inl e \<Rightarrow> (w2, Inl e)
            | Inr r \<Rightarrow>
                (case uid of
                   Some u \<Rightarrow> (if use_cache then set_cached_user E u r w2 else w2, Inr (r, None))
                 | None \<Rightarrow> (w2, Inr (r, None)))))"
  show "at_now (fst (get_resolved_config E uid use_cache w))"
    using p(1,2) store_user[OF p(2) resolved_from[OF p(3,4)]] unfolding r
    by (auto split: option.split sum.split)
qed

lemma resolve_result:
  assumes "at_now w" and res: "snd (get_resolved_config E (Some u) use_cache w) = Inr (r, c)"
  shows "\<exists>t. U u r t \<and> recent now t"
proof -
  obtain w1 w2 admin t cached where p: "A admin t" "recent now t"
    "\<And>r. cached = Some r \<Longrightarrow> snd (get_cached_user E u w) = Some r" and r: "get_resolved_config E (Some u) use_cache w =
      (case cached of
         Some r \<Rightarrow> (w1, Inr (r, Some (cw_clock w1)))
       | None \<Rightarrow>
           (case compute_resolved E admin (map_option (\<lambda>u. load_user_preferences_dict u db) (Some u)) of
              Inl e \<Rightarrow> (w2, Inl e)
            | Inr r \<Rightarrow>
                (case Some u of
                   Some u \<Rightarrow> (if use_cache then set_cached_user E u r w2 else w2, Inr (r, None))
                 | None \<Rightarrow> (w2, Inr (r, None)))))"
    by (rule resolve_parts[OF assms(1), of "Some u" use_cache]) blast
  show ?thesis
  proof (cases cached)
    case None
    then have "compute_resolved E admin (Some (load_user_preferences_dict u db)) = Inr r"
      using res unfolding r by (simp split: sum.split_asm)
    then show ?thesis using resolved_from[OF p(1,2)] recent_now by blast
  next
    case (Some r')
    then show ?thesis using cached_user(2)[OF assms(1) p(3)] res unfolding r by simp
  qed
qed

lemma reads_keep:
  assumes "at_now w"
  shows "at_now (fst (get_effective_model_params E uid model w))"
    "at_now (fst (get_config_with_overrides E uid w))"
    "at_now (fst (get_available_options E v w))"
  using assms load_admin(1)[OF assms] resolve_keeps[OF assms, of "Some v" True]
  by (auto simp: get_effective_model_params_def get_config_with_overrides_def get_available_options_def
      Let_def case_prod_unfold split: option.split)

lemma reads_ok: "at_now w \<Longrightarrow> reads c \<Longrightarrow> at_now (config_step E w c)"
  using resolve_keeps reads_keep by (cases c) simp_all

end

subsection \<open>Runs of the service\<close>

definition config_run :: "config_env \<Rightarrow> config_world \<Rightarrow> config_call list \<Rightarrow> config_world" where
  "config_run E w calls = foldl (config_step E) w calls"

lemma config_run_simps [simp]:
  "config_run E w [] = w" "config_run E w (calls @ [c]) = config_step E (config_run E w calls) c"
  by (simp_all add: config_run_def)

definition no_entries :: "config_world \<Rightarrow> bool" where
  "no_entries w \<longleftrightarrow> cw_admin_cache w = None \<and> cw_user_cache w = []"

lemma no_entries_ok: "no_entries w \<Longrightarrow> caches_ok A U w"
  by (simp add: no_entries_def caches_ok_def)

lemma fewer_entries_rows: "fewer_entries (w\<lparr>cw_rows := db\<rparr>) w' = fewer_entries w w'"
  by (simp add: fewer_entries_def)

lemma fewer_after_rows [simp]:
  "fewer_entries w (invalidate_user_cache E uid (w\<lparr>cw_rows := db\<rparr>))"
  "fewer_entries w (invalidate_admin_cache E (w\<lparr>cw_rows := db\<rparr>))"
  by (rule fewer_entries_rows[THEN iffD1, OF invalidate_fewer(1)], rule fewer_entries_rows[THEN iffD1, OF invalidate_fewer(2)])

lemma create_preference_fewer: "fewer_entries w (fst (create_user_preference E uid t key v w))"
  by (simp add: create_user_preference_def fresh_row_def Let_def split: sum.split option.split)

lemma bulk_fewer: "fewer_entries w (fst (bulk_update_preferences E uid ps w))"
proof (induction ps arbitrary: w)
  case Nil
  then show ?case by simp
next
  case (Cons p ps)
  obtain t key v where p: "p = (t, key, v)" by (cases p)
  obtain w' res where c: "create_user_preference E uid t key v w = (w', res)" by fastforce
  have "fewer_entries w w'" using create_preference_fewer[of w E uid t key v] c by simp
  moreover have "fewer_entries w' (fst (bulk_update_preferences E uid ps w'))" by (rule Cons)
  ultimately show ?case
    using fewer_entries_trans
    by (auto simp: p c case_prod_unfold Let_def split: sum.split config_error.split)
qed

lemma writes_fewer:
  assumes "\<not> reads c"
  shows "fewer_entries w (config_step E w c) \<or> (\<exists>n. c = PassTime n)"
proof (cases c)
  case (CreateOverride s k v sk p d e b)
  then show ?thesis by (simp add: create_admin_override_def fresh_row_def Let_def)
next
  case (UpdateOverride i u)
  then show ?thesis by (simp add: update_admin_override_def Let_def split: option.split)
next
  case (DeleteOverride i)
  then show ?thesis by (simp add: delete_admin_override_def Let_def split: option.split)
next
  case (DeletePreference uid k)
  then show ?thesis by (simp add: delete_user_preference_def Let_def split: list.split)
next
  case (CreateAllowed k c s n d)
  then show ?thesis by (simp add: create_allowed_override_def fresh_row_def redis_try_def fewer_entries_def Let_def)
qed (use assms create_preference_fewer bulk_fewer in simp_all)

subsection \<open>By history\<close>

definition overrides_seen :: "config_env \<Rightarrow> config_world \<Rightarrow> config_call list \<Rightarrow> admin_dict \<Rightarrow> int \<Rightarrow> bool" where
  "overrides_seen E w calls d t \<longleftrightarrow>
     (\<exists>before. prefix before calls \<and> cw_clock (config_run E w before) = t \<and>
        d = admin_at E (cw_rows (config_run E w before)) t)"

definition resolved_seen ::
  "config_env \<Rightarrow> config_world \<Rightarrow> config_call list \<Rightarrow> uuid \<Rightarrow> resolved_response \<Rightarrow> int \<Rightarrow> bool" where
  "resolved_seen E w calls u r t \<longleftrightarrow>
     (\<exists>before d s. prefix before calls \<and> cw_clock (config_run E w before) = t \<and>
        overrides_seen E w calls d s \<and> recent t s \<and>
        compute_resolved E d (Some (load_user_preferences_dict u (cw_rows (config_run E w before)))) = Inr r)"

lemma seen_snoc:
  "overrides_seen E w calls d t \<Longrightarrow> overrides_seen E w (calls @ [c]) d t"
  "resolved_seen E w calls u r t \<Longrightarrow> resolved_seen E w (calls @ [c]) u r t"
  unfolding overrides_seen_def resolved_seen_def using prefix_order.trans[OF _ prefixI[OF refl]] by blast+

interpretation history: layered_cache E "cw_rows (config_run E w calls)" "cw_clock (config_run E w calls)"
    "overrides_seen E w calls" "resolved_seen E w calls"
proof
  show "overrides_seen E w calls (admin_at E (cw_rows (config_run E w calls)) (cw_clock (config_run E w calls)))
      (cw_clock (config_run E w calls))"
    unfolding overrides_seen_def by blast
  show "resolved_seen E w calls u r (cw_clock (config_run E w calls))"
    if "overrides_seen E w calls d t" "recent (cw_clock (config_run E w calls)) t"
      "compute_resolved E d (Some (load_user_preferences_dict u (cw_rows (config_run E w calls)))) = Inr r"
    for d t u r
    using that unfolding resolved_seen_def by blast
qed

lemma history_caches_ok:
  assumes "no_entries w"
  shows "caches_ok (overrides_seen E w calls) (resolved_seen E w calls) (config_run E w calls)"
proof (induction calls rule: rev_induct)
  case Nil
  then show ?case using no_entries_ok[OF assms] by simp
next
  case (snoc c calls)
  have "caches_ok (overrides_seen E w calls) (resolved_seen E w calls) (config_step E (config_run E w calls) c)"
  proof (cases "reads c")
    case True
    then show ?thesis using history.reads_ok[of E w calls "config_run E w calls" c] snoc by (simp add: history.at_now_def)
  next
    case False
    then show ?thesis using writes_fewer[OF False] caches_ok_fewer[OF snoc] caches_ok_time[OF snoc] by fastforce
  qed
  then show ?case by (simp only: config_run_simps) (erule caches_ok_mono, erule seen_snoc, erule seen_snoc)
qed

lemma resolved_from_history:
  assumes "no_entries w" and "snd (get_resolved_config E (Some u) use_cache (config_run E w calls)) = Inr (r, c)"
  shows "\<exists>t. resolved_seen E w calls u r t \<and> recent (cw_clock (config_run E w calls)) t"
  using history.resolve_result[OF _ assms(2)] history_caches_ok[OF assms(1)] by (simp add: history.at_now_def)

subsection \<open>By the present rows\<close>

text \<open>
  While Redis works, the entries that are alive agree with the present rows; only overrides that
  have expired in the meantime are seen late.
\<close>

definition overrides_present :: "config_env \<Rightarrow> config_rows \<Rightarrow> admin_dict \<Rightarrow> int \<Rightarrow> bool" where
  "overrides_present E db d t \<longleftrightarrow> d = admin_at E db t"

definition resolved_present :: "config_env \<Rightarrow> config_rows \<Rightarrow> uuid \<Rightarrow> resolved_response \<Rightarrow> int \<Rightarrow> bool" where
  "resolved_present E db u r t \<longleftrightarrow>
     (\<exists>s. recent t s \<and> compute_resolved E (admin_at E db s) (Some (load_user_preferences_dict u db)) = Inr r)"

interpretation present: layered_cache E db now "overrides_present E db" "resolved_present E db"
proof
  show "overrides_present E db (admin_at E db now) now" by (simp add: overrides_present_def)
  show "resolved_present E db u r now"
    if "overrides_present E db d t" "recent now t"
      "compute_resolved E d (Some (load_user_preferences_dict u db)) = Inr r" for d t u r
    using that unfolding overrides_present_def resolved_present_def by blast
qed

definition present_ok :: "config_env \<Rightarrow> config_world \<Rightarrow> bool" where
  "present_ok E w \<longleftrightarrow> caches_ok (overrides_present E (cw_rows w)) (resolved_present E (cw_rows w)) w"

lemma invalidated:
  assumes "\<And>n. ce_redis_up E n"
  shows "caches_ok A U (invalidate_admin_cache E w)"
    and "map_of (cw_user_cache (invalidate_user_cache E uid w)) =
      (map_of (cw_user_cache w))(uid := None)"
    and "cw_rows (invalidate_admin_cache E w) = cw_rows w" "cw_rows (invalidate_user_cache E uid w) = cw_rows w"
    and "cw_clock (invalidate_user_cache E uid w) = cw_clock w"
    and "cw_admin_cache (invalidate_user_cache E uid w) = cw_admin_cache w"
proof -
  have "\<not> cw_clock w < e"
    if "filter (\<lambda>(_, _, expiry). cw_clock w < expiry) (cw_user_cache w) = []" "map_of (cw_user_cache w) u = Some (r, e)"
    for u r e
    using that map_of_SomeD[OF that(2)] by (auto simp: filter_empty_conv)
  then show "caches_ok A U (invalidate_admin_cache E w)"
    using assms by (auto simp: invalidate_admin_cache_def redis_try_def caches_ok_def Let_def)
qed (use assms in \<open>simp_all add: invalidate_admin_cache_def invalidate_user_cache_def redis_try_def Let_def AList.delete_conv'\<close>)

text \<open>Entries of other users do not depend on the preferences of a user.\<close>

definition same_for_others :: "uuid \<Rightarrow> config_rows \<Rightarrow> config_rows \<Rightarrow> bool" where
  "same_for_others uid db db' \<longleftrightarrow> cr_overrides db' = cr_overrides db \<and>
     (\<forall>u. u \<noteq> uid \<longrightarrow> get_user_preferences u None True db' = get_user_preferences u None True db)"

lemma present_after_preference:
  assumes "\<And>n. ce_redis_up E n" and "present_ok E w" and "same_for_others uid (cw_rows w) db"
  shows "present_ok E (invalidate_user_cache E uid (w\<lparr>cw_rows := db\<rparr>))"
  using assms(2,3) unfolding present_ok_def caches_ok_def
  by (auto simp: invalidated[OF assms(1)] overrides_present_def resolved_present_def admin_at_def
      load_user_preferences_dict_def same_for_others_def)

lemma filter_map_same:
  assumes "\<And>x. P x \<Longrightarrow> \<not> Q x" and "\<And>x. P x \<Longrightarrow> \<not> Q (f x)"
  shows "filter Q (map (\<lambda>x. if P x then f x else x) xs) = filter Q xs"
  using assms by (induction xs) auto

lemma create_preference_present:
  assumes "\<And>n. ce_redis_up E n" and "present_ok E w"
  shows "present_ok E (fst (create_user_preference E uid t key v w))"
proof (cases "validate_user_preference E (last_part key) v (cw_rows w)")
  case (Inl e)
  then show ?thesis using assms(2) by (simp add: create_user_preference_def)
next
  case (Inr x)
  let ?same = "\<lambda>p. up_user_id p = uid \<and> up_type p = t \<and> up_key p = key"
  let ?stored = "\<lambda>p. if ?same p then p\<lparr>up_value := v, up_is_active := True\<rparr> else p"
  have "same_for_others uid (cw_rows w) ((cw_rows w)\<lparr>cr_prefs := map ?stored (cr_prefs (cw_rows w))\<rparr>)"
    unfolding same_for_others_def get_user_preferences_def
    by (simp, intro allI impI, rule filter_map_same) auto
  moreover have "same_for_others uid (cw_rows w) ((cw_rows w)\<lparr>cr_uuid_count := n, cr_prefs := cr_prefs (cw_rows w) @ [p]\<rparr>)"
    if "up_user_id p = uid" for n p
    using that by (auto simp: same_for_others_def get_user_preferences_def)
  ultimately show ?thesis
    using present_after_preference[OF assms] Inr
    by (auto simp: create_user_preference_def fresh_row_def Let_def split: option.split)
qed

lemma bulk_present:
  assumes "\<And>n. ce_redis_up E n" and "present_ok E w"
  shows "present_ok E (fst (bulk_update_preferences E uid ps w))"
  using assms(2)
proof (induction ps arbitrary: w)
  case Nil
  then show ?case by simp
next
  case (Cons p ps)
  obtain t key v where p: "p = (t, key, v)" by (cases p)
  obtain w' res where c: "create_user_preference E uid t key v w = (w', res)" by fastforce
  then have "present_ok E w'" using create_preference_present[OF assms(1) Cons.prems, of uid t key v] by simp
  then show ?case
    using Cons.IH[of w'] by (auto simp: p c case_prod_unfold Let_def split: sum.split config_error.split)
qed

lemma delete_preference_present:
  assumes "\<And>n. ce_redis_up E n" and "present_ok E w"
  shows "present_ok E (fst (delete_user_preference E uid key w))"
proof -
  have "same_for_others uid (cw_rows w)
      ((cw_rows w)\<lparr>cr_prefs := filter (\<lambda>p. \<not> (up_user_id p = uid \<and> up_key p = key)) (cr_prefs (cw_rows w))\<rparr>)"
    by (auto simp: same_for_others_def get_user_preferences_def intro!: filter_cong)
  then show ?thesis
    using present_after_preference[OF assms] assms(2)
    by (auto simp: delete_user_preference_def Let_def split: list.split)
qed

lemma override_writes_present:
  assumes "\<And>n. ce_redis_up E n" and "present_ok E w"
  shows "present_ok E (fst (create_admin_override E s k v sk p d e b w))"
    "present_ok E (fst (update_admin_override E i u w))" "present_ok E (fst (delete_admin_override E i w))"
  using assms(2) invalidated(1)[OF assms(1)]
  by (auto simp: present_ok_def create_admin_override_def update_admin_override_def delete_admin_override_def
      fresh_row_def Let_def split: option.split)

lemma present_ok_cong:
  assumes "present_ok E w" and "cr_overrides db = cr_overrides (cw_rows w)" and "cr_prefs db = cr_prefs (cw_rows w)"
  shows "present_ok E (w\<lparr>cw_rows := db, cw_redis_calls := n\<rparr>)"
  using assms
  by (simp add: present_ok_def caches_ok_def overrides_present_def resolved_present_def admin_at_def
      load_user_preferences_dict_def get_user_preferences_def)

lemma create_allowed_present:
  assumes "present_ok E w"
  shows "present_ok E (fst (create_allowed_override E k c s n d w))"
  using assms by (simp add: create_allowed_override_def fresh_row_def redis_try_def Let_def present_ok_cong)

lemma reads_present:
  assumes "present_ok E w" and "reads c"
  shows "present_ok E (config_step E w c)"
  using present.reads_ok[where E = E and db = "cw_rows w" and now = "cw_clock w" and w = w and c = c] assms by (simp add: present.at_now_def present_ok_def)

lemma step_present:
  assumes "\<And>n. ce_redis_up E n" and "present_ok E w"
  shows "present_ok E (config_step E w c)"
proof (cases "reads c")
  case True
  then show ?thesis by (rule reads_present[OF assms(2)])
next
  case False
  show ?thesis
  proof (cases c)
    case (PassTime n)
    then show ?thesis using assms(2) caches_ok_time by (simp add: present_ok_def)
  qed (use False create_preference_present[OF assms] delete_preference_present[OF assms] bulk_present[OF assms]
      override_writes_present[OF assms] create_allowed_present[OF assms(2)] in simp_all)
qed

lemma run_present:
  assumes "\<And>n. ce_redis_up E n" and "no_entries w"
  shows "present_ok E (config_run E w calls)"
proof (induction calls rule: rev_induct)
  case Nil
  show ?case using no_entries_ok[OF assms(2)] by (simp add: present_ok_def)
next
  case (snoc c calls)
  then show ?case using step_present[OF assms(1)] by simp
qed

lemma resolved_from_present:
  assumes "\<And>n. ce_redis_up E n" and "no_entries w"
    and "snd (get_resolved_config E (Some u) use_cache (config_run E w calls)) = Inr (r, c)"
  shows "\<exists>t. resolved_present E (cw_rows (config_run E w calls)) u r t \<and> recent (cw_clock (config_run E w calls)) t"
  using present.resolve_result[OF _ assms(3)] run_present[OF assms(1,2)]
  by (simp add: present.at_now_def present_ok_def)

end
