(* ===== verification/ConfigProperties.thy ===== *)
theory ConfigProperties
  imports ConfigCache "HOL-Library.Multiset"
begin

text \<open>
  The properties of the resolved LLM configuration: how old an answer may be, what the layers
  give, and what users may change.
\<close>

subsection \<open>Age\<close>

text \<open>
  C24: However Redis fails, an answer is the resolution of overrides and preferences that were
  stored recently: the preferences less than 60 seconds ago, the overrides less than 60 seconds
  before that. Both times are times at which the service stood, from its start with an empty
  cache.
\<close>

theorem resolved_config_age:
  assumes "no_entries w" and "snd (get_resolved_config E (Some u) use_cache (config_run E w calls)) = Inr (r, c)"
  shows "\<exists>loaded resolved. prefix loaded calls \<and> prefix resolved calls \<and>
    (let l = config_run E w loaded; p = config_run E w resolved; now = cw_clock (config_run E w calls) in
      compute_resolved E (admin_at E (cw_rows l) (cw_clock l)) (Some (load_user_preferences_dict u (cw_rows p))) = Inr r \<and>
      cw_clock l \<le> cw_clock p \<and> cw_clock p < cw_clock l + 60 \<and> cw_clock p \<le> now \<and> now < cw_clock p + 60)"
proof -
  obtain t where "resolved_seen E w calls u r t" and t: "recent (cw_clock (config_run E w calls)) t"
    using resolved_from_history[OF assms] by blast
  then obtain p d s where p: "prefix p calls" "cw_clock (config_run E w p) = t" "overrides_seen E w calls d s"
      "recent t s" "compute_resolved E d (Some (load_user_preferences_dict u (cw_rows (config_run E w p)))) = Inr r"
    unfolding resolved_seen_def by blast
  then obtain l where l: "prefix l calls" "cw_clock (config_run E w l) = s" "d = admin_at E (cw_rows (config_run E w l)) s"
    unfolding overrides_seen_def by blast
  have "compute_resolved E (admin_at E (cw_rows (config_run E w l)) (cw_clock (config_run E w l)))
      (Some (load_user_preferences_dict u (cw_rows (config_run E w p)))) = Inr r"
    using p(5) unfolding l(2,3) .
  then show ?thesis
    using p(1,2,4) l(1,2) t unfolding Let_def recent_def CACHE_TTL_SECONDS_def by blast
qed

text \<open>
  C25: While Redis works, changes take effect at once: every answer is the resolution of the
  present rows, all overrides and preferences of this moment; only the expiry of an override is
  noticed late, by less than 120 seconds.
\<close>

theorem changes_take_effect:
  assumes "\<And>n. ce_redis_up E n" and "no_entries w"
    and "snd (get_resolved_config E (Some u) use_cache (config_run E w calls)) = Inr (r, c)"
  shows "\<exists>t. let w' = config_run E w calls in
    t \<le> cw_clock w' \<and> cw_clock w' < t + 120 \<and>
    compute_resolved E (admin_at E (cw_rows w') t) (Some (load_user_preferences_dict u (cw_rows w'))) = Inr r"
proof -
  obtain t s where "recent (cw_clock (config_run E w calls)) t" "recent t s"
      "compute_resolved E (admin_at E (cw_rows (config_run E w calls)) s)
        (Some (load_user_preferences_dict u (cw_rows (config_run E w calls)))) = Inr r"
    using resolved_from_present[OF assms] unfolding resolved_present_def by blast
  then show ?thesis unfolding Let_def recent_def CACHE_TTL_SECONDS_def by (intro exI[of _ s]) auto
qed

text \<open>A run of the service for the witnesses: an override that is replaced, then a preference.\<close>

definition demo_config :: config_env where
  "demo_config = \<lparr>ce_base = \<lparr>bc_models = [(''m'', [(''temperature'', JNum 1), (''max_tokens'', JNum 100)])],
       bc_agent_models = [(''helper'', JStr ''m'')],
       bc_agent_configs = [(''helper'', [(''primary'', JStr ''m''), (''skills'', JNull)])]\<rparr>,
     ce_redis_up = (\<lambda>_. True), ce_by_priority = (\<lambda>cs. rev (sort_key co_priority cs)),
     ce_limits_env = \<lparr>le_getenv = (\<lambda>_. None), le_int = (\<lambda>_. None)\<rparr>,
     ce_limits = \<lparr>ls_configured = no_limits, ls_runtime = False\<rparr>, ce_str = (\<lambda>_. [])\<rparr>"

definition demo_world :: config_world where
  "demo_world = \<lparr>cw_rows = \<lparr>cr_overrides = [], cr_prefs = [], cr_allowed = [], cr_uuids = nat_str, cr_uuid_count = 0\<rparr>,
     cw_admin_cache = None, cw_user_cache = [], cw_clock = 0, cw_redis_calls = 0\<rparr>"

definition demo_config_calls :: "config_call list" where
  "demo_config_calls = [Resolve (Some ''u'') True,
     CreateOverride GLOBAL ''top_p'' [(''value'', JNum 1)] None 0 None (Some 10) None, Resolve (Some ''u'') True, PassTime 20]"

lemmas demo_config_eval =
  demo_config_def demo_world_def demo_config_calls_def config_run_def get_resolved_config_def get_cached_user_def
  redis_try_def cache_live_def load_admin_overrides_dict_def get_cached_admin_def get_admin_overrides_def
  active_override_def set_cached_admin_def set_cached_user_def admin_dict_of_def CACHE_TTL_SECONDS_def
  load_user_preferences_dict_def get_user_preferences_def compute_resolved_def available_models_of_def
  resolve_agent_def agent_field_def agent_overrides_of_def entry_or_null_def get_limits_def limits_from_env_def
  read_limit_from_env_def agent_sources_def overridable_fields_def admin_defaults_def base_defaults_def
  default_params_def user_defaults_def user_default_model_def set_default_def get_value_def dict_set_def
  create_admin_override_def fresh_row_def invalidate_admin_cache_def no_limits_def
  add_override.simps Let_def

text \<open>The override of \<open>top_p\<close> has expired, and is still in the answer.\<close>

lemma demo_resolved:
  "map_sum id (\<lambda>(r, _). map_of (rr_defaults r) ''top_p'')
     (snd (get_resolved_config demo_config (Some ''u'') True (config_run demo_config demo_world demo_config_calls))) =
   Inr (Some (JNum 1))"
  by (simp add: demo_config_eval)

theorem resolved_config_age_witness:
  "\<exists>r loaded resolved. map_of (rr_defaults r) ''top_p'' = Some (JNum 1) \<and>
     prefix loaded demo_config_calls \<and> prefix resolved demo_config_calls \<and>
     compute_resolved demo_config (admin_at demo_config (cw_rows (config_run demo_config demo_world loaded))
         (cw_clock (config_run demo_config demo_world loaded)))
       (Some (load_user_preferences_dict ''u'' (cw_rows (config_run demo_config demo_world resolved)))) = Inr r"
proof -
  obtain r c where r: "snd (get_resolved_config demo_config (Some ''u'') True
      (config_run demo_config demo_world demo_config_calls)) = Inr (r, c)" "map_of (rr_defaults r) ''top_p'' = Some (JNum 1)"
    using demo_resolved by (auto simp: map_sum_def split: sum.split_asm)
  have "no_entries demo_world" by (simp add: no_entries_def demo_world_def)
  from resolved_config_age[OF this r(1)] show ?thesis using r(2) unfolding Let_def by blast
qed

theorem changes_take_effect_witness:
  "\<exists>r t. map_of (rr_defaults r) ''top_p'' = Some (JNum 1) \<and> t \<le> 20 \<and>
     compute_resolved demo_config (admin_at demo_config (cw_rows (config_run demo_config demo_world demo_config_calls)) t)
       (Some (load_user_preferences_dict ''u'' (cw_rows (config_run demo_config demo_world demo_config_calls)))) = Inr r"
proof -
  obtain r c where r: "snd (get_resolved_config demo_config (Some ''u'') True
      (config_run demo_config demo_world demo_config_calls)) = Inr (r, c)" "map_of (rr_defaults r) ''top_p'' = Some (JNum 1)"
    using demo_resolved by (auto simp: map_sum_def split: sum.split_asm)
  have start: "no_entries demo_world" "ce_redis_up demo_config n" for n
    by (simp_all add: no_entries_def demo_world_def demo_config_def)
  have "cw_clock (config_run demo_config demo_world demo_config_calls) = 20" by (simp add: demo_config_eval)
  then show ?thesis
    using changes_take_effect[OF start(2,1) r(1)] r(2) unfolding Let_def by metis
qed

subsection \<open>Layers\<close>

lemma ad_global_add:
  "map_of (ad_global (add_override d c)) key =
     (if co_scope c = GLOBAL \<and> co_config_key c = key then Some (co_config_value c) else map_of (ad_global d) key)"
  by (cases "co_scope c") (auto simp: add_override.simps update_conv')

text \<open>
  C38: Among active global overrides of one key the one with the lowest priority takes effect,
  where the model of the table says that higher wins: the rows come sorted by falling priority
  and each overwrites the one before.
\<close>

theorem lowest_priority_wins:
  assumes "mset (ce_by_priority E rows) = mset rows"
    and "sorted_wrt (\<lambda>a b. co_priority b \<le> co_priority a) (ce_by_priority E rows)"
    and "rows = filter (active_override now) (cr_overrides db)"
    and "least \<in> set rows" and "co_scope least = GLOBAL"
    and "\<And>c. c \<in> set rows \<Longrightarrow> co_scope c = GLOBAL \<Longrightarrow> co_config_key c = co_config_key least \<Longrightarrow>
      c = least \<or> co_priority least < co_priority c"
  shows "map_of (ad_global (admin_at E db now)) (co_config_key least) = Some (co_config_value least)"
proof -
  have last_one: "sorted_wrt (\<lambda>a b. co_priority b \<le> co_priority a) cs \<Longrightarrow> least \<in> set cs \<Longrightarrow> set cs \<subseteq> set rows \<Longrightarrow>
      map_of (ad_global (foldl add_override d cs)) (co_config_key least) = Some (co_config_value least)" for cs d
  proof (induction cs arbitrary: d rule: rev_induct)
    case Nil
    then show ?case by simp
  next
    case (snoc c cs)
    show ?case
    proof (cases "c = least")
      case True
      then show ?thesis using assms(5) by (simp add: ad_global_add)
    next
      case False
      then have "least \<in> set cs" using snoc.prems(2) by auto
      then have "co_priority c \<le> co_priority least" using snoc.prems(1) by (simp add: sorted_wrt_append)
      then have other: "\<not> (co_scope c = GLOBAL \<and> co_config_key c = co_config_key least)"
        using assms(6)[of c] False snoc.prems(3) by auto
      have "map_of (ad_global (foldl add_override d cs)) (co_config_key least) = Some (co_config_value least)"
        using snoc \<open>least \<in> set cs\<close> by (simp add: sorted_wrt_append)
      then show ?thesis using other by (auto simp: ad_global_add)
    qed
  qed
  have "set (ce_by_priority E rows) = set rows" using assms(1) by (rule mset_eq_setD)
  then have "least \<in> set (ce_by_priority E rows)" "set (ce_by_priority E rows) \<subseteq> set rows" using assms(4) by auto
  from last_one[OF assms(2) this] show ?thesis unfolding admin_at_def admin_dict_of_def assms(3) .
qed

definition demo_override :: "uuid \<Rightarrow> int \<Rightarrow> rat \<Rightarrow> config_override" where
  "demo_override i priority x = \<lparr>co_id = i, co_scope = GLOBAL, co_scope_key = None, co_config_key = ''top_p'',
     co_config_value = [(''value'', JNum x)], co_priority = priority, co_is_active = True, co_created_by = None,
     co_description = None, co_expires_at = None\<rparr>"

theorem lowest_priority_wins_witness:
  "map_of (ad_global (admin_at demo_config
       ((cw_rows demo_world)\<lparr>cr_overrides := [demo_override ''a'' 10 1, demo_override ''b'' 0 (1 / 2)]\<rparr>) 0)) ''top_p'' =
     Some [(''value'', JNum (1 / 2))]"
proof -
  let ?rows = "[demo_override ''a'' 10 1, demo_override ''b'' 0 (1 / 2)]"
  have "map_of (ad_global (admin_at demo_config ((cw_rows demo_world)\<lparr>cr_overrides := ?rows\<rparr>) 0))
      (co_config_key (demo_override ''b'' 0 (1 / 2))) = Some (co_config_value (demo_override ''b'' 0 (1 / 2)))"
    by (rule lowest_priority_wins[where rows = ?rows])
      (auto simp: demo_config_def demo_override_def active_override_def)
  then show ?thesis by (simp add: demo_override_def)
qed

text \<open>A layer that gives values for some of the keys.\<close>

lemma layer_params:
  assumes "distinct ks"
  shows "map_of (foldl (\<lambda>ps k. case f k of Some v \<Rightarrow> dict_set ps k (get_value v (entry_or_null ps k)) | None \<Rightarrow> ps) params ks) key =
    (if key \<in> set ks
     then (case f key of Some v \<Rightarrow> Some (get_value v (entry_or_null params key)) | None \<Rightarrow> map_of params key)
     else map_of params key)"
  using assms
proof (induction ks arbitrary: params)
  case Nil
  then show ?case by simp
next
  case (Cons k ks)
  then show ?case by (cases "f k") (auto simp: entry_or_null_def split: option.split)
qed

lemma user_params_fold:
  "user_params prefs model params =
     foldl (\<lambda>ps k. case (if map_of (ud_model_params prefs) (model @ ''.'' @ k) \<noteq> None then None else map_of (ud_model_params prefs) k)
         of Some v \<Rightarrow> dict_set ps k (get_value v (entry_or_null ps k)) | None \<Rightarrow> ps)
       (case map_of (ud_model_params prefs) (model @ ''.temperature'') of
          Some v \<Rightarrow> dict_set params ''temperature'' (get_value v (entry_or_null params ''temperature'')) | None \<Rightarrow> params)
       default_params"
  unfolding user_params_def Let_def
  by (rule arg_cong[where f = "\<lambda>f. foldl f _ _"]) (auto simp: fun_eq_iff split: option.split)

lemma user_params_key:
  assumes "key \<in> set default_params"
  shows "map_of (user_params prefs model params) key =
    (case map_of (ud_model_params prefs) (model @ ''.'' @ key) of
       Some v \<Rightarrow> if key = ''temperature'' then Some (get_value v (entry_or_null params key)) else map_of params key
     | None \<Rightarrow>
         (case map_of (ud_model_params prefs) key of
            Some v \<Rightarrow> Some (get_value v (entry_or_null params key)) | None \<Rightarrow> map_of params key))"
proof -
  have "distinct default_params" by (simp add: default_params_def)
  note layer = layer_params[OF this]
  show ?thesis
    using assms unfolding user_params_fold layer
    by (cases "key = ''temperature''") (auto simp: entry_or_null_def split: option.split)
qed

lemma load_admin_rows [simp]: "cw_rows (fst (load_admin_overrides_dict E w)) = cw_rows w"
  by (simp add: load_admin_overrides_dict_def get_cached_admin_def set_cached_admin_def redis_try_def Let_def
      split: option.split)

text \<open>
  The parameters of a model call by layer. A user's general preference overrides what the
  base and the administrators give. A preference for this very model overrides that in turn for
  the temperature only: for the other parameters it has no effect of its own, it merely switches
  the user's general preference off.
\<close>

theorem effective_params_by_layer:
  assumes "map_of (bc_models (ce_base E)) model = Some attrs" and "key \<in> {''temperature'', ''max_tokens'', ''top_p''}"
  shows "let r = (\<lambda>uid. map_of (snd (get_effective_model_params E uid model w)) key);
      prefs = map_of (ud_model_params (load_user_preferences_dict u (cw_rows w)));
      use = (\<lambda>v. Some (get_value v (case r None of Some x \<Rightarrow> x | None \<Rightarrow> JNull)))
    in r (Some u) =
      (case prefs (model @ ''.'' @ key) of
         Some v \<Rightarrow> if key = ''temperature'' then use v else r None
       | None \<Rightarrow> (case prefs key of Some v \<Rightarrow> use v | None \<Rightarrow> r None))"
proof -
  have key: "key \<in> set default_params" using assms(2) by (auto simp: default_params_def)
  obtain w' admin where l: "load_admin_overrides_dict E w = (w', admin)" by fastforce
  then have "cw_rows w' = cw_rows w" using load_admin_rows[of E w] by simp
  obtain params where params: "params = admin_params admin model
      [(''temperature'', entry_or_null attrs ''temperature''), (''max_tokens'', entry_or_null attrs ''max_tokens'')]" by blast
  have r: "snd (get_effective_model_params E None model w) = params"
    "snd (get_effective_model_params E (Some u) model w) =
       user_params (load_user_preferences_dict u (cw_rows w)) model params"
    using \<open>cw_rows w' = cw_rows w\<close> by (simp_all add: get_effective_model_params_def assms(1) l params)
  show ?thesis unfolding Let_def r user_params_key[OF key] entry_or_null_def by (rule refl)
qed

definition demo_pref :: "string \<Rightarrow> rat \<Rightarrow> user_preference" where
  "demo_pref key x = \<lparr>up_id = key, up_user_id = ''u'', up_type = MODEL_PARAMS, up_key = key, up_value = [(''value'', JNum x)],
     up_is_active = True\<rparr>"

text \<open>Both preferences of the user are lost: the limit of the base, 100, stays.\<close>

theorem effective_params_by_layer_witness:
  "map_of (snd (get_effective_model_params demo_config (Some ''u'') ''m''
     (demo_world\<lparr>cw_rows := (cw_rows demo_world)\<lparr>cr_prefs := [demo_pref ''max_tokens'' 7, demo_pref ''m.max_tokens'' 8]\<rparr>\<rparr>)))
     ''max_tokens'' = Some (JNum 100)"
proof -
  let ?w = "demo_world\<lparr>cw_rows := (cw_rows demo_world)\<lparr>cr_prefs := [demo_pref ''max_tokens'' 7, demo_pref ''m.max_tokens'' 8]\<rparr>\<rparr>"
  have "map_of (snd (get_effective_model_params demo_config None ''m'' ?w)) ''max_tokens'' = Some (JNum 100)"
    by (simp add: get_effective_model_params_def admin_params_def demo_config_eval)
  moreover have "map_of (bc_models (ce_base demo_config)) ''m'' = Some [(''temperature'', JNum 1), (''max_tokens'', JNum 100)]"
    by (simp add: demo_config_def)
  ultimately show ?thesis
    using effective_params_by_layer[where E = demo_config and key = "''max_tokens''" and u = "''u''" and w = "?w"]
    by (simp add: Let_def load_user_preferences_dict_def get_user_preferences_def demo_pref_def demo_world_def)
qed

end
