(* ===== verification/ConfigSecurity.thy ===== *)
theory ConfigSecurity
  imports ConfigProperties
begin

text \<open>
  What users can change of the configuration of the agents: the allowlist as an invariant of
  the service, and the difference between the configuration of a user and the one without.
\<close>

subsection \<open>The allowlist\<close>

definition prefs_allowed :: "config_env \<Rightarrow> config_rows \<Rightarrow> bool" where
  "prefs_allowed E db \<longleftrightarrow>
     (\<forall>p\<in>set (cr_prefs db). validate_user_preference E (last_part (up_key p)) (up_value p) db = Inr ())"

lemma validate_cong:
  "find_allowed key db' = find_allowed key db \<Longrightarrow>
   validate_user_preference E key v db' = validate_user_preference E key v db"
  by (simp add: validate_user_preference_def)

lemma validated_found: "validate_user_preference E key v db = Inr x \<Longrightarrow> \<exists>a. find_allowed key db = Some a"
  by (auto simp: validate_user_preference_def split: option.split_asm)

lemma find_allowed_in: "find_allowed key db = Some a \<Longrightarrow> a \<in> set (cr_allowed db) \<and> ao_config_key a = key"
  by (auto simp: find_allowed_def find_Some_iff get_allowed_overrides_def)
    (metis filter_is_subset in_set_conv_nth length_rev nth_mem rev_nth set_rev subsetD)

lemma validate_after_allowed:
  assumes "validate_user_preference E key v db = Inr ()" and "\<not> list_ex (\<lambda>a. ao_config_key a = ao_config_key b) (cr_allowed db)"
    and "cr_allowed db' = cr_allowed db @ [b]"
  shows "validate_user_preference E key v db' = Inr ()"
proof -
  obtain a where "find_allowed key db = Some a" using validated_found[OF assms(1)] by blast
  then have "ao_config_key b \<noteq> key" using find_allowed_in[of key db a] assms(2) by (auto simp: list_ex_iff)
  then have "find_allowed key db' = find_allowed key db"
    by (simp add: find_allowed_def get_allowed_overrides_def assms(3))
  then show ?thesis using validate_cong assms(1) by metis
qed

lemma rows_invalidate [simp]:
  "cw_rows (invalidate_user_cache E uid w) = cw_rows w" "cw_rows (invalidate_admin_cache E w) = cw_rows w"
  by (simp_all add: invalidate_user_cache_def invalidate_admin_cache_def redis_try_def Let_def)

lemma create_allowed_rows:
  "cw_rows (fst (create_allowed_override E k c s n d w)) = cw_rows w \<or>
   (\<exists>b. let db = cw_rows (fst (create_allowed_override E k c s n d w)) in
      cr_prefs db = cr_prefs (cw_rows w) \<and> cr_allowed db = cr_allowed (cw_rows w) @ [b] \<and>
      \<not> list_ex (\<lambda>a. ao_config_key a = ao_config_key b) (cr_allowed (cw_rows w)))"
  by (simp add: create_allowed_override_def fresh_row_def redis_try_def Let_def)

lemma prefs_allowed_cong:
  assumes "prefs_allowed E db" and "cr_allowed db' = cr_allowed db" and "set (cr_prefs db') \<subseteq> set (cr_prefs db)"
  shows "prefs_allowed E db'"
proof -
  have "find_allowed key db' = find_allowed key db" for key
    by (simp add: find_allowed_def get_allowed_overrides_def assms(2))
  then have same: "validate_user_preference E key v db' = validate_user_preference E key v db" for key v
    by (rule validate_cong)
  show ?thesis using assms(1,3) unfolding prefs_allowed_def same by blast
qed

lemma create_preference_rows:
  fixes E uid t key v w
  defines "db \<equiv> cw_rows (fst (create_user_preference E uid t key v w))"
  shows "db = cw_rows w \<or> validate_user_preference E (last_part key) v (cw_rows w) = Inr () \<and>
    cr_allowed db = cr_allowed (cw_rows w) \<and>
    (\<forall>p\<in>set (cr_prefs db). p \<in> set (cr_prefs (cw_rows w)) \<or> up_key p = key \<and> up_value p = v)"
proof (cases "validate_user_preference E (last_part key) v (cw_rows w)")
  case (Inl e)
  then show ?thesis by (simp add: db_def create_user_preference_def)
next
  case (Inr x)
  then show ?thesis by (auto simp: db_def create_user_preference_def fresh_row_def Let_def split: option.split)
qed

lemma create_preference_allowed:
  assumes "prefs_allowed E (cw_rows w)"
  shows "prefs_allowed E (cw_rows (fst (create_user_preference E uid t key v w)))"
proof -
  let ?db = "cw_rows (fst (create_user_preference E uid t key v w))"
  consider "?db = cw_rows w" | "validate_user_preference E (last_part key) v (cw_rows w) = Inr ()"
    "cr_allowed ?db = cr_allowed (cw_rows w)"
    "\<forall>p\<in>set (cr_prefs ?db). p \<in> set (cr_prefs (cw_rows w)) \<or> up_key p = key \<and> up_value p = v"
    using create_preference_rows[of E uid t key v w] by blast
  then show ?thesis
  proof cases
    case 1
    then show ?thesis using assms by simp
  next
    case 2
    have "find_allowed k ?db = find_allowed k (cw_rows w)" for k
      by (simp add: find_allowed_def get_allowed_overrides_def 2(2))
    then have same: "validate_user_preference E k y ?db = validate_user_preference E k y (cw_rows w)" for k y
      by (rule validate_cong)
    show ?thesis using assms 2(1,3) unfolding prefs_allowed_def same by blast
  qed
qed

lemma bulk_allowed:
  "prefs_allowed E (cw_rows w) \<Longrightarrow> prefs_allowed E (cw_rows (fst (bulk_update_preferences E uid ps w)))"
proof (induction ps arbitrary: w)
  case Nil
  then show ?case by simp
next
  case (Cons p ps)
  obtain t key v where p: "p = (t, key, v)" by (cases p)
  obtain w' res where c: "create_user_preference E uid t key v w = (w', res)" by fastforce
  then have "prefs_allowed E (cw_rows w')" using create_preference_allowed[OF Cons.prems, of uid t key v] by simp
  then show ?case
    using Cons.IH[of w'] by (auto simp: p c case_prod_unfold Let_def split: sum.split config_error.split)
qed

lemma reads_rows:
  assumes "reads c"
  shows "cw_rows (config_step E w c) = cw_rows w"
proof -
  note load = load_admin_rows
  have "cw_rows (fst (get_resolved_config E uid b w)) = cw_rows w" for uid b
    using load
    by (auto simp: get_resolved_config_def get_cached_user_def set_cached_user_def redis_try_def Let_def case_prod_unfold
        split: option.split sum.split)
  then show ?thesis
    using assms load
    by (cases c)
      (auto simp: get_effective_model_params_def get_config_with_overrides_def get_available_options_def Let_def
        case_prod_unfold split: option.split)
qed

lemma step_allowed:
  assumes "prefs_allowed E (cw_rows w)"
  shows "prefs_allowed E (cw_rows (config_step E w c))"
proof (cases "reads c")
  case True
  then show ?thesis using assms by (simp add: reads_rows)
next
  case False
  show ?thesis
  proof (cases c)
    case (CreateOverride s k v sk p d e b)
    then show ?thesis
      using assms by (auto simp: create_admin_override_def fresh_row_def Let_def elim!: prefs_allowed_cong)
  next
    case (UpdateOverride i u)
    then show ?thesis
      using assms by (auto simp: update_admin_override_def Let_def split: option.split elim!: prefs_allowed_cong)
  next
    case (DeleteOverride i)
    then show ?thesis
      using assms by (auto simp: delete_admin_override_def Let_def split: option.split elim!: prefs_allowed_cong)
  next
    case (DeletePreference uid k)
    then show ?thesis
      using assms by (auto simp: delete_user_preference_def Let_def split: list.split elim!: prefs_allowed_cong)
  next
    case (CreateAllowed k con s n d)
    show ?thesis
      using create_allowed_rows[of E k con s n d w] unfolding CreateAllowed config_step.simps
    proof (elim disjE exE)
      let ?db = "cw_rows (fst (create_allowed_override E k con s n d w))"
      fix b assume "let db = ?db in cr_prefs db = cr_prefs (cw_rows w) \<and> cr_allowed db = cr_allowed (cw_rows w) @ [b] \<and>
        \<not> list_ex (\<lambda>a. ao_config_key a = ao_config_key b) (cr_allowed (cw_rows w))"
      then have b: "cr_prefs ?db = cr_prefs (cw_rows w)" "cr_allowed ?db = cr_allowed (cw_rows w) @ [b]"
        "\<not> list_ex (\<lambda>a. ao_config_key a = ao_config_key b) (cr_allowed (cw_rows w))"
        by (simp_all add: Let_def)
      show "prefs_allowed E ?db"
        using assms unfolding prefs_allowed_def b(1) by (blast intro: validate_after_allowed[OF _ b(3,2)])
    qed (use assms in simp)
  qed (use assms False create_preference_allowed bulk_allowed in simp_all)
qed

lemma run_allowed: "cr_prefs (cw_rows w) = [] \<Longrightarrow> prefs_allowed E (cw_rows (config_run E w calls))"
proof (induction calls rule: rev_induct)
  case Nil
  then show ?case by (simp add: prefs_allowed_def)
next
  case (snoc c calls)
  then show ?case using step_allowed by simp
qed

subsection \<open>Dictionaries that differ at known keys\<close>

text \<open>Where the second dictionary differs from the first, \<open>T\<close> holds of its key and value.\<close>

definition differ_at :: "(string \<Rightarrow> json \<Rightarrow> bool) \<Rightarrow> jobj \<Rightarrow> jobj \<Rightarrow> bool" where
  "differ_at T d d' \<longleftrightarrow>
     (\<forall>k. map_of d' k = map_of d k \<or> (\<exists>x. map_of d' k = Some x \<and> T k x)) \<and>
     (\<forall>k. map_of (rev d') k = map_of (rev d) k \<or> (\<exists>x. map_of (rev d') k = Some x \<and> T k x))"

lemma differ_at_refl [simp]: "differ_at T d d"
  by (simp add: differ_at_def)

lemma rev_dict_set:
  "map_of (rev (dict_set d p x)) k = map_of (rev d) k \<or> k = p \<and> map_of (rev (dict_set d p x)) k = Some x"
proof (induction d)
  case Nil
  then show ?case by (simp add: dict_set_def)
next
  case (Cons e d)
  then show ?case by (cases e) (auto simp: dict_set_def map_add_def split: option.split)
qed

lemma differ_at_set:
  assumes "differ_at T d d'" and "T p x"
  shows "differ_at T d (dict_set d' p x)"
  unfolding differ_at_def
proof (intro conjI allI)
  fix k
  show "map_of (dict_set d' p x) k = map_of d k \<or> (\<exists>y. map_of (dict_set d' p x) k = Some y \<and> T k y)"
    using assms by (cases "k = p") (simp_all add: differ_at_def)
  show "map_of (rev (dict_set d' p x)) k = map_of (rev d) k \<or> (\<exists>y. map_of (rev (dict_set d' p x)) k = Some y \<and> T k y)"
    using rev_dict_set[of d' p x k] assms(2)
  proof (elim disjE conjE)
    assume "map_of (rev (dict_set d' p x)) k = map_of (rev d') k"
    then show ?thesis using assms(1) by (simp add: differ_at_def)
  qed blast
qed

definition entry_rel :: "(string \<Rightarrow> json \<Rightarrow> bool) \<Rightarrow> json \<Rightarrow> json \<Rightarrow> bool" where
  "entry_rel T j j' \<longleftrightarrow> j = j' \<or> (\<exists>d d'. j = JObj d \<and> j' = JObj d' \<and> differ_at T d d')"

lemma entry_rel_set:
  assumes "entry_rel T j (JObj d)" and "T p x"
  shows "entry_rel T j (JObj (dict_set d p x))"
proof -
  obtain c where "j = JObj c" "differ_at T c d" using assms(1) by (auto simp: entry_rel_def)
  then show ?thesis unfolding entry_rel_def using differ_at_set[where T = T and p = p and x = x, OF _ assms(2)] by (intro disjI2) blast
qed

text \<open>The overrides of the agents without and with the preferences of a user.\<close>

fun ovs_rel :: "(string \<Rightarrow> string \<Rightarrow> json \<Rightarrow> bool) \<Rightarrow> jobj \<Rightarrow> jobj \<Rightarrow> bool" where
  "ovs_rel P [] ovs = (\<forall>(n, j)\<in>set ovs. entry_rel (P n) (JObj []) j)"
| "ovs_rel P (_ # _) [] = False"
| "ovs_rel P ((n, j) # ovs) ((n', j') # ovs') = (n' = n \<and> entry_rel (P n) j j' \<and> ovs_rel P ovs ovs')"

lemma ovs_rel_refl: "ovs_rel P ovs ovs"
proof (induction ovs)
  case (Cons e ovs)
  then show ?case by (cases e) (simp add: entry_rel_def)
qed simp

lemma ovs_rel_set:
  assumes "ovs_rel P ovs ovs'" and "(case map_of ovs' n of Some j \<Rightarrow> j | None \<Rightarrow> JObj []) = JObj d" and "P n p x"
  shows "ovs_rel P ovs (dict_set ovs' n (JObj (dict_set d p x)))"
  using assms(1,2)
proof (induction ovs arbitrary: ovs')
  case Nil
  have "entry_rel (P n) (JObj []) (JObj d)"
    using Nil by (auto simp: entry_rel_def split: option.split_asm dest!: map_of_SomeD)
  then have new: "entry_rel (P n) (JObj []) (JObj (dict_set d p x))" by (rule entry_rel_set[where T = "P n", OF _ assms(3)])
  have "set (dict_set ovs' n (JObj (dict_set d p x))) \<subseteq> insert (n, JObj (dict_set d p x)) (set ovs')"
    by (induction ovs') (auto simp: dict_set_def)
  then show ?case using Nil(1) new by auto
next
  case (Cons e ovs)
  obtain n1 j where e: "e = (n1, j)" by (cases e)
  then obtain j' rest where ovs': "ovs' = (n1, j') # rest" "entry_rel (P n1) j j'" "ovs_rel P ovs rest"
    using Cons.prems(1) by (cases ovs') auto
  show ?case
  proof (cases "n1 = n")
    case True
    then have "entry_rel (P n) j (JObj (dict_set d p x))"
      using ovs' Cons.prems(2) entry_rel_set[where T = "P n" and j = j and d = d, OF _ assms(3)] by simp
    then show ?thesis using True e ovs' by (simp add: dict_set_def)
  next
    case False
    then show ?thesis using Cons.IH[OF ovs'(3)] Cons.prems(2) e ovs' by (simp add: dict_set_def)
  qed
qed

text \<open>A preference of the user for an attribute of an agent.\<close>

definition preferred :: "(string \<times> jobj) list \<Rightarrow> string \<Rightarrow> string \<Rightarrow> json \<Rightarrow> bool" where
  "preferred prefs agent k x \<longleftrightarrow> (\<exists>v. (agent @ ''.'' @ k, v) \<in> set prefs \<and> map_of v ''value'' = Some x)"

lemma split_at_dot: "CHR ''.'' \<in> set key \<Longrightarrow>
  key = takeWhile (\<lambda>c. c \<noteq> CHR ''.'') key @ ''.'' @ drop (Suc (length (takeWhile (\<lambda>c. c \<noteq> CHR ''.'') key))) key"
  by (induction key) auto

lemma add_agent_param_rel:
  assumes "add_agent_param ovs' (key, v) = Inr ovs''" and "(key, v) \<in> set prefs" and "ovs_rel (preferred prefs) ovs ovs'"
  shows "ovs_rel (preferred prefs) ovs ovs''"
proof (cases "CHR ''.'' \<in> set key")
  case False
  then show ?thesis using assms by (simp add: add_agent_param_def)
next
  case True
  let ?name = "takeWhile (\<lambda>c. c \<noteq> CHR ''.'') key" let ?param = "drop (Suc (length ?name)) key"
  obtain x d where x: "map_of v ''value'' = Some x" "(case map_of ovs' ?name of Some j \<Rightarrow> j | None \<Rightarrow> JObj []) = JObj d"
      "ovs'' = dict_set ovs' ?name (JObj (dict_set d ?param x))"
    using assms(1) True by (auto simp: add_agent_param_def Let_def split: option.split_asm json.split_asm)
  have "preferred prefs ?name ?param x"
    using assms(2) x(1) split_at_dot[OF True] unfolding preferred_def by metis
  then show ?thesis unfolding x(3) by (rule ovs_rel_set[OF assms(3) x(2)])
qed

lemma add_agent_params_rel:
  "fold_result add_agent_param ovs' ps = Inr ovs'' \<Longrightarrow> set ps \<subseteq> set prefs \<Longrightarrow> ovs_rel (preferred prefs) ovs ovs' \<Longrightarrow>
   ovs_rel (preferred prefs) ovs ovs''"
proof (induction ps arbitrary: ovs')
  case Nil
  then show ?case by simp
next
  case (Cons e ps)
  obtain key v where e: "e = (key, v)" by (cases e)
  then obtain o1 where "add_agent_param ovs' (key, v) = Inr o1" "fold_result add_agent_param o1 ps = Inr ovs''"
    using Cons.prems(1) by (auto simp: bind_result_Inr_iff)
  then show ?case using Cons.IH[of o1] add_agent_param_rel[of ovs' key v o1 prefs ovs] Cons.prems(2,3) e by simp
qed

subsection \<open>Applying the overrides\<close>

text \<open>The value that is seen under a key is the last one with the key.\<close>

lemma map_of_dict_merge: "map_of (dict_merge d e) k = (case map_of (rev e) k of Some v \<Rightarrow> Some v | None \<Rightarrow> map_of d k)"
  unfolding dict_merge_def
proof (induction e arbitrary: d)
  case Nil
  then show ?case by simp
next
  case (Cons x e)
  then show ?case by (cases x) (auto simp: map_add_def split: option.split)
qed

lemma map_of_filter_keys: "map_of (filter (\<lambda>(k, _). Q k) xs) k = (if Q k then map_of xs k else None)"
  by (induction xs) auto

definition known_attrs :: "jobj \<Rightarrow> jobj \<Rightarrow> jobj" where
  "known_attrs attrs kvs = dict_merge attrs (filter (\<lambda>(k, _). k \<in> fst ` set attrs) kvs)"

lemma known_attrs_keys: "fst ` set (known_attrs attrs kvs) = fst ` set attrs"
  unfolding known_attrs_def dict_merge_keys by force

lemma map_of_known_attrs:
  "map_of (known_attrs attrs kvs) k =
     (if k \<in> fst ` set attrs then (case map_of (rev kvs) k of Some v \<Rightarrow> Some v | None \<Rightarrow> map_of attrs k) else map_of attrs k)"
  unfolding known_attrs_def map_of_dict_merge rev_filter map_of_filter_keys by simp

text \<open>Two configurations of which the second differs where a user prefers it.\<close>

definition attrs_rel :: "(string \<Rightarrow> json \<Rightarrow> bool) \<Rightarrow> jobj option \<Rightarrow> jobj option \<Rightarrow> bool" where
  "attrs_rel T a a' \<longleftrightarrow>
     (case (a, a') of
        (Some d, Some d') \<Rightarrow> fst ` set d' = fst ` set d \<and>
          (\<forall>k. map_of d' k = map_of d k \<or> (\<exists>x. map_of d' k = Some x \<and> T k x))
      | (None, None) \<Rightarrow> True | _ \<Rightarrow> False)"

definition cfg_rel :: "(string \<Rightarrow> string \<Rightarrow> json \<Rightarrow> bool) \<Rightarrow> base_config \<Rightarrow> base_config \<Rightarrow> bool" where
  "cfg_rel P c c' \<longleftrightarrow> bc_models c' = bc_models c \<and>
     (\<forall>n. attrs_rel (P n) (map_of (bc_agent_configs c) n) (map_of (bc_agent_configs c') n)) \<and>
     (\<forall>n. map_of (bc_agent_models c') n = map_of (bc_agent_models c) n \<or>
        (\<exists>x. map_of (bc_agent_models c') n = Some x \<and> P n ''primary'' x))"

lemma cfg_rel_refl: "cfg_rel P c c"
  by (simp add: cfg_rel_def attrs_rel_def split: option.split)

lemma attrs_rel_known:
  assumes "attrs_rel T (Some a) (Some a')" and "differ_at T d d'"
  shows "attrs_rel T (Some (known_attrs a d)) (Some (known_attrs a' d'))"
proof -
  have keys: "fst ` set a' = fst ` set a" and vals: "\<And>k. map_of a' k = map_of a k \<or> (\<exists>x. map_of a' k = Some x \<and> T k x)"
    using assms(1) by (auto simp: attrs_rel_def)
  have "map_of (known_attrs a' d') k = map_of (known_attrs a d) k \<or> (\<exists>x. map_of (known_attrs a' d') k = Some x \<and> T k x)" for k
    using vals[of k] assms(2) unfolding differ_at_def map_of_known_attrs keys
    by (cases "map_of (rev d') k"; cases "map_of (rev d) k") (metis option.distinct(1) option.inject option.simps(4,5))+
  then show ?thesis using keys by (simp add: attrs_rel_def known_attrs_keys)
qed

text \<open>What one entry of the overrides does.\<close>

definition apply_entry :: "base_config \<Rightarrow> string \<Rightarrow> jobj \<Rightarrow> base_config" where
  "apply_entry c n d =
     c\<lparr>bc_agent_models := (case map_of d ''primary'' of Some v \<Rightarrow> AList.update n v (bc_agent_models c) | None \<Rightarrow> bc_agent_models c),
       bc_agent_configs := (case map_of (bc_agent_configs c) n of
          Some attrs \<Rightarrow> AList.update n (known_attrs attrs d) (bc_agent_configs c) | None \<Rightarrow> bc_agent_configs c)\<rparr>"

lemma override_entry_obj: "override_agent_attrs c (n, JObj d) = Inr (apply_entry c n d)"
proof -
  have "json_in ''primary'' (JObj d) = Inr (map_of d ''primary'' \<noteq> None)" by (simp add: map_of_eq_None_iff)
  then show ?thesis
    by (cases "map_of d ''primary''"; cases "map_of (bc_agent_configs c) n")
      (simp_all del: json_in.simps add: override_agent_attrs_def apply_entry_def known_attrs_def)
qed

lemma override_entry_other:
  assumes "override_agent_attrs c (n, j) = Inr c'" and "\<And>d. j \<noteq> JObj d"
  shows "c' = c"
  using assms by (cases j) (auto simp: override_agent_attrs_def bind_result_Inr_iff split: if_splits option.split_asm)

lemma apply_entry_rel:
  assumes "cfg_rel P c c'" and "differ_at (P n) d d'"
  shows "cfg_rel P (apply_entry c n d) (apply_entry c' n d')"
proof -
  have "attrs_rel (P n) (map_of (bc_agent_configs c) n) (map_of (bc_agent_configs c') n)"
    using assms(1) by (simp add: cfg_rel_def)
  then have "attrs_rel (P m) (map_of (bc_agent_configs (apply_entry c n d)) m) (map_of (bc_agent_configs (apply_entry c' n d')) m)" for m
    using assms(1) attrs_rel_known[OF _ assms(2)]
    by (cases "map_of (bc_agent_configs c) n"; cases "map_of (bc_agent_configs c') n"; cases "m = n")
      (auto simp: apply_entry_def update_conv' cfg_rel_def attrs_rel_def)
  moreover have "map_of (bc_agent_models (apply_entry c' n d')) m = map_of (bc_agent_models (apply_entry c n d)) m \<or>
      (\<exists>x. map_of (bc_agent_models (apply_entry c' n d')) m = Some x \<and> P m ''primary'' x)" for m
    using assms
    by (cases "map_of d ''primary''"; cases "map_of d' ''primary''"; cases "m = n")
      (auto simp: apply_entry_def update_conv' cfg_rel_def differ_at_def, (metis option.distinct(1) option.inject)+)
  ultimately show ?thesis using assms(1) by (simp add: cfg_rel_def apply_entry_def)
qed

lemma entry_step:
  assumes "entry_rel (P n) j j'" and "override_agent_attrs c (n, j) = Inr e" and "override_agent_attrs c' (n, j') = Inr e'"
    and "cfg_rel P c c'"
  shows "cfg_rel P e e'"
proof (cases "\<exists>d d'. j = JObj d \<and> j' = JObj d'")
  case True
  then obtain d d' where "j = JObj d" "j' = JObj d'" by blast
  moreover have "differ_at (P n) d d'" using assms(1) calculation by (auto simp: entry_rel_def)
  ultimately show ?thesis using assms(2,3) apply_entry_rel[OF assms(4), of n d d'] by (simp add: override_entry_obj)
next
  case False
  then have "j = j'" "\<And>d. j \<noteq> JObj d" using assms(1) by (auto simp: entry_rel_def)
  then show ?thesis using override_entry_other assms(2-4) by metis
qed

text \<open>An entry that the overrides of the administrators do not have.\<close>

lemma extra_step:
  assumes "entry_rel (P n) (JObj []) j'" and "override_agent_attrs c' (n, j') = Inr e'" and "cfg_rel P c c'"
  shows "cfg_rel P c e'"
proof -
  have "cfg_rel P (apply_entry c n []) e'" by (rule entry_step[OF assms(1) override_entry_obj assms(2,3)])
  moreover have "map_of (bc_agent_configs (apply_entry c n [])) m = map_of (bc_agent_configs c) m" for m
    by (auto simp: apply_entry_def known_attrs_def dict_merge_def update_conv' split: option.split)
  ultimately show ?thesis by (simp add: cfg_rel_def apply_entry_def)
qed

lemma agents_rel:
  "fold_result override_agent_attrs c ovs = Inr e \<Longrightarrow> fold_result override_agent_attrs c' ovs' = Inr e' \<Longrightarrow>
   ovs_rel P ovs ovs' \<Longrightarrow> cfg_rel P c c' \<Longrightarrow> cfg_rel P e e'"
proof (induction ovs arbitrary: c c' ovs')
  case Nil
  then have e: "e = c" and all: "\<forall>(n, j)\<in>set ovs'. entry_rel (P n) (JObj []) j" by simp_all
  show ?case
    using Nil(2,4) all unfolding e
  proof (induction ovs' arbitrary: c')
    case Nil
    then show ?case by simp
  next
    case (Cons x ovs')
    obtain n j where x: "x = (n, j)" by (cases x)
    then obtain d where d: "override_agent_attrs c' (n, j) = Inr d" "fold_result override_agent_attrs d ovs' = Inr e'"
      using Cons.prems(1) by (auto simp: bind_result_Inr_iff)
    have "cfg_rel P c d" using extra_step[OF _ d(1) Cons.prems(2)] Cons.prems(3) x by simp
    then show ?case using Cons.IH[OF d(2)] Cons.prems(3) by simp
  qed
next
  case (Cons x ovs)
  obtain n j where x: "x = (n, j)" by (cases x)
  then obtain j' rest where ovs': "ovs' = (n, j') # rest" "entry_rel (P n) j j'" "ovs_rel P ovs rest"
    using Cons.prems(3) by (cases ovs') auto
  obtain d where d: "override_agent_attrs c (n, j) = Inr d" "fold_result override_agent_attrs d ovs = Inr e"
    using Cons.prems(1) x by (auto simp: bind_result_Inr_iff)
  obtain d' where d': "override_agent_attrs c' (n, j') = Inr d'" "fold_result override_agent_attrs d' rest = Inr e'"
    using Cons.prems(2) ovs'(1) by (auto simp: bind_result_Inr_iff)
  show ?case by (rule Cons.IH[OF d(2) d'(2) ovs'(3) entry_step[OF ovs'(2) d(1) d'(1) Cons.prems(4)]])
qed

lemma agent_params_stored:
  assumes "(key, v) \<in> set (ud_agent_params (load_user_preferences_dict u db))"
  shows "\<exists>p\<in>set (cr_prefs db). up_user_id p = u \<and> up_type p = AGENT_PARAMS \<and> up_key p = key \<and> up_value p = v"
proof -
  have upd: "(k', y) \<in> set (AList.update k z xs) \<Longrightarrow> (k', y) = (k, z) \<or> (k', y) \<in> set xs" for k z k' y and xs :: "(string \<times> jobj) list"
    by (induction xs) (auto split: if_splits)
  have "(key, v) \<in> set (ud_agent_params (foldl add_preference d ps)) \<Longrightarrow>
      (key, v) \<in> set (ud_agent_params d) \<or> (\<exists>p\<in>set ps. up_type p = AGENT_PARAMS \<and> up_key p = key \<and> up_value p = v)" for d ps
  proof (induction ps rule: rev_induct)
    case Nil
    then show ?case by simp
  next
    case (snoc p ps)
    then show ?case by (auto split: preference_type.split_asm dest!: upd)
  qed
  from this[of "\<lparr>ud_default_model = [], ud_model_params = [], ud_agent_params = []\<rparr>" "get_user_preferences u None True db"]
  show ?thesis using assms by (auto simp: load_user_preferences_dict_def get_user_preferences_def)
qed

lemma last_part_dot:
  assumes "CHR ''.'' \<notin> set k"
  shows "last_part (a @ ''.'' @ k) = k"
proof -
  have "\<exists>ws. ws \<noteq> [] \<and> py_split (CHR ''.'') (a @ ''.'' @ k) = ws @ [k]"
  proof (induction a)
    case Nil
    have "py_split (CHR ''.'') ([] @ ''.'' @ k) = [[]] @ [k]" by (simp add: py_split_no_sep[OF assms])
    then show ?case by blast
  next
    case (Cons x a)
    then obtain w ws where ws: "py_split (CHR ''.'') (a @ ''.'' @ k) = (w # ws) @ [k]" by (metis neq_Nil_conv)
    have "py_split (CHR ''.'') ((x # a) @ ''.'' @ k) = (if x = CHR ''.'' then [] # w # ws else (x # w) # ws) @ [k]"
      using ws by simp
    then show ?case by (intro exI[of _ "if x = CHR ''.'' then [] # w # ws else (x # w) # ws"]) simp
  qed
  then show ?thesis unfolding last_part_def by force
qed

definition agent_attr :: "base_config \<Rightarrow> string \<Rightarrow> string \<Rightarrow> json option" where
  "agent_attr cfg agent k = (case map_of (bc_agent_configs cfg) agent of Some attrs \<Rightarrow> map_of attrs k | None \<Rightarrow> None)"

text \<open>
  C26: Users change only what the allowlist lets them: after any calls, the configuration for a
  user has the models of the one without a user, and where an attribute of an agent differs
  the user has stored a preference with that value for that attribute, which the allowlist
  accepts.
\<close>

theorem users_change_only_allowed_attributes:
  assumes "cr_prefs (cw_rows w) = []" and "db = cw_rows (config_run E w calls)"
    and "snd (get_config_with_overrides E None (config_run E w calls)) = Inr plain"
    and "snd (get_config_with_overrides E (Some u) (config_run E w calls)) = Inr cfg"
    and "CHR ''.'' \<notin> set k"
  shows "bc_models cfg = bc_models plain \<and>
    (agent_attr cfg agent k = agent_attr plain agent k \<or>
     (\<exists>p\<in>set (cr_prefs db). up_user_id p = u \<and> up_key p = agent @ ''.'' @ k \<and>
        map_of (up_value p) ''value'' = agent_attr cfg agent k \<and>
        validate_user_preference E k (up_value p) db = Inr ()))"
proof -
  let ?w = "config_run E w calls" let ?prefs = "ud_agent_params (load_user_preferences_dict u db)"
  obtain w1 admin where l: "load_admin_overrides_dict E ?w = (w1, admin)" by fastforce
  have "cw_rows w1 = db" using load_admin_rows[of E ?w] l assms(2) by simp
  then obtain agents where a: "fold_result add_agent_param (unwrap (ad_agent admin)) ?prefs = Inr agents"
      "with_overrides (ce_base E) (unwrap (ad_model admin)) agents = Inr cfg"
      "with_overrides (ce_base E) (unwrap (ad_model admin)) (unwrap (ad_agent admin)) = Inr plain"
    using assms(3,4) by (auto simp: get_config_with_overrides_def l bind_result_Inr_iff)
  then obtain c where c: "fold_result override_agent_attrs c agents = Inr cfg"
      "fold_result override_agent_attrs c (unwrap (ad_agent admin)) = Inr plain"
    by (auto simp: with_overrides_def bind_result_Inr_iff)
  have "ovs_rel (preferred ?prefs) (unwrap (ad_agent admin)) agents"
    by (rule add_agent_params_rel[OF a(1) order_refl ovs_rel_refl])
  from agents_rel[OF c(2,1) this cfg_rel_refl]
  have rel: "cfg_rel (preferred ?prefs) plain cfg" .
  have "agent_attr cfg agent k = agent_attr plain agent k \<or>
      (\<exists>x. agent_attr cfg agent k = Some x \<and> preferred ?prefs agent k x)"
  proof -
    have "attrs_rel (preferred ?prefs agent) (map_of (bc_agent_configs plain) agent) (map_of (bc_agent_configs cfg) agent)"
      using rel unfolding cfg_rel_def by blast
    then show ?thesis unfolding attrs_rel_def agent_attr_def by (auto split: option.split_asm)
  qed
  moreover have "\<exists>p\<in>set (cr_prefs db). up_user_id p = u \<and> up_key p = agent @ ''.'' @ k \<and>
      map_of (up_value p) ''value'' = Some x \<and> validate_user_preference E k (up_value p) db = Inr ()"
    if stored: "preferred ?prefs agent k x" for x
  proof -
    obtain v where v: "(agent @ ''.'' @ k, v) \<in> set ?prefs" "map_of v ''value'' = Some x"
      using stored unfolding preferred_def by blast
    obtain p where "p \<in> set (cr_prefs db)" "up_user_id p = u" "up_key p = agent @ ''.'' @ k" "up_value p = v"
      using agent_params_stored[OF v(1)] by blast
    moreover have "prefs_allowed E db" unfolding assms(2) by (rule run_allowed[OF assms(1)])
    ultimately show ?thesis
      using v(2) last_part_dot[OF assms(5), of agent] unfolding prefs_allowed_def by metis
  qed
  ultimately show ?thesis using rel unfolding cfg_rel_def by metis
qed

definition demo_allowed_calls :: "config_call list" where
  "demo_allowed_calls = [CreateAllowed ''skills'' None None None None,
     SetPreference ''u'' AGENT_PARAMS ''helper.skills'' [(''value'', JStr ''s'')]]"

definition demo_rows :: config_rows where
  "demo_rows = cw_rows (config_run demo_config demo_world demo_allowed_calls)"

lemmas demo_allowed_eval =
  demo_allowed_calls_def get_config_with_overrides_def create_allowed_override_def create_user_preference_def
  validate_user_preference_def last_part_def find_allowed_def get_allowed_overrides_def invalidate_user_cache_def
  add_agent_param_def with_overrides_def unwrap_def override_agent_attrs_def dict_merge_def agent_attr_def
  demo_config_eval

lemma demo_allowed:
  "map_sum id (\<lambda>c. agent_attr c ''helper'' ''skills'')
     (snd (get_config_with_overrides demo_config None (config_run demo_config demo_world demo_allowed_calls))) = Inr (Some JNull)"
  "map_sum id (\<lambda>c. agent_attr c ''helper'' ''skills'')
     (snd (get_config_with_overrides demo_config (Some ''u'') (config_run demo_config demo_world demo_allowed_calls))) =
     Inr (Some (JStr ''s''))"
  by (simp_all add: demo_allowed_eval)

theorem users_change_only_allowed_attributes_witness:
  "\<exists>p\<in>set (cr_prefs demo_rows). up_user_id p = ''u'' \<and> up_key p = ''helper.skills'' \<and>
     map_of (up_value p) ''value'' = Some (JStr ''s'') \<and>
     validate_user_preference demo_config ''skills'' (up_value p) demo_rows = Inr ()"
proof -
  obtain plain cfg where c:
    "snd (get_config_with_overrides demo_config None (config_run demo_config demo_world demo_allowed_calls)) = Inr plain"
    "snd (get_config_with_overrides demo_config (Some ''u'') (config_run demo_config demo_world demo_allowed_calls)) = Inr cfg"
    "agent_attr plain ''helper'' ''skills'' = Some JNull" "agent_attr cfg ''helper'' ''skills'' = Some (JStr ''s'')"
    using demo_allowed by (auto simp: map_sum_def split: sum.split_asm)
  have start: "cr_prefs (cw_rows demo_world) = []" by (simp add: demo_world_def)
  have "CHR ''.'' \<notin> set ''skills''" by simp
  from users_change_only_allowed_attributes[OF start demo_rows_def c(1,2) this, of "''helper''"]
  show ?thesis using c(3,4) by simp
qed

end
