(* ===== verification/UsagePricing.thy ===== *)
theory UsagePricing
  imports Json
begin

text \<open>
  The pricing of token usage: \<open>PricingConfig\<close> and its parts
  (\<open>inference_core/llm/config.py\<close>) and \<open>UsageNormalizer\<close> and \<open>PricingCalculator\<close>
  (\<open>inference_core/llm/usage_logging.py\<close>). A usage is the dictionary a provider reports; its
  values are arbitrary JSON, and arithmetic on a value that is not a number raises. Money and
  token counts are exact rationals: the binary rounding of a \<open>float\<close> and the 28 digits of the
  decimal context are not modelled.
\<close>

type_synonym usage = "(string \<times> json) list"

subsection \<open>Configuration\<close>

record dimension_price =
  dp_cost_per_1k :: rat
  dp_billed_separately :: bool

record context_tier =
  ct_max_context :: int
  ct_multiplier :: rat

record pricing_config =
  pc_currency :: string
  pc_input :: dimension_price
  pc_output :: dimension_price
  pc_extras :: "(string \<times> dimension_price) list"
  pc_key_aliases :: "(string \<times> string) list"
  pc_context_tiers :: "context_tier list"
  pc_rounding :: "nat option"
  pc_passthrough_unpriced :: bool

text \<open>The bounds the field declarations impose; the keys of a dictionary are distinct.\<close>

definition pricing_ok :: "pricing_config \<Rightarrow> bool" where
  "pricing_ok pc \<longleftrightarrow>
     0 \<le> dp_cost_per_1k (pc_input pc) \<and> 0 \<le> dp_cost_per_1k (pc_output pc) \<and>
     list_all (\<lambda>(_, p). 0 \<le> dp_cost_per_1k p) (pc_extras pc) \<and>
     distinct (map fst (pc_extras pc)) \<and> distinct (map fst (pc_key_aliases pc)) \<and>
     list_all (\<lambda>t. 1 \<le> ct_max_context t \<and> 0 \<le> ct_multiplier t) (pc_context_tiers pc) \<and>
     (case pc_rounding pc of None \<Rightarrow> True | Some d \<Rightarrow> d \<le> 10)"

subsection \<open>Normalization\<close>

definition normalize_usage :: "usage \<Rightarrow> (string \<times> string) list \<Rightarrow> usage" where
  "normalize_usage raw_usage key_aliases =
     (let normalized = foldl (\<lambda>n (provider_key, normalized_key).
            case map_of raw_usage provider_key of Some v \<Rightarrow> dict_set n normalized_key v | None \<Rightarrow> n)
            [] key_aliases
      in foldl (\<lambda>n (key, v). if key \<notin> set (map fst key_aliases) then dict_set n key v else n)
           normalized raw_usage)"

subsection \<open>Cost of a usage\<close>

text \<open>The cost of a request, before or after rounding.\<close>

record cost_result =
  cost_input_usd :: "rat option"
  cost_output_usd :: "rat option"
  cost_extras_usd :: rat
  cost_total_usd :: rat
  extra_costs :: "(string \<times> rat) list"
  cost_estimated :: bool
  context_multiplier :: rat

datatype core_dimension = InputTokens | OutputTokens

definition resolve_parent_dimension :: "string \<Rightarrow> core_dimension option" where
  "resolve_parent_dimension dim_name =
     (if contains_any [''cache'', ''cached'', ''prompt'', ''input''] dim_name then Some InputTokens
      else if contains_any [''reasoning'', ''completion'', ''output''] dim_name
      then Some OutputTokens else None)"

definition max_tier :: "context_tier \<Rightarrow> context_tier list \<Rightarrow> context_tier" where
  "max_tier t ts = foldl (\<lambda>m t. if ct_max_context m < ct_max_context t then t else m) t ts"

definition get_context_multiplier :: "rat \<Rightarrow> context_tier list \<Rightarrow> rat" where
  "get_context_multiplier total_tokens tiers =
     (case tiers of [] \<Rightarrow> 1
      | t # ts \<Rightarrow>
          (case find (\<lambda>t. total_tokens \<le> of_int (ct_max_context t)) (sort_key ct_max_context tiers) of
             Some t \<Rightarrow> ct_multiplier t
           | None \<Rightarrow> ct_multiplier (max_tier t ts)))"

definition calculate_dimension_cost :: "rat \<Rightarrow> rat \<Rightarrow> rat \<Rightarrow> rat" where
  "calculate_dimension_cost tokens cost_per_1k multiplier =
     (if tokens \<le> 0 then 0 else tokens / 1000 * cost_per_1k * multiplier)"

text \<open>A value in an arithmetic operation with a number.\<close>

definition usage_number :: "json \<Rightarrow> exn + rat" where
  "usage_number v =
     (case json_number v of Some n \<Rightarrow> Inr n
      | None \<Rightarrow> Inl (TypeError (describe v '' is not a number'')))"

definition usage_get :: "usage \<Rightarrow> string \<Rightarrow> json \<Rightarrow> json" where
  "usage_get u k dflt = (case map_of u k of Some v \<Rightarrow> v | None \<Rightarrow> dflt)"

text \<open>
  What the priced extras take out of the two core counts, because they are a part of them:
  the pair of the entries of \<open>subset_deductions\<close>.
\<close>

fun subset_deductions ::
  "usage \<Rightarrow> (string \<times> dimension_price) list \<Rightarrow> rat \<times> rat \<Rightarrow> exn + (rat \<times> rat)" where
  "subset_deductions u [] d = Inr d"
| "subset_deductions u ((dim_name, p) # extras) (i, out) =
     (case map_of u dim_name of
        None \<Rightarrow> subset_deductions u extras (i, out)
      | Some v \<Rightarrow>
          if dp_billed_separately p then subset_deductions u extras (i, out)
          else (case resolve_parent_dimension dim_name of
              None \<Rightarrow> subset_deductions u extras (i, out)
            | Some InputTokens \<Rightarrow>
                bind_result (usage_number v) (\<lambda>n. subset_deductions u extras (i + n, out))
            | Some OutputTokens \<Rightarrow>
                bind_result (usage_number v) (\<lambda>n. subset_deductions u extras (i, out + n))))"

fun extra_costs_loop ::
  "usage \<Rightarrow> rat \<Rightarrow> (string \<times> dimension_price) list \<Rightarrow> (string \<times> rat) list \<times> rat \<Rightarrow>
   exn + ((string \<times> rat) list \<times> rat)" where
  "extra_costs_loop u multiplier [] acc = Inr acc"
| "extra_costs_loop u multiplier ((dim_name, p) # extras) (costs, acc_usd) =
     (case map_of u dim_name of
        None \<Rightarrow> extra_costs_loop u multiplier extras (costs, acc_usd)
      | Some v \<Rightarrow>
          if json_truthy v then
            bind_result (usage_number v) (\<lambda>tokens.
              let cost = calculate_dimension_cost tokens (dp_cost_per_1k p) multiplier
              in extra_costs_loop u multiplier extras (AList.update dim_name cost costs, acc_usd + cost))
          else extra_costs_loop u multiplier extras (costs, acc_usd))"

fun unpriced_loop :: "string list \<Rightarrow> usage \<Rightarrow> bool \<Rightarrow> exn + bool" where
  "unpriced_loop known [] estimated = Inr estimated"
| "unpriced_loop known ((key, v) # u) estimated =
     (if py_endswith key ''_tokens'' \<and> key \<notin> set known
      then bind_result (usage_number v) (\<lambda>n. unpriced_loop known u (estimated \<or> n > 0))
      else unpriced_loop known u estimated)"

text \<open>\<open>Decimal.quantize\<close> with \<open>ROUND_HALF_UP\<close>: ties go away from zero.\<close>

definition round_half_up :: "nat \<Rightarrow> rat \<Rightarrow> rat" where
  "round_half_up decimals x =
     (let s = 10 ^ decimals in
      if 0 \<le> x then of_int \<lfloor>x * s + 1 / 2\<rfloor> / s else - (of_int \<lfloor>- x * s + 1 / 2\<rfloor> / s))"

definition round_costs :: "cost_result \<Rightarrow> nat \<Rightarrow> cost_result" where
  "round_costs r decimals =
     r\<lparr>cost_input_usd := map_option (round_half_up decimals) (cost_input_usd r),
       cost_output_usd := map_option (round_half_up decimals) (cost_output_usd r),
       cost_extras_usd := round_half_up decimals (cost_extras_usd r),
       cost_total_usd := round_half_up decimals (cost_total_usd r),
       extra_costs := map (\<lambda>(k, c). (k, round_half_up decimals c)) (extra_costs r)\<rparr>"

definition compute_cost :: "usage \<Rightarrow> pricing_config \<Rightarrow> exn + cost_result" where
  "compute_cost u pc =
     bind_result (usage_number (usage_get u ''input_tokens'' (JNum 0))) (\<lambda>input_tokens.
     bind_result (usage_number (usage_get u ''output_tokens'' (JNum 0))) (\<lambda>output_tokens.
     let multiplier = get_context_multiplier (input_tokens + output_tokens) (pc_context_tiers pc) in
     bind_result (subset_deductions u (pc_extras pc) (0, 0)) (\<lambda>(deducted_input, deducted_output).
     let billable_input = max 0 (input_tokens - deducted_input);
         billable_output = max 0 (output_tokens - deducted_output);
         cost_in = (if input_tokens \<noteq> 0
           then Some (calculate_dimension_cost billable_input (dp_cost_per_1k (pc_input pc)) multiplier)
           else None);
         cost_out = (if output_tokens \<noteq> 0
           then Some (calculate_dimension_cost billable_output (dp_cost_per_1k (pc_output pc)) multiplier)
           else None) in
     bind_result (extra_costs_loop u multiplier (pc_extras pc) ([], 0)) (\<lambda>(costs, extras_total).
     bind_result (unpriced_loop ([''input_tokens'', ''output_tokens''] @ map fst (pc_extras pc)) u False)
       (\<lambda>estimated.
     let r = \<lparr>cost_input_usd = cost_in, cost_output_usd = cost_out, cost_extras_usd = extras_total,
              cost_total_usd = (case cost_in of Some c \<Rightarrow> c | None \<Rightarrow> 0)
                + (case cost_out of Some c \<Rightarrow> c | None \<Rightarrow> 0) + extras_total,
              extra_costs = costs, cost_estimated = estimated, context_multiplier = multiplier\<rparr>
     in Inr (case pc_rounding pc of None \<Rightarrow> r | Some decimals \<Rightarrow> round_costs r decimals))))))"

subsection \<open>Usages whose values are numbers\<close>

definition numeric_usage :: "usage \<Rightarrow> bool" where
  "numeric_usage u \<longleftrightarrow> list_all (\<lambda>(_, v). json_number v \<noteq> None) u"

definition number_of :: "json \<Rightarrow> rat" where
  "number_of v = (case json_number v of Some n \<Rightarrow> n | None \<Rightarrow> 0)"

definition token_count :: "usage \<Rightarrow> string \<Rightarrow> rat" where
  "token_count u k = number_of (usage_get u k (JNum 0))"

text \<open>The tokens of the priced extras that are a part of a core count.\<close>

definition included :: "core_dimension \<Rightarrow> usage \<Rightarrow> (string \<times> dimension_price) list \<Rightarrow> rat" where
  "included parent u extras =
     (\<Sum>(d, p)\<leftarrow>extras. if \<not> dp_billed_separately p \<and> resolve_parent_dimension d = Some parent
                   then token_count u d else 0)"

text \<open>The tokens of the priced extras that come on top of the two core counts.\<close>

definition additional :: "usage \<Rightarrow> (string \<times> dimension_price) list \<Rightarrow> rat" where
  "additional u extras =
     (\<Sum>(d, p)\<leftarrow>extras. if dp_billed_separately p \<or> resolve_parent_dimension d = None
                   then token_count u d else 0)"

text \<open>The invoice of a request: what is charged at which price per 1000 tokens.\<close>

definition invoice :: "usage \<Rightarrow> pricing_config \<Rightarrow> (rat \<times> rat) list" where
  "invoice u pc =
     (token_count u ''input_tokens'' - included InputTokens u (pc_extras pc), dp_cost_per_1k (pc_input pc)) #
     (token_count u ''output_tokens'' - included OutputTokens u (pc_extras pc), dp_cost_per_1k (pc_output pc)) #
     map (\<lambda>(d, p). (token_count u d, dp_cost_per_1k p)) (pc_extras pc)"

text \<open>Counts a provider may report: the parts of a count do not exceed it.\<close>

definition consistent_usage :: "usage \<Rightarrow> (string \<times> dimension_price) list \<Rightarrow> bool" where
  "consistent_usage u extras \<longleftrightarrow> numeric_usage u \<and>
     list_all (\<lambda>(d, _). 0 \<le> token_count u d) extras \<and>
     included InputTokens u extras \<le> token_count u ''input_tokens'' \<and>
     included OutputTokens u extras \<le> token_count u ''output_tokens''"

lemma numeric_usage_get:
  "numeric_usage u \<Longrightarrow> map_of u k = Some v \<Longrightarrow> json_number v = Some (number_of v)"
  by (auto simp: numeric_usage_def list_all_iff number_of_def dest!: map_of_SomeD)

lemma usage_number_of: "json_number v = Some n \<Longrightarrow> usage_number v = Inr n"
  by (simp add: usage_number_def)

lemma token_count_eq:
  "token_count u k = (case map_of u k of Some v \<Rightarrow> number_of v | None \<Rightarrow> 0)"
  by (simp add: token_count_def usage_get_def number_of_def split: option.splits)

lemma usage_number_count:
  assumes "numeric_usage u"
  shows "usage_number (usage_get u k (JNum 0)) = Inr (token_count u k)"
proof (cases "map_of u k")
  case None
  then show ?thesis by (simp add: usage_get_def usage_number_def token_count_eq)
next
  case (Some v)
  with numeric_usage_get[OF assms] show ?thesis
    by (simp add: usage_get_def usage_number_of token_count_eq)
qed

lemma truthy_number: "json_number v = Some n \<Longrightarrow> json_truthy v \<longleftrightarrow> n \<noteq> 0"
  by (cases v) (auto split: if_splits)

lemma subset_deductions_numeric:
  assumes "numeric_usage u"
  shows "subset_deductions u extras (i, out) =
    Inr (i + included InputTokens u extras, out + included OutputTokens u extras)"
proof (induction extras arbitrary: i out)
  case Nil
  then show ?case by (simp add: included_def)
next
  case (Cons e extras)
  obtain d p where e: "e = (d, p)" by (cases e)
  show ?case
    using numeric_usage_get[OF assms, of d]
    by (cases "map_of u d"; cases "dp_billed_separately p"; cases "resolve_parent_dimension d")
       (auto simp: e Cons.IH usage_number_of token_count_eq included_def split: core_dimension.splits)
qed

definition extra_cost :: "usage \<Rightarrow> rat \<Rightarrow> string \<times> dimension_price \<Rightarrow> rat" where
  "extra_cost u m = (\<lambda>(d, p). calculate_dimension_cost (token_count u d) (dp_cost_per_1k p) m)"

definition extra_cost_lines ::
  "usage \<Rightarrow> rat \<Rightarrow> (string \<times> dimension_price) list \<Rightarrow> (string \<times> rat) list" where
  "extra_cost_lines u m extras =
     map (\<lambda>e. (fst e, extra_cost u m e)) (filter (\<lambda>e. token_count u (fst e) \<noteq> 0) extras)"

lemma update_append_new: "k \<notin> fst ` set xs \<Longrightarrow> AList.update k v xs = xs @ [(k, v)]"
  by (induction xs) auto

lemma extra_costs_loop_numeric:
  assumes "numeric_usage u" and "distinct (map fst extras)" and "fst ` set costs \<inter> fst ` set extras = {}"
  shows "extra_costs_loop u m extras (costs, s) =
    Inr (costs @ extra_cost_lines u m extras, s + (\<Sum>e\<leftarrow>extras. extra_cost u m e))"
  using assms(2,3)
proof (induction extras arbitrary: costs s)
  case Nil
  then show ?case by (simp add: extra_cost_lines_def)
next
  case (Cons e extras)
  obtain d p where e: "e = (d, p)" by (cases e)
  show ?case
  proof (cases "token_count u d = 0")
    case True
    then have "extra_costs_loop u m (e # extras) (costs, s) = extra_costs_loop u m extras (costs, s)"
      using numeric_usage_get[OF assms(1), of d]
      by (cases "map_of u d") (auto simp: e token_count_eq truthy_number)
    moreover have "extra_cost u m e = 0"
      using True by (simp add: extra_cost_def e calculate_dimension_cost_def)
    ultimately show ?thesis
      using Cons.IH[of costs s] Cons.prems True by (auto simp: e extra_cost_lines_def)
  next
    case False
    then obtain v where v: "map_of u d = Some v" "number_of v \<noteq> 0" "token_count u d = number_of v"
      by (auto simp: token_count_eq split: option.splits)
    have step: "extra_costs_loop u m (e # extras) (costs, s)
        = extra_costs_loop u m extras (costs @ [(d, extra_cost u m e)], s + extra_cost u m e)"
      using v numeric_usage_get[OF assms(1) v(1)] Cons.prems
      by (simp add: e truthy_number usage_number_of Let_def update_append_new extra_cost_def)
    show ?thesis
      unfolding step using Cons.prems False
      by (subst Cons.IH) (auto simp: e extra_cost_lines_def add.assoc)
  qed
qed

definition unpriced :: "usage \<Rightarrow> string list \<Rightarrow> bool" where
  "unpriced u known \<longleftrightarrow>
     list_ex (\<lambda>(k, v). py_endswith k ''_tokens'' \<and> k \<notin> set known \<and> number_of v > 0) u"

lemma unpriced_loop_numeric:
  "numeric_usage u \<Longrightarrow> unpriced_loop known u b = Inr (b \<or> unpriced u known)"
  by (induction u arbitrary: b)
    (auto simp: numeric_usage_def unpriced_def usage_number_def number_of_def)

text \<open>The result on such a usage, without rounding.\<close>

definition exact_cost :: "usage \<Rightarrow> pricing_config \<Rightarrow> cost_result" where
  "exact_cost u pc =
     (let i = token_count u ''input_tokens''; out = token_count u ''output_tokens'';
          m = get_context_multiplier (i + out) (pc_context_tiers pc);
          extras = pc_extras pc;
          cost_in = (if i \<noteq> 0 then Some (calculate_dimension_cost (max 0 (i - included InputTokens u extras))
            (dp_cost_per_1k (pc_input pc)) m) else None);
          cost_out = (if out \<noteq> 0 then Some (calculate_dimension_cost (max 0 (out - included OutputTokens u extras))
            (dp_cost_per_1k (pc_output pc)) m) else None);
          ex = (\<Sum>e\<leftarrow>extras. extra_cost u m e)
      in \<lparr>cost_input_usd = cost_in, cost_output_usd = cost_out, cost_extras_usd = ex,
          cost_total_usd = (case cost_in of Some c \<Rightarrow> c | None \<Rightarrow> 0)
            + (case cost_out of Some c \<Rightarrow> c | None \<Rightarrow> 0) + ex,
          extra_costs = extra_cost_lines u m extras,
          cost_estimated = unpriced u ([''input_tokens'', ''output_tokens''] @ map fst extras),
          context_multiplier = m\<rparr>)"

lemma compute_cost_numeric:
  assumes "numeric_usage u" and "distinct (map fst (pc_extras pc))"
  shows "compute_cost u pc = Inr (case pc_rounding pc of None \<Rightarrow> exact_cost u pc
                                  | Some d \<Rightarrow> round_costs (exact_cost u pc) d)"
  unfolding compute_cost_def usage_number_count[OF assms(1)] bind_result.simps Let_def
    subset_deductions_numeric[OF assms(1)]
  using assms(2)
  by (cases "pc_rounding pc")
    (simp_all add: extra_costs_loop_numeric[OF assms(1)] unpriced_loop_numeric[OF assms(1)] exact_cost_def Let_def)


subsection \<open>Tiers\<close>

lemma max_tier_props:
  "max_tier t ts \<in> set (t # ts) \<and> (\<forall>t'\<in>set (t # ts). ct_max_context t' \<le> ct_max_context (max_tier t ts))"
  unfolding max_tier_def
proof (induction ts arbitrary: t)
  case Nil
  then show ?case by simp
next
  case (Cons x xs)
  show ?case
    using Cons[of t] Cons[of x] by (cases "ct_max_context t < ct_max_context x") force+
qed

lemma find_sorted_least:
  assumes "sorted (map f xs)" and "find (\<lambda>x. c \<le> f x) xs = Some x"
  shows "x \<in> set xs \<and> c \<le> f x \<and> (\<forall>y\<in>set xs. c \<le> f y \<longrightarrow> f x \<le> f y)"
  using assms by (induction xs) (auto split: if_splits)

lemma context_multiplier_tier:
  assumes "tiers \<noteq> []"
  obtains t where "t \<in> set tiers" "get_context_multiplier n tiers = ct_multiplier t"
    "n \<le> of_int (ct_max_context t) \<longrightarrow>
       (\<forall>t'\<in>set tiers. n \<le> of_int (ct_max_context t') \<longrightarrow> ct_max_context t \<le> ct_max_context t')"
    "\<not> n \<le> of_int (ct_max_context t) \<longrightarrow> (\<forall>t'\<in>set tiers. ct_max_context t' \<le> ct_max_context t)"
proof -
  obtain t0 ts where tiers: "tiers = t0 # ts" using assms by (cases tiers) auto
  show thesis
  proof (cases "find (\<lambda>t. n \<le> of_int (ct_max_context t)) (sort_key ct_max_context tiers)")
    case None
    then have none: "\<forall>t\<in>set tiers. \<not> n \<le> of_int (ct_max_context t)"
      by (simp add: find_None_iff)
    with None show thesis
      using max_tier_props[of t0 ts]
      by (intro that[of "max_tier t0 ts"]) (auto simp: get_context_multiplier_def tiers simp del: sort_key_simps)
  next
    case (Some t)
    have "sorted (map (\<lambda>t. of_int (ct_max_context t) :: rat) (sort_key ct_max_context tiers))"
      using sorted_sort_key[of ct_max_context tiers] by (simp add: sorted_map sorted_wrt_mono_rel)
    from find_sorted_least[OF this Some] show thesis
      using Some by (intro that[of t]) (auto simp: get_context_multiplier_def tiers simp del: sort_key_simps)
  qed
qed

lemma context_multiplier_nonneg:
  assumes "pricing_ok pc"
  shows "0 \<le> get_context_multiplier n (pc_context_tiers pc)"
proof (cases "pc_context_tiers pc = []")
  case True
  then show ?thesis by (simp add: get_context_multiplier_def)
next
  case False
  then obtain t where "t \<in> set (pc_context_tiers pc)"
      "get_context_multiplier n (pc_context_tiers pc) = ct_multiplier t"
    by (rule context_multiplier_tier[of _ n])
  with assms show ?thesis by (auto simp: pricing_ok_def list_all_iff)
qed

subsection \<open>Every token is charged once\<close>

lemma dimension_cost_nonneg: "0 \<le> n \<Longrightarrow> calculate_dimension_cost n c m = n / 1000 * c * m"
  by (simp add: calculate_dimension_cost_def)

lemma extra_cost_sum:
  assumes "list_all (\<lambda>(d, _). 0 \<le> token_count u d) extras"
  shows "(\<Sum>e\<leftarrow>extras. extra_cost u m e) =
    (\<Sum>(n, c)\<leftarrow>map (\<lambda>(d, p). (token_count u d, dp_cost_per_1k p)) extras. n * c) * m / 1000"
  using assms
  by (induction extras)
     (auto simp: extra_cost_def dimension_cost_nonneg algebra_simps add_divide_distrib)

lemma included_nonneg:
  "list_all (\<lambda>(d, _). 0 \<le> token_count u d) extras \<Longrightarrow> 0 \<le> included parent u extras"
  by (induction extras) (auto simp: included_def)

lemma extras_split:
  "(\<Sum>(d, _)\<leftarrow>extras. token_count u d) =
     included InputTokens u extras + included OutputTokens u extras + additional u extras"
proof (induction extras)
  case Nil
  then show ?case by (simp add: included_def additional_def)
next
  case (Cons e extras)
  obtain d p where e: "e = (d, p)" by (cases e)
  show ?case
    using Cons.IH
    by (cases "resolve_parent_dimension d"; cases "the (resolve_parent_dimension d)")
      (auto simp: e included_def additional_def)
qed

lemma exact_cost_invoice:
  assumes "consistent_usage u (pc_extras pc)"
  shows "cost_total_usd (exact_cost u pc) =
    (\<Sum>(n, c)\<leftarrow>invoice u pc. n * c) * context_multiplier (exact_cost u pc) / 1000"
proof -
  have cons: "list_all (\<lambda>(d, _). 0 \<le> token_count u d) (pc_extras pc)"
      "included InputTokens u (pc_extras pc) \<le> token_count u ''input_tokens''"
      "included OutputTokens u (pc_extras pc) \<le> token_count u ''output_tokens''"
    using assms by (auto simp: consistent_usage_def)
  note nn = included_nonneg[OF cons(1), of InputTokens] included_nonneg[OF cons(1), of OutputTokens]
  have core: "(case (if n \<noteq> 0 then Some (calculate_dimension_cost (max 0 (n - k)) c m) else None) of
      Some x \<Rightarrow> x | None \<Rightarrow> 0) = (n - k) * c * m / 1000"
    if "0 \<le> k" "k \<le> n" for n k c m :: rat
    using that by (auto simp: dimension_cost_nonneg)
  show ?thesis
    unfolding exact_cost_def Let_def extra_cost_sum[OF cons(1)] cost_result.simps
      core[OF nn(1) cons(2)] core[OF nn(2) cons(3)]
    by (simp add: invoice_def add_divide_distrib distrib_right add.assoc)
qed

subsection \<open>Rounding\<close>

lemma round_costs_simps [simp]:
  "cost_input_usd (round_costs r d) = map_option (round_half_up d) (cost_input_usd r)"
  "cost_output_usd (round_costs r d) = map_option (round_half_up d) (cost_output_usd r)"
  "cost_extras_usd (round_costs r d) = round_half_up d (cost_extras_usd r)"
  "cost_total_usd (round_costs r d) = round_half_up d (cost_total_usd r)"
  "cost_estimated (round_costs r d) = cost_estimated r"
  "context_multiplier (round_costs r d) = context_multiplier r"
  by (simp_all add: round_costs_def)

lemma round_half_up_error: "\<bar>round_half_up d x - x\<bar> \<le> 1 / (2 * 10 ^ d)"
proof -
  have pos: "\<bar>of_int \<lfloor>y * 10 ^ d + 1 / 2\<rfloor> / 10 ^ d - y\<bar> \<le> 1 / (2 * 10 ^ d)" for y :: rat
  proof -
    have "\<bar>of_int \<lfloor>y * 10 ^ d + 1 / 2\<rfloor> - y * 10 ^ d\<bar> \<le> (1 / 2 :: rat)"
      by linarith
    then have "\<bar>of_int \<lfloor>y * 10 ^ d + 1 / 2\<rfloor> - y * 10 ^ d\<bar> / 10 ^ d \<le> (1 / 2 / 10 ^ d :: rat)"
      by (rule divide_right_mono) simp
    moreover have "\<bar>of_int \<lfloor>y * 10 ^ d + 1 / 2\<rfloor> - y * 10 ^ d\<bar> / 10 ^ d
        = \<bar>of_int \<lfloor>y * 10 ^ d + 1 / 2\<rfloor> / 10 ^ d - y\<bar>"
      by (subst abs_div_pos) (simp_all add: diff_divide_distrib)
    ultimately show ?thesis by (simp add: mult.commute)
  qed
  show ?thesis
    using pos[of x] pos[of "- x"] by (auto simp: round_half_up_def Let_def abs_minus_commute)
qed

lemma round_half_up_grid: "\<exists>z :: int. round_half_up d x = of_int z / 10 ^ d"
  unfolding round_half_up_def Let_def
  by (cases "0 \<le> x") (auto intro: exI[of _ "- \<lfloor>- x * 10 ^ d + 1 / 2\<rfloor>"])

end
