(* ===== verification/UsageLogging.thy ===== *)
theory UsageLogging
  imports UsagePricing BatchModels
begin

text \<open>
  \<open>UsageSession\<close> and \<open>sync_pricing_snapshots\<close> of \<open>inference_core/llm/usage_logging.py\<close>, with
  \<open>LLMPricingSnapshot\<close> (\<open>database/sql/models/pricing_snapshot.py\<close>) and \<open>LLMRequestLog\<close>
  (\<open>database/sql/models/llm_request_log.py\<close>). Sessions that finish at the same time, in one
  process or in several, share the two tables, and those of one process its cache of snapshot
  ids; so \<open>finalize\<close> and the synchronization at start-up are sequences of steps, one for each
  database call, that interleave in any order. A row that was flushed but not committed is seen
  by its own transaction only; an insert that meets the same hash in another open transaction
  waits for it. The storage precision of the numeric columns is not modelled.
\<close>

subsection \<open>Snapshots\<close>

record pricing_snapshot =
  ps_id :: uuid
  ps_hash :: string
  ps_provider :: string
  ps_model_name :: string
  ps_input_cost :: rat
  ps_output_cost :: rat
  ps_currency :: string
  ps_extras :: "(string \<times> rat) list option"

text \<open>The dictionary that is hashed; \<open>ue_sha\<close> is SHA-256 of its JSON text.\<close>

definition canonical_pricing ::
  "string \<Rightarrow> string \<Rightarrow> string \<Rightarrow> rat \<Rightarrow> rat \<Rightarrow> (string \<times> rat) list option \<Rightarrow> json" where
  "canonical_pricing provider model_name currency input_cost output_cost extras =
     JObj [(''provider'', JStr provider), (''model_name'', JStr model_name), (''currency'', JStr currency),
           (''input_cost_per_1k'', JNum input_cost), (''output_cost_per_1k'', JNum output_cost),
           (''extras'', JObj (map (\<lambda>(k, c). (k, JObj [(''cost_per_1k'', JNum c)]))
              (sort_key fst (case extras of Some e \<Rightarrow> e | None \<Rightarrow> []))))]"

subsection \<open>Sessions\<close>

record usage_session =
  us_task_type :: string
  us_request_mode :: string
  us_model_name :: string
  us_provider :: string
  us_pricing :: "pricing_config option"
  us_user_id :: "uuid option"
  us_session_id :: "string option"
  us_request_id :: "string option"
  us_enabled :: bool
  us_fail_open :: bool
  us_instance_id :: "uuid option"
  us_instance_name :: "string option"
  us_start_time :: rat
  us_accumulated :: usage
  us_partial :: bool

text \<open>\<open>accumulate\<close>: the entries before one that raises stay added.\<close>

fun accumulate_usage :: "usage \<Rightarrow> usage \<Rightarrow> usage \<times> exn option" where
  "accumulate_usage acc [] = (acc, None)"
| "accumulate_usage acc ((key, v) # fragment) =
     (case json_number v of
        Some n \<Rightarrow>
          (case usage_number (usage_get acc key (JNum 0)) of
             Inl e \<Rightarrow> (acc, Some e)
           | Inr m \<Rightarrow> accumulate_usage (dict_set acc key (JNum (m + n))) fragment)
      | None \<Rightarrow> accumulate_usage (dict_set acc key v) fragment)"

definition accumulate :: "usage \<Rightarrow> usage_session \<Rightarrow> usage_session \<times> exn option" where
  "accumulate fragment s =
     (let (acc, e) = accumulate_usage (us_accumulated s) fragment in (s\<lparr>us_accumulated := acc\<rparr>, e))"

definition extras_pricing :: "pricing_config \<Rightarrow> (string \<times> rat) list" where
  "extras_pricing pc = map (\<lambda>(k, p). (k, dp_cost_per_1k p)) (pc_extras pc)"

definition pricing_key :: "string \<Rightarrow> string \<Rightarrow> pricing_config \<Rightarrow> json" where
  "pricing_key provider model_name pc =
     canonical_pricing provider model_name (pc_currency pc) (dp_cost_per_1k (pc_input pc))
       (dp_cost_per_1k (pc_output pc)) (Some (extras_pricing pc))"

definition new_snapshot :: "uuid \<Rightarrow> string \<Rightarrow> string \<Rightarrow> string \<Rightarrow> pricing_config \<Rightarrow> pricing_snapshot" where
  "new_snapshot i h provider model_name pc =
     \<lparr>ps_id = i, ps_hash = h, ps_provider = provider, ps_model_name = model_name,
      ps_input_cost = dp_cost_per_1k (pc_input pc), ps_output_cost = dp_cost_per_1k (pc_output pc),
      ps_currency = pc_currency pc,
      ps_extras = (if extras_pricing pc = [] then None else Some (extras_pricing pc))\<rparr>"

definition snapshot_key :: "pricing_snapshot \<Rightarrow> json" where
  "snapshot_key r =
     canonical_pricing (ps_provider r) (ps_model_name r) (ps_currency r) (ps_input_cost r)
       (ps_output_cost r) (ps_extras r)"

subsection \<open>The log entry\<close>

record request_log =
  rl_id :: uuid
  rl_user_id :: "uuid option"
  rl_session_id :: "string option"
  rl_task_type :: string
  rl_request_mode :: string
  rl_model_name :: string
  rl_provider :: string
  rl_request_id :: "string option"
  rl_latency_ms :: int
  rl_success :: bool
  rl_error_type :: "string option"
  rl_error_message :: "string option"
  rl_input_tokens :: json
  rl_output_tokens :: json
  rl_total_tokens :: json
  rl_extra_tokens :: usage
  rl_usage_raw :: usage
  rl_pricing_snapshot_id :: "uuid option"
  rl_cost :: "cost_result option"
  rl_streamed :: bool
  rl_partial :: bool
  rl_details :: usage

record finalize_args =
  fa_success :: bool
  fa_error :: "(string \<times> string) option"
  fa_final_usage :: usage
  fa_streamed :: bool
  fa_partial :: bool
  fa_details :: usage

text \<open>\<open>a + b\<close> of two JSON values.\<close>

fun json_add :: "json \<Rightarrow> json \<Rightarrow> exn + json" where
  "json_add (JStr s) (JStr t) = Inr (JStr (s @ t))"
| "json_add (JArr xs) (JArr ys) = Inr (JArr (xs @ ys))"
| "json_add a b =
     bind_result (usage_number a) (\<lambda>m. map_sum id (\<lambda>n. JNum (m + n)) (usage_number b))"

definition merged_usage :: "usage_session \<Rightarrow> finalize_args \<Rightarrow> usage" where
  "merged_usage s a = dict_merge (us_accumulated s) (fa_final_usage a)"

definition total_of :: "usage \<Rightarrow> exn + json" where
  "total_of u =
     (let i = usage_get u ''input_tokens'' JNull; out = usage_get u ''output_tokens'' JNull
      in if i \<noteq> JNull \<and> out \<noteq> JNull then json_add i out else Inr JNull)"

definition extra_tokens_of :: "usage \<Rightarrow> usage" where
  "extra_tokens_of u =
     filter (\<lambda>(k, _). py_endswith k ''_tokens'' \<and>
       k \<notin> {''input_tokens'', ''output_tokens'', ''total_tokens''}) u"

text \<open>The part of \<open>finalize\<close> before the database: the total and the cost, or the exception.\<close>

definition usage_cost :: "usage_session \<Rightarrow> finalize_args \<Rightarrow> exn + (json \<times> cost_result option)" where
  "usage_cost s a =
     bind_result (total_of (merged_usage s a)) (\<lambda>total_tokens.
     case us_pricing s of
       None \<Rightarrow> Inr (total_tokens, None)
     | Some pc \<Rightarrow>
         map_sum id (\<lambda>r. (total_tokens, Some r))
           (compute_cost (normalize_usage (merged_usage s a) (pc_key_aliases pc)) pc))"

definition int_trunc :: "rat \<Rightarrow> int" where
  "int_trunc x = (if 0 \<le> x then \<lfloor>x\<rfloor> else - \<lfloor>- x\<rfloor>)"

definition details_of :: "usage_session \<Rightarrow> finalize_args \<Rightarrow> usage" where
  "details_of s a =
     (let d = fa_details a;
          d = (case us_instance_id s of Some i \<Rightarrow> dict_set d ''instance_id'' (JStr i) | None \<Rightarrow> d)
      in case us_instance_name s of
           Some n \<Rightarrow> if n \<noteq> [] then dict_set d ''instance_name'' (JStr n) else d
         | None \<Rightarrow> d)"

definition log_entry ::
  "uuid \<Rightarrow> rat \<Rightarrow> usage_session \<Rightarrow> finalize_args \<Rightarrow> json \<times> cost_result option \<Rightarrow> uuid option \<Rightarrow> request_log" where
  "log_entry i now s a priced snapshot_id =
     (let u = merged_usage s a in
      \<lparr>rl_id = i, rl_user_id = us_user_id s, rl_session_id = us_session_id s,
       rl_task_type = us_task_type s, rl_request_mode = us_request_mode s,
       rl_model_name = us_model_name s, rl_provider = us_provider s,
       rl_request_id = us_request_id s, rl_latency_ms = int_trunc ((now - us_start_time s) * 1000),
       rl_success = fa_success a, rl_error_type = map_option fst (fa_error a),
       rl_error_message = map_option (\<lambda>(_, m). take 500 m) (fa_error a),
       rl_input_tokens = usage_get u ''input_tokens'' JNull,
       rl_output_tokens = usage_get u ''output_tokens'' JNull,
       rl_total_tokens = fst priced, rl_extra_tokens = extra_tokens_of u, rl_usage_raw = u,
       rl_pricing_snapshot_id = snapshot_id, rl_cost = snd priced,
       rl_streamed = fa_streamed a, rl_partial = fa_partial a, rl_details = details_of s a\<rparr>)"

subsection \<open>Actors and the shared state\<close>

text \<open>
  An actor finishes one session, or synchronizes the snapshots of the configured models. Its
  stage says which database call is next. A call may fail, before or after it took effect.
\<close>

datatype actor_job =
    LogUsage usage_session finalize_args
  | SyncSnapshots "(string \<times> string \<times> pricing_config option) list"

datatype fault = NoFault | FailsBefore exn | FailsAfter exn

datatype stage =
    Begin
  | Missing
  | Flushed pricing_snapshot
  | Conflict
  | Priced "uuid option"
  | Finished "exn + uuid option"
  | SyncSelect "(string \<times> string \<times> pricing_config option) list" "pricing_snapshot list" nat
  | SyncInsert "(string \<times> string \<times> pricing_config option) list" "pricing_snapshot list" nat
  | Synced nat

record usage_env =
  ue_sha :: "json \<Rightarrow> string"
  ue_uuid :: "nat \<Rightarrow> uuid"
  ue_process :: "nat \<Rightarrow> nat"
  ue_job :: "nat \<Rightarrow> actor_job"

record usage_world =
  uw_snapshots :: "pricing_snapshot list"
  uw_logs :: "request_log list"
  uw_cache :: "nat \<Rightarrow> (string \<times> uuid) list"
  uw_stage :: "nat \<Rightarrow> stage"
  uw_next :: nat

fun pending_rows :: "stage \<Rightarrow> pricing_snapshot list" where
  "pending_rows (Flushed r) = [r]"
| "pending_rows (SyncSelect _ rows _) = rows"
| "pending_rows (SyncInsert _ rows _) = rows"
| "pending_rows _ = []"

definition set_stage :: "nat \<Rightarrow> stage \<Rightarrow> usage_world \<Rightarrow> usage_world" where
  "set_stage t st w = w\<lparr>uw_stage := (uw_stage w)(t := st)\<rparr>"

definition find_snapshot :: "string \<Rightarrow> pricing_snapshot list \<Rightarrow> pricing_snapshot option" where
  "find_snapshot h rows = find (\<lambda>r. ps_hash r = h) rows"

text \<open>Another transaction holds an uncommitted row with the hash.\<close>

definition held_by :: "nat \<Rightarrow> nat \<Rightarrow> string \<Rightarrow> usage_world \<Rightarrow> bool" where
  "held_by t t' h w \<longleftrightarrow> t' \<noteq> t \<and> find_snapshot h (pending_rows (uw_stage w t')) \<noteq> None"

definition cache_snapshot :: "usage_env \<Rightarrow> nat \<Rightarrow> string \<Rightarrow> uuid \<Rightarrow> usage_world \<Rightarrow> usage_world" where
  "cache_snapshot E t h i w =
     w\<lparr>uw_cache := (uw_cache w)(ue_process E t := AList.update h i (uw_cache w (ue_process E t)))\<rparr>"

definition commit_rows :: "pricing_snapshot list \<Rightarrow> usage_world \<Rightarrow> usage_world" where
  "commit_rows rows w = w\<lparr>uw_snapshots := uw_snapshots w @ rows\<rparr>"

text \<open>The handler around \<open>finalize\<close>: \<open>fail_open\<close> turns an exception into \<open>None\<close>.\<close>

definition session_failed :: "nat \<Rightarrow> usage_session \<Rightarrow> exn \<Rightarrow> usage_world \<Rightarrow> usage_world" where
  "session_failed t s e = set_stage t (Finished (if us_fail_open s then Inr None else Inl e))"

definition integrity_error :: exn where
  "integrity_error = OtherError ''IntegrityError''"

definition session_hash :: "usage_env \<Rightarrow> usage_session \<Rightarrow> pricing_config \<Rightarrow> string" where
  "session_hash E s pc = ue_sha E (pricing_key (us_provider s) (us_model_name s) pc)"

text \<open>The select by hash, after the in-memory cache.\<close>

definition begin_step ::
  "usage_env \<Rightarrow> fault \<Rightarrow> nat \<Rightarrow> usage_session \<Rightarrow> finalize_args \<Rightarrow> usage_world \<Rightarrow> usage_world" where
  "begin_step E f t s a w =
     (if \<not> us_enabled s then set_stage t (Finished (Inr None)) w
      else case usage_cost s a of
        Inl e \<Rightarrow> session_failed t s e w
      | Inr _ \<Rightarrow>
          (case us_pricing s of
             None \<Rightarrow> set_stage t (Priced None) w
           | Some pc \<Rightarrow>
               let h = session_hash E s pc in
               case map_of (uw_cache w (ue_process E t)) h of
                 Some i \<Rightarrow> set_stage t (Priced (Some i)) w
               | None \<Rightarrow>
                   (case f of
                      NoFault \<Rightarrow>
                        (case find_snapshot h (uw_snapshots w) of
                           Some r \<Rightarrow> set_stage t (Priced (Some (ps_id r))) (cache_snapshot E t h (ps_id r) w)
                         | None \<Rightarrow> set_stage t Missing w)
                    | FailsBefore e \<Rightarrow> session_failed t s e w
                    | FailsAfter e \<Rightarrow> session_failed t s e w)))"

text \<open>The insert. \<open>True\<close> in \<open>blocked\<close>: it waits for the transaction of another actor.\<close>

definition insert_step ::
  "usage_env \<Rightarrow> fault \<Rightarrow> bool \<Rightarrow> nat \<Rightarrow> usage_session \<Rightarrow> pricing_config \<Rightarrow> usage_world \<Rightarrow> usage_world" where
  "insert_step E f blocked t s pc w =
     (let h = session_hash E s pc in
      case f of
        NoFault \<Rightarrow>
          if find_snapshot h (uw_snapshots w) \<noteq> None then set_stage t Conflict w
          else if blocked then w
          else set_stage t
            (Flushed (new_snapshot (ue_uuid E (uw_next w)) h (us_provider s) (us_model_name s) pc))
            (w\<lparr>uw_next := Suc (uw_next w)\<rparr>)
      | FailsBefore e \<Rightarrow> session_failed t s e w
      | FailsAfter e \<Rightarrow> session_failed t s e w)"

definition commit_step ::
  "usage_env \<Rightarrow> fault \<Rightarrow> nat \<Rightarrow> usage_session \<Rightarrow> pricing_snapshot \<Rightarrow> usage_world \<Rightarrow> usage_world" where
  "commit_step E f t s r w =
     (case f of
        NoFault \<Rightarrow>
          set_stage t (Priced (Some (ps_id r))) (cache_snapshot E t (ps_hash r) (ps_id r) (commit_rows [r] w))
      | FailsBefore e \<Rightarrow> session_failed t s e w
      | FailsAfter e \<Rightarrow> session_failed t s e (commit_rows [r] w))"

text \<open>The second select, after the rollback that the \<open>IntegrityError\<close> caused.\<close>

definition requery_step ::
  "usage_env \<Rightarrow> fault \<Rightarrow> nat \<Rightarrow> usage_session \<Rightarrow> pricing_config \<Rightarrow> usage_world \<Rightarrow> usage_world" where
  "requery_step E f t s pc w =
     (let h = session_hash E s pc in
      case f of
        NoFault \<Rightarrow>
          (case find_snapshot h (uw_snapshots w) of
             Some r \<Rightarrow> set_stage t (Priced (Some (ps_id r))) (cache_snapshot E t h (ps_id r) w)
           | None \<Rightarrow> session_failed t s integrity_error w)
      | FailsBefore e \<Rightarrow> session_failed t s e w
      | FailsAfter e \<Rightarrow> session_failed t s e w)"

definition add_log ::
  "usage_env \<Rightarrow> rat \<Rightarrow> usage_session \<Rightarrow> finalize_args \<Rightarrow> json \<times> cost_result option \<Rightarrow> uuid option \<Rightarrow>
   usage_world \<Rightarrow> usage_world \<times> uuid" where
  "add_log E now s a priced snapshot_id w =
     (let i = ue_uuid E (uw_next w)
      in (w\<lparr>uw_next := Suc (uw_next w), uw_logs := uw_logs w @ [log_entry i now s a priced snapshot_id]\<rparr>, i))"

definition log_step ::
  "usage_env \<Rightarrow> fault \<Rightarrow> rat \<Rightarrow> nat \<Rightarrow> usage_session \<Rightarrow> finalize_args \<Rightarrow> uuid option \<Rightarrow> usage_world \<Rightarrow>
   usage_world" where
  "log_step E f now t s a snapshot_id w =
     (case usage_cost s a of
        Inl e \<Rightarrow> session_failed t s e w
      | Inr priced \<Rightarrow>
          (case f of
             NoFault \<Rightarrow> (let (w', i) = add_log E now s a priced snapshot_id w
                         in set_stage t (Finished (Inr (Some i))) w')
           | FailsBefore e \<Rightarrow> session_failed t s e w
           | FailsAfter e \<Rightarrow> session_failed t s e (fst (add_log E now s a priced snapshot_id w))))"

definition finalize_step ::
  "usage_env \<Rightarrow> fault \<Rightarrow> bool \<Rightarrow> rat \<Rightarrow> nat \<Rightarrow> usage_session \<Rightarrow> finalize_args \<Rightarrow> usage_world \<Rightarrow> usage_world" where
  "finalize_step E f blocked now t s a w =
     (case (uw_stage w t, us_pricing s) of
        (Begin, _) \<Rightarrow> begin_step E f t s a w
      | (Missing, Some pc) \<Rightarrow> insert_step E f blocked t s pc w
      | (Flushed r, _) \<Rightarrow> commit_step E f t s r w
      | (Conflict, Some pc) \<Rightarrow> requery_step E f t s pc w
      | (Priced i, _) \<Rightarrow> log_step E f now t s a i w
      | _ \<Rightarrow> w)"

text \<open>
  \<open>sync_pricing_snapshots\<close>: one transaction for all models; an \<open>IntegrityError\<close> rolls back
  everything that was flushed so far.
\<close>

definition sync_step ::
  "usage_env \<Rightarrow> fault \<Rightarrow> bool \<Rightarrow> nat \<Rightarrow> (string \<times> string \<times> pricing_config option) list \<Rightarrow> usage_world \<Rightarrow>
   usage_world" where
  "sync_step E f blocked t models w =
     (case uw_stage w t of
        Begin \<Rightarrow> set_stage t (SyncSelect models [] 0) w
      | SyncSelect [] rows added \<Rightarrow>
          (case f of
             FailsBefore _ \<Rightarrow> set_stage t (Synced added) w
           | _ \<Rightarrow> set_stage t (Synced added) (commit_rows rows w))
      | SyncSelect ((model_name, provider, None) # ms) rows added \<Rightarrow> set_stage t (SyncSelect ms rows added) w
      | SyncSelect ((model_name, provider, Some pc) # ms) rows added \<Rightarrow>
          if f \<noteq> NoFault then set_stage t (Synced added) w
          else if find_snapshot (ue_sha E (pricing_key provider model_name pc)) (uw_snapshots w @ rows) \<noteq> None
          then set_stage t (SyncSelect ms rows added) w
          else set_stage t (SyncInsert ((model_name, provider, Some pc) # ms) rows added) w
      | SyncInsert ((model_name, provider, Some pc) # ms) rows added \<Rightarrow>
          let h = ue_sha E (pricing_key provider model_name pc) in
          if f \<noteq> NoFault then set_stage t (Synced added) w
          else if find_snapshot h (uw_snapshots w @ rows) \<noteq> None then set_stage t (SyncSelect ms [] added) w
          else if blocked then w
          else set_stage t
            (SyncSelect ms (rows @ [new_snapshot (ue_uuid E (uw_next w)) h provider model_name pc]) (Suc added))
            (w\<lparr>uw_next := Suc (uw_next w)\<rparr>)
      | _ \<Rightarrow> w)"

definition actor_step :: "usage_env \<Rightarrow> fault \<Rightarrow> bool \<Rightarrow> rat \<Rightarrow> nat \<Rightarrow> usage_world \<Rightarrow> usage_world" where
  "actor_step E f blocked now t w =
     (case ue_job E t of
        LogUsage s a \<Rightarrow> finalize_step E f blocked now t s a w
      | SyncSnapshots models \<Rightarrow> sync_step E f blocked t models w)"

text \<open>The hash an actor is about to insert.\<close>

definition wanted_hash :: "usage_env \<Rightarrow> nat \<Rightarrow> usage_world \<Rightarrow> string option" where
  "wanted_hash E t w =
     (case (ue_job E t, uw_stage w t) of
        (LogUsage s a, Missing) \<Rightarrow> map_option (session_hash E s) (us_pricing s)
      | (SyncSnapshots _, SyncInsert ((model_name, provider, Some pc) # ms) rows added) \<Rightarrow>
          Some (ue_sha E (pricing_key provider model_name pc))
      | _ \<Rightarrow> None)"

text \<open>\<open>reset_usage_logging_cache\<close> in one process.\<close>

definition reset_usage_logging_cache :: "nat \<Rightarrow> usage_world \<Rightarrow> usage_world" where
  "reset_usage_logging_cache p w = w\<lparr>uw_cache := (uw_cache w)(p := [])\<rparr>"

definition empty_usage_world :: usage_world where
  "empty_usage_world =
     \<lparr>uw_snapshots = [], uw_logs = [], uw_cache = (\<lambda>_. []), uw_stage = (\<lambda>_. Begin), uw_next = 0\<rparr>"

text \<open>
  One step of the whole system: an actor makes its next database call, a process clears its
  cache, or an actor is killed. An insert waits while another transaction holds the hash.
\<close>

inductive usage_step :: "usage_env \<Rightarrow> usage_world \<Rightarrow> usage_world \<Rightarrow> bool" for E where
  act: "(blocked \<longleftrightarrow> (\<exists>h t'. wanted_hash E t w = Some h \<and> held_by t t' h w)) \<Longrightarrow>
    usage_step E w (actor_step E f blocked now t w)"
| reset: "usage_step E w (reset_usage_logging_cache p w)"
| kill: "usage_step E w (set_stage t (Finished (Inl e)) w)"

abbreviation usage_reachable :: "usage_env \<Rightarrow> usage_world \<Rightarrow> bool" where
  "usage_reachable E w \<equiv> (usage_step E)\<^sup>*\<^sup>* empty_usage_world w"

inductive_cases usage_stepE: "usage_step E w w'"

text \<open>
  \<open>finalize_sync\<close>: the outcome of \<open>finalize\<close>, \<^const>\<open>None\<close> when it did not end within 30 seconds.
\<close>

definition finalize_sync :: "usage_session \<Rightarrow> (exn + uuid option) option \<Rightarrow> exn + uuid option" where
  "finalize_sync s outcome =
     (case outcome of
        None \<Rightarrow> Inr None
      | Some (Inr i) \<Rightarrow> Inr i
      | Some (Inl e) \<Rightarrow> if us_fail_open s then Inr None else Inl e)"

text \<open>\<open>UsageLogger.start_session\<close>.\<close>

definition start_session ::
  "bool \<Rightarrow> bool \<Rightarrow> rat \<Rightarrow> string \<Rightarrow> string \<Rightarrow> string \<Rightarrow> string \<Rightarrow> pricing_config option \<Rightarrow> uuid option \<Rightarrow>
   string option \<Rightarrow> string option \<Rightarrow> usage_session" where
  "start_session enabled fail_open now task_type request_mode model_name provider pricing uid session_id request_id =
     \<lparr>us_task_type = task_type, us_request_mode = request_mode, us_model_name = model_name,
      us_provider = provider, us_pricing = pricing, us_user_id = uid, us_session_id = session_id,
      us_request_id = request_id, us_enabled = enabled, us_fail_open = fail_open, us_instance_id = None,
      us_instance_name = None, us_start_time = now, us_accumulated = [], us_partial = False\<rparr>"

subsection \<open>Rows of a unique column\<close>

text \<open>
  The committed rows and the uncommitted rows of every actor have pairwise different values in
  the column.
\<close>

definition unique_column ::
  "(pricing_snapshot \<Rightarrow> 'k) \<Rightarrow> pricing_snapshot list \<Rightarrow> (nat \<Rightarrow> pricing_snapshot list) \<Rightarrow> bool" where
  "unique_column key rows pend \<longleftrightarrow>
     (\<forall>t. distinct (map key (rows @ pend t))) \<and>
     (\<forall>t t'. t \<noteq> t' \<longrightarrow> key ` set (pend t) \<inter> key ` set (pend t') = {})"

lemma unique_column_parts:
  "unique_column key rows pend \<longleftrightarrow> distinct (map key rows) \<and>
     (\<forall>t. distinct (map key (pend t)) \<and> key ` set rows \<inter> key ` set (pend t) = {}) \<and>
     (\<forall>t t'. t \<noteq> t' \<longrightarrow> key ` set (pend t) \<inter> key ` set (pend t') = {})"
  unfolding unique_column_def map_append distinct_append set_map by blast

lemma unique_column_commit:
  assumes "unique_column key rows pend" and "xs = pend t \<or> xs = []"
  shows "unique_column key (rows @ xs) (pend(t := []))"
  unfolding unique_column_parts
proof (intro conjI allI impI)
  note u = assms(1)[unfolded unique_column_parts]
  show "distinct (map key (rows @ xs))"
    using u assms(2) by (metis append_Nil2 distinct_append map_append set_map)
  show "distinct (map key ((pend(t := [])) t'))" for t'
    using u by simp
  show "key ` set (rows @ xs) \<inter> key ` set ((pend(t := [])) t') = {}" for t'
  proof (cases "t' = t")
    case False
    then have "key ` set xs \<inter> key ` set (pend t') = {}" "key ` set rows \<inter> key ` set (pend t') = {}"
      using u assms(2) by (metis empty_set image_empty inf_bot_left)+
    with False show ?thesis by (simp add: image_Un Int_Un_distrib2)
  qed simp
  show "key ` set ((pend(t := [])) t') \<inter> key ` set ((pend(t := [])) t'') = {}" if "t' \<noteq> t''" for t' t''
    using u that by simp
qed

lemma unique_column_drop:
  assumes "unique_column key rows pend"
  shows "unique_column key rows (pend(t := []))"
  using unique_column_commit[OF assms disjI2, of "[]" t] by simp

lemma unique_column_insert:
  assumes "unique_column key rows pend" and "key r \<notin> key ` set rows" and "\<And>t'. key r \<notin> key ` set (pend t')"
  shows "unique_column key rows (pend(t := pend t @ [r]))"
  unfolding unique_column_parts
proof (intro conjI allI impI)
  note u = assms(1)[unfolded unique_column_parts]
  show "distinct (map key rows)" using u by blast
  show "distinct (map key ((pend(t := pend t @ [r])) t'))" for t'
    using u assms(3)[of t] by simp
  show "key ` set rows \<inter> key ` set ((pend(t := pend t @ [r])) t') = {}" for t'
    using u assms(2) by simp
  show "key ` set ((pend(t := pend t @ [r])) t') \<inter> key ` set ((pend(t := pend t @ [r])) t'') = {}"
    if "t' \<noteq> t''" for t' t''
    using u that assms(3)[of t'] assms(3)[of t''] by (auto simp: fun_upd_apply)
qed

end
