(* ===== verification/CostTracking.thy ===== *)
theory CostTracking
  imports UsageLogging
begin

text \<open>
  \<open>inference_core/agents/middleware/cost_tracking.py\<close> with the request-local context of
  \<open>_runtime_context.py\<close>: the hooks that log the usage of every model call of an agent and keep
  the totals of the run in the state of the graph. How a session is finished is a function in
  the environment (\<open>ce_finalize\<close>), which \<open>CostProperties\<close> instantiates with the model of
  \<open>UsageLogging\<close>; the tokenizer, \<open>str\<close> of a value and the parser of UUIDs are parameters. The
  model name in the metadata of a response is a text, as the framework documents it.
\<close>

subsection \<open>Request-local context\<close>

record runtime_context =
  rc_user_id :: "uuid option"
  rc_session_id :: "string option"
  rc_request_id :: "string option"
  rc_instance_id :: "uuid option"
  rc_instance_name :: "string option"
  rc_primary_model :: "string option"
  rc_system_prompt_override :: "string option"
  rc_system_prompt_append :: "string option"
  rc_memory_session_context :: "bool option"
  rc_memory_tool_instructions :: "bool option"

definition empty_context :: runtime_context where
  "empty_context = \<lparr>rc_user_id = None, rc_session_id = None, rc_request_id = None, rc_instance_id = None,
     rc_instance_name = None, rc_primary_model = None, rc_system_prompt_override = None,
     rc_system_prompt_append = None, rc_memory_session_context = None, rc_memory_tool_instructions = None\<rparr>"

record 'w cost_env =
  ce_finalize :: "'w \<Rightarrow> usage_session \<Rightarrow> finalize_args \<Rightarrow> 'w \<times> (exn + uuid option)"
  ce_timed_out :: bool
  ce_encode :: "(string \<Rightarrow> nat) option"
  ce_str :: "json \<Rightarrow> string"
  ce_uuid :: "string \<Rightarrow> uuid option"
  ce_models :: "(string \<times> pricing_config option) list option"
  ce_now :: rat

text \<open>\<open>str(v)\<close>, and \<open>configurable.get(k) is not None\<close>.\<close>

definition str_of :: "'w cost_env \<Rightarrow> json \<Rightarrow> string" where
  "str_of E v = (case v of JStr s \<Rightarrow> s | _ \<Rightarrow> ce_str E v)"

definition configured :: "usage \<Rightarrow> string \<Rightarrow> json option" where
  "configured c k = (case map_of c k of Some v \<Rightarrow> if v = JNull then None else Some v | None \<Rightarrow> None)"

definition parse_uuid :: "'w cost_env \<Rightarrow> json \<Rightarrow> exn + uuid" where
  "parse_uuid E v =
     (case ce_uuid E (str_of E v) of
        Some i \<Rightarrow> Inr i
      | None \<Rightarrow> Inl (ValueError ''badly formed hexadecimal UUID string''))"

definition set_text ::
  "'w cost_env \<Rightarrow> usage \<Rightarrow> string \<Rightarrow> ((string option \<Rightarrow> string option) \<Rightarrow> runtime_context \<Rightarrow> runtime_context) \<Rightarrow>
   runtime_context \<Rightarrow> runtime_context" where
  "set_text E c k upd rc = (case configured c k of Some v \<Rightarrow> upd (\<lambda>_. Some (str_of E v)) rc | None \<Rightarrow> rc)"

definition set_flag ::
  "usage \<Rightarrow> string \<Rightarrow> ((bool option \<Rightarrow> bool option) \<Rightarrow> runtime_context \<Rightarrow> runtime_context) \<Rightarrow>
   runtime_context \<Rightarrow> runtime_context" where
  "set_flag c k upd rc = (case configured c k of Some v \<Rightarrow> upd (\<lambda>_. Some (json_truthy v)) rc | None \<Rightarrow> rc)"

text \<open>A malformed id raises, after the variables before it were set.\<close>

definition set_uuid ::
  "'w cost_env \<Rightarrow> usage \<Rightarrow> string \<Rightarrow> ((uuid option \<Rightarrow> uuid option) \<Rightarrow> runtime_context \<Rightarrow> runtime_context) \<Rightarrow>
   runtime_context \<Rightarrow> exn + runtime_context" where
  "set_uuid E c k upd rc =
     (case configured c k of
        Some v \<Rightarrow> map_sum id (\<lambda>i. upd (\<lambda>_. Some i) rc) (parse_uuid E v)
      | None \<Rightarrow> Inr rc)"

definition populate_from_configurable ::
  "'w cost_env \<Rightarrow> usage \<Rightarrow> runtime_context \<Rightarrow> runtime_context \<times> exn option" where
  "populate_from_configurable E c rc =
     (case set_uuid E c ''user_id'' rc_user_id_update rc of
        Inl e \<Rightarrow> (rc, Some e)
      | Inr rc1 \<Rightarrow>
          let rc2 = set_text E c ''request_id'' rc_request_id_update
                (set_text E c ''session_id'' rc_session_id_update rc1) in
          case set_uuid E c ''instance_id'' rc_instance_id_update rc2 of
            Inl e \<Rightarrow> (rc2, Some e)
          | Inr rc3 \<Rightarrow>
              (set_flag c ''memory_tool_instructions_enabled'' rc_memory_tool_instructions_update
                (set_flag c ''memory_session_context_enabled'' rc_memory_session_context_update
                (set_text E c ''system_prompt_append'' rc_system_prompt_append_update
                (set_text E c ''system_prompt_override'' rc_system_prompt_override_update
                (set_text E c ''primary_model'' rc_primary_model_update
                (set_text E c ''instance_name'' rc_instance_name_update rc3))))), None))"

subsection \<open>The usage of a response\<close>

record ai_message =
  am_usage :: json
  am_model_name :: "string option"
  am_content :: json

definition or_zero :: "json \<Rightarrow> json" where
  "or_zero v = (if json_truthy v then v else JNum 0)"

definition meta_details :: "usage \<Rightarrow> string \<Rightarrow> exn + usage" where
  "meta_details meta k =
     (case map_of meta k of
        None \<Rightarrow> Inr []
      | Some v \<Rightarrow>
          if json_truthy v
          then (case v of JObj kvs \<Rightarrow> Inr kvs
                | _ \<Rightarrow> Inl (AttributeError (describe v '' object has no attribute items'')))
          else Inr [])"

definition lookup_int :: "(string \<times> int) list \<Rightarrow> string \<Rightarrow> int" where
  "lookup_int m k = (case map_of m k of Some n \<Rightarrow> n | None \<Rightarrow> 0)"

text \<open>One token detail: only positive numbers are kept.\<close>

definition add_detail ::
  "usage \<times> (string \<times> int) list \<Rightarrow> string \<times> json \<Rightarrow> usage \<times> (string \<times> int) list" where
  "add_detail acc kv =
     (case (acc, kv) of ((fragment, extra), (token_key, v)) \<Rightarrow>
        (case json_number v of
           Some n \<Rightarrow>
             if n > 0 then (dict_set fragment token_key v,
                AList.update token_key (lookup_int extra token_key + int_trunc n) extra)
             else (fragment, extra)
         | None \<Rightarrow> (fragment, extra)))"

definition extract_usage_fragment :: "usage \<Rightarrow> exn + (usage \<times> (string \<times> int) list)" where
  "extract_usage_fragment meta =
     (let input_tokens = or_zero (usage_get meta ''input_tokens'' (JNum 0));
          output_tokens = or_zero (usage_get meta ''output_tokens'' (JNum 0)) in
      bind_result (json_add input_tokens output_tokens) (\<lambda>sum.
      bind_result (meta_details meta ''input_token_details'') (\<lambda>input_details.
      bind_result (meta_details meta ''output_token_details'') (\<lambda>output_details.
      let fragment = [(''input_tokens'', input_tokens), (''output_tokens'', output_tokens),
                      (''total_tokens'', usage_get meta ''total_tokens'' sum)];
          suffixed = map (\<lambda>(k, v). (k @ ''_tokens'', v));
          others = filter (\<lambda>(k, _). py_endswith k ''_tokens'' \<and>
            k \<notin> {''input_tokens'', ''output_tokens'', ''total_tokens''}) meta
      in Inr (foldl add_detail (fragment, []) (suffixed input_details @ suffixed output_details @ others))))))"

definition content_text :: "'w cost_env \<Rightarrow> json \<Rightarrow> string" where
  "content_text E c =
     (if \<not> json_truthy c then []
      else case c of
        JArr xs \<Rightarrow> py_join '' '' (map (\<lambda>x. case x of
            JObj kvs \<Rightarrow> str_of E (usage_get kvs ''text'' (JStr [])) | _ \<Rightarrow> str_of E x) xs)
      | _ \<Rightarrow> str_of E c)"

definition count_tokens :: "'w cost_env \<Rightarrow> string \<Rightarrow> nat" where
  "count_tokens E text =
     (case ce_encode E of Some enc \<Rightarrow> enc text | None \<Rightarrow> max 1 (length text div 4))"

definition estimate_token_usage :: "'w cost_env \<Rightarrow> json list \<Rightarrow> usage option" where
  "estimate_token_usage E contents =
     (if contents = [] then None
      else
        let input_tokens = sum_list (map (\<lambda>c. count_tokens E (content_text E c) + 4) (butlast contents));
            output_tokens = count_tokens E (content_text E (last contents))
        in if input_tokens = 0 \<and> output_tokens = 0 then None
           else Some [(''input_tokens'', JNum (of_nat input_tokens)), (''output_tokens'', JNum (of_nat output_tokens)),
                      (''total_tokens'', JNum (of_nat (input_tokens + output_tokens)))])"

definition merge_extra_tokens :: "(string \<times> int) list \<Rightarrow> (string \<times> int) list \<Rightarrow> (string \<times> int) list" where
  "merge_extra_tokens accumulated current =
     foldl (\<lambda>m (k, n). AList.update k (lookup_int m k + n) m) accumulated current"

definition detect_provider :: "string \<Rightarrow> string" where
  "detect_provider model_name =
     (let m = py_lower model_name in
      if contains_any [''gpt'', ''o1'', ''o3'', ''davinci'', ''turbo''] m then ''openai''
      else if contains_any [''claude'', ''anthropic''] m then ''anthropic''
      else if contains_any [''gemini'', ''palm'', ''bard''] m then ''google''
      else if contains_any [''llama'', ''mistral'', ''mixtral''] m then ''meta''
      else if py_contains ''deepseek'' m then ''deepseek'' else ''unknown'')"

subsection \<open>The middleware and the run\<close>

record cost_middleware =
  cm_pricing_config :: "pricing_config option"
  cm_user_id :: "uuid option"
  cm_session_id :: "string option"
  cm_request_id :: "string option"
  cm_enabled :: bool
  cm_fail_open :: bool
  cm_task_type :: string
  cm_request_mode :: string
  cm_provider :: "string option"
  cm_model_name :: "string option"
  cm_instance_id :: "uuid option"
  cm_instance_name :: "string option"

record mw_context =
  mc_start_time :: "rat option"
  mc_log_id :: "uuid option"
  mc_cost_usd :: "rat option"
  mc_model_name :: "string option"
  mc_fragment :: "usage option"
  mc_extra_tokens :: "(string \<times> int) list option"
  mc_is_estimated :: bool

definition fresh_mw_context :: mw_context where
  "fresh_mw_context = \<lparr>mc_start_time = None, mc_log_id = None, mc_cost_usd = None, mc_model_name = None,
     mc_fragment = None, mc_extra_tokens = None, mc_is_estimated = False\<rparr>"

record cost_state =
  ca_input_tokens :: json
  ca_output_tokens :: json
  ca_total_tokens :: json
  ca_extra_tokens :: "(string \<times> int) list"
  ca_model_calls :: nat
  ca_last_log_id :: "uuid option"
  ca_last_cost_usd :: "rat option"
  ca_last_model_name :: "string option"

definition initial_cost_state :: cost_state where
  "initial_cost_state = \<lparr>ca_input_tokens = JNum 0, ca_output_tokens = JNum 0, ca_total_tokens = JNum 0,
     ca_extra_tokens = [], ca_model_calls = 0, ca_last_log_id = None, ca_last_cost_usd = None,
     ca_last_model_name = None\<rparr>"

text \<open>
  A run of an agent: the world of the log, the context object of the middleware, the
  request-local variables and the state of the graph.
\<close>

record 'w agent_run =
  ar_world :: 'w
  ar_ctx :: "mw_context option"
  ar_runtime :: runtime_context
  ar_costs :: cost_state

text \<open>\<open>a or b\<close> on optional texts: an empty text is falsy.\<close>

definition or_text :: "string option \<Rightarrow> string option \<Rightarrow> string option" where
  "or_text a b = (case a of Some (c # cs) \<Rightarrow> a | _ \<Rightarrow> b)"

definition or_id :: "uuid option \<Rightarrow> uuid option \<Rightarrow> uuid option" where
  "or_id a b = (case a of Some i \<Rightarrow> a | None \<Rightarrow> b)"

definition model_name_of :: "cost_middleware \<Rightarrow> ai_message \<Rightarrow> string" where
  "model_name_of mw m =
     (case am_model_name m of
        Some n \<Rightarrow> n
      | None \<Rightarrow> (case or_text (cm_model_name mw) None of Some n \<Rightarrow> n | None \<Rightarrow> ''unknown''))"

definition get_pricing_config :: "'w cost_env \<Rightarrow> cost_middleware \<Rightarrow> string \<Rightarrow> pricing_config option" where
  "get_pricing_config E mw model_name =
     (case ce_models E of
        Some models \<Rightarrow>
          (case map_of models model_name of Some (Some pc) \<Rightarrow> Some pc | _ \<Rightarrow> cm_pricing_config mw)
      | None \<Rightarrow> cm_pricing_config mw)"

text \<open>\<open>UsageSession(...)\<close> for a model call; the latency counts from the recorded start.\<close>

definition call_session ::
  "'w cost_env \<Rightarrow> cost_middleware \<Rightarrow> runtime_context \<Rightarrow> mw_context option \<Rightarrow> string \<Rightarrow> usage_session" where
  "call_session E mw rc ctx model_name =
     \<lparr>us_task_type = cm_task_type mw, us_request_mode = cm_request_mode mw, us_model_name = model_name,
      us_provider = (case or_text (cm_provider mw) None of Some p \<Rightarrow> p | None \<Rightarrow> detect_provider model_name),
      us_pricing = get_pricing_config E mw model_name,
      us_user_id = or_id (cm_user_id mw) (rc_user_id rc),
      us_session_id = or_text (cm_session_id mw) (rc_session_id rc),
      us_request_id = or_text (cm_request_id mw) (rc_request_id rc),
      us_enabled = cm_enabled mw, us_fail_open = cm_fail_open mw,
      us_instance_id = or_id (cm_instance_id mw) (rc_instance_id rc),
      us_instance_name = or_text (cm_instance_name mw) (rc_instance_name rc),
      us_start_time = (case Option.bind ctx mc_start_time of
         Some t \<Rightarrow> if t \<noteq> 0 then t else ce_now E | None \<Rightarrow> ce_now E),
      us_accumulated = [], us_partial = False\<rparr>"

definition call_args :: "usage \<Rightarrow> bool \<Rightarrow> finalize_args" where
  "call_args fragment is_estimated =
     \<lparr>fa_success = True, fa_error = None, fa_final_usage = fragment, fa_streamed = False,
      fa_partial = False, fa_details = (if is_estimated then [(''estimated'', JBool True)] else [])\<rparr>"

text \<open>
  The usage of a message: its metadata, or an estimate from the contents of the call. The
  flag says that it is an estimate.
\<close>

definition usage_of_message ::
  "'w cost_env \<Rightarrow> ai_message \<Rightarrow> json list \<Rightarrow> exn + (usage option \<times> (string \<times> int) list \<times> bool)" where
  "usage_of_message E m contents =
     (case am_usage m of
        JObj (kv # kvs) \<Rightarrow> map_sum id (\<lambda>(f, x). (Some f, x, False)) (extract_usage_fragment (kv # kvs))
      | _ \<Rightarrow> Inr (estimate_token_usage E contents, [], True))"

definition build_usage_session ::
  "'w cost_env \<Rightarrow> cost_middleware \<Rightarrow> runtime_context \<Rightarrow> mw_context option \<Rightarrow> ai_message list \<Rightarrow> json list \<Rightarrow>
   exn + (usage_session \<times> usage \<times> (string \<times> int) list \<times> bool) option" where
  "build_usage_session E mw rc ctx response request =
     (if response = [] then Inr None
      else
        let m = last response in
        bind_result (usage_of_message E m (request @ map am_content response)) (\<lambda>(fragment, extra, is_estimated).
          case fragment of
            None \<Rightarrow> Inr None
          | Some f \<Rightarrow> Inr (Some (call_session E mw rc ctx (model_name_of mw m), f, extra, is_estimated))))"

definition apply_persist_result ::
  "uuid option \<Rightarrow> usage \<Rightarrow> (string \<times> int) list \<Rightarrow> bool \<Rightarrow> string \<Rightarrow> pricing_config option \<Rightarrow> mw_context \<Rightarrow>
   mw_context" where
  "apply_persist_result log_id fragment extra is_estimated model_name pricing ctx =
     (case log_id of
        None \<Rightarrow> ctx
      | Some i \<Rightarrow>
          let ctx = ctx\<lparr>mc_log_id := Some i, mc_fragment := Some fragment, mc_extra_tokens := Some extra,
                mc_is_estimated := is_estimated, mc_model_name := Some model_name\<rparr> in
          case pricing of
            None \<Rightarrow> ctx
          | Some pc \<Rightarrow>
              (case compute_cost fragment pc of
                 Inr r \<Rightarrow> ctx\<lparr>mc_cost_usd := Some (cost_total_usd r)\<rparr>
               | Inl _ \<Rightarrow> ctx))"

text \<open>\<open>finalize_sync\<close> on the synchronous path, \<open>finalize\<close> itself on the other.\<close>

definition run_finalize ::
  "'w cost_env \<Rightarrow> bool \<Rightarrow> usage_session \<Rightarrow> finalize_args \<Rightarrow> 'w \<Rightarrow> 'w \<times> (exn + uuid option)" where
  "run_finalize E sync s a w =
     (let (w', r) = ce_finalize E w s a
      in (w', if sync then finalize_sync s (if ce_timed_out E then None else Some r) else r))"

text \<open>\<open>_persist_from_response\<close> and, with \<open>sync = False\<close>, \<open>_apersist_from_response\<close>.\<close>

definition persist_from_response ::
  "'w cost_env \<Rightarrow> cost_middleware \<Rightarrow> bool \<Rightarrow> ai_message list \<Rightarrow> json list \<Rightarrow> 'w agent_run \<Rightarrow> 'w agent_run" where
  "persist_from_response E mw sync response request st =
     (case ar_ctx st of
        None \<Rightarrow> st
      | Some ctx \<Rightarrow>
          (case build_usage_session E mw (ar_runtime st) (Some ctx) response request of
             Inl _ \<Rightarrow> st
           | Inr None \<Rightarrow> st
           | Inr (Some (s, fragment, extra, is_estimated)) \<Rightarrow>
               (let (w', r) = run_finalize E sync s (call_args fragment is_estimated) (ar_world st) in
                case r of
                  Inl _ \<Rightarrow> st\<lparr>ar_world := w'\<rparr>
                | Inr log_id \<Rightarrow>
                    st\<lparr>ar_world := w',
                       ar_ctx := Some (apply_persist_result log_id fragment extra is_estimated
                         (us_model_name s) (us_pricing s) ctx)\<rparr>)))"

datatype call_exn = AgentCancelled | GraphInterrupt string | CallError exn

text \<open>The cancel check: an exception of the check itself is ignored.\<close>

definition cancelled :: "(exn + bool) option \<Rightarrow> bool" where
  "cancelled check = (check = Some (Inr True))"

definition wrap_model_call ::
  "'w cost_env \<Rightarrow> cost_middleware \<Rightarrow> bool \<Rightarrow> (exn + bool) option \<Rightarrow> json list \<Rightarrow> call_exn + ai_message list \<Rightarrow>
   'w agent_run \<Rightarrow> 'w agent_run \<times> (call_exn + ai_message list)" where
  "wrap_model_call E mw sync check request answer st =
     (if cancelled check then (st, Inl AgentCancelled)
      else
        let st1 = st\<lparr>ar_ctx := map_option (\<lambda>c. c\<lparr>mc_start_time := Some (ce_now E)\<rparr>) (ar_ctx st)\<rparr> in
        case answer of
          Inl e \<Rightarrow> (st1, Inl e)
        | Inr response \<Rightarrow> (persist_from_response E mw sync response request st1, Inr response))"

datatype 'r tool_result = HandlerResult 'r | ErrorMessage string string

fun call_exn_text :: "call_exn \<Rightarrow> string" where
  "call_exn_text AgentCancelled = ''Agent execution cancelled by user''"
| "call_exn_text (GraphInterrupt t) = t"
| "call_exn_text (CallError e) = exn_str e"

text \<open>\<open>wrap_tool_call\<close>; the asynchronous variant has no cancel check.\<close>

definition wrap_tool_call ::
  "(exn + bool) option \<Rightarrow> string \<Rightarrow> call_exn + 'r \<Rightarrow> call_exn + 'r tool_result" where
  "wrap_tool_call check tool_call_id answer =
     (if cancelled check then Inl AgentCancelled
      else case answer of
        Inr r \<Rightarrow> Inr (HandlerResult r)
      | Inl (GraphInterrupt t) \<Rightarrow> Inl (GraphInterrupt t)
      | Inl e \<Rightarrow> Inr (ErrorMessage (''Error: '' @ call_exn_text e) tool_call_id))"

definition awrap_tool_call :: "string \<Rightarrow> call_exn + 'r \<Rightarrow> call_exn + 'r tool_result" where
  "awrap_tool_call tool_call_id answer = wrap_tool_call None tool_call_id answer"

subsection \<open>The node-style hooks\<close>

text \<open>
  The counters of the state, one after the other: an exception leaves those before it added.
\<close>

definition add_to_costs :: "usage \<Rightarrow> (string \<times> int) list \<Rightarrow> cost_state \<Rightarrow> cost_state \<times> exn option" where
  "add_to_costs fragment extra c =
     (case json_add (ca_input_tokens c) (usage_get fragment ''input_tokens'' (JNum 0)) of
        Inl e \<Rightarrow> (c, Some e)
      | Inr i \<Rightarrow>
          let c1 = c\<lparr>ca_input_tokens := i\<rparr> in
          (case json_add (ca_output_tokens c) (usage_get fragment ''output_tokens'' (JNum 0)) of
             Inl e \<Rightarrow> (c1, Some e)
           | Inr out \<Rightarrow>
               let c2 = c1\<lparr>ca_output_tokens := out\<rparr> in
               (case json_add (ca_total_tokens c) (usage_get fragment ''total_tokens'' (JNum 0)) of
                  Inl e \<Rightarrow> (c2, Some e)
                | Inr t \<Rightarrow>
                    (c2\<lparr>ca_total_tokens := t,
                        ca_extra_tokens := merge_extra_tokens (ca_extra_tokens c) extra\<rparr>, None))))"

text \<open>The fast path: the call was logged by \<open>wrap_model_call\<close>.\<close>

definition report_persisted :: "mw_context \<Rightarrow> uuid \<Rightarrow> cost_state \<Rightarrow> cost_state" where
  "report_persisted ctx log_id c =
     (let fragment = (case mc_fragment ctx of Some f \<Rightarrow> f | None \<Rightarrow> []);
          extra = (case mc_extra_tokens ctx of Some x \<Rightarrow> x | None \<Rightarrow> []);
          (c1, failed) = (if fragment \<noteq> [] then add_to_costs fragment extra c else (c, None)) in
      if failed \<noteq> None then c1
      else
        let c2 = c1\<lparr>ca_last_log_id := Some log_id\<rparr>;
            c3 = (case mc_cost_usd ctx of Some u \<Rightarrow> c2\<lparr>ca_last_cost_usd := Some u\<rparr> | None \<Rightarrow> c2)
        in case or_text (mc_model_name ctx) None of
             Some n \<Rightarrow> c3\<lparr>ca_last_model_name := Some n\<rparr> | None \<Rightarrow> c3)"

text \<open>The fallback: the call is logged here, from the messages of the state.\<close>

definition log_from_state ::
  "'w cost_env \<Rightarrow> cost_middleware \<Rightarrow> mw_context \<Rightarrow> ai_message list \<Rightarrow> 'w agent_run \<Rightarrow> 'w agent_run" where
  "log_from_state E mw ctx messages st =
     (if messages = [] then st
      else
        let m = last messages in
        case usage_of_message E m (map am_content messages) of
          Inl _ \<Rightarrow> st
        | Inr (None, _, _) \<Rightarrow> st
        | Inr (Some fragment, extra, is_estimated) \<Rightarrow>
            if fragment = [] then st
            else
              (let (c, failed) = add_to_costs fragment extra (ar_costs st) in
               if failed \<noteq> None then st\<lparr>ar_costs := c\<rparr>
               else
                 let s = call_session E mw (ar_runtime st) (Some ctx) (model_name_of mw m);
                     (w', r) = run_finalize E True s (call_args fragment is_estimated) (ar_world st) in
                 case (r, us_pricing s) of
                   (Inr (Some i), Some pc) \<Rightarrow>
                     (case compute_cost fragment pc of
                        Inl _ \<Rightarrow> st\<lparr>ar_world := w', ar_costs := c\<rparr>
                      | Inr res \<Rightarrow>
                          st\<lparr>ar_world := w',
                             ar_costs := c\<lparr>ca_last_log_id := Some i, ca_last_cost_usd := Some (cost_total_usd res),
                               ca_last_model_name := Some (us_model_name s)\<rparr>\<rparr>)
                 | _ \<Rightarrow> st\<lparr>ar_world := w', ar_costs := c\<rparr>))"

definition count_model_call :: "'w agent_run \<Rightarrow> 'w agent_run" where
  "count_model_call st = st\<lparr>ar_costs := (ar_costs st)\<lparr>ca_model_calls := Suc (ca_model_calls (ar_costs st))\<rparr>\<rparr>"

definition after_model ::
  "'w cost_env \<Rightarrow> cost_middleware \<Rightarrow> ai_message list \<Rightarrow> 'w agent_run \<Rightarrow> 'w agent_run" where
  "after_model E mw messages st =
     (let ctx = (case ar_ctx st of Some c \<Rightarrow> c | None \<Rightarrow> fresh_mw_context);
          st1 = count_model_call st;
          st2 = (case mc_log_id ctx of
                   Some i \<Rightarrow> st1\<lparr>ar_costs := report_persisted ctx i (ar_costs st1)\<rparr>
                 | None \<Rightarrow> log_from_state E mw ctx messages st1)
      in st2\<lparr>ar_ctx := Some fresh_mw_context\<rparr>)"

text \<open>
  \<open>before_agent\<close> (the second definition of the class): \<open>configurable\<close> is the dictionary of the
  run, if there is one. The context object is created once and then kept between runs.
\<close>

definition before_agent ::
  "'w cost_env \<Rightarrow> usage option \<Rightarrow> 'w agent_run \<Rightarrow> 'w agent_run \<times> exn option" where
  "before_agent E configurable st =
     (let (rc, failed) = (case configurable of
            Some (kv # kvs) \<Rightarrow> populate_from_configurable E (kv # kvs) (ar_runtime st)
          | _ \<Rightarrow> (ar_runtime st, None));
          st1 = st\<lparr>ar_runtime := rc\<rparr> in
      if failed \<noteq> None then (st1, failed)
      else case ar_ctx st of
        Some _ \<Rightarrow> (st1, None)
      | None \<Rightarrow> (st1\<lparr>ar_ctx := Some fresh_mw_context, ar_costs := initial_cost_state\<rparr>, None))"

text \<open>A model call and its \<open>after_model\<close> node, the messages of the state ending in the answer.\<close>

definition model_turn ::
  "'w cost_env \<Rightarrow> cost_middleware \<Rightarrow> bool \<Rightarrow> json list \<times> ai_message \<Rightarrow> 'w agent_run \<Rightarrow> 'w agent_run" where
  "model_turn E mw sync call st =
     (case call of (request, m) \<Rightarrow>
        after_model E mw [m] (fst (wrap_model_call E mw sync None request (Inr [m]) st)))"

end
