(* ===== verification/UsageSystem.thy ===== *)
theory UsageSystem
  imports UsageLogging
begin

text \<open>
  The invariants of the usage log: what one step does to the rows of the snapshot table
  (\<open>actor_step_effect\<close>), that hashes and ids stay unique whatever the interleaving
  (\<open>reachable_tables\<close>), and that every stage of every session knows a row of its own
  pricing (\<open>reachable_stages\<close>).
\<close>

definition pendings :: "usage_world \<Rightarrow> nat \<Rightarrow> pricing_snapshot list" where
  "pendings w t = pending_rows (uw_stage w t)"

text \<open>The pricings the actors bring along, in canonical form.\<close>

definition job_keys :: "usage_env \<Rightarrow> json set" where
  "job_keys E = {pricing_key provider model_name pc | provider model_name pc.
     (\<exists>t s a. ue_job E t = LogUsage s a \<and> us_provider s = provider \<and> us_model_name s = model_name \<and>
        us_pricing s = Some pc) \<or>
     (\<exists>t models. ue_job E t = SyncSnapshots models \<and> (model_name, provider, Some pc) \<in> set models)}"

fun sync_models :: "stage \<Rightarrow> (string \<times> string \<times> pricing_config option) list" where
  "sync_models (SyncSelect ms _ _) = ms"
| "sync_models (SyncInsert ms _ _) = ms"
| "sync_models _ = []"

definition sync_ok :: "usage_env \<Rightarrow> usage_world \<Rightarrow> bool" where
  "sync_ok E w \<longleftrightarrow> (\<forall>t models. ue_job E t = SyncSnapshots models \<longrightarrow>
     set (sync_models (uw_stage w t)) \<subseteq> set models)"

definition row_ok :: "usage_env \<Rightarrow> nat \<Rightarrow> pricing_snapshot \<Rightarrow> bool" where
  "row_ok E n r \<longleftrightarrow> ps_hash r = ue_sha E (snapshot_key r) \<and> snapshot_key r \<in> job_keys E \<and> ps_id r \<in> ue_uuid E ` {..<n}"

definition tables_ok :: "usage_env \<Rightarrow> usage_world \<Rightarrow> bool" where
  "tables_ok E w \<longleftrightarrow>
     unique_column ps_hash (uw_snapshots w) (pendings w) \<and>
     unique_column ps_id (uw_snapshots w) (pendings w) \<and>
     (\<forall>r\<in>set (uw_snapshots w). row_ok E (uw_next w) r) \<and>
     (\<forall>t. \<forall>r\<in>set (pendings w t). row_ok E (uw_next w) r)"

lemma job_keys_log:
  "ue_job E t = LogUsage s a \<Longrightarrow> us_pricing s = Some pc \<Longrightarrow>
   pricing_key (us_provider s) (us_model_name s) pc \<in> job_keys E"
  unfolding job_keys_def by blast

lemma job_keys_sync:
  "ue_job E t = SyncSnapshots models \<Longrightarrow> (m, p, Some pc) \<in> set models \<Longrightarrow> pricing_key p m pc \<in> job_keys E"
  unfolding job_keys_def by blast

text \<open>What a step of an actor may do to the rows.\<close>

definition fresh_row :: "usage_env \<Rightarrow> usage_world \<Rightarrow> pricing_snapshot \<Rightarrow> bool" where
  "fresh_row E w r \<longleftrightarrow> ps_hash r = ue_sha E (snapshot_key r) \<and> snapshot_key r \<in> job_keys E \<and> ps_id r = ue_uuid E (uw_next w) \<and>
     ps_hash r \<notin> ps_hash ` set (uw_snapshots w) \<and> (\<forall>t. ps_hash r \<notin> ps_hash ` set (pendings w t))"

definition rows_effect :: "usage_env \<Rightarrow> nat \<Rightarrow> usage_world \<Rightarrow> usage_world \<Rightarrow> bool" where
  "rows_effect E t w w' \<longleftrightarrow> uw_next w \<le> uw_next w' \<and>
     (uw_snapshots w' = uw_snapshots w \<and> pendings w' = pendings w \<or>
      uw_snapshots w' = uw_snapshots w \<and> pendings w' = (pendings w)(t := []) \<or>
      uw_snapshots w' = uw_snapshots w @ pendings w t \<and> pendings w' = (pendings w)(t := []) \<or>
      (\<exists>r. uw_snapshots w' = uw_snapshots w \<and> pendings w' = (pendings w)(t := pendings w t @ [r]) \<and>
         fresh_row E w r \<and> uw_next w' = Suc (uw_next w)))"

lemma pendings_set_stage: "pendings (set_stage t st w) = (pendings w)(t := pending_rows st)"
  by (auto simp: pendings_def set_stage_def)

lemma usage_world_simps [simp]:
  "uw_snapshots (set_stage t st w) = uw_snapshots w" "uw_next (set_stage t st w) = uw_next w"
  "uw_snapshots (cache_snapshot E t h i w) = uw_snapshots w" "uw_next (cache_snapshot E t h i w) = uw_next w"
  "uw_stage (cache_snapshot E t h i w) = uw_stage w" "pendings (cache_snapshot E t h i w) = pendings w"
  "uw_snapshots (commit_rows rows w) = uw_snapshots w @ rows" "uw_next (commit_rows rows w) = uw_next w"
  "pendings (commit_rows rows w) = pendings w" "uw_stage (commit_rows rows w) = uw_stage w"
  "pendings (w\<lparr>uw_next := n\<rparr>) = pendings w"
  "uw_snapshots (fst (add_log E now s a priced si w)) = uw_snapshots w"
  "uw_next (fst (add_log E now s a priced si w)) = Suc (uw_next w)"
  "pendings (fst (add_log E now s a priced si w)) = pendings w"
  "uw_logs (set_stage t st w) = uw_logs w" "uw_logs (cache_snapshot E t h i w) = uw_logs w"
  "uw_logs (commit_rows rows w) = uw_logs w" "uw_cache (commit_rows rows w) = uw_cache w"
  "uw_cache (set_stage t st w) = uw_cache w" "uw_stage (set_stage t st w) = (uw_stage w)(t := st)"
  "uw_cache (fst (add_log E now s a priced si w)) = uw_cache w"
  "uw_stage (fst (add_log E now s a priced si w)) = uw_stage w"
  by (simp_all add: set_stage_def cache_snapshot_def commit_rows_def pendings_def add_log_def Let_def fun_eq_iff)

lemma find_snapshot_None: "find_snapshot h rows = None \<longleftrightarrow> h \<notin> ps_hash ` set rows"
  by (auto simp: find_snapshot_def find_None_iff)

lemma find_snapshot_Some: "find_snapshot h rows = Some r \<Longrightarrow> r \<in> set rows \<and> ps_hash r = h"
  by (auto simp: find_snapshot_def find_Some_iff)

lemma snapshot_key_new [simp]: "snapshot_key (new_snapshot i h p m pc) = pricing_key p m pc"
  by (simp add: snapshot_key_def new_snapshot_def pricing_key_def canonical_pricing_def)

lemma new_snapshot_simps [simp]:
  "ps_id (new_snapshot i h p m pc) = i" "ps_hash (new_snapshot i h p m pc) = h"
  by (simp_all add: new_snapshot_def)

lemma effect_no_rows:
  assumes "uw_snapshots w' = uw_snapshots w" and "uw_next w \<le> uw_next w'"
    and "pendings w' = (pendings w)(t := []) \<or> pendings w' = pendings w"
  shows "rows_effect E t w w'"
  using assms unfolding rows_effect_def by blast

lemma session_failed_effect:
  "uw_snapshots w' = uw_snapshots w \<Longrightarrow> uw_next w \<le> uw_next w' \<Longrightarrow> pendings w' = pendings w \<Longrightarrow>
   rows_effect E t w (session_failed t s e w')"
  by (rule effect_no_rows) (auto simp: session_failed_def pendings_set_stage)

lemma set_stage_effect:
  "uw_snapshots w' = uw_snapshots w \<Longrightarrow> uw_next w \<le> uw_next w' \<Longrightarrow> pendings w' = pendings w \<Longrightarrow>
   pending_rows st = [] \<Longrightarrow> rows_effect E t w (set_stage t st w')"
  by (rule effect_no_rows) (auto simp: pendings_set_stage)

lemma begin_step_effect: "rows_effect E t w (begin_step E f t s a w)"
  unfolding begin_step_def Let_def
  by (auto simp: session_failed_effect set_stage_effect split: sum.split option.split fault.split)

lemma requery_step_effect: "rows_effect E t w (requery_step E f t s pc w)"
  unfolding requery_step_def Let_def
  by (auto simp: session_failed_effect set_stage_effect split: option.split fault.split)

lemma log_step_effect: "rows_effect E t w (log_step E f now t s a si w)"
  unfolding log_step_def Let_def case_prod_unfold
  by (auto simp: session_failed_effect set_stage_effect split: sum.split fault.split)

lemma commit_step_effect:
  assumes "uw_stage w t = Flushed r"
  shows "rows_effect E t w (commit_step E f t s r w)"
  using assms unfolding commit_step_def
  by (cases f)
    (auto simp: session_failed_effect rows_effect_def pendings_set_stage session_failed_def pendings_def)

lemma insert_step_effect:
  assumes "uw_stage w t = Missing" and "pricing_key (us_provider s) (us_model_name s) pc \<in> job_keys E"
    and "\<not> blocked \<Longrightarrow> \<forall>t'. t' \<noteq> t \<longrightarrow> session_hash E s pc \<notin> ps_hash ` set (pendings w t')"
  shows "rows_effect E t w (insert_step E f blocked t s pc w)"
proof (cases "f = NoFault \<and> find_snapshot (session_hash E s pc) (uw_snapshots w) = None \<and> \<not> blocked")
  case True
  let ?r = "new_snapshot (ue_uuid E (uw_next w)) (session_hash E s pc) (us_provider s) (us_model_name s) pc"
  have "\<forall>t'. session_hash E s pc \<notin> ps_hash ` set (pendings w t')"
    using assms(1,3) True by (metis empty_iff empty_set image_is_empty pending_rows.simps(5) pendings_def)
  then have "fresh_row E w ?r"
    using True assms(2) by (simp add: fresh_row_def find_snapshot_None session_hash_def)
  with True show ?thesis
    using assms(1) by (auto simp: insert_step_def Let_def rows_effect_def pendings_set_stage pendings_def)
next
  case False
  then show ?thesis
    unfolding insert_step_def Let_def
    by (auto simp: session_failed_effect set_stage_effect effect_no_rows split: fault.split)
qed

lemma models_cases:
  "ms = [] \<or> (\<exists>m p ms'. ms = (m, p, None) # ms') \<or> (\<exists>m p pc ms'. ms = (m, p, Some pc) # ms')"
proof (cases ms)
  case (Cons x ms')
  obtain m p o' where "x = (m, p, o')" by (cases x) auto
  with Cons show ?thesis by (cases o') auto
qed simp

lemma sync_step_cases:
  obtains (start) "uw_stage w t = Begin" | (ended) rows n where "uw_stage w t = SyncSelect [] rows n"
    | (skip) m p ms rows n where "uw_stage w t = SyncSelect ((m, p, None) # ms) rows n"
    | (look) m p pc ms rows n where "uw_stage w t = SyncSelect ((m, p, Some pc) # ms) rows n"
    | (ins) m p pc ms rows n where "uw_stage w t = SyncInsert ((m, p, Some pc) # ms) rows n"
    | (idle) "sync_step E f blocked t models w = w"
proof (cases "uw_stage w t")
  case (SyncSelect ms rows n)
  then show ?thesis using models_cases[of ms] ended skip look by blast
next
  case (SyncInsert ms rows n)
  from models_cases[of ms] show ?thesis
  proof (elim disjE exE)
    assume "ms = []"
    then show ?thesis using SyncInsert by (intro idle) (simp add: sync_step_def)
  next
    fix m p ms' assume "ms = (m, p, None) # ms'"
    then show ?thesis using SyncInsert by (intro idle) (simp add: sync_step_def)
  next
    fix m p pc ms' assume "ms = (m, p, Some pc) # ms'"
    then show ?thesis using SyncInsert by (intro ins) simp
  qed
qed (use start in \<open>auto intro!: idle simp: sync_step_def\<close>)

lemma sync_step_effect:
  assumes "\<And>m p pc ms rows n. uw_stage w t = SyncInsert ((m, p, Some pc) # ms) rows n \<Longrightarrow>
      pricing_key p m pc \<in> job_keys E"
    and "\<And>m p pc ms rows n. uw_stage w t = SyncInsert ((m, p, Some pc) # ms) rows n \<Longrightarrow> \<not> blocked \<Longrightarrow>
      \<forall>t'. t' \<noteq> t \<longrightarrow> ue_sha E (pricing_key p m pc) \<notin> ps_hash ` set (pendings w t')"
  shows "rows_effect E t w (sync_step E f blocked t models w)"
proof (cases rule: sync_step_cases[where w = w and t = t and E = E and f = f and blocked = blocked and models = models])
  case start
  then show ?thesis by (simp add: sync_step_def set_stage_effect)
next
  case (ended rows n)
  then show ?thesis
    by (cases f) (auto simp: sync_step_def set_stage_effect rows_effect_def pendings_set_stage pendings_def)
next
  case skip
  then show ?thesis
    by (auto simp: sync_step_def rows_effect_def pendings_set_stage pendings_def fun_eq_iff)
next
  case look
  then show ?thesis
    by (auto simp: sync_step_def rows_effect_def pendings_set_stage pendings_def fun_eq_iff)
next
  case (ins m p pc ms rows n)
  let ?h = "ue_sha E (pricing_key p m pc)"
  show ?thesis
  proof (cases "f = NoFault \<and> find_snapshot ?h (uw_snapshots w @ rows) = None \<and> \<not> blocked")
    case True
    let ?r = "new_snapshot (ue_uuid E (uw_next w)) ?h p m pc"
    have "ps_hash ?r \<notin> ps_hash ` set (pendings w t')" for t'
      using True assms(2)[OF ins] by (cases "t' = t") (auto simp: find_snapshot_None pendings_def ins)
    then have "fresh_row E w ?r"
      using True assms(1)[OF ins] by (auto simp: fresh_row_def find_snapshot_None)
    with True ins show ?thesis
      by (auto simp: sync_step_def Let_def rows_effect_def pendings_set_stage pendings_def)
  next
    case False
    with ins show ?thesis
      by (auto simp: sync_step_def Let_def rows_effect_def pendings_set_stage pendings_def fun_eq_iff)
  qed
next
  case idle
  then show ?thesis by (simp add: rows_effect_def)
qed

lemma not_held:
  assumes "wanted_hash E t w = Some h" and "\<not> (\<exists>h t'. wanted_hash E t w = Some h \<and> held_by t t' h w)"
  shows "\<forall>t'. t' \<noteq> t \<longrightarrow> h \<notin> ps_hash ` set (pendings w t')"
proof (intro allI impI)
  fix t' assume "t' \<noteq> t"
  with assms have "find_snapshot h (pending_rows (uw_stage w t')) = None"
    unfolding held_by_def by blast
  then show "h \<notin> ps_hash ` set (pendings w t')"
    unfolding find_snapshot_None pendings_def .
qed

lemma actor_step_effect:
  assumes "blocked \<longleftrightarrow> (\<exists>h t'. wanted_hash E t w = Some h \<and> held_by t t' h w)"
    and "sync_ok E w"
  shows "rows_effect E t w (actor_step E f blocked now t w)"
proof (cases "ue_job E t")
  case (LogUsage s a)
  have refl: "rows_effect E t w w" by (simp add: rows_effect_def)
  show ?thesis
  proof (cases "uw_stage w t = Missing")
    case True
    then have "wanted_hash E t w = map_option (session_hash E s) (us_pricing s)"
      by (simp add: wanted_hash_def LogUsage)
    with True show ?thesis
      using not_held[of E t w] assms(1) job_keys_log[OF LogUsage]
      by (cases "us_pricing s")
        (auto simp: actor_step_def LogUsage finalize_step_def refl intro!: insert_step_effect)
  next
    case False
    then show ?thesis
      unfolding actor_step_def LogUsage actor_job.case finalize_step_def
      by (auto split: stage.split option.split
          intro: refl begin_step_effect commit_step_effect requery_step_effect log_step_effect)
  qed
next
  case (SyncSnapshots models)
  have "wanted_hash E t w = Some (ue_sha E (pricing_key p m pc))"
    if "uw_stage w t = SyncInsert ((m, p, Some pc) # ms) rows n" for m p pc ms rows n
    by (simp add: wanted_hash_def SyncSnapshots that)
  moreover have "pricing_key p m pc \<in> job_keys E"
    if "uw_stage w t = SyncInsert ((m, p, Some pc) # ms) rows n" for m p pc ms rows n
    using assms(2) SyncSnapshots that by (force simp: sync_ok_def intro: job_keys_sync)
  ultimately show ?thesis
    unfolding actor_step_def SyncSnapshots actor_job.case
    by (intro sync_step_effect not_held) (auto simp: assms(1))
qed

lemma sync_step_models:
  "set (sync_models (uw_stage (sync_step E f blocked t models w) t)) \<subseteq>
     set models \<union> set (sync_models (uw_stage w t))"
proof (cases rule: sync_step_cases[where w = w and t = t and E = E and f = f and blocked = blocked and models = models])
  case (ended rows n)
  then show ?thesis by (cases f) (auto simp: sync_step_def)
qed (auto simp: sync_step_def Let_def)

lemma row_ok_mono: "row_ok E n r \<Longrightarrow> n \<le> m \<Longrightarrow> row_ok E m r"
  unfolding row_ok_def by fastforce

lemma rows_effect_tables:
  assumes "rows_effect E t w w'" and "tables_ok E w" and "inj (ue_uuid E)"
  shows "tables_ok E w'"
proof -
  have n: "uw_next w \<le> uw_next w'" using assms(1) by (simp add: rows_effect_def)
  have old: "\<forall>r\<in>set (uw_snapshots w). row_ok E (uw_next w') r"
      "\<forall>t. \<forall>r\<in>set (pendings w t). row_ok E (uw_next w') r"
    using assms(2) n unfolding tables_ok_def by (blast intro: row_ok_mono)+
  note u = assms(2)[unfolded tables_ok_def]
  consider (keep) "uw_snapshots w' = uw_snapshots w" "pendings w' = pendings w"
    | (close) xs where "xs = pendings w t \<or> xs = []" "uw_snapshots w' = uw_snapshots w @ xs"
        "pendings w' = (pendings w)(t := [])"
    | (add) r where "uw_snapshots w' = uw_snapshots w" "pendings w' = (pendings w)(t := pendings w t @ [r])"
        "fresh_row E w r" "uw_next w' = Suc (uw_next w)"
    using assms(1) unfolding rows_effect_def by (metis append_Nil2)
  then show ?thesis
  proof cases
    case keep
    with u old show ?thesis by (simp add: tables_ok_def)
  next
    case (close xs)
    note xs = close(1) and w' = close(2,3)
    have "\<forall>r\<in>set xs. row_ok E (uw_next w') r" using old xs by auto
    moreover have "unique_column ps_hash (uw_snapshots w @ xs) ((pendings w)(t := []))"
        "unique_column ps_id (uw_snapshots w @ xs) ((pendings w)(t := []))"
      using u xs by (blast intro: unique_column_commit)+
    ultimately show ?thesis using old unfolding tables_ok_def w' by auto
  next
    case (add r)
    note w' = add(1,2) and r = add(3) and nxt = add(4)
    have not_id: "ps_id r \<noteq> ps_id r'" if "row_ok E (uw_next w) r'" for r'
      using that r by (auto simp: row_ok_def fresh_row_def inj_eq[OF assms(3)])
    have "ps_id r \<notin> ps_id ` set (uw_snapshots w)" "\<And>t. ps_id r \<notin> ps_id ` set (pendings w t)"
      using u not_id by blast+
    then have ids: "unique_column ps_id (uw_snapshots w) ((pendings w)(t := pendings w t @ [r]))"
      using u by (intro unique_column_insert) auto
    have hashes: "unique_column ps_hash (uw_snapshots w) ((pendings w)(t := pendings w t @ [r]))"
      using u r unfolding fresh_row_def by (intro unique_column_insert) blast+
    have "row_ok E (uw_next w') r"
      using r unfolding row_ok_def nxt fresh_row_def by auto
    with ids hashes old show ?thesis unfolding tables_ok_def w' by (simp add: fun_upd_apply)
  qed
qed

lemma usage_step_tables:
  assumes "usage_step E w w'" and "tables_ok E w" and "inj (ue_uuid E)" and "sync_ok E w"
  shows "tables_ok E w'"
  using assms(1)
proof cases
  case (act blocked t f now)
  show ?thesis
    unfolding act(1) by (rule rows_effect_tables[OF actor_step_effect[OF act(2) assms(4)] assms(2,3)])
next
  case (reset p)
  then have "rows_effect E 0 w w'"
    by (simp add: rows_effect_def reset_usage_logging_cache_def pendings_def fun_eq_iff)
  then show ?thesis by (rule rows_effect_tables[OF _ assms(2,3)])
next
  case (kill t e)
  then have "rows_effect E t w w'" by (simp add: set_stage_effect)
  then show ?thesis by (rule rows_effect_tables[OF _ assms(2,3)])
qed

lemma other_stages: "t' \<noteq> t \<Longrightarrow> uw_stage (actor_step E f blocked now t w) t' = uw_stage w t'"
  unfolding actor_step_def finalize_step_def begin_step_def insert_step_def commit_step_def requery_step_def
    log_step_def sync_step_def session_failed_def Let_def case_prod_unfold
  by (auto split: actor_job.split stage.split option.split sum.split fault.split list.split)

lemma usage_step_sync_ok:
  assumes "usage_step E w w'" and "sync_ok E w"
  shows "sync_ok E w'"
  using assms(1)
proof cases
  case (act blocked t f now)
  show ?thesis
    unfolding sync_ok_def
  proof (intro allI impI)
    fix t' models assume job: "ue_job E t' = SyncSnapshots models"
    then have "set (sync_models (uw_stage w t')) \<subseteq> set models"
      using assms(2) by (simp add: sync_ok_def)
    then show "set (sync_models (uw_stage w' t')) \<subseteq> set models"
      using sync_step_models[of E f blocked t models w] job other_stages[of t' t]
      by (cases "t' = t") (auto simp: act actor_step_def)
  qed
qed (use assms(2) in \<open>auto simp: sync_ok_def reset_usage_logging_cache_def\<close>)

lemma reachable_tables:
  assumes "usage_reachable E w" and "inj (ue_uuid E)"
  shows "tables_ok E w" and "sync_ok E w"
proof -
  from assms(1) have "tables_ok E w \<and> sync_ok E w"
  proof (induction rule: rtranclp_induct)
    case base
    show ?case
      by (simp add: tables_ok_def sync_ok_def empty_usage_world_def pendings_def unique_column_def)
  next
    case (step w w')
    then show ?case using usage_step_tables usage_step_sync_ok assms(2) by blast
  qed
  then show "tables_ok E w" "sync_ok E w" by blast+
qed

end
