(* ===== verification/UsageKnowledge.thy ===== *)
theory UsageKnowledge
  imports UsageSystem
begin

text \<open>
  What the sessions, the caches and the log entries know of the snapshot table, and that every
  step keeps it true: a snapshot id that a session holds, a process has cached or a log entry
  refers to is the id of a committed row with the hash of the session's own pricing
  (\<open>reachable_info\<close>).
\<close>

text \<open>The snapshot id that belongs to a session.\<close>

definition knows_snapshot :: "usage_env \<Rightarrow> usage_world \<Rightarrow> usage_session \<Rightarrow> uuid option \<Rightarrow> bool" where
  "knows_snapshot E w s si \<longleftrightarrow>
     (case us_pricing s of
        None \<Rightarrow> si = None
      | Some pc \<Rightarrow> \<exists>r\<in>set (uw_snapshots w). si = Some (ps_id r) \<and> ps_hash r = session_hash E s pc)"

definition log_of :: "usage_env \<Rightarrow> usage_world \<Rightarrow> usage_session \<Rightarrow> finalize_args \<Rightarrow> request_log \<Rightarrow> bool" where
  "log_of E w s a l \<longleftrightarrow> (\<exists>i now priced si. usage_cost s a = Inr priced \<and>
     l = log_entry i now s a priced si \<and> knows_snapshot E w s si)"

definition stage_ok :: "usage_env \<Rightarrow> usage_world \<Rightarrow> nat \<Rightarrow> bool" where
  "stage_ok E w t \<longleftrightarrow>
     (\<forall>s a. ue_job E t = LogUsage s a \<longrightarrow>
        (case uw_stage w t of
           Missing \<Rightarrow> us_pricing s \<noteq> None
         | Flushed r \<Rightarrow> (\<exists>pc. us_pricing s = Some pc \<and> ps_hash r = session_hash E s pc)
         | Conflict \<Rightarrow> (\<exists>pc. us_pricing s = Some pc \<and> session_hash E s pc \<in> ps_hash ` set (uw_snapshots w))
         | Priced si \<Rightarrow> knows_snapshot E w s si
         | Finished r \<Rightarrow> (\<forall>i. r = Inr (Some i) \<longrightarrow> (\<exists>l\<in>set (uw_logs w). rl_id l = i \<and> log_of E w s a l))
         | _ \<Rightarrow> True))"

definition cache_ok :: "usage_world \<Rightarrow> bool" where
  "cache_ok w \<longleftrightarrow> (\<forall>p h i. map_of (uw_cache w p) h = Some i \<longrightarrow>
     (\<exists>r\<in>set (uw_snapshots w). ps_hash r = h \<and> ps_id r = i))"

definition logs_ok :: "usage_env \<Rightarrow> usage_world \<Rightarrow> bool" where
  "logs_ok E w \<longleftrightarrow> distinct (map rl_id (uw_logs w)) \<and>
     (\<forall>l\<in>set (uw_logs w). rl_id l \<in> ue_uuid E ` {..<uw_next w} \<and>
        (\<exists>t s a. ue_job E t = LogUsage s a \<and> log_of E w s a l))"

definition info_ok :: "usage_env \<Rightarrow> usage_world \<Rightarrow> bool" where
  "info_ok E w \<longleftrightarrow> cache_ok w \<and> logs_ok E w \<and> (\<forall>t. stage_ok E w t)"

lemma knows_mono:
  "knows_snapshot E w s si \<Longrightarrow> uw_snapshots w' = uw_snapshots w @ xs \<Longrightarrow> knows_snapshot E w' s si"
  by (fastforce simp: knows_snapshot_def split: option.splits)

lemma log_of_mono:
  "log_of E w s a l \<Longrightarrow> uw_snapshots w' = uw_snapshots w @ xs \<Longrightarrow> log_of E w' s a l"
  unfolding log_of_def using knows_mono by blast

lemma rl_id_log_entry [simp]: "rl_id (log_entry i now s a priced si) = i"
  by (simp add: log_entry_def Let_def)

lemma stage_ok_mono:
  assumes "stage_ok E w t" and "uw_stage w' t = uw_stage w t"
    and "uw_snapshots w' = uw_snapshots w @ xs" and "uw_logs w' = uw_logs w @ ys"
  shows "stage_ok E w' t"
  unfolding stage_ok_def
proof (intro allI impI)
  fix s a assume job: "ue_job E t = LogUsage s a"
  note old = assms(1)[unfolded stage_ok_def, rule_format, OF job]
  show "case uw_stage w' t of
      Missing \<Rightarrow> us_pricing s \<noteq> None
    | Flushed r \<Rightarrow> (\<exists>pc. us_pricing s = Some pc \<and> ps_hash r = session_hash E s pc)
    | Conflict \<Rightarrow> (\<exists>pc. us_pricing s = Some pc \<and> session_hash E s pc \<in> ps_hash ` set (uw_snapshots w'))
    | Priced si \<Rightarrow> knows_snapshot E w' s si
    | Finished r \<Rightarrow> (\<forall>i. r = Inr (Some i) \<longrightarrow> (\<exists>l\<in>set (uw_logs w'). rl_id l = i \<and> log_of E w' s a l))
    | _ \<Rightarrow> True"
    using old knows_mono[OF _ assms(3), of E s] log_of_mono[OF _ assms(3), of E s a]
    unfolding assms(2)
    by (cases "uw_stage w t") (auto simp: assms(3,4), blast)
qed

lemma info_step:
  assumes "info_ok E w" and "uw_snapshots w' = uw_snapshots w @ xs" and "uw_logs w' = uw_logs w"
    and "uw_next w \<le> uw_next w'" and "cache_ok w'" and "\<And>t'. t' \<noteq> t \<Longrightarrow> uw_stage w' t' = uw_stage w t'"
    and "stage_ok E w' t"
  shows "info_ok E w'"
proof -
  have logs: "uw_logs w' = uw_logs w @ []" by (simp add: assms(3))
  have "stage_ok E w' t'" for t'
    using assms(7) stage_ok_mono[OF _ assms(6) assms(2) logs] assms(1)
    by (cases "t' = t") (auto simp: info_ok_def)
  moreover have "logs_ok E w'"
    using assms(1) assms(4) log_of_mono[OF _ assms(2)]
    unfolding info_ok_def logs_ok_def assms(3) by fastforce
  ultimately show ?thesis using assms(5) by (simp add: info_ok_def)
qed

lemma info_log:
  assumes "info_ok E w" and "inj (ue_uuid E)" and "ue_job E t = LogUsage s a"
    and "usage_cost s a = Inr priced" and "knows_snapshot E w s si"
    and "w' = fst (add_log E now s a priced si w)"
    and fin: "\<And>i. r = Inr (Some i) \<Longrightarrow> i = ue_uuid E (uw_next w)"
  shows "info_ok E (set_stage t (Finished r) w')"
proof -
  let ?l = "log_entry (ue_uuid E (uw_next w)) now s a priced si"
  let ?w = "set_stage t (Finished r) w'"
  have logs: "uw_logs ?w = uw_logs w @ [?l]"
    by (simp add: assms(6) add_log_def Let_def)
  have snaps: "uw_snapshots ?w = uw_snapshots w @ []" by (simp add: assms(6))
  have l: "log_of E ?w s a ?l"
    unfolding log_of_def using assms(4) knows_mono[OF assms(5) snaps] by blast
  have "stage_ok E ?w t"
    using l fin unfolding stage_ok_def logs by (auto simp: assms(3) dest!: fin)
  moreover have "stage_ok E ?w t'" if "t' \<noteq> t" for t'
    using stage_ok_mono[OF _ _ snaps logs, of E t'] assms(1) that by (auto simp: info_ok_def assms(6))
  moreover have "logs_ok E ?w"
  proof -
    have old: "distinct (map rl_id (uw_logs w))"
        "\<forall>l\<in>set (uw_logs w). rl_id l \<in> ue_uuid E ` {..<uw_next w}"
        "\<forall>l\<in>set (uw_logs w). \<exists>t s a. ue_job E t = LogUsage s a \<and> log_of E w s a l"
      using assms(1) by (auto simp: info_ok_def logs_ok_def)
    have "ue_uuid E (uw_next w) \<notin> rl_id ` set (uw_logs w)"
      using old(2) by (auto simp: inj_eq[OF assms(2)])
    moreover have "\<forall>l\<in>set (uw_logs w). \<exists>t s a. ue_job E t = LogUsage s a \<and> log_of E ?w s a l"
      using old(3) log_of_mono[OF _ snaps] by blast
    ultimately show ?thesis
      using old l assms(3) unfolding logs_ok_def logs by (fastforce simp: assms(6))
  qed
  moreover have "cache_ok ?w" using assms(1) by (simp add: info_ok_def cache_ok_def assms(6))
  ultimately show ?thesis unfolding info_ok_def by metis
qed

lemma cache_snapshot_lookup:
  "map_of (uw_cache (cache_snapshot E t h i w) p) h' =
     (if p = ue_process E t \<and> h' = h then Some i else map_of (uw_cache w p) h')"
  by (simp add: cache_snapshot_def update_conv')

lemma cache_ok_update:
  assumes "cache_ok w" and "r \<in> set (uw_snapshots w)"
  shows "cache_ok (cache_snapshot E t (ps_hash r) (ps_id r) w)"
  unfolding cache_ok_def
proof (intro allI impI)
  fix p h i assume "map_of (uw_cache (cache_snapshot E t (ps_hash r) (ps_id r) w) p) h = Some i"
  then show "\<exists>r'\<in>set (uw_snapshots (cache_snapshot E t (ps_hash r) (ps_id r) w)). ps_hash r' = h \<and> ps_id r' = i"
    using assms unfolding cache_snapshot_lookup cache_ok_def usage_world_simps
    by (cases "p = ue_process E t \<and> h = ps_hash r") auto
qed

lemma cache_ok_commit: "cache_ok w \<Longrightarrow> cache_ok (commit_rows rows w)"
  unfolding cache_ok_def usage_world_simps set_append by blast

lemma cache_ok_same: "uw_cache w' = uw_cache w \<Longrightarrow> uw_snapshots w' = uw_snapshots w \<Longrightarrow> cache_ok w' = cache_ok w"
  by (simp add: cache_ok_def)

lemma cache_ok_stage [simp]: "cache_ok (set_stage t st w) = cache_ok w"
  by (simp add: cache_ok_def)

lemma info_ok_cache: "info_ok E w \<Longrightarrow> cache_ok w"
  by (simp add: info_ok_def)

text \<open>The new stage of a session: what has to be shown for it.\<close>

lemma knows_stage [simp]: "knows_snapshot E (set_stage t st w) s si = knows_snapshot E w s si"
  by (simp add: knows_snapshot_def cong: option.case_cong)

lemma stage_ok_log:
  assumes "ue_job E t = LogUsage s a"
  shows "stage_ok E (set_stage t Missing w) t \<longleftrightarrow> us_pricing s \<noteq> None"
    and "stage_ok E (set_stage t (Flushed r) w) t \<longleftrightarrow>
      (\<exists>pc. us_pricing s = Some pc \<and> ps_hash r = session_hash E s pc)"
    and "stage_ok E (set_stage t Conflict w) t \<longleftrightarrow>
      (\<exists>pc. us_pricing s = Some pc \<and> session_hash E s pc \<in> ps_hash ` set (uw_snapshots w))"
    and "stage_ok E (set_stage t (Priced si) w) t \<longleftrightarrow> knows_snapshot E w s si"
    and "stage_ok E (set_stage t (Finished (Inl e)) w) t"
    and "stage_ok E (set_stage t (Finished (Inr None)) w) t"
  by (simp_all add: stage_ok_def assms)

lemma stage_ok_failed:
  "ue_job E t = LogUsage s a \<Longrightarrow> stage_ok E (session_failed t s e w) t"
  by (simp add: session_failed_def stage_ok_log)

lemma info_stage:
  assumes "info_ok E w" and "uw_snapshots w' = uw_snapshots w @ xs" and "uw_logs w' = uw_logs w"
    and "uw_next w \<le> uw_next w'" and "cache_ok w'" and "uw_stage w' = uw_stage w"
    and "stage_ok E (set_stage t st w') t"
  shows "info_ok E (set_stage t st w')"
  by (rule info_step[OF assms(1) _ _ _ _ _ assms(7)]) (simp_all add: assms(2-6))

lemma info_same:
  "info_ok E w \<Longrightarrow> stage_ok E (set_stage t st w) t \<Longrightarrow> info_ok E (set_stage t st w)"
  by (rule info_stage[of E w w "[]"]) (simp_all add: info_ok_cache)

lemma info_failed:
  "info_ok E w \<Longrightarrow> ue_job E t = LogUsage s a \<Longrightarrow> info_ok E (session_failed t s e w)"
  unfolding session_failed_def by (rule info_same) (simp_all add: stage_ok_log)

lemma info_found:
  assumes "info_ok E w" and "ue_job E t = LogUsage s a" and "us_pricing s = Some pc"
    and "find_snapshot (session_hash E s pc) (uw_snapshots w) = Some r"
  shows "info_ok E (set_stage t (Priced (Some (ps_id r))) (cache_snapshot E t (session_hash E s pc) (ps_id r) w))"
proof -
  note r = find_snapshot_Some[OF assms(4)]
  have "knows_snapshot E (cache_snapshot E t (session_hash E s pc) (ps_id r) w) s (Some (ps_id r))"
    using r by (auto simp: knows_snapshot_def assms(3))
  moreover have "cache_ok (cache_snapshot E t (session_hash E s pc) (ps_id r) w)"
    using cache_ok_update[of w r E t] r info_ok_cache[OF assms(1)] by simp
  ultimately show ?thesis
    by (intro info_stage[OF assms(1), of _ "[]"]) (simp_all add: stage_ok_log[OF assms(2)])
qed

lemma begin_step_info:
  assumes "info_ok E w" and "ue_job E t = LogUsage s a"
  shows "info_ok E (begin_step E f t s a w)"
proof (cases "us_enabled s \<and> (\<exists>x. usage_cost s a = Inr x)")
  case False
  then show ?thesis
    unfolding begin_step_def
    by (cases "usage_cost s a") (auto intro!: info_failed info_same assms stage_ok_log)
next
  case True
  then obtain x where x: "us_enabled s" "usage_cost s a = Inr x" by blast
  note same = info_same[OF assms(1)] and failed = info_failed[OF assms]
  show ?thesis
  proof (cases "us_pricing s")
    case None
    then show ?thesis
      using x by (simp add: begin_step_def) (rule same, simp add: stage_ok_log[OF assms(2)] knows_snapshot_def)
  next
    case (Some pc)
    show ?thesis
    proof (cases "map_of (uw_cache w (ue_process E t)) (session_hash E s pc)")
      case None
      with Some x show ?thesis
        using info_found[OF assms Some] same[of t Missing] failed stage_ok_log(1)[OF assms(2), of w]
        by (auto simp: begin_step_def Let_def split: fault.split option.split)
    next
      case (Some i)
      with info_ok_cache[OF assms(1)] obtain r where
        "r \<in> set (uw_snapshots w)" "ps_hash r = session_hash E s pc" "ps_id r = i"
        unfolding cache_ok_def by blast
      then have "knows_snapshot E w s (Some i)"
        using \<open>us_pricing s = Some pc\<close> by (auto simp: knows_snapshot_def)
      then show ?thesis
        using Some \<open>us_pricing s = Some pc\<close> x same[of t "Priced (Some i)"] stage_ok_log(4)[OF assms(2)]
        by (simp add: begin_step_def Let_def)
    qed
  qed
qed

lemma insert_step_info:
  assumes "info_ok E w" and "ue_job E t = LogUsage s a" and "us_pricing s = Some pc"
  shows "info_ok E (insert_step E f blocked t s pc w)"
proof -
  let ?h = "session_hash E s pc"
  let ?r = "new_snapshot (ue_uuid E (uw_next w)) ?h (us_provider s) (us_model_name s) pc"
  have "info_ok E (set_stage t (Flushed ?r) (w\<lparr>uw_next := Suc (uw_next w)\<rparr>))"
    by (rule info_stage[OF assms(1), of _ "[]"])
      (simp_all add: stage_ok_log[OF assms(2)] assms(3) cache_ok_same[of _ w] info_ok_cache[OF assms(1)])
  moreover have "info_ok E (set_stage t Conflict w)" if "find_snapshot ?h (uw_snapshots w) \<noteq> None"
    using that by (intro info_same assms(1)) (simp add: stage_ok_log[OF assms(2)] assms(3) find_snapshot_None)
  ultimately show ?thesis
    using assms(1) info_failed[OF assms(1,2)] unfolding insert_step_def Let_def by (auto split: fault.split)
qed

lemma commit_step_info:
  assumes "info_ok E w" and "ue_job E t = LogUsage s a" and "uw_stage w t = Flushed r"
  shows "info_ok E (commit_step E f t s r w)"
proof -
  obtain pc where pc: "us_pricing s = Some pc" "ps_hash r = session_hash E s pc"
    using assms unfolding info_ok_def stage_ok_def by fastforce
  let ?w = "commit_rows [r] w"
  let ?c = "cache_snapshot E t (ps_hash r) (ps_id r) ?w"
  have cache: "cache_ok ?w" by (rule cache_ok_commit[OF info_ok_cache[OF assms(1)]])
  have "info_ok E (set_stage t (Priced (Some (ps_id r))) ?c)"
  proof (rule info_stage[OF assms(1), of _ "[r]"])
    show "cache_ok ?c" by (rule cache_ok_update[OF cache]) simp
    show "stage_ok E (set_stage t (Priced (Some (ps_id r))) ?c) t"
      by (simp add: stage_ok_log[OF assms(2)] knows_snapshot_def pc)
  qed simp_all
  moreover have "info_ok E (session_failed t s e ?w)" for e
    unfolding session_failed_def
    by (rule info_stage[OF assms(1), of _ "[r]"]) (simp_all add: cache stage_ok_log[OF assms(2)])
  ultimately show ?thesis
    using info_failed[OF assms(1,2)] unfolding commit_step_def by (auto split: fault.split)
qed

lemma requery_step_info:
  assumes "info_ok E w" and "ue_job E t = LogUsage s a" and "us_pricing s = Some pc"
  shows "info_ok E (requery_step E f t s pc w)"
  using info_found[OF assms] info_failed[OF assms(1,2)]
  unfolding requery_step_def Let_def by (auto split: fault.split option.split)

lemma log_step_info:
  assumes "info_ok E w" and "inj (ue_uuid E)" and "ue_job E t = LogUsage s a" and "uw_stage w t = Priced si"
  shows "info_ok E (log_step E f now t s a si w)"
proof (cases "usage_cost s a")
  case (Inl e)
  then show ?thesis using info_failed[OF assms(1,3)] by (simp add: log_step_def)
next
  case (Inr priced)
  have "knows_snapshot E w s si"
    using assms(1,3,4) unfolding info_ok_def stage_ok_def by fastforce
  note logged = info_log[OF assms(1-3) Inr this refl]
  have "snd (add_log E now s a priced si w) = ue_uuid E (uw_next w)"
    by (simp add: add_log_def Let_def)
  then have step: "log_step E NoFault now t s a si w
      = set_stage t (Finished (Inr (Some (ue_uuid E (uw_next w))))) (fst (add_log E now s a priced si w))"
    by (simp add: log_step_def Inr case_prod_unfold Let_def)
  show ?thesis
  proof (cases f)
    case NoFault
    then show ?thesis unfolding NoFault step by (intro logged) simp
  next
    case (FailsBefore e)
    then show ?thesis using info_failed[OF assms(1,3)] by (simp add: log_step_def Inr)
  next
    case (FailsAfter e)
    have "info_ok E (session_failed t s e (fst (add_log E now s a priced si w)))"
      unfolding session_failed_def by (rule logged) (auto split: if_splits)
    then show ?thesis by (simp add: FailsAfter log_step_def Inr)
  qed
qed

lemma finalize_step_info:
  assumes "info_ok E w" and "inj (ue_uuid E)" and "ue_job E t = LogUsage s a"
  shows "info_ok E (finalize_step E f blocked now t s a w)"
  unfolding finalize_step_def
  by (auto split: stage.split option.split intro: assms begin_step_info insert_step_info commit_step_info
      requery_step_info log_step_info)

lemma sync_step_info:
  assumes "info_ok E w" and "ue_job E t = SyncSnapshots models"
  shows "info_ok E (sync_step E f blocked t models w)"
proof -
  obtain xs where "uw_snapshots (sync_step E f blocked t models w) = uw_snapshots w @ xs"
      "uw_logs (sync_step E f blocked t models w) = uw_logs w"
      "uw_cache (sync_step E f blocked t models w) = uw_cache w"
      "uw_next w \<le> uw_next (sync_step E f blocked t models w)"
  proof (cases rule: sync_step_cases[where w = w and t = t and E = E and f = f and blocked = blocked and models = models])
    case (ended rows n)
    then show ?thesis by (cases f) (auto simp: sync_step_def intro: that[of rows] that[of "[]"])
  qed (auto simp: sync_step_def Let_def intro!: that[of "[]"])
  moreover have "stage_ok E w' t" for w' by (simp add: stage_ok_def assms(2))
  moreover have "uw_stage (sync_step E f blocked t models w) t' = uw_stage w t'" if "t' \<noteq> t" for t'
    using other_stages[OF that, of E f blocked 0 w] by (simp add: actor_step_def assms(2))
  moreover have "cache_ok (sync_step E f blocked t models w)"
    using info_ok_cache[OF assms(1)] calculation(1,3) unfolding cache_ok_def by fastforce
  ultimately show ?thesis by (intro info_step[OF assms(1)]) auto
qed

lemma usage_step_info:
  assumes "usage_step E w w'" and "info_ok E w" and "inj (ue_uuid E)"
  shows "info_ok E w'"
  using assms(1)
proof cases
  case (act blocked t f now)
  then show ?thesis
    using finalize_step_info[OF assms(2,3)] sync_step_info[OF assms(2)]
    by (cases "ue_job E t") (simp_all add: actor_step_def)
next
  case (reset p)
  have "cache_ok w'"
    using info_ok_cache[OF assms(2)] by (auto simp: reset reset_usage_logging_cache_def cache_ok_def)
  then show ?thesis
    by (intro info_step[OF assms(2), of _ "[]" 0])
      (use assms(2) in \<open>auto simp: reset reset_usage_logging_cache_def info_ok_def intro: stage_ok_mono[of E w]\<close>)
next
  case (kill t e)
  then show ?thesis using assms(2) by (auto intro!: info_same simp: stage_ok_def)
qed

lemma reachable_info:
  assumes "usage_reachable E w" and "inj (ue_uuid E)"
  shows "info_ok E w"
  using assms(1)
proof (induction rule: rtranclp_induct)
  case base
  show ?case
    by (simp add: info_ok_def cache_ok_def logs_ok_def stage_ok_def empty_usage_world_def)
next
  case (step w w')
  show ?case by (rule usage_step_info[OF step(2) step(3) assms(2)])
qed

end
