(* ===== verification/UsageProperties.thy ===== *)
theory UsageProperties
  imports UsageKnowledge
begin

text \<open>
  The properties of usage logging: what a request costs, and what its log entry refers to
  under any interleaving of the sessions.
\<close>

subsection \<open>Costs\<close>

definition demo_usage :: usage where
  "demo_usage = [(''input_tokens'', JNum 1000), (''output_tokens'', JNum 200),
     (''cache_read_tokens'', JNum 400), (''reasoning_tokens'', JNum 50), (''audio_tokens'', JNum 10)]"

definition demo_pricing :: "nat option \<Rightarrow> pricing_config" where
  "demo_pricing decimals =
     \<lparr>pc_currency = ''USD'', pc_input = \<lparr>dp_cost_per_1k = 2, dp_billed_separately = False\<rparr>,
      pc_output = \<lparr>dp_cost_per_1k = 8, dp_billed_separately = False\<rparr>,
      pc_extras = [(''cache_read_tokens'', \<lparr>dp_cost_per_1k = 1 / 3, dp_billed_separately = False\<rparr>),
                   (''reasoning_tokens'', \<lparr>dp_cost_per_1k = 9, dp_billed_separately = False\<rparr>),
                   (''audio_tokens'', \<lparr>dp_cost_per_1k = 5, dp_billed_separately = True\<rparr>)],
      pc_key_aliases = [], pc_context_tiers = [\<lparr>ct_max_context = 128000, ct_multiplier = 1\<rparr>],
      pc_rounding = decimals, pc_passthrough_unpriced = True\<rparr>"








subsection \<open>One session at a time\<close>







definition demo_session :: usage_session where
  "demo_session =
     \<lparr>us_task_type = ''chat'', us_request_mode = ''sync'', us_model_name = ''m'', us_provider = ''p'',
      us_pricing = Some (demo_pricing None), us_user_id = None, us_session_id = None, us_request_id = None,
      us_enabled = True, us_fail_open = True, us_instance_id = None, us_instance_name = None,
      us_start_time = 0, us_accumulated = demo_usage, us_partial = False\<rparr>"

definition demo_args :: finalize_args where
  "demo_args = \<lparr>fa_success = True, fa_error = None, fa_final_usage = [], fa_streamed = False,
     fa_partial = False, fa_details = []\<rparr>"

definition demo_env :: usage_env where
  "demo_env = \<lparr>ue_sha = (\<lambda>_. ''h''), ue_uuid = nat_str, ue_process = (\<lambda>_. 0),
     ue_job = (\<lambda>_. LogUsage demo_session demo_args)\<rparr>"

lemma demo_env_simps [simp]:
  "ue_job demo_env t = LogUsage demo_session demo_args" "inj (ue_uuid demo_env)"
  by (simp_all add: demo_env_def inj_nat_str)



subsection \<open>What a log entry refers to\<close>





text \<open>
  The race for a new snapshot is always decided: a session whose insert met the unique
  constraint finds the row of the winner when it asks again, so the second \<open>raise\<close> of
  \<open>finalize\<close> is unreachable.
\<close>

lemma lost_race_finds_row:
  assumes "usage_reachable E w" and "inj (ue_uuid E)" and "ue_job E t = LogUsage s a"
    and "uw_stage w t = Conflict"
  shows "\<exists>r\<in>set (uw_snapshots w).
    uw_stage (actor_step E NoFault blocked now t w) = (uw_stage w)(t := Priced (Some (ps_id r)))"
proof -
  have "stage_ok E w t" using reachable_info[OF assms(1,2)] by (simp add: info_ok_def)
  then obtain pc where pc: "us_pricing s = Some pc" "session_hash E s pc \<in> ps_hash ` set (uw_snapshots w)"
    using assms(3,4) by (auto simp: stage_ok_def)
  then obtain r where r: "find_snapshot (session_hash E s pc) (uw_snapshots w) = Some r"
    by (metis find_snapshot_None option.exhaust)
  have "uw_stage (actor_step E NoFault blocked now t w) = (uw_stage w)(t := Priced (Some (ps_id r)))"
    using pc r by (simp add: actor_step_def assms(3) finalize_step_def assms(4) requery_step_def Let_def)
  with find_snapshot_Some[OF r] show ?thesis by blast
qed

text \<open>
  The total of the provider counts as an unpriced dimension: a usage that reports a positive
  \<open>total_tokens\<close> next to priced input and output tokens has its cost marked as estimated.
\<close>

lemma total_tokens_mark_estimated:
  assumes "numeric_usage u" and "pricing_ok pc" and "token_count u ''total_tokens'' > 0"
    and "''total_tokens'' \<notin> fst ` set (pc_extras pc)"
  shows "\<exists>r. compute_cost u pc = Inr r \<and> cost_estimated r"
proof -
  obtain v where v: "map_of u ''total_tokens'' = Some v" "number_of v > 0"
    using assms(3) by (auto simp: token_count_eq split: option.splits)
  then have "(''total_tokens'', v) \<in> set u" by (simp add: map_of_SomeD)
  moreover have "py_endswith ''total_tokens'' ''_tokens''"
    by (simp add: py_endswith_def py_startswith_def)
  ultimately have "unpriced u ([''input_tokens'', ''output_tokens''] @ map fst (pc_extras pc))"
    using v(2) assms(4) unfolding unpriced_def list_ex_iff by (intro bexI[of _ "(''total_tokens'', v)"]) auto
  then have "cost_estimated (exact_cost u pc)" by (simp add: exact_cost_def Let_def)
  with assms(1,2) compute_cost_numeric[of u pc] show ?thesis
    by (cases "pc_rounding pc") (auto simp: pricing_ok_def)
qed

text \<open>
  A snapshot does not determine a cost: two pricings that differ in the multiplier of a tier
  share their key, and charge different totals for the same usage.
\<close>

lemma snapshot_ignores_tiers:
  "\<exists>pc pc' u. pricing_key p m pc = pricing_key p m pc' \<and>
    map_sum id cost_total_usd (compute_cost u pc) \<noteq> map_sum id cost_total_usd (compute_cost u pc')"
proof -
  obtain pc where pc: "pc = (demo_pricing None)\<lparr>pc_extras := []\<rparr>" by blast
  let ?pc' = "pc\<lparr>pc_context_tiers := [\<lparr>ct_max_context = 1, ct_multiplier = 3\<rparr>]\<rparr>"
  let ?u = "[(''input_tokens'', JNum 1000)] :: usage"
  have "pricing_key p m pc = pricing_key p m ?pc'"
    by (simp add: pricing_key_def extras_pricing_def)
  moreover have "numeric_usage ?u" by (simp add: numeric_usage_def)
  moreover have "cost_total_usd (exact_cost ?u pc) = 2" "cost_total_usd (exact_cost ?u ?pc') = 6"
    by (simp_all add: pc demo_pricing_def exact_cost_def Let_def token_count_eq number_of_def
        get_context_multiplier_def included_def calculate_dimension_cost_def max_tier_def)
  ultimately show ?thesis
    using compute_cost_numeric[of ?u pc] compute_cost_numeric[of ?u ?pc']
    by (intro exI[of _ pc] exI[of _ ?pc'] exI[of _ ?u]) (simp add: pc demo_pricing_def)
qed

text \<open>
  An insert of the synchronization that meets a row of another session rolls back the rows it
  flushed before, but keeps them in its count.
\<close>

lemma sync_conflict_drops_rows:
  assumes "ue_job E t = SyncSnapshots models" and "uw_stage w t = SyncInsert ((m, p, Some pc) # ms) rows added"
    and "find_snapshot (ue_sha E (pricing_key p m pc)) (uw_snapshots w) = Some r"
  shows "uw_stage (actor_step E NoFault blocked now t w) t = SyncSelect ms [] added"
    and "uw_snapshots (actor_step E NoFault blocked now t w) = uw_snapshots w"
proof -
  have "find_snapshot (ue_sha E (pricing_key p m pc)) (uw_snapshots w @ rows) \<noteq> None"
    using find_snapshot_Some[OF assms(3)] by (simp add: find_snapshot_None) (metis UnI1 image_eqI)
  with assms(1,2) have "actor_step E NoFault blocked now t w = set_stage t (SyncSelect ms [] added) w"
    by (simp add: actor_step_def sync_step_def)
  then show "uw_stage (actor_step E NoFault blocked now t w) t = SyncSelect ms [] added"
    and "uw_snapshots (actor_step E NoFault blocked now t w) = uw_snapshots w" by simp_all
qed

end
