(* ===== verification/CostProperties.thy ===== *)
theory CostProperties
  imports CostTracking UsageProperties
begin

text \<open>
  The books of an agent run: what the middleware relies on of the usage log is the locale
  \<open>request_logger\<close>, interpreted on the steps of \<open>UsageLogging\<close>, and the counters in the state of
  the graph agree with the entries of the log.
\<close>

subsection \<open>What the middleware relies on\<close>

locale request_logger =
  fixes fin :: "'w \<Rightarrow> usage_session \<Rightarrow> finalize_args \<Rightarrow> 'w \<times> (exn + uuid option)"
    and logs :: "'w \<Rightarrow> request_log list"
  assumes logged: "fin w s a = (w', Inr (Some i)) \<Longrightarrow> \<exists>now priced si. usage_cost s a = Inr priced \<and>
      logs w' = logs w @ [log_entry i now s a priced si]"
    and at_most_one: "fin w s a = (w', r) \<Longrightarrow> \<exists>ls. logs w' = logs w @ ls \<and> length ls \<le> 1"


subsection \<open>The log provides it\<close>

text \<open>
  \<open>finalize\<close> from its first to its last step, with what happens at each database call. The
  waiting of an insert for another transaction is over when the step is taken.
\<close>

definition finalize_now ::
  "usage_env \<Rightarrow> fault list \<Rightarrow> rat \<Rightarrow> usage_world \<Rightarrow> usage_session \<Rightarrow> finalize_args \<Rightarrow>
   usage_world \<times> (exn + uuid option)" where
  "finalize_now E fs now w s a =
     (let w' = foldl (\<lambda>w f. finalize_step E f False now 0 s a w) (set_stage 0 Begin w) fs
      in (w', case uw_stage w' 0 of Finished r \<Rightarrow> r | _ \<Rightarrow> Inl (OtherError ''CancelledError'')))"

definition finalize_progress ::
  "rat \<Rightarrow> usage_session \<Rightarrow> finalize_args \<Rightarrow> request_log list \<Rightarrow> usage_world \<Rightarrow> bool" where
  "finalize_progress now s a old w \<longleftrightarrow>
     (\<exists>ls. uw_logs w = old @ ls \<and> length ls \<le> 1 \<and>
        (case uw_stage w 0 of
           Finished r \<Rightarrow> (\<forall>i. r = Inr (Some i) \<longrightarrow> (\<exists>priced si. usage_cost s a = Inr priced \<and>
               ls = [log_entry i now s a priced si]))
         | _ \<Rightarrow> ls = []))"

lemma finalize_progress_stage:
  "uw_logs w = old \<Longrightarrow> (\<forall>i. st \<noteq> Finished (Inr (Some i))) \<Longrightarrow>
   finalize_progress now s a old (set_stage 0 st w)"
  by (auto simp: finalize_progress_def split: stage.split)

lemma finalize_step_progress:
  assumes "finalize_progress now s a old w"
  shows "finalize_progress now s a old (finalize_step E f blocked now 0 s a w)"
proof (cases "uw_stage w 0")
  case (Finished r)
  with assms show ?thesis by (simp add: finalize_step_def)
next
  case (Priced si)
  then have old: "uw_logs w = old" using assms by (auto simp: finalize_progress_def)
  have failed: "finalize_progress now s a old (session_failed 0 s e w')"
    if "uw_logs w' = old @ ls" "length ls \<le> 1" for e w' ls
    using that by (auto simp: finalize_progress_def session_failed_def)
  show ?thesis
  proof (cases "usage_cost s a")
    case (Inl e)
    then show ?thesis using Priced failed[of w "[]"] old by (simp add: finalize_step_def log_step_def)
  next
    case (Inr priced)
    let ?l = "log_entry (ue_uuid E (uw_next w)) now s a priced si"
    have logs: "uw_logs (fst (add_log E now s a priced si w)) = old @ [?l]"
        "snd (add_log E now s a priced si w) = ue_uuid E (uw_next w)"
      by (simp_all add: add_log_def Let_def old)
    then have "finalize_progress now s a old
        (set_stage 0 (Finished (Inr (Some (ue_uuid E (uw_next w))))) (fst (add_log E now s a priced si w)))"
      using Inr by (auto simp: finalize_progress_def)
    then show ?thesis
      using Priced Inr failed[OF logs(1)] failed[of w "[]"] old
      by (auto simp: finalize_step_def log_step_def case_prod_unfold Let_def logs(2) split: fault.split)
  qed
next
  case Begin
  then have "uw_logs w = old" using assms by (auto simp: finalize_progress_def)
  with Begin show ?thesis
    unfolding finalize_step_def begin_step_def session_failed_def Let_def
    by (auto split: option.split sum.split fault.split intro!: finalize_progress_stage)
next
  case Missing
  then have "uw_logs w = old" using assms by (auto simp: finalize_progress_def)
  with Missing assms show ?thesis
    unfolding finalize_step_def insert_step_def session_failed_def Let_def
    by (auto split: option.split fault.split intro!: finalize_progress_stage)
next
  case (Flushed r)
  then have "uw_logs w = old" using assms by (auto simp: finalize_progress_def)
  with Flushed show ?thesis
    unfolding finalize_step_def commit_step_def session_failed_def Let_def
    by (auto split: fault.split intro!: finalize_progress_stage)
next
  case Conflict
  then have "uw_logs w = old" using assms by (auto simp: finalize_progress_def)
  with Conflict assms show ?thesis
    unfolding finalize_step_def requery_step_def session_failed_def Let_def
    by (auto split: option.split fault.split intro!: finalize_progress_stage)
qed (use assms in \<open>simp_all add: finalize_step_def\<close>)

lemma finalize_now_progress:
  assumes "finalize_now E fs now w s a = (w', r)"
  shows "finalize_progress now s a (uw_logs w) w'"
    and "uw_stage w' 0 = Finished r \<or> r = Inl (OtherError ''CancelledError'')"
proof -
  have w': "w' = foldl (\<lambda>w f. finalize_step E f False now 0 s a w) (set_stage 0 Begin w) fs"
    using assms by (simp add: finalize_now_def Let_def)
  have "finalize_progress now s a (uw_logs w) (set_stage 0 Begin w)"
    by (simp add: finalize_progress_stage)
  then have "finalize_progress now s a (uw_logs w)
      (foldl (\<lambda>w f. finalize_step E f False now 0 s a w) (set_stage 0 Begin w) fs)"
  proof (induction fs rule: rev_induct)
    case (snoc f fs)
    then show ?case by (simp add: finalize_step_progress)
  qed simp
  then show "finalize_progress now s a (uw_logs w) w'" by (simp add: w')
  show "uw_stage w' 0 = Finished r \<or> r = Inl (OtherError ''CancelledError'')"
    using assms by (auto simp: finalize_now_def Let_def split: stage.splits)
qed



interpretation faulty: request_logger "finalize_now E fs now" uw_logs
proof
  fix w s a w' i
  assume run: "finalize_now E fs now w s a = (w', Inr (Some i))"
  from finalize_now_progress[OF this] show "\<exists>now priced si. usage_cost s a = Inr priced \<and>
      uw_logs w' = uw_logs w @ [log_entry i now s a priced si]"
    by (auto simp: finalize_progress_def)
next
  fix w s a w' r
  assume "finalize_now E fs now w s a = (w', r)"
  from finalize_now_progress(1)[OF this] show "\<exists>ls. uw_logs w' = uw_logs w @ ls \<and> length ls \<le> 1"
    by (auto simp: finalize_progress_def)
qed


subsection \<open>Fragments\<close>


















subsection \<open>The books of a run\<close>









subsection \<open>When logging fails\<close>

text \<open>
  A log entry whose commit went through but whose session then failed gives no id, so
  \<open>after_model\<close> takes the call for unlogged and writes a second entry.
\<close>

lemma unacknowledged_entry_is_logged_twice:
  assumes "\<And>w s a. ce_finalize E w s a = (w @ [(s, a)], if w = [] then Inr None else Inr (Some i))"
    and "usage_of_message E m (request @ [am_content m]) = Inr (Some f, x, est)"
    and "usage_of_message E m [am_content m] = Inr (Some f, x, est)" and "f \<noteq> []"
    and "snd (add_to_costs f x (ar_costs (count_model_call st))) = None"
    and "ar_ctx st = Some fresh_mw_context" and "ar_world st = []"
  shows "length (ar_world (model_turn E mw False (request, m) st)) = 2"
proof -
  obtain c where c: "add_to_costs f x (ar_costs (count_model_call st)) = (c, None)"
    using assms(5) by (cases "add_to_costs f x (ar_costs (count_model_call st))") auto
  then have c': "add_to_costs f x ((ar_costs st)\<lparr>ca_model_calls := Suc (ca_model_calls (ar_costs st))\<rparr>) = (c, None)"
    by (simp add: count_model_call_def)
  show ?thesis
    using assms(2-4,6,7) c'
    by (simp add: model_turn_def wrap_model_call_def cancelled_def persist_from_response_def
        build_usage_session_def run_finalize_def assms(1) apply_persist_result_def after_model_def
        fresh_mw_context_def log_from_state_def count_model_call_def finalize_sync_def Let_def
        split: option.split sum.split)
qed

lemma unlogged_call:
  assumes "\<And>w s a. ce_finalize E w s a = (w, Inr None)"
  shows "persist_from_response E mw sync response request st = st"
proof (cases "ar_ctx st")
  case None
  then show ?thesis by (simp add: persist_from_response_def)
next
  case (Some ctx)
  have "run_finalize E sync s a w = (w, Inr None)" for s a w
    by (simp add: run_finalize_def assms finalize_sync_def)
  with Some show ?thesis
    by (cases st) (auto simp: persist_from_response_def apply_persist_result_def split: sum.split option.split)
qed

text \<open>
  A call that was logged and then cancelled before \<open>after_model\<close> leaves its id in the
  middleware. If the next call cannot be logged, the state reports the id of the cancelled call
  for it and adds the tokens of the cancelled call.
\<close>

lemma stale_entry_is_reported:
  assumes "\<And>w s a. ce_finalize E w s a = (w, Inr None)" and "ar_ctx st = Some ctx"
    and "mc_log_id ctx = Some i" and "mc_fragment ctx = Some f" and "mc_extra_tokens ctx = Some x"
    and "snd (add_to_costs f x (ar_costs (count_model_call st))) = None" and "f \<noteq> []"
  shows "ca_last_log_id (ar_costs (model_turn E mw sync (request, m) st)) = Some i"
    and "ca_input_tokens (ar_costs (model_turn E mw sync (request, m) st)) =
      ca_input_tokens (fst (add_to_costs f x (ar_costs (count_model_call st))))"
proof -
  obtain st' where st': "st' = fst (wrap_model_call E mw sync None request (Inr [m]) st)" by blast
  obtain ctx' where ctx': "ar_ctx st' = Some ctx'" "mc_log_id ctx' = Some i" "mc_fragment ctx' = Some f"
      "mc_extra_tokens ctx' = Some x" "ar_costs st' = ar_costs st"
    using assms(2-5) by (simp add: st' wrap_model_call_def cancelled_def unlogged_call[OF assms(1)])
  obtain c where "add_to_costs f x (ar_costs (count_model_call st)) = (c, None)"
    using assms(6) by (cases "add_to_costs f x (ar_costs (count_model_call st))") auto
  then have "ca_last_log_id (ar_costs (model_turn E mw sync (request, m) st)) = Some i \<and>
      ca_input_tokens (ar_costs (model_turn E mw sync (request, m) st)) = ca_input_tokens c"
    using ctx' assms(7)
    by (auto simp: model_turn_def st'[symmetric] after_model_def report_persisted_def count_model_call_def
        Let_def split: option.split)
  then show "ca_last_log_id (ar_costs (model_turn E mw sync (request, m) st)) = Some i"
    and "ca_input_tokens (ar_costs (model_turn E mw sync (request, m) st)) =
      ca_input_tokens (fst (add_to_costs f x (ar_costs (count_model_call st))))"
    using \<open>add_to_costs f x (ar_costs (count_model_call st)) = (c, None)\<close> by simp_all
qed

text \<open>
  The cancel check guards the synchronous hook only: with the check raised, \<open>wrap_tool_call\<close>
  stops the run and \<open>awrap_tool_call\<close> executes the tool.
\<close>

lemma async_tools_ignore_cancellation:
  "wrap_tool_call (Some (Inr True)) tid answer = Inl AgentCancelled"
  "awrap_tool_call tid (Inr r) = Inr (HandlerResult r)"
  by (simp_all add: wrap_tool_call_def awrap_tool_call_def cancelled_def)

end
