(* ===== verification/UsageCallback.thy ===== *)
theory UsageCallback
  imports CostTracking
begin

text \<open>
  \<open>inference_core/llm/callbacks.py\<close>: the callback that adds the usage of a chain to a session.
  The base class of the framework keeps, for every model, the sum of the usage so far; it is
  the argument \<open>metadata\<close> of \<open>on_llm_end\<close>, and the callback adds what is new since its last
  call.
\<close>

type_synonym token_totals = "rat \<times> rat \<times> rat"

record usage_callback =
  uc_session :: usage_session
  uc_last_totals :: "(string \<times> token_totals) list"

definition last_totals :: "usage_callback \<Rightarrow> string \<Rightarrow> token_totals" where
  "last_totals cb m = (case map_of (uc_last_totals cb) m of Some t \<Rightarrow> t | None \<Rightarrow> (0, 0, 0))"

text \<open>The details of a model's usage, added to the fragment in full.\<close>

definition add_callback_detail :: "usage \<Rightarrow> string \<times> json \<Rightarrow> usage" where
  "add_callback_detail fragment kv =
     (case json_number (snd kv) of
        Some n \<Rightarrow>
          if n > 0 then dict_set fragment (fst kv @ ''_tokens'')
            (JNum (number_of (usage_get fragment (fst kv @ ''_tokens'') (JNum 0)) + n))
          else fragment
      | None \<Rightarrow> fragment)"

definition optional_entry :: "bool \<Rightarrow> string \<Rightarrow> rat \<Rightarrow> usage" where
  "optional_entry present k n = (if present then [(k, JNum n)] else [])"

text \<open>
  What one model adds: its fragment (empty when nothing is new) and its new totals.
\<close>

definition model_delta :: "usage \<Rightarrow> token_totals \<Rightarrow> exn + (usage \<times> token_totals)" where
  "model_delta meta prev =
     (case prev of (prev_input, prev_output, prev_total) \<Rightarrow>
      bind_result (usage_number (or_zero (usage_get meta ''input_tokens'' (JNum 0)))) (\<lambda>input_tokens.
      bind_result (usage_number (or_zero (usage_get meta ''output_tokens'' (JNum 0)))) (\<lambda>output_tokens.
      bind_result (usage_number (usage_get meta ''total_tokens'' (JNum (input_tokens + output_tokens)))) (\<lambda>total_tokens.
      let delta_input = max 0 (input_tokens - prev_input);
          delta_output = max 0 (output_tokens - prev_output);
          delta_total = max 0 (total_tokens - prev_total)
      in if delta_input = 0 \<and> delta_output = 0 \<and> delta_total = 0 then Inr ([], prev)
         else
           bind_result (meta_details meta ''input_token_details'') (\<lambda>input_details.
           bind_result (meta_details meta ''output_token_details'') (\<lambda>output_details.
           Inr (foldl add_callback_detail
                  (optional_entry (delta_input \<noteq> 0) ''input_tokens'' delta_input @
                   optional_entry (delta_output \<noteq> 0) ''output_tokens'' delta_output @
                   optional_entry (delta_total \<noteq> 0 \<and> map_of meta ''total_tokens'' \<noteq> None) ''total_tokens'' delta_total)
                  (input_details @ output_details),
                (input_tokens, output_tokens, total_tokens))))))))"

definition add_model_usage :: "string \<times> usage \<Rightarrow> usage_callback \<Rightarrow> usage_callback \<times> exn option" where
  "add_model_usage entry cb =
     (case model_delta (snd entry) (last_totals cb (fst entry)) of
        Inl e \<Rightarrow> (cb, Some e)
      | Inr (fragment, totals) \<Rightarrow>
          let (s, failed) = accumulate fragment (uc_session cb) in
          if failed \<noteq> None then (cb\<lparr>uc_session := s\<rparr>, failed)
          else (cb\<lparr>uc_session := s,
                   uc_last_totals := (if totals = last_totals cb (fst entry) then uc_last_totals cb
                     else AList.update (fst entry) totals (uc_last_totals cb))\<rparr>, None))"

fun add_models_usage :: "(string \<times> usage) list \<Rightarrow> usage_callback \<Rightarrow> usage_callback \<times> exn option" where
  "add_models_usage [] cb = (cb, None)"
| "add_models_usage (entry # metadata) cb =
     (case add_model_usage entry cb of
        (cb', None) \<Rightarrow> add_models_usage metadata cb'
      | (cb', Some e) \<Rightarrow> (cb', Some e))"

text \<open>The first truthy block of the provider's own output.\<close>

definition usage_block :: "usage \<Rightarrow> json option" where
  "usage_block llm_output =
     find json_truthy (map (\<lambda>k. usage_get llm_output k JNull)
       [''token_usage'', ''usage'', ''usage_metadata'', ''response_metadata''])"

definition add_fallback_usage :: "json \<Rightarrow> usage_callback \<Rightarrow> usage_callback" where
  "add_fallback_usage llm_output cb =
     (case llm_output of
        JObj kvs \<Rightarrow>
          (case usage_block kvs of
             Some (JObj block) \<Rightarrow>
               cb\<lparr>uc_session := fst (accumulate (filter (\<lambda>(_, v). json_number v \<noteq> None) block) (uc_session cb))\<rparr>
           | _ \<Rightarrow> cb)
      | _ \<Rightarrow> cb)"

text \<open>An exception ends the callback and is only logged.\<close>

definition on_llm_end :: "(string \<times> usage) list \<Rightarrow> json \<Rightarrow> usage_callback \<Rightarrow> usage_callback" where
  "on_llm_end metadata llm_output cb =
     (case add_models_usage metadata cb of
        (cb', None) \<Rightarrow> add_fallback_usage llm_output cb'
      | (cb', Some _) \<Rightarrow> cb')"

definition on_llm_error :: "usage_callback \<Rightarrow> usage_callback" where
  "on_llm_error cb = cb\<lparr>uc_session := (uc_session cb)\<lparr>us_partial := True\<rparr>\<rparr>"

definition get_accumulated :: "usage_callback \<Rightarrow> usage" where
  "get_accumulated cb = us_accumulated (uc_session cb)"

subsection \<open>What is counted\<close>

lemma numeric_dict_set: "numeric_usage u \<Longrightarrow> numeric_usage (dict_set u k (JNum n))"
  unfolding numeric_usage_def dict_set_def by (induction u) auto

lemma accumulate_usage_count:
  assumes "numeric_usage acc" and "numeric_usage fragment"
  shows "snd (accumulate_usage acc fragment) = None \<and> numeric_usage (fst (accumulate_usage acc fragment)) \<and>
    (distinct (map fst fragment) \<longrightarrow>
       token_count (fst (accumulate_usage acc fragment)) k = token_count acc k + token_count fragment k)"
  using assms
proof (induction fragment arbitrary: acc)
  case Nil
  then show ?case by (simp add: token_count_eq)
next
  case (Cons kv fragment)
  obtain k' v n where kv: "kv = (k', v)" "json_number v = Some n"
    using Cons.prems(2) by (cases kv) (auto simp: numeric_usage_def)
  let ?acc = "dict_set acc k' (JNum (token_count acc k' + n))"
  have num: "numeric_usage ?acc" by (rule numeric_dict_set[OF Cons.prems(1)])
  have step: "accumulate_usage acc (kv # fragment) = accumulate_usage ?acc fragment"
    by (simp add: kv usage_number_count[OF Cons.prems(1)])
  have "token_count ?acc k = token_count acc k + (if k = k' then n else 0)"
    by (simp add: token_count_eq number_of_def)
  moreover have "token_count (kv # fragment) k = (if k = k' then n else token_count fragment k)"
    by (simp add: kv token_count_eq number_of_def)
  moreover have "k = k' \<Longrightarrow> k' \<notin> fst ` set fragment \<Longrightarrow> token_count fragment k = 0"
    by (simp add: token_count_eq map_of_eq_None_iff split: option.split)
      (metis map_of_eq_None_iff option.distinct(1))
  ultimately show ?case
    using Cons.IH[OF num] Cons.prems(2) unfolding step by (auto simp: numeric_usage_def kv)
qed

text \<open>
  The counts of a model telescope: whatever its usage was at the last call, the input tokens
  that a fragment adds are the difference to the new total, while the details are added as they
  are, so the details of all earlier calls are counted again.
\<close>

lemma fragment_details_are_cumulative:
  assumes "0 \<le> n" and "0 < k"
  shows "model_delta [(''input_tokens'', JNum (n + k)), (''output_tokens'', JNum 0), (''total_tokens'', JNum (n + k)),
      (''input_token_details'', JObj [(''cache_read'', JNum (n + k))])] (n, 0, n) =
    Inr ([(''input_tokens'', JNum k), (''total_tokens'', JNum k), (''cache_read_tokens'', JNum (n + k))],
         (n + k, 0, n + k))"
  using assms
  by (simp add: model_delta_def usage_get_def usage_number_def or_zero_def meta_details_def
      optional_entry_def add_callback_detail_def number_of_def dict_set_def)

end
