(* ===== verification/ModelSelection.thy ===== *)
theory ModelSelection
  imports CostTracking AgentInstances ConfigResolution
begin

text \<open>
  The middleware of an agent that decides which model a call reaches and with which system
  prompt: \<open>model_fallback.py\<close>, \<open>tool_model_switch.py\<close>, \<open>instance_config.py\<close>, \<open>subagent_config.py\<close>
  and \<open>tool_call_limits.py\<close> of \<open>inference_core/agents/middleware\<close>. Every middleware wraps a
  handler, the rest of the chain down to the model, which is a function of the request and of
  the world and may raise. The model factory and the framework's \<open>init_chat_model\<close> are
  parameters. The entries of the run configuration that name a model or hold a prompt are
  texts, as the client that builds the configuration sends them.
\<close>

subsection \<open>Requests and the world of a call\<close>

datatype system_message = NoSystem | SystemMessage json | SystemText string

datatype model_message = ToolAnswer "string option" | OtherModelMessage

record 'm model_request =
  rq_model :: 'm
  rq_system :: system_message
  rq_messages :: "model_message list"

type_synonym fallback_key = "string list \<times> bool \<times> string option"

record 'm model_world =
  xw_switch_cache :: "(string \<times> 'm) list"
  xw_instance_cache :: "(string \<times> 'm) list"
  xw_instance_fallbacks :: "(fallback_key \<times> 'm list option) list"
  xw_subagent_cache :: "(string \<times> 'm) list"
  xw_subagent_fallbacks :: "((string list \<times> string option) \<times> 'm list option) list"
  xw_calls :: "('m \<times> call_exn option) list"
  xw_cancel :: "(exn + bool) option"

type_synonym ('m, 'r) model_handler =
  "'m model_request \<Rightarrow> 'm model_world \<Rightarrow> 'm model_world \<times> (call_exn + 'r)"

text \<open>
  The factory is \<^const>\<open>None\<close> where the middleware has none; a fallback is then given by its
  name, which the framework resolves.
\<close>

record 'm model_env =
  me_factory :: "(string \<Rightarrow> bool \<Rightarrow> usage \<Rightarrow> exn + 'm option) option"
  me_configured :: "string list option"
  me_init_chat_model :: "string \<Rightarrow> exn + 'm"
  me_resolve_name :: "string \<Rightarrow> exn + 'm"
  me_str :: "json \<Rightarrow> string"

definition model_str :: "'m model_env \<Rightarrow> json \<Rightarrow> string" where
  "model_str E v = (case v of JStr s \<Rightarrow> s | _ \<Rightarrow> me_str E v)"

subsection \<open>Fallback\<close>

text \<open>The exceptions that are not failures of a model.\<close>

fun interrupting :: "call_exn \<Rightarrow> bool" where
  "interrupting AgentCancelled = True"
| "interrupting (GraphInterrupt _) = True"
| "interrupting (CallError _) = False"

fun try_fallbacks ::
  "('m, 'r) model_handler \<Rightarrow> ('m model_world \<Rightarrow> (exn + bool) option) \<Rightarrow> 'm model_request \<Rightarrow> call_exn \<Rightarrow> 'm list \<Rightarrow>
   'm model_world \<Rightarrow> 'm model_world \<times> (call_exn + 'r)" where
  "try_fallbacks h chk q last_exception [] w = (w, Inl last_exception)"
| "try_fallbacks h chk q last_exception (m # ms) w =
     (if cancelled (chk w) then (w, Inl AgentCancelled)
      else case h (q\<lparr>rq_model := m\<rparr>) w of
        (w', Inr r) \<Rightarrow> (w', Inr r)
      | (w', Inl e) \<Rightarrow> if interrupting e then (w', Inl e) else try_fallbacks h chk q e ms w')"

definition fallback_wrap ::
  "'m list \<Rightarrow> ('m model_world \<Rightarrow> (exn + bool) option) \<Rightarrow> ('m, 'r) model_handler \<Rightarrow> ('m, 'r) model_handler" where
  "fallback_wrap models chk h q w =
     (case h q w of
        (w', Inr r) \<Rightarrow> (w', Inr r)
      | (w', Inl e) \<Rightarrow> if interrupting e then (w', Inl e) else try_fallbacks h chk q e models w')"

text \<open>\<open>normalize_fallback_model_names\<close>.\<close>

fun normalize_names :: "'m model_env \<Rightarrow> string option \<Rightarrow> string list \<Rightarrow> json list \<Rightarrow> string list" where
  "normalize_names E primary seen [] = []"
| "normalize_names E primary seen (raw # raws) =
     (let name = py_strip (model_str E raw) in
      if raw = JNull \<or> name = [] \<or> Some name = primary \<or> name \<in> set seen
      then normalize_names E primary seen raws
      else name # normalize_names E primary (name # seen) raws)"

definition normalize_fallback_model_names ::
  "'m model_env \<Rightarrow> json \<Rightarrow> string option \<Rightarrow> exn + string list" where
  "normalize_fallback_model_names E fallback_models primary =
     (if \<not> json_truthy fallback_models then Inr []
      else map_sum id (normalize_names E (or_text primary None) [])
        (case fallback_models of JStr s \<Rightarrow> Inr [JStr s] | _ \<Rightarrow> json_iter fallback_models))"

text \<open>The models of the fallbacks that can be built, in order; no middleware without any.\<close>

fun build_fallback_models ::
  "'m model_env \<Rightarrow> bool \<Rightarrow> usage \<Rightarrow> string list \<Rightarrow> (string + 'm) list" where
  "build_fallback_models E reasoning params [] = []"
| "build_fallback_models E reasoning params (name # names) =
     (if (case me_configured E of Some ms \<Rightarrow> name \<notin> set ms | None \<Rightarrow> False)
      then build_fallback_models E reasoning params names
      else case me_factory E of
        None \<Rightarrow> Inl name # build_fallback_models E reasoning params names
      | Some create \<Rightarrow>
          (case create name reasoning params of
             Inr (Some m) \<Rightarrow> Inr m # build_fallback_models E reasoning params names
           | _ \<Rightarrow> build_fallback_models E reasoning params names))"

definition build_model_fallback_middleware ::
  "'m model_env \<Rightarrow> bool \<Rightarrow> usage \<Rightarrow> json \<Rightarrow> string option \<Rightarrow> exn + 'm list option" where
  "build_model_fallback_middleware E reasoning params fallback_models primary =
     map_sum id (\<lambda>names.
       let objects = build_fallback_models E reasoning params names in
       if objects = [] then None
       else case map_result (\<lambda>x. case x of Inl name \<Rightarrow> me_resolve_name E name | Inr m \<Rightarrow> Inr m) objects of
         Inl _ \<Rightarrow> None
       | Inr models \<Rightarrow> Some models)
     (normalize_fallback_model_names E fallback_models primary)"

text \<open>\<open>canonicalize_fallback_overrides\<close> with \<open>keep_alias = False\<close>; with the alias it is
  \<^const>\<open>canonicalize_fallback\<close>.\<close>

definition canonicalize_without_alias :: "usage \<Rightarrow> usage" where
  "canonicalize_without_alias m =
     (case fallback_from_mapping m of
        None \<Rightarrow> m
      | Some v \<Rightarrow> AList.delete ''fallback_models'' (dict_set m ''fallback'' v))"

subsection \<open>Switching by tool\<close>

datatype switch_trigger = AfterTool | BeforeTool

record tool_model_override =
  to_tool_name :: string
  to_model :: string
  to_trigger :: switch_trigger
  to_description :: string

text \<open>One dictionary of an override in the YAML file; its values are texts.\<close>

definition tool_model_override_of :: "(string \<times> string) list \<Rightarrow> exn + tool_model_override" where
  "tool_model_override_of entries =
     (let entry = (\<lambda>k dflt. case map_of entries k of Some v \<Rightarrow> v | None \<Rightarrow> dflt);
          trigger = entry ''trigger'' ''after_tool'' in
      if map_of entries ''tool_name'' = None then Inl (LookupError ''tool_name'')
      else if map_of entries ''model'' = None then Inl (LookupError ''model'')
      else if trigger \<noteq> ''after_tool'' \<and> trigger \<noteq> ''before_tool''
      then Inl (ValueError (''trigger must be '' @ py_quote ''after_tool'' @ '' or '' @ py_quote ''before_tool''
        @ '', got: '' @ trigger))
      else Inr \<lparr>to_tool_name = entry ''tool_name'' [], to_model = entry ''model'' [],
                to_trigger = (if trigger = ''after_tool'' then AfterTool else BeforeTool),
                to_description = entry ''description'' []\<rparr>)"

record switch_config =
  sc_overrides :: "tool_model_override list"
  sc_default_model :: "string option"
  sc_cache_models :: bool

definition create_tool_model_switch :: "(string \<times> string) list list \<Rightarrow> string option \<Rightarrow> bool \<Rightarrow> exn + switch_config" where
  "create_tool_model_switch overrides default_model cache_models =
     map_sum id (\<lambda>os. \<lparr>sc_overrides = os, sc_default_model = default_model, sc_cache_models = cache_models\<rparr>)
       (map_result tool_model_override_of overrides)"

text \<open>The look-up dictionary of a trigger: a later override of a tool replaces an earlier one.\<close>

definition overrides_by_tool :: "switch_trigger \<Rightarrow> switch_config \<Rightarrow> (string \<times> tool_model_override) list" where
  "overrides_by_tool trigger c =
     foldl (\<lambda>d v. if to_trigger v = trigger then AList.update (to_tool_name v) v d else d) [] (sc_overrides c)"

text \<open>A model from the factory, or from \<open>init_chat_model\<close> when the factory fails.\<close>

definition make_model :: "'m model_env \<Rightarrow> string \<Rightarrow> bool \<Rightarrow> exn + 'm" where
  "make_model E name reasoning =
     (case me_factory E of
        None \<Rightarrow> me_init_chat_model E name
      | Some create \<Rightarrow>
          (case create name reasoning [] of
             Inr (Some m) \<Rightarrow> Inr m
           | _ \<Rightarrow> me_init_chat_model E name))"

definition switch_get_model ::
  "'m model_env \<Rightarrow> switch_config \<Rightarrow> string \<Rightarrow> 'm model_world \<Rightarrow> 'm model_world \<times> (exn + 'm)" where
  "switch_get_model E c name w =
     (case (sc_cache_models c, map_of (xw_switch_cache w) name) of
        (True, Some m) \<Rightarrow> (w, Inr m)
      | _ \<Rightarrow>
          (case make_model E name False of
             Inl e \<Rightarrow> (w, Inl e)
           | Inr m \<Rightarrow>
               (if sc_cache_models c then w\<lparr>xw_switch_cache := AList.update name m (xw_switch_cache w)\<rparr> else w, Inr m)))"

fun first_tool_answer :: "model_message list \<Rightarrow> string option" where
  "first_tool_answer [] = None"
| "first_tool_answer (ToolAnswer name # ms) = name"
| "first_tool_answer (OtherModelMessage # ms) = first_tool_answer ms"

definition find_last_tool_message :: "model_message list \<Rightarrow> string option" where
  "find_last_tool_message messages = first_tool_answer (rev messages)"

definition switch_wrap ::
  "'m model_env \<Rightarrow> switch_config \<Rightarrow> ('m, 'r) model_handler \<Rightarrow> ('m, 'r) model_handler" where
  "switch_wrap E c h q w =
     (case or_text (find_last_tool_message (rq_messages q)) None of
        None \<Rightarrow> h q w
      | Some tool \<Rightarrow>
          (case map_of (overrides_by_tool AfterTool c) tool of
             None \<Rightarrow> h q w
           | Some v \<Rightarrow>
               (case switch_get_model E c (to_model v) w of
                  (w', Inl e) \<Rightarrow> (w', Inl (CallError e))
                | (w', Inr m) \<Rightarrow> h (q\<lparr>rq_model := m\<rparr>) w')))"

subsection \<open>Overrides of an instance\<close>

text \<open>
  A text of the run configuration; an empty one counts as absent.
\<close>

definition config_text :: "usage \<Rightarrow> string \<Rightarrow> string option" where
  "config_text c k = (case map_of c k of Some (JStr (x # xs)) \<Rightarrow> Some (x # xs) | _ \<Rightarrow> None)"

definition extract_system_text :: "'m model_env \<Rightarrow> system_message \<Rightarrow> string" where
  "extract_system_text E s =
     (case s of NoSystem \<Rightarrow> [] | SystemMessage c \<Rightarrow> model_str E c | SystemText t \<Rightarrow> t)"

text \<open>The system prompt of an override, which replaces, or of an addition, which is appended.\<close>

definition apply_prompts :: "'m model_env \<Rightarrow> usage \<Rightarrow> 'm model_request \<Rightarrow> 'm model_request" where
  "apply_prompts E c q =
     (case config_text c ''system_prompt_override'' of
        Some p \<Rightarrow> q\<lparr>rq_system := SystemMessage (JStr p)\<rparr>
      | None \<Rightarrow>
          (case config_text c ''system_prompt_append'' of
             None \<Rightarrow> q
           | Some p \<Rightarrow>
               let existing = extract_system_text E (rq_system q) in
               q\<lparr>rq_system := SystemMessage (JStr
                 (if existing \<noteq> [] then existing @ [CHR 0x0A, CHR 0x0A] @ p else p))\<rparr>))"

record instance_middleware =
  im_fallback_models :: "string list"
  im_default_model_name :: "string option"
  im_reasoning_output :: bool

definition instance_key :: "string \<Rightarrow> bool \<Rightarrow> string" where
  "instance_key name reasoning = name @ ''_reasoning='' @ (if reasoning then ''True'' else ''False'')"

definition instance_get_model ::
  "'m model_env \<Rightarrow> string \<Rightarrow> bool \<Rightarrow> 'm model_world \<Rightarrow> 'm model_world \<times> (exn + 'm)" where
  "instance_get_model E name reasoning w =
     (case map_of (xw_instance_cache w) (instance_key name reasoning) of
        Some m \<Rightarrow> (w, Inr m)
      | None \<Rightarrow>
          (case make_model E name reasoning of
             Inl e \<Rightarrow> (w, Inl e)
           | Inr m \<Rightarrow>
               (w\<lparr>xw_instance_cache := AList.update (instance_key name reasoning) m (xw_instance_cache w)\<rparr>, Inr m)))"

definition instance_reasoning :: "instance_middleware \<Rightarrow> usage \<Rightarrow> bool" where
  "instance_reasoning mw c =
     (case map_of c ''reasoning_output'' of Some v \<Rightarrow> json_truthy v | None \<Rightarrow> im_reasoning_output mw)"

definition instance_before_agent :: "'w cost_env \<Rightarrow> usage \<Rightarrow> runtime_context \<Rightarrow> runtime_context \<times> exn option" where
  "instance_before_agent E c rc = (if c \<noteq> [] then populate_from_configurable E c rc else (rc, None))"

text \<open>A model that cannot be created leaves the request as it is.\<close>

definition instance_apply_overrides ::
  "'m model_env \<Rightarrow> instance_middleware \<Rightarrow> usage \<Rightarrow> 'm model_request \<Rightarrow> 'm model_world \<Rightarrow>
   'm model_world \<times> 'm model_request \<times> string option" where
  "instance_apply_overrides E mw c q w =
     (case config_text c ''primary_model'' of
        None \<Rightarrow> (w, apply_prompts E c q, im_default_model_name mw)
      | Some name \<Rightarrow>
          (case instance_get_model E name (instance_reasoning mw c) w of
             (w', Inr m) \<Rightarrow> (w', apply_prompts E c (q\<lparr>rq_model := m\<rparr>), Some name)
           | (w', Inl _) \<Rightarrow> (w', apply_prompts E c q, Some name)))"

text \<open>The configured fallbacks: those of the run, and where it has none those of the agent.\<close>

definition configured_fallbacks :: "usage \<Rightarrow> string list \<Rightarrow> json" where
  "configured_fallbacks c dflt =
     (case fallback_from_mapping c of
        None \<Rightarrow> JArr (map JStr dflt)
      | Some v \<Rightarrow> if v = JNull then JArr (map JStr dflt) else v)"

definition instance_get_fallback ::
  "'m model_env \<Rightarrow> instance_middleware \<Rightarrow> usage \<Rightarrow> string option \<Rightarrow> 'm model_world \<Rightarrow>
   'm model_world \<times> (exn + 'm list option)" where
  "instance_get_fallback E mw c active w =
     (case normalize_fallback_model_names E (configured_fallbacks c (im_fallback_models mw)) active of
        Inl e \<Rightarrow> (w, Inl e)
      | Inr names \<Rightarrow>
          let reasoning = instance_reasoning mw c; key = (names, reasoning, active) in
          case map_of (xw_instance_fallbacks w) key of
            Some ms \<Rightarrow> (w, Inr ms)
          | None \<Rightarrow>
              (case build_model_fallback_middleware E reasoning [] (JArr (map JStr names)) active of
                 Inl e \<Rightarrow> (w, Inl e)
               | Inr ms \<Rightarrow>
                   (w\<lparr>xw_instance_fallbacks := AList.update key ms (xw_instance_fallbacks w)\<rparr>, Inr ms)))"

text \<open>The nested fallback middleware has no cancel check of its own.\<close>

definition wrap_with_fallback :: "'m list option \<Rightarrow> ('m, 'r) model_handler \<Rightarrow> ('m, 'r) model_handler" where
  "wrap_with_fallback ms h = (case ms of None \<Rightarrow> h | Some models \<Rightarrow> fallback_wrap models (\<lambda>_. None) h)"

definition instance_wrap ::
  "'m model_env \<Rightarrow> instance_middleware \<Rightarrow> usage \<Rightarrow> ('m, 'r) model_handler \<Rightarrow> ('m, 'r) model_handler" where
  "instance_wrap E mw c h q w =
     (case instance_apply_overrides E mw c q w of
        (w1, q1, active) \<Rightarrow>
          (case instance_get_fallback E mw c active w1 of
             (w2, Inl e) \<Rightarrow> (w2, Inl (CallError e))
           | (w2, Inr ms) \<Rightarrow> wrap_with_fallback ms h q1 w2))"

subsection \<open>Overrides of a subagent\<close>

record subagent_middleware =
  sm_agent_name :: string
  sm_fallback_models :: "string list"
  sm_default_model_name :: "string option"
  sm_reasoning_output :: bool

text \<open>\<open>configurable["subagent_configs"][agent_name]\<close>.\<close>

definition my_config :: "subagent_middleware \<Rightarrow> usage \<Rightarrow> exn + usage" where
  "my_config mw c =
     bind_result (json_get (usage_get c ''subagent_configs'' (JObj [])) (sm_agent_name mw) (JObj [])) (\<lambda>v.
       if json_truthy v then json_items v else Inr [])"

definition subagent_get_model ::
  "'m model_env \<Rightarrow> string \<Rightarrow> 'm model_world \<Rightarrow> 'm model_world \<times> (exn + 'm)" where
  "subagent_get_model E name w =
     (case map_of (xw_subagent_cache w) name of
        Some m \<Rightarrow> (w, Inr m)
      | None \<Rightarrow>
          (case make_model E name False of
             Inl e \<Rightarrow> (w, Inl e)
           | Inr m \<Rightarrow> (w\<lparr>xw_subagent_cache := AList.update name m (xw_subagent_cache w)\<rparr>, Inr m)))"

definition subagent_apply_overrides ::
  "'m model_env \<Rightarrow> subagent_middleware \<Rightarrow> usage \<Rightarrow> 'm model_request \<Rightarrow> 'm model_world \<Rightarrow>
   'm model_world \<times> 'm model_request \<times> string option" where
  "subagent_apply_overrides E mw mine q w =
     (if mine = [] then (w, q, sm_default_model_name mw)
      else case config_text mine ''primary_model'' of
        None \<Rightarrow> (w, apply_prompts E mine q, sm_default_model_name mw)
      | Some name \<Rightarrow>
          (case subagent_get_model E name w of
             (w', Inr m) \<Rightarrow> (w', apply_prompts E mine (q\<lparr>rq_model := m\<rparr>), Some name)
           | (w', Inl _) \<Rightarrow> (w', apply_prompts E mine q, Some name)))"

definition subagent_get_fallback ::
  "'m model_env \<Rightarrow> subagent_middleware \<Rightarrow> usage \<Rightarrow> string option \<Rightarrow> 'm model_world \<Rightarrow>
   'm model_world \<times> (exn + 'm list option)" where
  "subagent_get_fallback E mw mine active w =
     (case normalize_fallback_model_names E (configured_fallbacks mine (sm_fallback_models mw)) active of
        Inl e \<Rightarrow> (w, Inl e)
      | Inr names \<Rightarrow>
          (case map_of (xw_subagent_fallbacks w) (names, active) of
             Some ms \<Rightarrow> (w, Inr ms)
           | None \<Rightarrow>
               (case build_model_fallback_middleware E (sm_reasoning_output mw) [] (JArr (map JStr names)) active of
                  Inl e \<Rightarrow> (w, Inl e)
                | Inr ms \<Rightarrow>
                    (w\<lparr>xw_subagent_fallbacks := AList.update (names, active) ms (xw_subagent_fallbacks w)\<rparr>, Inr ms))))"

definition subagent_wrap ::
  "'m model_env \<Rightarrow> subagent_middleware \<Rightarrow> usage \<Rightarrow> ('m, 'r) model_handler \<Rightarrow> ('m, 'r) model_handler" where
  "subagent_wrap E mw c h q w =
     (case my_config mw c of
        Inl e \<Rightarrow> (w, Inl (CallError e))
      | Inr mine \<Rightarrow>
          (case subagent_apply_overrides E mw mine q w of
             (w1, q1, active) \<Rightarrow>
               (case subagent_get_fallback E mw mine active w1 of
                  (w2, Inl e) \<Rightarrow> (w2, Inl (CallError e))
                | (w2, Inr ms) \<Rightarrow> wrap_with_fallback ms h q1 w2)))"

subsection \<open>A stack of middleware\<close>

text \<open>
  The framework composes the middleware of an agent with the first one outermost. The cancel
  check of a fallback middleware that is part of the list is the one of the run.
\<close>

datatype 'm model_middleware =
    FallbackMiddleware "'m list"
  | SwitchMiddleware switch_config
  | InstanceMiddleware instance_middleware
  | SubagentMiddleware subagent_middleware

fun wrap_one ::
  "'m model_env \<Rightarrow> usage \<Rightarrow> 'm model_middleware \<Rightarrow> ('m, 'r) model_handler \<Rightarrow> ('m, 'r) model_handler" where
  "wrap_one E c (FallbackMiddleware models) h = fallback_wrap models xw_cancel h"
| "wrap_one E c (SwitchMiddleware sc) h = switch_wrap E sc h"
| "wrap_one E c (InstanceMiddleware im) h = instance_wrap E im c h"
| "wrap_one E c (SubagentMiddleware sm) h = subagent_wrap E sm c h"

definition wrap_stack ::
  "'m model_env \<Rightarrow> usage \<Rightarrow> 'm model_middleware list \<Rightarrow> ('m, 'r) model_handler \<Rightarrow> ('m, 'r) model_handler" where
  "wrap_stack E c mws h = foldr (wrap_one E c) mws h"

text \<open>The innermost handler, with a record of the models it calls and how each call ends.\<close>

definition recording :: "('m, 'r) model_handler \<Rightarrow> ('m, 'r) model_handler" where
  "recording h q w =
     (let (w', r) = h q w
      in (w'\<lparr>xw_calls := xw_calls w' @ [(rq_model q, case r of Inl e \<Rightarrow> Some e | Inr _ \<Rightarrow> None)]\<rparr>, r))"

subsection \<open>Limits of tool calls\<close>

record tool_limit =
  tl_tool_name :: "string option"
  tl_run_limit :: "int option"
  tl_thread_limit :: "int option"
  tl_exit_behavior :: string

record tool_limits_config =
  tlc_global_limit :: "tool_limit option"
  tlc_per_tool :: "tool_limit list"

definition build_tool_call_limit_middleware :: "tool_limits_config option \<Rightarrow> tool_limit list" where
  "build_tool_call_limit_middleware config =
     (case config of
        None \<Rightarrow> []
      | Some c \<Rightarrow>
          (case tlc_global_limit c of None \<Rightarrow> [] | Some g \<Rightarrow> [g\<lparr>tl_tool_name := None\<rparr>]) @ tlc_per_tool c)"

text \<open>The part of the instructions that lists the limits, line by line.\<close>

definition global_limit_lines :: "tool_limit \<Rightarrow> string list" where
  "global_limit_lines g =
     [''**Global (all tools combined):**''] @
     (case tl_run_limit g of Some n \<Rightarrow> [''- run limit: '' @ int_str n @ '' calls per invocation''] | None \<Rightarrow> []) @
     (case tl_thread_limit g of Some n \<Rightarrow> [''- thread limit: '' @ int_str n @ '' calls per conversation''] | None \<Rightarrow> []) @
     [[]]"

definition tool_limit_line :: "tool_limit \<Rightarrow> string" where
  "tool_limit_line t =
     ''- `'' @ (case tl_tool_name t of Some n \<Rightarrow> n | None \<Rightarrow> ''None'') @ ''`: '' @
     py_join '', ''
       ((case tl_run_limit t of Some n \<Rightarrow> [''run='' @ int_str n] | None \<Rightarrow> []) @
        (case tl_thread_limit t of Some n \<Rightarrow> [''thread='' @ int_str n] | None \<Rightarrow> []))"

definition limit_lines :: "tool_limits_config option \<Rightarrow> string list option" where
  "limit_lines config =
     (case config of
        None \<Rightarrow> None
      | Some c \<Rightarrow>
          if tlc_global_limit c = None \<and> tlc_per_tool c = [] then None
          else Some ((case tlc_global_limit c of None \<Rightarrow> [] | Some g \<Rightarrow> global_limit_lines g) @
            (if tlc_per_tool c = [] then []
             else [''**Per-tool overrides:**''] @ map tool_limit_line (tlc_per_tool c) @ [[]])))"

text \<open>The static policy text of the module is an argument.\<close>

definition generate_tool_call_limits_instructions :: "string \<Rightarrow> tool_limits_config option \<Rightarrow> string option" where
  "generate_tool_call_limits_instructions policy config =
     map_option (\<lambda>lines. py_rstrip (py_join [CHR 0x0A] ([policy, [], ''### Your current limits'', []] @ lines)))
       (limit_lines config)"

end
