(* ===== verification/ModelProperties.thy ===== *)
theory ModelProperties
  imports ModelSelection
begin

text \<open>
  What every middleware around a model call promises, the locale \<open>call_chain\<close>: the calls of the
  models below it form one chain, in which everything before the last call is an ordinary
  failure of a model. It is interpreted on all four middlewares, so a cancellation stops any
  stack of them.
\<close>

definition all_failed :: "('m \<times> call_exn option) list \<Rightarrow> bool" where
  "all_failed calls \<longleftrightarrow> list_all (\<lambda>(_, out). case out of Some (CallError _) \<Rightarrow> True | _ \<Rightarrow> False) calls"

definition ends_with :: "('m \<times> call_exn option) list \<Rightarrow> call_exn option \<Rightarrow> bool" where
  "ends_with calls out \<longleftrightarrow> calls \<noteq> [] \<and> snd (last calls) = out \<and> all_failed (butlast calls)"

text \<open>How the calls of one request end, given its result.\<close>

fun chain_outcome :: "('m \<times> call_exn option) list \<Rightarrow> call_exn + 'r \<Rightarrow> bool" where
  "chain_outcome calls (Inr _) \<longleftrightarrow> ends_with calls None"
| "chain_outcome calls (Inl (CallError _)) \<longleftrightarrow> all_failed calls"
| "chain_outcome calls (Inl (GraphInterrupt t)) \<longleftrightarrow> ends_with calls (Some (GraphInterrupt t))"
| "chain_outcome calls (Inl AgentCancelled) \<longleftrightarrow> ends_with calls (Some AgentCancelled) \<or> all_failed calls"

definition chained_call ::
  "'m model_world \<Rightarrow> 'm model_world \<times> (call_exn + 'r) \<Rightarrow> bool" where
  "chained_call w res \<longleftrightarrow> (\<exists>calls. xw_calls (fst res) = xw_calls w @ calls \<and> chain_outcome calls (snd res))"

definition chained :: "('m, 'r) model_handler \<Rightarrow> bool" where
  "chained g \<longleftrightarrow> (\<forall>q w. chained_call w (g q w))"

lemma all_failed_append [simp]: "all_failed (a @ b) \<longleftrightarrow> all_failed a \<and> all_failed b"
  by (simp add: all_failed_def)

lemma all_failed_Nil [simp]: "all_failed []"
  by (simp add: all_failed_def)

lemma chain_outcome_append:
  "all_failed a \<Longrightarrow> chain_outcome b r \<Longrightarrow> chain_outcome (a @ b) r"
  by (cases "(b, r)" rule: chain_outcome.cases) (auto simp: ends_with_def butlast_append)

lemma chained_call_after:
  assumes "xw_calls w' = xw_calls w @ calls" and "all_failed calls" and "chained_call w' res"
  shows "chained_call w res"
  using assms unfolding chained_call_def by (metis append.assoc chain_outcome_append)

text \<open>A middleware changes its caches before it hands over, but calls no model itself.\<close>

lemma chained_call_same: "xw_calls w' = xw_calls w \<Longrightarrow> chained_call w' res \<Longrightarrow> chained_call w res"
  by (rule chained_call_after[of w' w "[]"]) simp_all

lemma chained_call_own_failure: "xw_calls w' = xw_calls w \<Longrightarrow> chained_call w (w', Inl (CallError e))"
  by (auto simp: chained_call_def)

locale call_chain =
  fixes wrap :: "('m, 'r) model_handler \<Rightarrow> ('m, 'r) model_handler"
  assumes keeps_chain: "chained g \<Longrightarrow> chained (wrap g)"
begin

text \<open>An interruption is the last call, and the result.\<close>

lemma interruption_is_last:
  assumes "chained g" and "xw_calls (fst (wrap g q w)) = xw_calls w @ before @ (m, Some e) # after"
    and "interrupting e"
  shows "after = [] \<and> all_failed before \<and> snd (wrap g q w) = Inl e"
proof -
  have not_failed: "\<not> all_failed (before @ (m, Some e) # after)"
    using assms(3) by (cases e) (auto simp: all_failed_def)
  have last: "after = [] \<and> all_failed before \<and> out = Some e"
    if "ends_with (before @ (m, Some e) # after) out" for out
  proof (cases after rule: rev_cases)
    case Nil
    with that show ?thesis by (simp add: ends_with_def butlast_append)
  next
    case (snoc xs x)
    then have "butlast (before @ (m, Some e) # after) = before @ (m, Some e) # xs"
      by (simp add: butlast_append)
    with that have "all_failed (before @ (m, Some e) # xs)" by (simp add: ends_with_def)
    then show ?thesis using assms(3) by (cases e) (auto simp: all_failed_def)
  qed
  have "chain_outcome (before @ (m, Some e) # after) (snd (wrap g q w))"
    using keeps_chain[OF assms(1)] assms(2) unfolding chained_def chained_call_def by (metis same_append_eq)
  then show ?thesis
  proof (cases "snd (wrap g q w)")
    case (Inl e')
    with \<open>chain_outcome _ _\<close> not_failed show ?thesis by (cases e') (auto dest!: last)
  next
    case (Inr r)
    with \<open>chain_outcome _ _\<close> show ?thesis using last[of None] by auto
  qed
qed

end

subsection \<open>The middlewares\<close>

lemma try_fallbacks_chain:
  assumes "chained g" and "\<not> interrupting e"
  shows "chained_call w (try_fallbacks g chk q e models w)"
  using assms(2)
proof (induction models arbitrary: e w)
  case Nil
  then show ?case by (cases e) (simp_all add: chained_call_def)
next
  case (Cons m ms)
  obtain w' r where res: "g (q\<lparr>rq_model := m\<rparr>) w = (w', r)" by (cases "g (q\<lparr>rq_model := m\<rparr>) w")
  then have chain: "chained_call w (w', r)" using assms(1) unfolding chained_def by metis
  show ?case
  proof (cases "cancelled (chk w)")
    case True
    then show ?thesis by (auto simp: chained_call_def)
  next
    case False
    show ?thesis
    proof (cases r)
      case (Inl e')
      show ?thesis
      proof (cases "interrupting e'")
        case True
        with False res Inl chain show ?thesis by simp
      next
        case ordinary: False
        then obtain calls where "xw_calls w' = xw_calls w @ calls" "all_failed calls"
          using chain Inl by (cases e') (auto simp: chained_call_def)
        with False res Inl ordinary Cons.IH[OF ordinary, of w'] show ?thesis
          using chained_call_after by simp
      qed
    next
      case (Inr x)
      with False res chain show ?thesis by simp
    qed
  qed
qed

lemma fallback_chain:
  assumes "chained g"
  shows "chained (fallback_wrap models chk g)"
  unfolding chained_def
proof (intro allI)
  fix q w
  obtain w' r where res: "g q w = (w', r)" by (cases "g q w")
  then have chain: "chained_call w (w', r)" using assms unfolding chained_def by metis
  show "chained_call w (fallback_wrap models chk g q w)"
  proof (cases "\<exists>e. r = Inl e \<and> \<not> interrupting e")
    case True
    then obtain e where e: "r = Inl e" "\<not> interrupting e" by blast
    with chain obtain calls where "xw_calls w' = xw_calls w @ calls" "all_failed calls"
      by (cases e) (auto simp: chained_call_def)
    with e res try_fallbacks_chain[OF assms e(2), of w' chk q models] show ?thesis
      using chained_call_after by (simp add: fallback_wrap_def)
  next
    case False
    with res chain show ?thesis by (cases r) (auto simp: fallback_wrap_def)
  qed
qed

lemma wrap_with_fallback_chain: "chained g \<Longrightarrow> chained (wrap_with_fallback ms g)"
  by (cases ms) (simp_all add: wrap_with_fallback_def fallback_chain)

interpretation fallback: call_chain "fallback_wrap models chk"
  by unfold_locales (rule fallback_chain)

lemma get_model_calls [simp]:
  "xw_calls (fst (switch_get_model E c name w)) = xw_calls w"
  "xw_calls (fst (instance_get_model E name reasoning w)) = xw_calls w"
  "xw_calls (fst (subagent_get_model E name w)) = xw_calls w"
  "xw_calls (fst (instance_get_fallback E im cfg active w)) = xw_calls w"
  "xw_calls (fst (subagent_get_fallback E sm cfg active w)) = xw_calls w"
  by (simp_all add: switch_get_model_def instance_get_model_def subagent_get_model_def instance_get_fallback_def
      subagent_get_fallback_def Let_def split: option.split sum.split bool.split)

lemma get_model_calls_eq:
  "switch_get_model E c name w = (w', r) \<Longrightarrow> xw_calls w' = xw_calls w"
  "instance_get_model E name reasoning w = (w', r) \<Longrightarrow> xw_calls w' = xw_calls w"
  "subagent_get_model E name w = (w', r) \<Longrightarrow> xw_calls w' = xw_calls w"
  by (metis fst_conv get_model_calls(1)) (metis fst_conv get_model_calls(2), metis fst_conv get_model_calls(3))

lemma apply_overrides_calls:
  "xw_calls (fst (instance_apply_overrides E im cfg q w)) = xw_calls w"
  "xw_calls (fst (subagent_apply_overrides E sm cfg q w)) = xw_calls w"
proof -
  show "xw_calls (fst (instance_apply_overrides E im cfg q w)) = xw_calls w"
  proof (cases "config_text cfg ''primary_model''")
    case (Some name)
    then show ?thesis
      by (auto simp: instance_apply_overrides_def get_model_calls_eq split: prod.split sum.split)
  qed (simp add: instance_apply_overrides_def)
  show "xw_calls (fst (subagent_apply_overrides E sm cfg q w)) = xw_calls w"
  proof (cases "config_text cfg ''primary_model''")
    case (Some name)
    then show ?thesis
      by (auto simp: subagent_apply_overrides_def get_model_calls_eq split: prod.split sum.split)
  qed (simp add: subagent_apply_overrides_def)
qed

interpretation switching: call_chain "switch_wrap E c :: ('m, 'r) model_handler \<Rightarrow> _" for E :: "'m model_env" and c
proof
  fix g :: "('m, 'r) model_handler" assume g: "chained g"
  have "chained_call w (switch_wrap E c g q w)" for q w
  proof -
    have "chained_call w (case switch_get_model E c name w of
        (w', Inl e) \<Rightarrow> (w', Inl (CallError e)) | (w', Inr m) \<Rightarrow> g (q\<lparr>rq_model := m\<rparr>) w')" for name
      using g unfolding chained_def
      by (auto split: prod.split sum.split dest: get_model_calls_eq(1) intro: chained_call_same chained_call_own_failure)
    then show ?thesis using g unfolding switch_wrap_def chained_def by (auto split: option.split)
  qed
  then show "chained (switch_wrap E c g)" by (simp add: chained_def)
qed

interpretation instances: call_chain "instance_wrap E im cfg :: ('m, 'r) model_handler \<Rightarrow> _" for E :: "'m model_env" and im cfg
proof
  fix g :: "('m, 'r) model_handler" assume g: "chained g"
  have "chained_call w (instance_wrap E im cfg g q w)" for q w
  proof -
    obtain w1 q1 active where o1: "instance_apply_overrides E im cfg q w = (w1, q1, active)"
      by (cases "instance_apply_overrides E im cfg q w") auto
    obtain w2 r where f: "instance_get_fallback E im cfg active w1 = (w2, r)"
      by (cases "instance_get_fallback E im cfg active w1") auto
    have "xw_calls w2 = xw_calls w"
      using apply_overrides_calls(1)[of E im cfg q w] o1 get_model_calls(4)[of E im cfg active w1] f by simp
    then show ?thesis
      using wrap_with_fallback_chain[OF g] unfolding chained_def
      by (cases r) (auto simp: instance_wrap_def o1 f intro: chained_call_same chained_call_own_failure)
  qed
  then show "chained (instance_wrap E im cfg g)" by (simp add: chained_def)
qed

interpretation subagents: call_chain "subagent_wrap E sm cfg :: ('m, 'r) model_handler \<Rightarrow> _" for E :: "'m model_env" and sm cfg
proof
  fix g :: "('m, 'r) model_handler" assume g: "chained g"
  have "chained_call w (subagent_wrap E sm cfg g q w)" for q w
  proof (cases "my_config sm cfg")
    case (Inl e)
    then show ?thesis by (simp add: subagent_wrap_def chained_call_own_failure)
  next
    case (Inr mine)
    obtain w1 q1 active where o1: "subagent_apply_overrides E sm mine q w = (w1, q1, active)"
      by (cases "subagent_apply_overrides E sm mine q w") auto
    obtain w2 r where f: "subagent_get_fallback E sm mine active w1 = (w2, r)"
      by (cases "subagent_get_fallback E sm mine active w1") auto
    have "xw_calls w2 = xw_calls w"
      using apply_overrides_calls(2)[of E sm mine q w] o1 get_model_calls(5)[of E sm mine active w1] f by simp
    then show ?thesis
      using wrap_with_fallback_chain[OF g] unfolding chained_def
      by (cases r) (auto simp: subagent_wrap_def Inr o1 f intro: chained_call_same chained_call_own_failure)
  qed
  then show "chained (subagent_wrap E sm cfg g)" by (simp add: chained_def)
qed


subsection \<open>A stack\<close>

text \<open>A handler that leaves the record of the calls alone is the innermost one.\<close>

definition quiet :: "('m, 'r) model_handler \<Rightarrow> bool" where
  "quiet h \<longleftrightarrow> (\<forall>q w. xw_calls (fst (h q w)) = xw_calls w)"

lemma recording_chain:
  assumes "quiet h"
  shows "chained (recording h)"
  unfolding chained_def
proof (intro allI)
  fix q w
  obtain w' r where res: "h q w = (w', r)" by (cases "h q w")
  then have calls: "xw_calls w' = xw_calls w" using assms unfolding quiet_def by (metis fst_conv)
  have "chain_outcome [(rq_model q, case r of Inl e \<Rightarrow> Some e | Inr _ \<Rightarrow> None)] r"
    by (cases r; cases "projl r") (auto simp: ends_with_def all_failed_def)
  then show "chained_call w (recording h q w)" by (simp add: recording_def res chained_call_def calls)
qed

lemma wrap_one_chain: "chained g \<Longrightarrow> chained (wrap_one E c mw g)"
  by (cases mw)
    (simp_all add: fallback.keeps_chain switching.keeps_chain instances.keeps_chain subagents.keeps_chain)

interpretation stack: call_chain "wrap_stack E c mws :: ('m, 'r) model_handler \<Rightarrow> _"
  for E :: "'m model_env" and c and mws
proof
  fix g :: "('m, 'r) model_handler" assume "chained g"
  then show "chained (wrap_stack E c mws g)"
    by (induction mws) (simp_all add: wrap_stack_def wrap_one_chain)
qed

text \<open>
  C21: An interruption of the run passes through any stack of middleware: no model is called after
  it, every call before it was an ordinary failure, and it is what the caller receives.
\<close>

theorem cancellation_stops_models:
  assumes "quiet h"
    and "xw_calls (fst (wrap_stack E c mws (recording h) q w)) = xw_calls w @ before @ (m, Some e) # after"
    and "interrupting e"
  shows "after = [] \<and> all_failed before \<and> snd (wrap_stack E c mws (recording h) q w) = Inl e"
  using stack.interruption_is_last[OF recording_chain[OF assms(1)] assms(2,3)] .


theorem cancellation_stops_models_witness:
  "let h = (\<lambda>q w. (w, case rq_model q of 0 \<Rightarrow> Inl (CallError (ValueError ''overloaded''))
                     | Suc 0 \<Rightarrow> Inl AgentCancelled | _ \<Rightarrow> Inr ''answer''));
       E = \<lparr>me_factory = None, me_configured = None, me_init_chat_model = (\<lambda>_. Inr 9),
            me_resolve_name = (\<lambda>_. Inr 9), me_str = (\<lambda>_. [])\<rparr>;
       q = \<lparr>rq_model = 0, rq_system = NoSystem, rq_messages = [ToolAnswer (Some ''search'')]\<rparr>;
       w = \<lparr>xw_switch_cache = [], xw_instance_cache = [], xw_instance_fallbacks = [],
            xw_subagent_cache = [], xw_subagent_fallbacks = [], xw_calls = [], xw_cancel = None\<rparr>
   in snd (wrap_stack E [] [FallbackMiddleware [1, 2 :: nat]] (recording h) q w) = Inl AgentCancelled \<and>
      all_failed [(0 :: nat, Some (CallError (ValueError ''overloaded'')))]"
proof -
  let ?h = "\<lambda>q w. (w, case rq_model q of 0 \<Rightarrow> Inl (CallError (ValueError ''overloaded''))
                     | Suc 0 \<Rightarrow> Inl AgentCancelled | _ \<Rightarrow> Inr ''answer'')"
  let ?E = "\<lparr>me_factory = None, me_configured = None, me_init_chat_model = (\<lambda>_. Inr (9 :: nat)),
            me_resolve_name = (\<lambda>_. Inr 9), me_str = (\<lambda>_. [])\<rparr>"
  let ?q = "\<lparr>rq_model = 0 :: nat, rq_system = NoSystem, rq_messages = [ToolAnswer (Some ''search'')]\<rparr>"
  let ?w = "\<lparr>xw_switch_cache = [], xw_instance_cache = [], xw_instance_fallbacks = [],
            xw_subagent_cache = [], xw_subagent_fallbacks = [], xw_calls = [], xw_cancel = None\<rparr> :: nat model_world"
  have "quiet ?h" by (simp add: quiet_def)
  moreover have "xw_calls (fst (wrap_stack ?E [] [FallbackMiddleware [1, 2]] (recording ?h) ?q ?w)) = xw_calls ?w @
      [(0, Some (CallError (ValueError ''overloaded'')))] @ (1, Some AgentCancelled) # []"
    by (simp add: wrap_stack_def fallback_wrap_def recording_def cancelled_def)
  ultimately show ?thesis
    using cancellation_stops_models[of ?h ?E "[]" "[FallbackMiddleware [1, 2]]" ?q ?w _ 1 AgentCancelled "[]"]
    by (simp add: Let_def)
qed

subsection \<open>Which model answers\<close>

text \<open>
  With models that do not depend on the world, a fallback calls the requested model and then
  the fallbacks in their order up to the first that does not merely fail.
\<close>

fun called :: "('m \<Rightarrow> call_exn + 'r) \<Rightarrow> 'm list \<Rightarrow> 'm list" where
  "called answer [] = []"
| "called answer (m # ms) =
     (case answer m of Inl (CallError _) \<Rightarrow> m # called answer ms | _ \<Rightarrow> [m])"

definition outcome_of :: "call_exn + 'r \<Rightarrow> call_exn option" where
  "outcome_of r = (case r of Inl e \<Rightarrow> Some e | Inr _ \<Rightarrow> None)"

lemma called_empty [simp]: "called answer ms = [] \<longleftrightarrow> ms = []"
  by (cases ms) (simp_all split: sum.split call_exn.split)

lemma recording_answer:
  "recording (\<lambda>q w. (w, answer (rq_model q))) q w =
     (w\<lparr>xw_calls := xw_calls w @ [(rq_model q, outcome_of (answer (rq_model q)))]\<rparr>, answer (rq_model q))"
  by (simp add: recording_def outcome_of_def)

lemma try_fallbacks_order:
  "try_fallbacks (recording (\<lambda>q w. (w, answer (rq_model q)))) (\<lambda>_. None) q e ms w =
     (w\<lparr>xw_calls := xw_calls w @ map (\<lambda>m. (m, outcome_of (answer m))) (called answer ms)\<rparr>,
      if ms = [] then Inl e else answer (last (called answer ms)))"
proof (induction ms arbitrary: e w)
  case (Cons m ms)
  note step = recording_answer[of answer "q\<lparr>rq_model := m\<rparr>" w]
  show ?case
  proof (cases "answer m")
    case (Inl e')
    then show ?thesis by (cases e') (simp_all add: Cons.IH step cancelled_def outcome_of_def)
  qed (simp add: step cancelled_def outcome_of_def)
qed simp

theorem fallback_order:
  "fallback_wrap ms (\<lambda>_. None) (recording (\<lambda>q w. (w, answer (rq_model q)))) q w =
     (w\<lparr>xw_calls := xw_calls w @ map (\<lambda>m. (m, outcome_of (answer m))) (called answer (rq_model q # ms))\<rparr>,
      answer (last (called answer (rq_model q # ms))))"
proof (cases "answer (rq_model q)")
  case (Inl e)
  then show ?thesis
    by (cases e) (simp_all add: fallback_wrap_def try_fallbacks_order[of answer] recording_answer[of answer q w] outcome_of_def)
qed (simp add: fallback_wrap_def recording_answer[of answer q w] outcome_of_def)

subsection \<open>The names of the fallbacks\<close>

lemma normalize_names_clean:
  "set (normalize_names E primary seen raws) \<inter> set seen = {} \<and> distinct (normalize_names E primary seen raws) \<and>
   (\<forall>n \<in> set (normalize_names E primary seen raws). n \<noteq> [] \<and> Some n \<noteq> primary)"
proof (induction raws arbitrary: seen)
  case (Cons raw raws)
  let ?n = "py_strip (model_str E raw)"
  show ?case
  proof (cases "raw = JNull \<or> ?n = [] \<or> Some ?n = primary \<or> ?n \<in> set seen")
    case True
    have "normalize_names E primary seen (raw # raws) = normalize_names E primary seen raws"
      by (simp only: normalize_names.simps Let_def True if_True)
    with Cons.IH[of seen] show ?thesis by simp
  next
    case False
    have "normalize_names E primary seen (raw # raws) = ?n # normalize_names E primary (?n # seen) raws"
      by (simp only: normalize_names.simps Let_def False if_False)
    with Cons.IH[of "?n # seen"] False show ?thesis by auto
  qed
qed simp

text \<open>Names that are clean already are kept, in their order.\<close>

lemma normalize_names_id:
  assumes "distinct names" and "set names \<inter> set seen = {}"
    and "\<forall>n \<in> set names. n \<noteq> [] \<and> Some n \<noteq> primary \<and> py_strip n = n"
  shows "normalize_names E primary seen (map JStr names) = names"
  using assms
  by (induction names arbitrary: seen) (auto simp: model_str_def Let_def)

subsection \<open>Switching by tool\<close>

text \<open>An override for the last answering tool stays in force until another tool answers.\<close>

lemma switch_is_sticky:
  "find_last_tool_message (messages @ replicate n OtherModelMessage) = find_last_tool_message messages"
proof -
  have "first_tool_answer (replicate n OtherModelMessage @ ms) = first_tool_answer ms" for ms
    by (induction n) simp_all
  then show ?thesis by (simp add: find_last_tool_message_def)
qed

lemma foldl_overrides:
  "map_of (foldl (\<lambda>d v. if to_trigger v = t then AList.update (to_tool_name v) v d else d) d vs) tool =
     (case rev (filter (\<lambda>v. to_trigger v = t \<and> to_tool_name v = tool) vs) of [] \<Rightarrow> map_of d tool | v # _ \<Rightarrow> Some v)"
proof (induction vs arbitrary: d)
  case (Cons v vs)
  then show ?case
    by (cases "rev (filter (\<lambda>v. to_trigger v = t \<and> to_tool_name v = tool) vs)") (auto simp: update_conv')
qed simp

text \<open>The last override of a tool decides; those with the trigger \<open>before_tool\<close> never do.\<close>

lemma overrides_by_tool_last:
  "map_of (overrides_by_tool t c) tool =
     (case rev (filter (\<lambda>v. to_trigger v = t \<and> to_tool_name v = tool) (sc_overrides c)) of [] \<Rightarrow> None | v # _ \<Rightarrow> Some v)"
  by (simp add: overrides_by_tool_def foldl_overrides split: list.split)

lemma before_tool_has_no_effect:
  assumes "\<And>v. v \<in> set (sc_overrides c) \<Longrightarrow> to_trigger v = BeforeTool"
  shows "switch_wrap E c h q w = h q w"
proof -
  have "filter (\<lambda>v. to_trigger v = AfterTool \<and> to_tool_name v = tool) (sc_overrides c) = []" for tool
    using assms by (auto simp: filter_empty_conv)
  then show ?thesis by (simp add: switch_wrap_def overrides_by_tool_last split: option.split)
qed

lemma default_model_has_no_effect: "switch_wrap E (c\<lparr>sc_default_model := m\<rparr>) h q w = switch_wrap E c h q w"
proof -
  have "overrides_by_tool t (c\<lparr>sc_default_model := m\<rparr>) = overrides_by_tool t c"
    and "switch_get_model E (c\<lparr>sc_default_model := m\<rparr>) n w = switch_get_model E c n w" for t n
    by (simp_all add: overrides_by_tool_def switch_get_model_def split: option.split bool.split sum.split)
  then show ?thesis by (simp add: switch_wrap_def split: option.split)
qed

subsection \<open>System prompts\<close>

text \<open>An override replaces the prompt and makes an addition of the same run irrelevant.\<close>

lemma prompt_override_wins:
  "config_text c ''system_prompt_override'' = Some p \<Longrightarrow>
   rq_system (apply_prompts E c q) = SystemMessage (JStr p) \<and> rq_model (apply_prompts E c q) = rq_model q"
  by (simp add: apply_prompts_def)

text \<open>An addition keeps what the agent had.\<close>

lemma prompt_append_keeps:
  "config_text c ''system_prompt_override'' = None \<Longrightarrow> config_text c ''system_prompt_append'' = Some p \<Longrightarrow>
   \<exists>sep. extract_system_text E (rq_system (apply_prompts E c q)) = extract_system_text E (rq_system q) @ sep @ p"
  by (auto simp: apply_prompts_def extract_system_text_def model_str_def Let_def)


subsection \<open>Limits of tool calls\<close>

text \<open>Instructions are written exactly for the configurations that build a limiter.\<close>

lemma instructions_iff_limited:
  "generate_tool_call_limits_instructions policy config = None \<longleftrightarrow> build_tool_call_limit_middleware config = []"
  by (auto simp: generate_tool_call_limits_instructions_def build_tool_call_limit_middleware_def limit_lines_def
      split: option.split)

end
