(* ===== verification/Regex.thy ===== *)
theory Regex
  imports Prelude
begin

text \<open>
  The part of Python's \<open>re\<close> that the program uses: character classes, word boundaries, groups
  without capture, alternatives and greedy repetitions, matched by backtracking. A position of
  a text is the character before it and the rest of the text; the matches of an expression at
  a position are the positions after them, in the order in which backtracking tries them.
\<close>

type_synonym position = "char option \<times> string"

datatype regex =
    Class "char \<Rightarrow> bool"
  | WordBoundary
  | Empty
  | Cat regex regex
  | Alt regex regex
  | Repeat nat "nat option" regex

text \<open>The letters and digits below code point 256, and the underscore.\<close>

definition word_char :: "char \<Rightarrow> bool" where
  "word_char c \<longleftrightarrow> (let n = of_char c :: nat in
     48 \<le> n \<and> n \<le> 57 \<or> 65 \<le> n \<and> n \<le> 90 \<or> 97 \<le> n \<and> n \<le> 122 \<or> n \<in> {95, 170, 178, 179, 181, 185, 186, 188, 189, 190} \<or>
     192 \<le> n \<and> n \<noteq> 215 \<and> n \<noteq> 247)"

definition at_boundary :: "position \<Rightarrow> bool" where
  "at_boundary pos \<longleftrightarrow>
     (case fst pos of Some c \<Rightarrow> word_char c | None \<Rightarrow> False) \<noteq>
     (case snd pos of c # _ \<Rightarrow> word_char c | [] \<Rightarrow> False)"

text \<open>
  At most so many repetitions as the fuel says; one character of the rest per repetition
  beyond the obligatory ones is enough, as a repetition that consumes nothing is not repeated.
\<close>

fun repeat_matches ::
  "(position \<Rightarrow> position list) \<Rightarrow> nat \<Rightarrow> nat \<Rightarrow> nat option \<Rightarrow> position \<Rightarrow> position list" where
  "repeat_matches m 0 lo hi pos = (if lo = 0 then [pos] else [])"
| "repeat_matches m (Suc fuel) lo hi pos =
     (if hi = Some 0 then []
      else concat (map (repeat_matches m fuel (lo - 1) (map_option (\<lambda>h. h - 1) hi))
             (filter (\<lambda>pos'. 0 < lo \<or> length (snd pos') < length (snd pos)) (m pos)))) @
     (if lo = 0 then [pos] else [])"

primrec matches_at :: "regex \<Rightarrow> position \<Rightarrow> position list" where
  "matches_at (Class f) pos = (case snd pos of [] \<Rightarrow> [] | c # cs \<Rightarrow> if f c then [(Some c, cs)] else [])"
| "matches_at WordBoundary pos = (if at_boundary pos then [pos] else [])"
| "matches_at Empty pos = [pos]"
| "matches_at (Cat r1 r2) pos = concat (map (matches_at r2) (matches_at r1 pos))"
| "matches_at (Alt r1 r2) pos = matches_at r1 pos @ matches_at r2 pos"
| "matches_at (Repeat lo hi r) pos = repeat_matches (matches_at r) (lo + length (snd pos)) lo hi pos"

text \<open>The match that is taken; with \<open>advance\<close> it must not be empty.\<close>

definition first_match :: "regex \<Rightarrow> bool \<Rightarrow> position \<Rightarrow> position option" where
  "first_match r advance pos =
     (case filter (\<lambda>pos'. if advance then length (snd pos') < length (snd pos)
                           else length (snd pos') \<le> length (snd pos)) (matches_at r pos) of
        [] \<Rightarrow> None | pos' # _ \<Rightarrow> Some pos')"

lemma first_match_Some:
  "first_match r advance pos = Some pos' \<Longrightarrow>
   pos' \<in> set (matches_at r pos) \<and> length (snd pos') \<le> length (snd pos) \<and>
   (advance \<longrightarrow> length (snd pos') < length (snd pos))"
  by (auto simp: first_match_def filter_eq_Cons_iff split: list.splits if_splits)

text \<open>
  \<open>pattern.sub\<close>: the matches from the left, without overlap. After a match the next one starts
  where it ended, and an empty match is not repeated at its place.
\<close>

function sub_from :: "regex \<Rightarrow> (string \<Rightarrow> string) \<Rightarrow> bool \<Rightarrow> position \<Rightarrow> string" where
  "sub_from r repl advance (p, s) =
     (case first_match r advance (p, s) of
        Some (q, t) \<Rightarrow> repl (take (length s - length t) s) @ sub_from r repl (length t = length s) (q, t)
      | None \<Rightarrow> (case s of [] \<Rightarrow> [] | c # cs \<Rightarrow> c # sub_from r repl False (Some c, cs)))"
  by pat_completeness auto

termination
proof (relation "measures [\<lambda>(r, repl, advance, pos). length (snd pos), \<lambda>(r, repl, advance, pos). if advance then 0 else 1]")
  fix r repl advance p s x q t
  assume "first_match r advance (p, s) = Some x" and "(q, t) = x"
  then have "length t \<le> length s \<and> (advance \<longrightarrow> length t < length s)" using first_match_Some by force
  then show "((r, repl, length t = length s, q, t), r, repl, advance, p, s)
    \<in> measures [\<lambda>(r, repl, advance, pos). length (snd pos), \<lambda>(r, repl, advance, pos). if advance then 0 else 1]"
    by (auto simp: le_less)
qed auto

declare sub_from.simps [simp del]

definition pattern_sub :: "regex \<Rightarrow> (string \<Rightarrow> string) \<Rightarrow> string \<Rightarrow> string" where
  "pattern_sub r repl s = sub_from r repl False (None, s)"

text \<open>\<open>pattern.finditer\<close>: start, end and text of the matches.\<close>

function find_from :: "regex \<Rightarrow> nat \<Rightarrow> bool \<Rightarrow> position \<Rightarrow> (nat \<times> nat \<times> string) list" where
  "find_from r i advance (p, s) =
     (case first_match r advance (p, s) of
        Some (q, t) \<Rightarrow> (let n = length s - length t in
          (i, i + n, take n s) # find_from r (i + n) (length t = length s) (q, t))
      | None \<Rightarrow> (case s of [] \<Rightarrow> [] | c # cs \<Rightarrow> find_from r (Suc i) False (Some c, cs)))"
  by pat_completeness auto

termination
proof (relation "measures [\<lambda>(r, i, advance, pos). length (snd pos), \<lambda>(r, i, advance, pos). if advance then 0 else 1]")
  fix r i advance p s x q t and n :: nat
  assume "first_match r advance (p, s) = Some x" and "(q, t) = x"
  then have "length t \<le> length s \<and> (advance \<longrightarrow> length t < length s)" using first_match_Some by force
  then show "((r, i + n, length t = length s, q, t), r, i, advance, p, s)
    \<in> measures [\<lambda>(r, i, advance, pos). length (snd pos), \<lambda>(r, i, advance, pos). if advance then 0 else 1]"
    by (auto simp: le_less)
qed auto

declare find_from.simps [simp del]

definition finditer :: "regex \<Rightarrow> string \<Rightarrow> (nat \<times> nat \<times> string) list" where
  "finditer r s = find_from r 0 False (None, s)"

subsection \<open>Abbreviations of the syntax\<close>

definition literal :: "string \<Rightarrow> regex" where
  "literal s = foldr (\<lambda>c. Cat (Class (\<lambda>x. x = c))) s Empty"

text \<open>A literal under \<open>(?i)\<close>.\<close>

definition literal_i :: "string \<Rightarrow> regex" where
  "literal_i s = foldr (\<lambda>c. Cat (Class (\<lambda>x. py_lower_char x = py_lower_char c))) s Empty"

definition one_of :: "regex list \<Rightarrow> regex" where
  "one_of rs = foldr Alt (butlast rs) (last rs)"

definition ascii_letter :: "char \<Rightarrow> bool" where
  "ascii_letter c \<longleftrightarrow> (let n = of_char c :: nat in 65 \<le> n \<and> n \<le> 90 \<or> 97 \<le> n \<and> n \<le> 122)"

definition upper_letter :: "char \<Rightarrow> bool" where
  "upper_letter c \<longleftrightarrow> (let n = of_char c :: nat in 65 \<le> n \<and> n \<le> 90)"

definition alnum_or :: "string \<Rightarrow> char \<Rightarrow> bool" where
  "alnum_or cs c \<longleftrightarrow> ascii_letter c \<or> is_digit c \<or> c \<in> set cs"


subsection \<open>What a match consumes\<close>

definition prev :: "char option \<Rightarrow> string \<Rightarrow> char option" where
  "prev p w = (if w = [] then p else Some (last w))"

lemma prev_Nil [simp]: "prev p [] = p"
  by (simp add: prev_def)

lemma prev_Cons [simp]: "prev p (c # w) = prev (Some c) w"
  by (simp add: prev_def)

lemma prev_append [simp]: "prev p (a @ b) = prev (prev p a) b"
  by (simp add: prev_def)

definition follows :: "position \<Rightarrow> position \<Rightarrow> bool" where
  "follows pos pos' \<longleftrightarrow> (\<exists>w. snd pos = w @ snd pos' \<and> fst pos' = prev (fst pos) w)"

lemma follows_refl [simp]: "follows pos pos"
  by (simp add: follows_def)

lemma follows_trans: "follows a b \<Longrightarrow> follows b c \<Longrightarrow> follows a c"
  unfolding follows_def by (metis append.assoc prev_append)

lemma repeat_matches_Suc:
  "pos' \<in> set (repeat_matches m (Suc fuel) lo hi pos) \<longleftrightarrow>
   (hi \<noteq> Some 0 \<and> (\<exists>pos1 \<in> set (m pos). (0 < lo \<or> length (snd pos1) < length (snd pos)) \<and>
      pos' \<in> set (repeat_matches m fuel (lo - 1) (map_option (\<lambda>h. h - 1) hi) pos1))) \<or> lo = 0 \<and> pos' = pos"
  by (cases "hi = Some 0"; cases "lo = 0") (simp_all add: Bex_def, blast+)

text \<open>The rule for a numeral of fuel, for evaluation by rewriting.\<close>

lemmas numeral_fuel = repeat_matches.simps(2)[of _ "pred_numeral k" for k, folded numeral_eq_Suc]

lemma class_matches:
  "pos' \<in> set (matches_at (Class f) pos) \<longleftrightarrow> (\<exists>c. snd pos = c # snd pos' \<and> f c \<and> fst pos' = Some c)"
  by (cases "snd pos"; cases pos') auto

declare repeat_matches.simps(2) [simp del] matches_at.simps(1) [simp del]

lemma repeat_matches_follow:
  assumes "\<And>a b. b \<in> set (m a) \<Longrightarrow> follows a b"
  shows "pos' \<in> set (repeat_matches m fuel lo hi pos) \<Longrightarrow> follows pos pos'"
proof (induction fuel arbitrary: lo hi pos)
  case (Suc fuel)
  then show ?case unfolding repeat_matches_Suc using assms follows_trans by (metis follows_refl)
qed (simp split: if_splits)

lemma matches_follow: "pos' \<in> set (matches_at r pos) \<Longrightarrow> follows pos pos'"
proof (induction r arbitrary: pos pos')
  case (Class f)
  then show ?case by (auto simp: class_matches follows_def intro: exI[of _ "[c]" for c])
next
  case (Cat r1 r2)
  then obtain pos1 where "pos1 \<in> set (matches_at r1 pos)" "pos' \<in> set (matches_at r2 pos1)" by auto
  with Cat.IH show ?case using follows_trans by metis
next
  case (Repeat lo hi r)
  then show ?case using repeat_matches_follow[of "matches_at r"] by simp
qed (auto split: if_splits)

text \<open>The least number of characters a match consumes.\<close>

primrec min_length :: "regex \<Rightarrow> nat" where
  "min_length (Class f) = 1"
| "min_length WordBoundary = 0"
| "min_length Empty = 0"
| "min_length (Cat r1 r2) = min_length r1 + min_length r2"
| "min_length (Alt r1 r2) = min (min_length r1) (min_length r2)"
| "min_length (Repeat lo hi r) = lo * min_length r"

lemma repeat_matches_min:
  assumes "\<And>a b. b \<in> set (m a) \<Longrightarrow> length (snd b) + k \<le> length (snd a)"
  shows "pos' \<in> set (repeat_matches m fuel lo hi pos) \<Longrightarrow> length (snd pos') + lo * k \<le> length (snd pos)"
proof (induction fuel arbitrary: lo hi pos)
  case (Suc fuel)
  show ?case
  proof (cases "lo = 0 \<and> pos' = pos")
    case False
    with Suc.prems obtain pos1 where one: "pos1 \<in> set (m pos)"
      and rest: "pos' \<in> set (repeat_matches m fuel (lo - 1) (map_option (\<lambda>h. h - 1) hi) pos1)"
      unfolding repeat_matches_Suc by blast
    from Suc.IH[OF rest] assms[OF one] show ?thesis by (cases lo) auto
  qed simp
qed (simp split: if_splits)

lemma matches_min: "pos' \<in> set (matches_at r pos) \<Longrightarrow> length (snd pos') + min_length r \<le> length (snd pos)"
proof (induction r arbitrary: pos pos')
  case (Class f)
  then show ?case by (auto simp: class_matches)
next
  case (Cat r1 r2)
  then obtain pos1 where "pos1 \<in> set (matches_at r1 pos)" "pos' \<in> set (matches_at r2 pos1)" by auto
  with Cat.IH show ?case by fastforce
next
  case (Alt r1 r2)
  then show ?case by fastforce
next
  case (Repeat lo hi r)
  then show ?case using repeat_matches_min[of "matches_at r" "min_length r"] by simp
qed (auto split: if_splits)

subsection \<open>Repetitions of a class\<close>

lemma repeat_class:
  "lo + length s \<le> fuel \<Longrightarrow>
   pos' \<in> set (repeat_matches (matches_at (Class f)) fuel lo None (p, s)) \<longleftrightarrow>
   (\<exists>w. s = w @ snd pos' \<and> fst pos' = prev p w \<and> list_all f w \<and> lo \<le> length w)"
proof (induction fuel arbitrary: lo p s)
  case 0
  then show ?case by (cases pos') auto
next
  case (Suc fuel)
  show ?case
  proof (cases s)
    case Nil
    then show ?thesis by (cases pos') (auto simp: repeat_matches_Suc class_matches)
  next
    case (Cons c cs)
    have "lo - 1 + length cs \<le> fuel" using Suc.prems Cons by simp
    note IH = Suc.IH[OF this, of "Some c"]
    have "pos' \<in> set (repeat_matches (matches_at (Class f)) (Suc fuel) lo None (p, s)) \<longleftrightarrow>
      (f c \<and> (\<exists>w. cs = w @ snd pos' \<and> fst pos' = prev (Some c) w \<and> list_all f w \<and> lo - 1 \<le> length w)) \<or>
      lo = 0 \<and> pos' = (p, s)"
      unfolding IH[symmetric] repeat_matches_Suc by (auto simp: Cons class_matches Bex_def)
    also have "\<dots> \<longleftrightarrow> (\<exists>w. s = w @ snd pos' \<and> fst pos' = prev p w \<and> list_all f w \<and> lo \<le> length w)" (is "?l \<longleftrightarrow> ?r")
    proof
      assume ?l
      then show ?r
      proof
        assume "f c \<and> (\<exists>w. cs = w @ snd pos' \<and> fst pos' = prev (Some c) w \<and> list_all f w \<and> lo - 1 \<le> length w)"
        then obtain w where "f c" "cs = w @ snd pos'" "fst pos' = prev (Some c) w" "list_all f w" "lo - 1 \<le> length w" by blast
        then show ?r using Cons by (intro exI[of _ "c # w"]) auto
      qed (auto intro: exI[of _ "[]"])
    next
      assume ?r
      then obtain w where w: "s = w @ snd pos'" "fst pos' = prev p w" "list_all f w" "lo \<le> length w" by blast
      then show ?l using Cons by (cases w; cases pos') auto
    qed
    finally show ?thesis .
  qed
qed

lemma matches_repeat_class:
  "pos' \<in> set (matches_at (Repeat lo None (Class f)) (p, s)) \<longleftrightarrow>
   (\<exists>w. s = w @ snd pos' \<and> fst pos' = prev p w \<and> list_all f w \<and> lo \<le> length w)"
  using repeat_class[of lo s "lo + length s" pos' f p] by simp

lemma matches_Cat:
  "pos' \<in> set (matches_at (Cat r1 r2) pos) \<longleftrightarrow> (\<exists>pos1. pos1 \<in> set (matches_at r1 pos) \<and> pos' \<in> set (matches_at r2 pos1))"
  by auto


subsection \<open>Substitution by a block\<close>

text \<open>
  The matches of an expression that consumes something are replaced by a text between two
  stars. A word without a star in the result is then inside that text, or it is a word of the
  original at a place where nothing matches.
\<close>

lemma append_split:
  assumes "a @ x = b @ y" and "length b \<le> length a"
  obtains u where "a = b @ u" and "u @ x = y"
proof -
  have "b = take (length b) a" using arg_cong[OF assms(1), of "take (length b)"] assms(2) by simp
  then have "a = b @ drop (length b) a" by (metis append_take_drop_id)
  with assms(1) show thesis by (metis append.assoc same_append_eq that)
qed

locale redaction =
  fixes r :: regex and inner :: string
  assumes consumes: "0 < min_length r"
begin

abbreviation "block \<equiv> CHR ''*'' # inner @ ''*''"

lemma match_consumes:
  assumes "first_match r advance (p, s) = Some (q, t)"
  shows "(q, t) \<in> set (matches_at r (p, s))" and "length t < length s"
    and "\<exists>w. s = w @ t \<and> w \<noteq> [] \<and> q = prev p w"
proof -
  show m: "(q, t) \<in> set (matches_at r (p, s))" using first_match_Some[OF assms] by simp
  show less: "length t < length s" using matches_min[OF m] consumes by simp
  from matches_follow[OF m] obtain w where "s = w @ t" "q = prev p w" by (auto simp: follows_def)
  with less show "\<exists>w. s = w @ t \<and> w \<noteq> [] \<and> q = prev p w" by auto
qed

lemma first_match_None: "first_match r False (p, s) = None \<Longrightarrow> matches_at r (p, s) = []"
proof -
  assume none: "first_match r False (p, s) = None"
  have "x \<notin> set (matches_at r (p, s))" for x
    using none matches_min[of x r "(p, s)"] by (auto simp: first_match_def filter_empty_conv split: list.splits)
  then show "matches_at r (p, s) = []" by (cases "matches_at r (p, s)") auto
qed

lemma sub_Some:
  assumes "first_match r False (p, s) = Some (q, t)"
  shows "sub_from r (\<lambda>_. block) False (p, s) = block @ sub_from r (\<lambda>_. block) False (q, t)"
  using assms match_consumes(2)[OF assms] by (simp add: sub_from.simps[of r _ False p s])

lemma sub_None:
  assumes "first_match r False (p, c # cs) = None"
  shows "sub_from r (\<lambda>_. block) False (p, c # cs) = c # sub_from r (\<lambda>_. block) False (Some c, cs)"
  using assms by (simp add: sub_from.simps[of r _ False p "c # cs"])

lemma sub_empty: "sub_from r repl False (p, []) = []"
  using match_consumes(2)[of False p "[]"] by (auto simp: sub_from.simps[of r _ False p "[]"] split: option.split)

text \<open>One more character of the text, or one more match.\<close>

lemma sub_induct [case_names empty match keep]:
  assumes "\<And>p. P p []"
    and "\<And>p s q t. first_match r False (p, s) = Some (q, t) \<Longrightarrow> P q t \<Longrightarrow> P p s"
    and "\<And>p c cs. first_match r False (p, c # cs) = None \<Longrightarrow> P (Some c) cs \<Longrightarrow> P p (c # cs)"
  shows "P p s"
proof (induction "length s" arbitrary: p s rule: less_induct)
  case less
  show ?case
  proof (cases "first_match r False (p, s)")
    case None
    then show ?thesis using less assms(1,3) by (cases s) auto
  next
    case (Some pos')
    then obtain q t where m: "first_match r False (p, s) = Some (q, t)" by (cases pos') auto
    from assms(2)[OF m less[OF match_consumes(2)[OF m]]] show ?thesis .
  qed
qed

text \<open>What follows a kept word: the same character, or the end, or a match.\<close>

definition follow_agrees :: "position \<Rightarrow> string \<Rightarrow> bool" where
  "follow_agrees pos post \<longleftrightarrow> (snd pos = [] \<and> post = []) \<or>
     (snd pos \<noteq> [] \<and> post \<noteq> [] \<and> hd (snd pos) = hd post) \<or>
     (first_match r False pos \<noteq> None \<and> post \<noteq> [] \<and> hd post = CHR ''*'')"

lemma kept_prefix:
  "sub_from r (\<lambda>_. block) False (p, s) = w @ post \<Longrightarrow> CHR ''*'' \<notin> set w \<Longrightarrow>
   \<exists>t. s = w @ t \<and> follow_agrees (prev p w, t) post"
proof (induction p s arbitrary: w rule: sub_induct)
  case (empty p)
  then show ?case by (auto simp: sub_empty follow_agrees_def)
next
  case (match p s q t)
  then have "w = []" by (cases w) (auto simp: sub_Some)
  with match show ?case by (auto simp: sub_Some follow_agrees_def)
next
  case (keep p c cs)
  show ?case
  proof (cases w)
    case Nil
    with keep.prems(1) show ?thesis by (auto simp: sub_None[OF keep.hyps] follow_agrees_def)
  next
    case (Cons d w')
    with keep show ?thesis by (auto simp: sub_None[OF keep.hyps])
  qed
qed

text \<open>What precedes it: the same character, or the beginning, or a match that ends here.\<close>

definition precede_agrees :: "char option \<Rightarrow> string \<Rightarrow> string \<Rightarrow> string \<Rightarrow> bool" where
  "precede_agrees p pre rest pre' \<longleftrightarrow> (pre = [] \<and> pre' = []) \<or>
     (pre \<noteq> [] \<and> pre' \<noteq> [] \<and> last pre = last pre') \<or>
     (pre' \<noteq> [] \<and> last pre' = CHR ''*'' \<and> (\<exists>pos. (prev p pre, rest) \<in> set (matches_at r pos)))"

lemma precede_agrees_Cons:
  assumes "precede_agrees (Some c) pre' rest pre"
  shows "precede_agrees p (c # pre') rest (c # pre)"
  using assms unfolding precede_agrees_def prev_Cons by (elim disjE) simp_all

lemma precede_agrees_block:
  assumes "(prev p m, t) \<in> set (matches_at r pos)" and "m \<noteq> []" and "t = pre' @ rest"
    and "precede_agrees (prev p m) pre' rest pre"
  shows "precede_agrees p (m @ pre') rest (block @ pre)"
  using assms(4)
  unfolding precede_agrees_def prev_append
proof (elim disjE conjE, goal_cases)
  case 1
  with assms(1,3) show ?case by (cases pos) auto
qed auto

lemma inside_block:
  assumes "block @ out = pre @ w @ post" and "CHR ''*'' \<notin> set w" and "w \<noteq> []" and "length pre < length block"
  shows "\<exists>a b. inner = a @ w @ b"
proof (cases pre)
  case Nil
  with assms(1,2,3) show ?thesis by (cases w) auto
next
  case (Cons x pre')
  have "inner @ CHR ''*'' # out = pre' @ w @ post"
    using assms(1) unfolding Cons by auto
  moreover have "length pre' \<le> length inner" using assms(4) Cons by simp
  ultimately obtain u where u: "inner = pre' @ u" "u @ CHR ''*'' # out = w @ post"
    by (rule append_split)
  have "length w \<le> length u"
  proof (rule ccontr)
    assume "\<not> length w \<le> length u"
    then have "length u \<le> length w" by simp
    from append_split[OF u(2)[symmetric] this] obtain v where v: "w = u @ v" "v @ post = CHR ''*'' # out" .
    with \<open>\<not> length w \<le> length u\<close> have "v \<noteq> []" by auto
    with v have "CHR ''*'' \<in> set w" by (cases v) auto
    with assms(2) show False by simp
  qed
  from append_split[OF u(2) this] obtain v where "u = w @ v" .
  with u(1) show ?thesis by blast
qed

theorem kept_word:
  "sub_from r (\<lambda>_. block) False (p, s) = pre @ w @ post \<Longrightarrow> CHR ''*'' \<notin> set w \<Longrightarrow> w \<noteq> [] \<Longrightarrow>
   (\<exists>a b. inner = a @ w @ b) \<or>
   (\<exists>pre' post'. s = pre' @ w @ post' \<and> matches_at r (prev p pre', w @ post') = [] \<and>
      precede_agrees p pre' (w @ post') pre \<and> follow_agrees (prev p (pre' @ w), post') post)"
proof (induction p s arbitrary: pre rule: sub_induct)
  case (empty p)
  then show ?case by (simp add: sub_empty)
next
  case (match p s q t)
  from match_consumes(3)[OF match.hyps(1)] obtain m where m: "s = m @ t" "m \<noteq> []" "q = prev p m" by blast
  have out: "block @ sub_from r (\<lambda>_. block) False (q, t) = pre @ w @ post"
    using match.prems(1) sub_Some[OF match.hyps(1)] by simp
  show ?case
  proof (cases "length pre < length block")
    case True
    from inside_block[OF out match.prems(2,3) True] show ?thesis by blast
  next
    case False
    with out obtain pre2 where pre: "pre = block @ pre2" and rest: "sub_from r (\<lambda>_. block) False (q, t) = pre2 @ w @ post"
      using append_split[OF out[symmetric]] by (metis leI)
    from match.IH[OF rest match.prems(2,3)] show ?thesis
    proof (elim disjE exE conjE, goal_cases)
      case (2 pre' post')
      have "precede_agrees p (m @ pre') (w @ post') pre"
        unfolding pre
        by (rule precede_agrees_block[OF _ m(2) 2(1)]) (use 2(3) m(3) match_consumes(1)[OF match.hyps(1)] in simp_all)
      with 2 m show ?case by (intro disjI2 exI[of _ "m @ pre'"] exI[of _ post']) auto
    qed blast
  qed
next
  case (keep p c cs)
  show ?case
  proof (cases pre)
    case Nil
    with keep.prems have eq: "c # sub_from r (\<lambda>_. block) False (Some c, cs) = w @ post"
      using sub_None[OF keep.hyps(1)] by simp
    then obtain w' where w: "w = c # w'" using keep.prems(3) by (cases w) auto
    with eq keep.prems(2) obtain t where "cs = w' @ t" "follow_agrees (prev (Some c) w', t) post"
      using kept_prefix[of "Some c" cs w' post] by auto
    then show ?thesis
      using w Nil first_match_None[OF keep.hyps(1)]
      by (intro disjI2 exI[of _ "[]"] exI[of _ t]) (auto simp: precede_agrees_def)
  next
    case (Cons d pre2)
    with keep.prems have d: "d = c" and rest: "sub_from r (\<lambda>_. block) False (Some c, cs) = pre2 @ w @ post"
      using sub_None[OF keep.hyps(1)] by auto
    from keep.IH[OF rest keep.prems(2,3)] show ?thesis
    proof (elim disjE exE conjE, goal_cases)
      case (2 pre' post')
      have "precede_agrees p (c # pre') (w @ post') pre"
        using precede_agrees_Cons[OF 2(3)] Cons d by simp
      with 2 show ?case by (intro disjI2 exI[of _ "c # pre'"] exI[of _ post']) auto
    qed blast
  qed
qed

end

end
