(* ===== verification/PiiScrubbing.thy ===== *)
theory PiiScrubbing
  imports Regex Json
begin

text \<open>
  The removal of personal data from what leaves the process,
  \<open>inference_core/observability/sentry_scrubbing.py\<close>: the patterns, the detectors a product
  adds, the redaction of a text and of arbitrary payloads, and the two hooks. How a single text
  is redacted is chosen by the detector service, so it is an argument \<open>rp\<close> of the hooks, with
  the state \<open>'s\<close> of that service.
\<close>

definition REDACTED :: string where
  "REDACTED = ''***REDACTED***''"

subsection \<open>Patterns\<close>

definition one_or_more :: "(char \<Rightarrow> bool) \<Rightarrow> regex" where
  "one_or_more f = Repeat 1 None (Class f)"

definition optional :: "regex \<Rightarrow> regex" where
  "optional r = Repeat 0 (Some 1) r"

definition exactly :: "nat \<Rightarrow> (char \<Rightarrow> bool) \<Rightarrow> regex" where
  "exactly n f = Repeat n (Some n) (Class f)"

definition EMAIL_RE :: regex where
  "EMAIL_RE = Cat (one_or_more (alnum_or ''._%+-'')) (Cat (Class (\<lambda>c. c = CHR ''@''))
     (Cat (one_or_more (alnum_or ''.-'')) (Cat (Class (\<lambda>c. c = CHR ''.'')) (Repeat 2 None (Class ascii_letter)))))"

definition BEARER_RE :: regex where
  "BEARER_RE = Cat (literal_i ''bearer'') (Cat (one_or_more py_space) (one_or_more (alnum_or ''._-'')))"

definition SECRET_RE :: regex where
  "SECRET_RE = Cat (one_of [literal_i ''sk-'', literal_i ''pk-'',
       Cat (literal_i ''api'') (Cat (optional (Class (\<lambda>c. c \<in> set ''_-''))) (Cat (literal_i ''key'')
         (one_or_more (\<lambda>c. c \<in> {CHR 0x22, CHR 0x27, CHR ''='', CHR '':''} \<or> py_space c))))])
     (Repeat 8 None (Class (alnum_or ''._-'')))"

definition LONG_DIGITS_RE :: regex where
  "LONG_DIGITS_RE = Cat WordBoundary (Cat (Repeat 11 None (Class is_digit)) WordBoundary)"

definition URL_SECRET_RE :: regex where
  "URL_SECRET_RE = Cat (Class (\<lambda>c. c \<in> set ''?&''))
     (Cat (one_of (map literal_i [''token'', ''access_token'', ''refresh_token'', ''id_token'', ''code'', ''state'',
        ''key'', ''signature'', ''sig'', ''client_secret'']))
     (Cat (Class (\<lambda>c. c = CHR ''='')) (one_or_more (\<lambda>c. c \<notin> {CHR ''&'', CHR 0x22, CHR 0x27} \<and> \<not> py_space c))))"

definition IBAN_RE :: regex where
  "IBAN_RE = Cat WordBoundary (Cat (exactly 2 upper_letter) (Cat (exactly 2 is_digit)
     (Cat (Repeat 4 (Some 7) (Cat (optional (Class py_space)) (exactly 4 is_digit)))
     (Cat (optional (Cat (optional (Class py_space)) (Repeat 1 (Some 4) (Class is_digit)))) WordBoundary))))"

definition SENSITIVE_KEYS :: "string list" where
  "SENSITIVE_KEYS = [''password'', ''passwd'', ''secret'', ''api_key'', ''apikey'', ''token'', ''access_token'',
     ''refresh_token'', ''authorization'', ''cookie'', ''cookies'', ''set-cookie'', ''x-api-key'',
     ''encrypted_credentials'', ''message'', ''message_content'', ''content'', ''body'', ''body_text'', ''body_html'',
     ''prompt'', ''email'', ''user_email'', ''subject'']"

definition ALLOWED_HEADERS :: "string list" where
  "ALLOWED_HEADERS = [''content-type'', ''content-length'', ''accept'', ''accept-language'', ''user-agent'', ''host'',
     ''x-request-id'']"

definition MAX_DEPTH :: nat where
  "MAX_DEPTH = 8"

subsection \<open>Detectors of the product\<close>

text \<open>
  A pattern comes with the expansion of its replacement template for a matched text, or the
  error of an invalid template.
\<close>

record detector =
  det_name :: string
  det_pattern :: "regex option"
  det_redactor :: "(string \<Rightarrow> exn + string) option"
  det_label :: string
  det_replacement :: "exn + (string \<Rightarrow> string)"

datatype detector_arg =
    DetectorArg detector
  | PatternArg string regex
  | CallableArg string "string \<Rightarrow> exn + string"
  | UnsupportedArg

definition coerce_detector :: "detector_arg \<Rightarrow> detector option" where
  "coerce_detector a =
     (case a of
        DetectorArg d \<Rightarrow> Some d
      | PatternArg source r \<Rightarrow> Some \<lparr>det_name = ''pattern:'' @ source, det_pattern = Some r, det_redactor = None,
          det_label = ''PII'', det_replacement = Inr (\<lambda>_. REDACTED)\<rparr>
      | CallableArg name f \<Rightarrow> Some \<lparr>det_name = ''callable:'' @ name, det_pattern = None, det_redactor = Some f,
          det_label = ''PII'', det_replacement = Inr (\<lambda>_. REDACTED)\<rparr>
      | UnsupportedArg \<Rightarrow> None)"

type_synonym detectors = "(string \<times> detector) list"

definition register_extra_detectors :: "detector_arg list \<Rightarrow> detectors \<Rightarrow> detectors" where
  "register_extra_detectors args ds =
     foldl (\<lambda>ds a. case coerce_detector a of None \<Rightarrow> ds | Some d \<Rightarrow> AList.update (det_name d) d ds) ds args"

definition clear_extra_detectors :: "detectors \<Rightarrow> detectors" where
  "clear_extra_detectors ds = []"

definition iter_extra_detectors :: "detectors \<Rightarrow> detector list" where
  "iter_extra_detectors ds = map snd ds"

definition apply_detector :: "detector \<Rightarrow> string \<Rightarrow> string" where
  "apply_detector d text =
     (case det_pattern d of
        Some r \<Rightarrow> (case det_replacement d of Inl _ \<Rightarrow> text | Inr f \<Rightarrow> pattern_sub r f text)
      | None \<Rightarrow>
          (case det_redactor d of
             None \<Rightarrow> text
           | Some f \<Rightarrow> (case f text of Inl _ \<Rightarrow> text | Inr t \<Rightarrow> t)))"

definition apply_extra_detectors :: "detectors \<Rightarrow> string \<Rightarrow> string" where
  "apply_extra_detectors ds text = foldl (\<lambda>t d. apply_detector d t) text (iter_extra_detectors ds)"

definition GENERIC_SPAN_PATTERNS :: "(regex \<times> string) list" where
  "GENERIC_SPAN_PATTERNS = [(EMAIL_RE, ''email''), (SECRET_RE, ''secret''), (BEARER_RE, ''secret''),
     (URL_SECRET_RE, ''secret''), (IBAN_RE, ''iban''), (LONG_DIGITS_RE, ''long_digits'')]"

definition labelled_matches :: "string \<Rightarrow> regex \<times> string \<Rightarrow> (nat \<times> nat \<times> string \<times> string) list" where
  "labelled_matches text p = map (\<lambda>(i, j, m). (i, j, snd p, m)) (finditer (fst p) text)"

definition detect_spans :: "detectors \<Rightarrow> string \<Rightarrow> (nat \<times> nat \<times> string \<times> string) list" where
  "detect_spans ds text = concat (map (labelled_matches text)
     (GENERIC_SPAN_PATTERNS @
      concat (map (\<lambda>d. case det_pattern d of None \<Rightarrow> [] | Some r \<Rightarrow> [(r, det_label d)]) (iter_extra_detectors ds))))"

subsection \<open>A single text\<close>

text \<open>The first group of the pattern of URL parameters ends with the first equals sign.\<close>

definition url_replacement :: "string \<Rightarrow> string" where
  "url_replacement m = takeWhile (\<lambda>c. c \<noteq> CHR ''='') m @ ''='' @ REDACTED"

definition redact_str :: "detectors \<Rightarrow> string \<Rightarrow> string" where
  "redact_str ds text =
     (let t1 = pattern_sub BEARER_RE (\<lambda>_. ''bearer '' @ REDACTED) text;
          t2 = pattern_sub SECRET_RE (\<lambda>_. REDACTED) t1;
          t3 = pattern_sub URL_SECRET_RE url_replacement t2;
          t4 = pattern_sub EMAIL_RE (\<lambda>_. REDACTED) t3;
          t5 = pattern_sub IBAN_RE (\<lambda>_. REDACTED) t4;
          t6 = apply_extra_detectors ds t5
      in pattern_sub LONG_DIGITS_RE (\<lambda>_. REDACTED) t6)"

subsection \<open>Payloads\<close>

type_synonym 's redactor = "'s \<Rightarrow> string \<Rightarrow> 's \<times> string"

fun redact :: "'s redactor \<Rightarrow> nat \<Rightarrow> json \<Rightarrow> 's \<Rightarrow> 's \<times> json"
  and redact_items :: "'s redactor \<Rightarrow> nat \<Rightarrow> (string \<times> json) list \<Rightarrow> 's \<Rightarrow> 's \<times> (string \<times> json) list"
  and redact_list :: "'s redactor \<Rightarrow> nat \<Rightarrow> json list \<Rightarrow> 's \<Rightarrow> 's \<times> json list" where
  "redact rp depth v s =
     (if MAX_DEPTH < depth then (s, JStr REDACTED)
      else case v of
        JStr t \<Rightarrow> (let (s', t') = rp s t in (s', JStr t'))
      | JObj kvs \<Rightarrow> (let (s', kvs') = redact_items rp (depth + 1) kvs s in (s', JObj kvs'))
      | JArr xs \<Rightarrow> (let (s', xs') = redact_list rp (depth + 1) xs s in (s', JArr xs'))
      | _ \<Rightarrow> (s, v))"
| "redact_items rp depth [] s = (s, [])"
| "redact_items rp depth ((k, v) # kvs) s =
     (let (s1, v') = (if py_lower k \<in> set SENSITIVE_KEYS then (s, JStr REDACTED) else redact rp depth v s);
          (s2, kvs') = redact_items rp depth kvs s1
      in (s2, (k, v') # kvs'))"
| "redact_list rp depth [] s = (s, [])"
| "redact_list rp depth (x # xs) s =
     (let (s1, x') = redact rp depth x s; (s2, xs') = redact_list rp depth xs s1 in (s2, x' # xs'))"

text \<open>A text under a key, if it is one.\<close>

definition redact_text_at :: "'s redactor \<Rightarrow> string \<Rightarrow> (string \<times> json) list \<Rightarrow> 's \<Rightarrow> 's \<times> (string \<times> json) list" where
  "redact_text_at rp k d s =
     (case map_of d k of
        Some (JStr t) \<Rightarrow> (let (s', t') = rp s t in (s', dict_set d k (JStr t')))
      | _ \<Rightarrow> (s, d))"

subsection \<open>Breadcrumbs\<close>

definition scrub_breadcrumb :: "'s redactor \<Rightarrow> json \<Rightarrow> 's \<Rightarrow> 's \<times> json option" where
  "scrub_breadcrumb rp crumb s =
     (case crumb of
        JObj d \<Rightarrow>
          let (s1, d1) = redact_text_at rp ''message'' d s in
          (case map_of d1 ''data'' of
             Some (JObj v) \<Rightarrow> (let (s2, v') = redact rp 0 (JObj v) s1 in (s2, Some (JObj (dict_set d1 ''data'' v'))))
           | _ \<Rightarrow> (s1, Some (JObj d1)))
      | _ \<Rightarrow> (s, None))"

text \<open>\<open>scrub_breadcrumb(crumb) or crumb\<close>.\<close>

fun scrub_breadcrumbs :: "'s redactor \<Rightarrow> json list \<Rightarrow> 's \<Rightarrow> 's \<times> json list" where
  "scrub_breadcrumbs rp [] s = (s, [])"
| "scrub_breadcrumbs rp (crumb # crumbs) s =
     (let (s1, r) = scrub_breadcrumb rp crumb s;
          (s2, rest) = scrub_breadcrumbs rp crumbs s1
      in (s2, (case r of Some c \<Rightarrow> if json_truthy c then c else crumb | None \<Rightarrow> crumb) # rest))"

subsection \<open>The parts of an event\<close>

definition keep_redacted ::
  "'s redactor \<Rightarrow> (string \<times> json) list \<Rightarrow> string \<Rightarrow> 's \<times> (string \<times> json) list \<Rightarrow> 's \<times> (string \<times> json) list" where
  "keep_redacted rp request k acc =
     (case map_of request k of
        None \<Rightarrow> acc
      | Some v \<Rightarrow> (let (s', v') = redact rp (MAX_DEPTH - 1) v (fst acc) in (s', snd acc @ [(k, v')])))"

definition scrub_request :: "'s redactor \<Rightarrow> (string \<times> json) list \<Rightarrow> 's \<Rightarrow> 's \<times> (string \<times> json) list" where
  "scrub_request rp request s =
     (let (s', out) = keep_redacted rp request ''method'' (keep_redacted rp request ''url'' (s, []))
      in (s', out @ (case map_of request ''headers'' of
            Some (JObj hs) \<Rightarrow> [(''headers'', JObj (filter (\<lambda>(k, _). py_lower k \<in> set ALLOWED_HEADERS) hs))]
          | _ \<Rightarrow> [])))"

definition scrub_user :: "(string \<times> json) list \<Rightarrow> (string \<times> json) list" where
  "scrub_user user = (case map_of user ''id'' of Some v \<Rightarrow> [(''id'', v)] | None \<Rightarrow> [])"

definition drop_vars :: "json \<Rightarrow> json" where
  "drop_vars frame = (case frame of JObj d \<Rightarrow> JObj (AList.delete ''vars'' d) | _ \<Rightarrow> frame)"

text \<open>One entry of the list of exceptions; only a dictionary has the attribute \<open>get\<close>.\<close>

definition scrub_frames :: "(string \<times> json) list \<Rightarrow> exn + (string \<times> json) list" where
  "scrub_frames e =
     (let st = (case map_of e ''stacktrace'' of Some v \<Rightarrow> if json_truthy v then v else JObj [] | None \<Rightarrow> JObj [])
      in case st of
        JObj d \<Rightarrow>
          (case map_of d ''frames'' of
             Some (JArr frames) \<Rightarrow>
               Inr (dict_set e ''stacktrace'' (JObj (dict_set d ''frames'' (JArr (map drop_vars frames)))))
           | _ \<Rightarrow> Inr e)
      | v \<Rightarrow> Inl (AttributeError (describe v '' object has no attribute get'')))"

definition scrub_entry :: "'s redactor \<Rightarrow> json \<Rightarrow> 's \<Rightarrow> 's \<times> (exn + json)" where
  "scrub_entry rp entry s =
     (case entry of
        JObj e \<Rightarrow> (let (s', e') = redact_text_at rp ''value'' e s in (s', map_sum id JObj (scrub_frames e')))
      | v \<Rightarrow> (s, Inl (AttributeError (describe v '' object has no attribute get''))))"

fun scrub_entries :: "'s redactor \<Rightarrow> json list \<Rightarrow> 's \<Rightarrow> 's \<times> (exn + json list)" where
  "scrub_entries rp [] s = (s, Inr [])"
| "scrub_entries rp (x # xs) s =
     (case scrub_entry rp x s of
        (s1, Inl e) \<Rightarrow> (s1, Inl e)
      | (s1, Inr x') \<Rightarrow>
          (case scrub_entries rp xs s1 of
             (s2, Inl e) \<Rightarrow> (s2, Inl e)
           | (s2, Inr xs') \<Rightarrow> (s2, Inr (x' # xs'))))"

text \<open>What the hook does with the value under a key; a value of another type is left.\<close>

type_synonym 's section_scrubber = "'s redactor \<Rightarrow> json \<Rightarrow> 's \<Rightarrow> 's \<times> (exn + json)"

definition request_section :: "'s section_scrubber" where
  "request_section rp v s =
     (case v of JObj d \<Rightarrow> (let (s', d') = scrub_request rp d s in (s', Inr (JObj d'))) | _ \<Rightarrow> (s, Inr v))"

definition user_section :: "'s section_scrubber" where
  "user_section rp v s = (s, Inr (case v of JObj d \<Rightarrow> JObj (scrub_user d) | _ \<Rightarrow> v))"

definition exception_section :: "'s section_scrubber" where
  "exception_section rp v s =
     (case v of
        JObj d \<Rightarrow>
          (case map_of d ''values'' of
             None \<Rightarrow> (s, Inr v)
           | Some xs \<Rightarrow>
               if \<not> json_truthy xs then (s, Inr v)
               else case json_iter xs of
                 Inl e \<Rightarrow> (s, Inl e)
               | Inr entries \<Rightarrow>
                   (case scrub_entries rp entries s of
                      (s', Inl e) \<Rightarrow> (s', Inl e)
                    | (s', Inr entries') \<Rightarrow> (s', Inr (JObj (dict_set d ''values'' (JArr entries'))))))
      | _ \<Rightarrow> (s, Inr v))"

definition logentry_section :: "'s section_scrubber" where
  "logentry_section rp v s =
     (case v of
        JObj d \<Rightarrow>
          let (s1, d1) = redact_text_at rp ''message'' d s in
          (case map_of d1 ''params'' of
             None \<Rightarrow> (s1, Inr (JObj d1))
           | Some p \<Rightarrow> (let (s2, p') = redact rp 0 p s1 in (s2, Inr (JObj (dict_set d1 ''params'' p')))))
      | _ \<Rightarrow> (s, Inr v))"

definition message_section :: "'s section_scrubber" where
  "message_section rp v s = (case v of JStr t \<Rightarrow> (let (s', t') = rp s t in (s', Inr (JStr t'))) | _ \<Rightarrow> (s, Inr v))"

definition payload_section :: "'s section_scrubber" where
  "payload_section rp v s =
     (case v of JObj d \<Rightarrow> (let (s', v') = redact rp 0 v s in (s', Inr v')) | _ \<Rightarrow> (s, Inr v))"

definition breadcrumbs_section :: "'s section_scrubber" where
  "breadcrumbs_section rp v s =
     (case v of
        JObj d \<Rightarrow>
          (case map_of d ''values'' of
             Some (JArr crumbs) \<Rightarrow>
               (let (s', crumbs') = scrub_breadcrumbs rp crumbs s in (s', Inr (JObj (dict_set d ''values'' (JArr crumbs')))))
           | _ \<Rightarrow> (s, Inr v))
      | _ \<Rightarrow> (s, Inr v))"

definition SECTIONS :: "(string \<times> 's section_scrubber) list" where
  "SECTIONS = [(''request'', request_section), (''user'', user_section), (''exception'', exception_section),
     (''logentry'', logentry_section), (''message'', message_section), (''extra'', payload_section),
     (''contexts'', payload_section), (''tags'', payload_section), (''breadcrumbs'', breadcrumbs_section)]"

definition MINIMAL_KEYS :: "string list" where
  "MINIMAL_KEYS = [''event_id'', ''timestamp'', ''platform'', ''level'', ''release'', ''environment'']"

subsection \<open>The hook\<close>

fun scrub_sections ::
  "(string \<times> 's section_scrubber) list \<Rightarrow> 's redactor \<Rightarrow> (string \<times> json) list \<Rightarrow> 's \<Rightarrow>
   's \<times> (exn + (string \<times> json) list)" where
  "scrub_sections [] rp event s = (s, Inr event)"
| "scrub_sections ((k, f) # sections) rp event s =
     (case map_of event k of
        None \<Rightarrow> scrub_sections sections rp event s
      | Some v \<Rightarrow>
          (case f rp v s of
             (s', Inl e) \<Rightarrow> (s', Inl e)
           | (s', Inr v') \<Rightarrow> scrub_sections sections rp (dict_set event k v') s'))"

definition scrub_event :: "'s redactor \<Rightarrow> (string \<times> json) list \<Rightarrow> 's \<Rightarrow> 's \<times> (string \<times> json) list" where
  "scrub_event rp event s =
     (case scrub_sections SECTIONS rp event s of
        (s', Inr event') \<Rightarrow> (s', event')
      | (s', Inl _) \<Rightarrow>
          (s', concat (map (\<lambda>k. case map_of event k of Some v \<Rightarrow> [(k, v)] | None \<Rightarrow> []) MINIMAL_KEYS)))"

end
