(* ===== verification/PiiDetector.thy ===== *)
theory PiiDetector
  imports PiiScrubbing
begin

text \<open>
  The service that redacts a text, \<open>inference_core/services/pii_detector.py\<close>: its four backends,
  the in-process model that is loaded once and may fail, be slow or be busy, and the singleton.
  The model library and the remote service are functions of an environment, and so are the
  lock and the time limit, which depend on the count of calls. Offsets are natural numbers.
\<close>

record pii_span =
  sp_start :: nat
  sp_end :: nat
  sp_label :: string
  sp_text :: string
  sp_score :: rat

text \<open>An entity of the model: the label, the text and the score may be missing.\<close>

record entity =
  en_start :: nat
  en_end :: nat
  en_label :: "string option"
  en_text :: "string option"
  en_score :: "rat option"

record remote_reply =
  rr_spans :: "entity list option"
  rr_redacted :: "string option"

datatype backend =
    RegexBackend
  | LocalBackend string
  | RemoteBackend "string option"
  | FakeBackend

record 'm pii_world =
  pw_detectors :: detectors
  pw_backend :: "backend option"
  pw_model :: "(string \<times> 'm) option"
  pw_load_failed :: bool
  pw_calls :: nat

record 'm pii_env =
  pe_backend_setting :: "exn + string"
  pe_model_name :: string
  pe_remote_url :: "string option"
  pe_from_pretrained :: "nat \<Rightarrow> string \<Rightarrow> exn + 'm"
  pe_lock_free :: "nat \<Rightarrow> bool"
  pe_timely :: "nat \<Rightarrow> bool"
  pe_reentrant :: "nat \<Rightarrow> bool"
  pe_predict :: "'m \<Rightarrow> string \<Rightarrow> exn + entity list"
  pe_post :: "nat \<Rightarrow> string \<Rightarrow> string \<Rightarrow> exn + remote_reply"

definition regex_spans :: "detectors \<Rightarrow> string \<Rightarrow> pii_span list" where
  "regex_spans ds text =
     map (\<lambda>(i, j, l, m). \<lparr>sp_start = i, sp_end = j, sp_label = l, sp_text = m, sp_score = 1\<rparr>) (detect_spans ds text)"

subsection \<open>The local model\<close>

text \<open>\<open>_get_model\<close>; a lock that is busy for a second counts as no model.\<close>

definition load_pii_model :: "'m pii_env \<Rightarrow> string \<Rightarrow> 'm pii_world \<Rightarrow> 'm pii_world \<times> 'm option" where
  "load_pii_model E name w =
     (if pw_load_failed w \<or> \<not> pe_lock_free E (pw_calls w) then (w, None)
      else case pe_from_pretrained E (pw_calls w) name of
        Inr m \<Rightarrow> (w\<lparr>pw_model := Some (name, m)\<rparr>, Some m)
      | Inl _ \<Rightarrow> (w\<lparr>pw_load_failed := True\<rparr>, None))"

definition get_pii_model :: "'m pii_env \<Rightarrow> string \<Rightarrow> 'm pii_world \<Rightarrow> 'm pii_world \<times> 'm option" where
  "get_pii_model E name w =
     (case pw_model w of
        Some (loaded, m) \<Rightarrow> if loaded = name then (w, Some m) else load_pii_model E name w
      | None \<Rightarrow> load_pii_model E name w)"

definition reset_pii_model :: "'m pii_env \<Rightarrow> 'm pii_world \<Rightarrow> 'm pii_world" where
  "reset_pii_model E w =
     (if pe_lock_free E (pw_calls w) then w\<lparr>pw_model := None, pw_load_failed := False\<rparr> else w)"

definition local_detect :: "'m pii_env \<Rightarrow> string \<Rightarrow> string \<Rightarrow> 'm pii_world \<Rightarrow> 'm pii_world \<times> pii_span list" where
  "local_detect E name text w =
     (case get_pii_model E name w of
        (w', None) \<Rightarrow> (w', regex_spans (pw_detectors w) text)
      | (w', Some m) \<Rightarrow>
          (w', case pe_predict E m text of
             Inl _ \<Rightarrow> regex_spans (pw_detectors w) text
           | Inr es \<Rightarrow>
               map (\<lambda>e. \<lparr>sp_start = en_start e, sp_end = en_end e,
                  sp_label = (case en_label e of Some l \<Rightarrow> l | None \<Rightarrow> ''PII''),
                  sp_text = (case en_text e of Some t \<Rightarrow> t | None \<Rightarrow> take (en_end e - en_start e) (drop (en_start e) text)),
                  sp_score = (case en_score e of Some x \<Rightarrow> x | None \<Rightarrow> 1)\<rparr>) es))"

text \<open>\<open>sorted(..., reverse=True)\<close>, which keeps the order of equal keys.\<close>

definition sort_descending :: "('a \<Rightarrow> nat) \<Rightarrow> 'a list \<Rightarrow> 'a list" where
  "sort_descending f xs = rev (sort_key f (rev xs))"

definition cut_entities :: "entity list \<Rightarrow> string \<Rightarrow> string" where
  "cut_entities es text =
     foldl (\<lambda>out e. take (en_start e) out @ REDACTED @ drop (en_end e) out) text (sort_descending en_start es)"

definition local_redact :: "'m pii_env \<Rightarrow> string \<Rightarrow> string \<Rightarrow> 'm pii_world \<Rightarrow> 'm pii_world \<times> string" where
  "local_redact E name text w =
     (case get_pii_model E name w of
        (w', None) \<Rightarrow> (w', redact_str (pw_detectors w) text)
      | (w', Some m) \<Rightarrow>
          (w', redact_str (pw_detectors w) (case pe_predict E m text of Inl _ \<Rightarrow> text | Inr es \<Rightarrow> cut_entities es text)))"

text \<open>
  The answer of the pool counts if it is in time. A call that is not goes on in the pool, so
  that the model it loads is there for later calls.
\<close>

definition local_redact_fast :: "'m pii_env \<Rightarrow> string \<Rightarrow> string \<Rightarrow> 'm pii_world \<Rightarrow> 'm pii_world \<times> string" where
  "local_redact_fast E name text w =
     (if pe_reentrant E (pw_calls w) \<or> pw_load_failed w then (w, redact_str (pw_detectors w) text)
      else case local_redact E name text w of
        (w', out) \<Rightarrow> (w', if pe_timely E (pw_calls w) then out else redact_str (pw_detectors w) text))"

subsection \<open>The remote service\<close>

definition remote_call :: "'m pii_env \<Rightarrow> string option \<Rightarrow> string \<Rightarrow> 'm pii_world \<Rightarrow> remote_reply option" where
  "remote_call E url text w =
     (case url of
        None \<Rightarrow> None
      | Some u \<Rightarrow> if u = [] then None
          else case pe_post E (pw_calls w) u text of Inl _ \<Rightarrow> None | Inr r \<Rightarrow> Some r)"

definition remote_detect :: "'m pii_env \<Rightarrow> string option \<Rightarrow> string \<Rightarrow> 'm pii_world \<Rightarrow> pii_span list" where
  "remote_detect E url text w =
     (case remote_call E url text w of
        None \<Rightarrow> regex_spans (pw_detectors w) text
      | Some r \<Rightarrow>
          (case rr_spans r of
             None \<Rightarrow> regex_spans (pw_detectors w) text
           | Some es \<Rightarrow>
               map (\<lambda>e. \<lparr>sp_start = en_start e, sp_end = en_end e,
                  sp_label = (case en_label e of Some l \<Rightarrow> l | None \<Rightarrow> ''PII''),
                  sp_text = (case en_text e of Some t \<Rightarrow> t | None \<Rightarrow> []),
                  sp_score = (case en_score e of Some x \<Rightarrow> x | None \<Rightarrow> 1)\<rparr>) es))"

definition remote_redact :: "'m pii_env \<Rightarrow> string option \<Rightarrow> string \<Rightarrow> 'm pii_world \<Rightarrow> string" where
  "remote_redact E url text w =
     redact_str (pw_detectors w)
       (case remote_call E url text w of
          Some r \<Rightarrow> (case rr_redacted r of Some t \<Rightarrow> t | None \<Rightarrow> text)
        | None \<Rightarrow> text)"

subsection \<open>The service\<close>

definition backend_of_setting :: "'m pii_env \<Rightarrow> string \<Rightarrow> exn + backend" where
  "backend_of_setting E name =
     (if name = ''regex'' then Inr RegexBackend
      else if name = ''gliner-local'' then Inr (LocalBackend (pe_model_name E))
      else if name = ''remote'' then Inr (RemoteBackend (pe_remote_url E))
      else if name = ''fake'' then Inr FakeBackend
      else Inl (ValueError (''Unknown PII_BACKEND: '' @ name)))"

definition backend_detect :: "'m pii_env \<Rightarrow> backend \<Rightarrow> string \<Rightarrow> 'm pii_world \<Rightarrow> 'm pii_world \<times> pii_span list" where
  "backend_detect E b text w =
     (case b of
        LocalBackend name \<Rightarrow> local_detect E name text w
      | RemoteBackend url \<Rightarrow> (w, remote_detect E url text w)
      | _ \<Rightarrow> (w, regex_spans (pw_detectors w) text))"

definition backend_redact :: "'m pii_env \<Rightarrow> backend \<Rightarrow> string \<Rightarrow> 'm pii_world \<Rightarrow> 'm pii_world \<times> string" where
  "backend_redact E b text w =
     (case b of
        LocalBackend name \<Rightarrow> local_redact E name text w
      | RemoteBackend url \<Rightarrow> (w, remote_redact E url text w)
      | _ \<Rightarrow> (w, redact_str (pw_detectors w) text))"

definition backend_redact_fast :: "'m pii_env \<Rightarrow> backend \<Rightarrow> string \<Rightarrow> 'm pii_world \<Rightarrow> 'm pii_world \<times> string" where
  "backend_redact_fast E b text w =
     (case b of
        LocalBackend name \<Rightarrow> local_redact_fast E name text w
      | _ \<Rightarrow> (w, redact_str (pw_detectors w) text))"

definition get_pii_detector :: "'m pii_env \<Rightarrow> 'm pii_world \<Rightarrow> 'm pii_world \<times> (exn + backend)" where
  "get_pii_detector E w =
     (case pw_backend w of
        Some b \<Rightarrow> (w, Inr b)
      | None \<Rightarrow>
          (case bind_result (pe_backend_setting E) (backend_of_setting E) of
             Inl e \<Rightarrow> (w, Inl e)
           | Inr b \<Rightarrow> (w\<lparr>pw_backend := Some b\<rparr>, Inr b)))"

definition clear_pii_detector_cache :: "'m pii_world \<Rightarrow> 'm pii_world" where
  "clear_pii_detector_cache w = w\<lparr>pw_backend := None\<rparr>"

text \<open>\<open>redact_pii_text\<close>: any failure of the service leaves the plain patterns.\<close>

definition redact_pii_text :: "'m pii_env \<Rightarrow> 'm pii_world redactor" where
  "redact_pii_text E w text =
     (case get_pii_detector E (w\<lparr>pw_calls := pw_calls w + 1\<rparr>) of
        (w', Inr b) \<Rightarrow> backend_redact_fast E b text w'
      | (w', Inl _) \<Rightarrow> (w', redact_str (pw_detectors w) text))"

end
