(* ===== verification/PiiProperties.thy ===== *)
theory PiiProperties
  imports PiiDetector
begin

text \<open>
  What never leaves the process: no e-mail address and no long number remains in a redacted
  text, whichever backend redacts it and however that behaves, and the parts of an event that
  carry content consist of redacted texts. The locale \<open>text_redactor\<close> is what the hooks rely on
  of the detector service, interpreted on it.
\<close>

subsection \<open>Personal data, independently of the patterns\<close>

definition is_email :: "string \<Rightarrow> bool" where
  "is_email e \<longleftrightarrow> (\<exists>l d t. e = l @ CHR ''@'' # d @ CHR ''.'' # t \<and>
     l \<noteq> [] \<and> list_all (alnum_or ''._%+-'') l \<and> d \<noteq> [] \<and> list_all (alnum_or ''.-'') d \<and>
     2 \<le> length t \<and> list_all ascii_letter t)"

definition has_email :: "string \<Rightarrow> bool" where
  "has_email s \<longleftrightarrow> (\<exists>a e b. s = a @ e @ b \<and> is_email e)"

text \<open>A word of at least eleven digits.\<close>

definition has_long_number :: "string \<Rightarrow> bool" where
  "has_long_number s \<longleftrightarrow> (\<exists>a w b. s = a @ w @ b \<and> 11 \<le> length w \<and> list_all is_digit w \<and>
     (a = [] \<or> \<not> word_char (last a)) \<and> (b = [] \<or> \<not> word_char (hd b)))"

definition clean_text :: "string \<Rightarrow> bool" where
  "clean_text s \<longleftrightarrow> \<not> has_email s \<and> \<not> has_long_number s"

subsection \<open>Addresses\<close>

lemma class_facts [simp]:
  "\<not> alnum_or ''._%+-'' CHR ''*''" "\<not> alnum_or ''.-'' CHR ''*''" "\<not> ascii_letter CHR ''*''"
  "\<not> is_digit CHR ''*''" "\<not> word_char CHR ''*''"
  by (simp_all add: alnum_or_def ascii_letter_def is_digit_def word_char_def Let_def)

lemma digit_is_word: "is_digit c \<Longrightarrow> word_char c"
  by (simp add: is_digit_def word_char_def Let_def)

lemma not_among: "list_all f w \<Longrightarrow> \<not> f c \<Longrightarrow> c \<notin> set w"
  by (auto simp: list_all_iff)

lemma email_no_star: "is_email e \<Longrightarrow> CHR ''*'' \<notin> set e \<and> e \<noteq> [] \<and> CHR ''@'' \<in> set e"
proof -
  have "CHR ''*'' \<notin> set l" if "list_all f l" and "f \<in> {alnum_or ''._%+-'', alnum_or ''.-'', ascii_letter}" for f l
    using not_among[OF that(1), of "CHR ''*''"] that(2) by auto
  moreover assume "is_email e"
  ultimately show ?thesis by (auto simp: is_email_def)
qed

lemma email_matches:
  assumes "is_email e"
  shows "matches_at EMAIL_RE (p, e @ rest) \<noteq> []"
proof -
  obtain l d t where e: "e = l @ CHR ''@'' # d @ CHR ''.'' # t" "l \<noteq> []" "list_all (alnum_or ''._%+-'') l"
    "d \<noteq> []" "list_all (alnum_or ''.-'') d" "2 \<le> length t" "list_all ascii_letter t"
    using assms by (auto simp: is_email_def)
  let ?p1 = "(prev p l, CHR ''@'' # d @ CHR ''.'' # t @ rest)"
  let ?p2 = "(Some CHR ''@'', d @ CHR ''.'' # t @ rest)"
  let ?p3 = "(prev (Some CHR ''@'') d, CHR ''.'' # t @ rest)"
  let ?p4 = "(Some CHR ''.'', t @ rest)"
  let ?p5 = "(prev (Some CHR ''.'') t, rest)"
  have "?p1 \<in> set (matches_at (one_or_more (alnum_or ''._%+-'')) (p, e @ rest))"
    unfolding one_or_more_def matches_repeat_class using e by (intro exI[of _ l]) (cases l, auto)
  moreover have "?p2 \<in> set (matches_at (Class (\<lambda>c. c = CHR ''@'')) ?p1)" by (simp add: class_matches)
  moreover have "?p3 \<in> set (matches_at (one_or_more (alnum_or ''.-'')) ?p2)"
    unfolding one_or_more_def matches_repeat_class using e by (intro exI[of _ d]) (cases d, auto)
  moreover have "?p4 \<in> set (matches_at (Class (\<lambda>c. c = CHR ''.'')) ?p3)" by (simp add: class_matches)
  moreover have "?p5 \<in> set (matches_at (Repeat 2 None (Class ascii_letter)) ?p4)"
    unfolding matches_repeat_class using e by (intro exI[of _ t]) auto
  ultimately have "?p5 \<in> set (matches_at EMAIL_RE (p, e @ rest))"
    unfolding EMAIL_RE_def matches_Cat by blast
  then show ?thesis by auto
qed

lemma redacted_block: "REDACTED = CHR ''*'' # ''**REDACTED**'' @ ''*''"
  by (simp add: REDACTED_def)

interpretation email: redaction EMAIL_RE "''**REDACTED**''"
  by unfold_locales (simp add: EMAIL_RE_def one_or_more_def)

interpretation iban: redaction IBAN_RE "''**REDACTED**''"
  by unfold_locales (simp add: IBAN_RE_def exactly_def optional_def)

interpretation digits: redaction LONG_DIGITS_RE "''**REDACTED**''"
  by unfold_locales (simp add: LONG_DIGITS_RE_def)

lemma block_chars: "CHR ''@'' \<notin> set ''**REDACTED**''" "\<not> (\<exists>c \<in> set ''**REDACTED**''. is_digit c)"
  by (simp_all add: is_digit_def)

lemma not_inside_block:
  "is_email e \<Longrightarrow> ''**REDACTED**'' \<noteq> a @ e @ b"
  "list_all is_digit w \<Longrightarrow> w \<noteq> [] \<Longrightarrow> ''**REDACTED**'' \<noteq> a @ w @ b"
proof -
  assume "is_email e"
  then have "CHR ''@'' \<in> set (a @ e @ b)" using email_no_star by simp
  then show "''**REDACTED**'' \<noteq> a @ e @ b" by (metis block_chars(1))
next
  assume "list_all is_digit w" and "w \<noteq> []"
  then have "\<exists>c \<in> set (a @ w @ b). is_digit c" by (cases w) auto
  then show "''**REDACTED**'' \<noteq> a @ w @ b" by (metis block_chars(2))
qed

lemma email_sub_clean: "\<not> has_email (pattern_sub EMAIL_RE (\<lambda>_. REDACTED) s)"
proof
  assume "has_email (pattern_sub EMAIL_RE (\<lambda>_. REDACTED) s)"
  then obtain a e b where out: "pattern_sub EMAIL_RE (\<lambda>_. REDACTED) s = a @ e @ b" and e: "is_email e"
    by (auto simp: has_email_def)
  from email.kept_word[OF out[unfolded pattern_sub_def redacted_block]] email_no_star[OF e] not_inside_block(1)[OF e]
  obtain pre' post' where "matches_at EMAIL_RE (prev None pre', e @ post') = []" by metis
  with email_matches[OF e] show False by blast
qed

text \<open>Another redaction makes no address.\<close>

lemma sub_keeps_no_email:
  assumes "redaction r" and "\<not> has_email s"
  shows "\<not> has_email (pattern_sub r (\<lambda>_. REDACTED) s)"
proof
  assume "has_email (pattern_sub r (\<lambda>_. REDACTED) s)"
  then obtain a e b where out: "pattern_sub r (\<lambda>_. REDACTED) s = a @ e @ b" and e: "is_email e"
    by (auto simp: has_email_def)
  from redaction.kept_word[OF assms(1) out[unfolded pattern_sub_def redacted_block]] email_no_star[OF e] not_inside_block(1)[OF e]
  obtain pre' post' where "s = pre' @ e @ post'" by metis
  with assms(2) e show False by (auto simp: has_email_def)
qed

subsection \<open>Numbers\<close>

lemma at_boundary_iff:
  "at_boundary (p, s) \<longleftrightarrow> (\<exists>c. p = Some c \<and> word_char c) \<noteq> (s \<noteq> [] \<and> word_char (hd s))"
  by (cases p; cases s) (auto simp: at_boundary_def)

lemma digits_matches:
  "pos \<in> set (matches_at LONG_DIGITS_RE (p, s)) \<longleftrightarrow>
   at_boundary (p, s) \<and> at_boundary pos \<and>
   (\<exists>w. s = w @ snd pos \<and> fst pos = prev p w \<and> list_all is_digit w \<and> 11 \<le> length w)"
proof -
  have "pos1 \<in> set (matches_at WordBoundary pos0) \<longleftrightarrow> at_boundary pos0 \<and> pos1 = pos0" for pos0 pos1
    by auto
  then show ?thesis
    unfolding LONG_DIGITS_RE_def matches_Cat by (cases pos) (auto simp: matches_repeat_class simp del: matches_at.simps)
qed

lemma number_sub_clean: "\<not> has_long_number (pattern_sub LONG_DIGITS_RE (\<lambda>_. REDACTED) s)"
proof
  assume "has_long_number (pattern_sub LONG_DIGITS_RE (\<lambda>_. REDACTED) s)"
  then obtain a w b where out: "pattern_sub LONG_DIGITS_RE (\<lambda>_. REDACTED) s = a @ w @ b"
    and w: "11 \<le> length w" "list_all is_digit w"
    and before: "a = [] \<or> \<not> word_char (last a)" and behind: "b = [] \<or> \<not> word_char (hd b)"
    by (auto simp: has_long_number_def)
  have w': "w \<noteq> []" "CHR ''*'' \<notin> set w" using w not_among[OF w(2)] by auto
  from digits.kept_word[OF out[unfolded pattern_sub_def redacted_block] w'(2,1)] not_inside_block(2)[OF w(2) w'(1)]
  obtain pre' post' where none: "matches_at LONG_DIGITS_RE (prev None pre', w @ post') = []"
    and pre: "digits.precede_agrees None pre' (w @ post') a"
    and post: "digits.follow_agrees (prev None (pre' @ w), post') b" by metis
  have first: "word_char (hd (w @ post'))" and final: "word_char (last w)"
    using w(2) w'(1) by (auto simp: list_all_iff digit_is_word)
  have "at_boundary (prev None pre', w @ post')"
    using pre
    unfolding digits.precede_agrees_def
  proof (elim disjE conjE exE, goal_cases)
    case 2
    with before first show ?case using w'(1) by (auto simp: at_boundary_iff prev_def)
  next
    case (3 pos)
    then show ?case using digits_matches[of _ "fst pos" "snd pos"] by simp
  qed (use first w'(1) in \<open>simp add: at_boundary_iff\<close>)
  moreover have "at_boundary (prev (prev None pre') w, post')"
    using post
    unfolding digits.follow_agrees_def
  proof (elim disjE conjE exE, goal_cases)
    case 2
    with behind final show ?case using w'(1) by (auto simp: at_boundary_iff prev_def)
  next
    case 3
    then obtain x where "x \<in> set (matches_at LONG_DIGITS_RE (prev None (pre' @ w), post'))"
      using first_match_Some by fastforce
    then show ?case using digits_matches by simp
  qed (use final w'(1) in \<open>simp add: at_boundary_iff prev_def\<close>)
  ultimately have "(prev (prev None pre') w, post') \<in> set (matches_at LONG_DIGITS_RE (prev None pre', w @ post'))"
    unfolding digits_matches using w by auto
  with none show False by simp
qed


subsection \<open>A redacted text\<close>

text \<open>A detector of the product is harmless if its replacements make no address.\<close>

definition harmless :: "detector \<Rightarrow> bool" where
  "harmless d \<longleftrightarrow> (\<forall>t. \<not> has_email t \<longrightarrow> \<not> has_email (apply_detector d t))"

lemma extra_detectors_keep:
  "list_all harmless (iter_extra_detectors ds) \<Longrightarrow> \<not> has_email t \<Longrightarrow> \<not> has_email (apply_extra_detectors ds t)"
proof -
  have "\<not> has_email (foldl (\<lambda>t d. apply_detector d t) t xs)" if "list_all harmless xs" "\<not> has_email t" for xs t
    using that by (induction xs arbitrary: t) (simp_all add: harmless_def)
  then show "list_all harmless (iter_extra_detectors ds) \<Longrightarrow> \<not> has_email t \<Longrightarrow> ?thesis"
    by (simp add: apply_extra_detectors_def)
qed

lemma redact_str_clean:
  assumes "list_all harmless (iter_extra_detectors ds)"
  shows "clean_text (redact_str ds text)"
proof -
  have "\<not> has_email (pattern_sub IBAN_RE (\<lambda>_. REDACTED) (pattern_sub EMAIL_RE (\<lambda>_. REDACTED) t))" for t
    by (rule sub_keeps_no_email[OF iban.redaction_axioms email_sub_clean])
  then have "\<not> has_email (redact_str ds text)"
    unfolding redact_str_def Let_def
    by (intro sub_keeps_no_email[OF digits.redaction_axioms] extra_detectors_keep[OF assms])
  moreover have "\<not> has_long_number (redact_str ds text)"
    unfolding redact_str_def Let_def by (rule number_sub_clean)
  ultimately show ?thesis by (simp add: clean_text_def)
qed

lemma REDACTED_clean [simp]: "clean_text REDACTED"
proof -
  have "\<not> has_email REDACTED"
  proof
    assume "has_email REDACTED"
    then obtain a e b where "REDACTED = a @ e @ b" "is_email e" by (auto simp: has_email_def)
    then have "CHR ''@'' \<in> set REDACTED" using email_no_star by (metis Un_iff set_append)
    then show False by (simp add: REDACTED_def)
  qed
  moreover have "\<not> has_long_number REDACTED"
  proof
    assume "has_long_number REDACTED"
    then obtain a w b where w: "REDACTED = a @ w @ b" "11 \<le> length w" "list_all is_digit w"
      by (auto simp: has_long_number_def)
    from w(2) have "w \<noteq> []" by auto
    with w(3) have "hd w \<in> set (a @ w @ b)" and "is_digit (hd w)" by (simp_all add: list_all_iff)
    then have "hd w \<in> set REDACTED" and "is_digit (hd w)" by (simp_all only: w(1))
    then have "\<exists>c \<in> set REDACTED. is_digit c" by blast
    then show False by (simp add: REDACTED_def is_digit_def)
  qed
  ultimately show ?thesis by (simp add: clean_text_def)
qed

subsection \<open>The detector service\<close>

definition registry_ok :: "'m pii_world \<Rightarrow> bool" where
  "registry_ok w \<longleftrightarrow> list_all harmless (iter_extra_detectors (pw_detectors w))"

lemma get_pii_model_detectors:
  "get_pii_model E name w = (w', r) \<Longrightarrow> pw_detectors w' = pw_detectors w"
  by (auto simp: get_pii_model_def load_pii_model_def split: option.splits sum.splits if_splits)

lemma get_pii_detector_detectors:
  "get_pii_detector E w = (w', r) \<Longrightarrow> pw_detectors w' = pw_detectors w"
  by (auto simp: get_pii_detector_def split: option.splits sum.splits)

text \<open>Every answer, in time or late, from a model or without, has gone through the patterns.\<close>

lemma backend_redact_fast_patterns:
  "\<exists>t. backend_redact_fast E b text w = (fst (backend_redact_fast E b text w), redact_str (pw_detectors w) t) \<and>
     pw_detectors (fst (backend_redact_fast E b text w)) = pw_detectors w"
proof (cases b)
  case (LocalBackend name)
  obtain w' m where model: "get_pii_model E name w = (w', m)" by (cases "get_pii_model E name w")
  then show ?thesis
    using get_pii_model_detectors[OF model]
    by (cases m) (auto simp: LocalBackend backend_redact_fast_def local_redact_fast_def local_redact_def)
qed (auto simp: backend_redact_fast_def)

lemma redact_pii_text_patterns:
  "\<exists>t. snd (redact_pii_text E w text) = redact_str (pw_detectors w) t \<and>
     pw_detectors (fst (redact_pii_text E w text)) = pw_detectors w"
proof -
  let ?w = "w\<lparr>pw_calls := pw_calls w + 1\<rparr>"
  obtain w' r where d: "get_pii_detector E ?w = (w', r)" by (cases "get_pii_detector E ?w")
  then have same: "pw_detectors w' = pw_detectors w" using get_pii_detector_detectors[OF d] by simp
  show ?thesis
  proof (cases r)
    case (Inr b)
    then have "redact_pii_text E w text = backend_redact_fast E b text w'" by (simp only: redact_pii_text_def d prod.case sum.case)
    with backend_redact_fast_patterns[of E b "text" w'] same show ?thesis by (metis snd_conv)
  qed (auto simp: redact_pii_text_def d[simplified] same)
qed

subsection \<open>Payloads\<close>

text \<open>A payload with nothing personal in its texts, and a mark in place of sensitive entries.\<close>

fun clean_json :: "json \<Rightarrow> bool" where
  "clean_json (JStr t) \<longleftrightarrow> clean_text t"
| "clean_json (JArr xs) \<longleftrightarrow> list_all clean_json xs"
| "clean_json (JObj kvs) \<longleftrightarrow>
     list_all (\<lambda>(k, v). clean_json v \<and> (py_lower k \<in> set SENSITIVE_KEYS \<longrightarrow> v = JStr REDACTED)) kvs"
| "clean_json _ \<longleftrightarrow> True"

subsection \<open>Events\<close>

text \<open>A text under a key.\<close>

definition clean_at :: "string \<Rightarrow> (string \<times> json) list \<Rightarrow> bool" where
  "clean_at k d \<longleftrightarrow> (\<forall>t. map_of d k = Some (JStr t) \<longrightarrow> clean_text t)"

definition frame_clean :: "json \<Rightarrow> bool" where
  "frame_clean f \<longleftrightarrow> (\<forall>d. f = JObj d \<longrightarrow> map_of d ''vars'' = None)"

definition entry_clean :: "json \<Rightarrow> bool" where
  "entry_clean e \<longleftrightarrow> (\<exists>d. e = JObj d \<and> clean_at ''value'' d \<and>
     (\<forall>st fs. map_of d ''stacktrace'' = Some (JObj st) \<longrightarrow> map_of st ''frames'' = Some (JArr fs) \<longrightarrow> list_all frame_clean fs))"

definition crumb_clean :: "json \<Rightarrow> bool" where
  "crumb_clean c \<longleftrightarrow> (\<forall>d. c = JObj d \<longrightarrow> clean_at ''message'' d \<and>
     (\<forall>x. map_of d ''data'' = Some (JObj x) \<longrightarrow> clean_json (JObj x)))"

definition request_entry_clean :: "string \<Rightarrow> json \<Rightarrow> bool" where
  "request_entry_clean k v \<longleftrightarrow> k \<in> {''url'', ''method''} \<and> clean_json v \<or>
     k = ''headers'' \<and> (\<exists>hs. v = JObj hs \<and> list_all (\<lambda>(h, _). py_lower h \<in> set ALLOWED_HEADERS) hs)"

definition request_clean :: "(string \<times> json) list \<Rightarrow> bool" where
  "request_clean d \<longleftrightarrow> list_all (\<lambda>(k, v). request_entry_clean k v) d"

text \<open>What is promised of the value under a key of an event that leaves the process.\<close>

definition section_clean :: "string \<Rightarrow> json \<Rightarrow> bool" where
  "section_clean k v \<longleftrightarrow>
     (if k = ''request'' then \<forall>d. v = JObj d \<longrightarrow> request_clean d
      else if k = ''user'' then \<forall>d. v = JObj d \<longrightarrow> fst ` set d \<subseteq> {''id''}
      else if k = ''exception'' then
        \<forall>d xs. v = JObj d \<longrightarrow> map_of d ''values'' = Some xs \<longrightarrow> \<not> json_truthy xs \<or> (\<exists>es. xs = JArr es \<and> list_all entry_clean es)
      else if k = ''logentry'' then
        \<forall>d. v = JObj d \<longrightarrow> clean_at ''message'' d \<and> (\<forall>p. map_of d ''params'' = Some p \<longrightarrow> clean_json p)
      else if k = ''message'' then \<forall>t. v = JStr t \<longrightarrow> clean_text t
      else if k \<in> {''extra'', ''contexts'', ''tags''} then \<forall>d. v = JObj d \<longrightarrow> clean_json v
      else if k = ''breadcrumbs'' then
        \<forall>d xs. v = JObj d \<longrightarrow> map_of d ''values'' = Some (JArr xs) \<longrightarrow> list_all crumb_clean xs
      else True)"

lemma section_clean_payload:
  "k \<in> {''extra'', ''contexts'', ''tags''} \<Longrightarrow> section_clean k v \<longleftrightarrow> (\<forall>d. v = JObj d \<longrightarrow> clean_json v)"
  unfolding section_clean_def by (elim insertE emptyE; simp only: list.inject char.inject; simp)

locale text_redactor =
  fixes rp :: "'s redactor" and ok :: "'s \<Rightarrow> bool"
  assumes keeps_ok: "ok s \<Longrightarrow> ok (fst (rp s t))"
    and clean: "ok s \<Longrightarrow> clean_text (snd (rp s t))"
begin

lemma rp_eq: "rp s t = (s', t') \<Longrightarrow> ok s \<Longrightarrow> ok s' \<and> clean_text t'"
  using keeps_ok[of s t] clean[of s t] by simp

lemma redact_clean:
  "ok s \<Longrightarrow> redact rp depth v s = (s', v') \<Longrightarrow> ok s' \<and> clean_json v'"
  "ok s \<Longrightarrow> redact_items rp depth kvs s = (s', kvs') \<Longrightarrow> ok s' \<and> clean_json (JObj kvs')"
  "ok s \<Longrightarrow> redact_list rp depth xs s = (s', xs') \<Longrightarrow> ok s' \<and> clean_json (JArr xs')"
proof (induction rp\<equiv>rp depth v s and rp\<equiv>rp depth kvs s and rp\<equiv>rp depth xs s
    arbitrary: s' v' and s' kvs' and s' xs' rule: redact_redact_items_redact_list.induct)
  case (1 depth v s)
  show ?case
  proof (cases "MAX_DEPTH < depth")
    case True
    with 1 show ?thesis by auto
  next
    case False
    with 1 show ?thesis by (cases v) (auto split: prod.splits dest: rp_eq)
  qed
next
  case (3 depth k v kvs s)
  obtain s1 w where one: "(if py_lower k \<in> set SENSITIVE_KEYS then (s, JStr REDACTED) else redact rp depth v s) = (s1, w)"
    by (metis surj_pair)
  obtain rest where rest: "redact_items rp depth kvs s1 = (s', rest)" and out: "kvs' = (k, w) # rest"
    using 3(4) one by (auto split: prod.splits)
  have "ok s1 \<and> clean_json w \<and> (py_lower k \<in> set SENSITIVE_KEYS \<longrightarrow> w = JStr REDACTED)"
    using one 3(1)[OF _ 3(3)] 3(3) by (auto split: if_splits)
  with 3(2)[OF one[symmetric] refl _ rest] out show ?case by auto
next
  case (5 depth x xs s)
  obtain s1 x' where one: "redact rp depth x s = (s1, x')" by (metis surj_pair)
  obtain rest where rest: "redact_list rp depth xs s1 = (s', rest)" and out: "xs' = x' # rest"
    using 5(4) one by (auto split: prod.splits)
  have "ok s1 \<and> clean_json x'" using 5(1)[OF 5(3) one] .
  with 5(2)[OF one[symmetric] refl _ rest] out show ?case by auto
qed auto

lemma dict_set_not_Nil: "dict_set d k v \<noteq> []"
  using dict_set_keys[of d k v] by auto

lemma redact_text_at_clean:
  assumes "ok s" and "redact_text_at rp k d s = (s', d')"
  shows "ok s' \<and> clean_at k d' \<and> (\<forall>k'. k' \<noteq> k \<longrightarrow> map_of d' k' = map_of d k') \<and> (d' = [] \<longrightarrow> d = [])"
proof (cases "\<exists>t. map_of d k = Some (JStr t)")
  case True
  then obtain t where t: "map_of d k = Some (JStr t)" by blast
  obtain s1 t' where r: "rp s t = (s1, t')" by (metis surj_pair)
  from rp_eq[OF r assms(1)] assms(2) t r show ?thesis
    by (auto simp: redact_text_at_def clean_at_def dict_set_not_Nil)
next
  case False
  then have "redact_text_at rp k d s = (s, d)"
    by (auto simp: redact_text_at_def split: option.split json.split)
  with assms False show ?thesis by (auto simp: clean_at_def)
qed

lemma breadcrumb_clean:
  assumes "ok s" and "scrub_breadcrumb rp c s = (s', r)"
  shows "ok s' \<and> crumb_clean (case r of Some c' \<Rightarrow> if json_truthy c' then c' else c | None \<Rightarrow> c)"
proof (cases "\<exists>d. c = JObj d")
  case True
  then obtain d where c: "c = JObj d" by blast
  obtain s1 d1 where one: "redact_text_at rp ''message'' d s = (s1, d1)" by (metis surj_pair)
  note msg = redact_text_at_clean[OF assms(1) one]
  show ?thesis
  proof (cases "\<exists>x. map_of d1 ''data'' = Some (JObj x)")
    case True
    then obtain x where x: "map_of d1 ''data'' = Some (JObj x)" by blast
    obtain s2 x' where two: "redact rp 0 (JObj x) s1 = (s2, x')" by (metis surj_pair)
    have res: "s' = s2" "r = Some (JObj (dict_set d1 ''data'' x'))"
      using assms(2) c one x two by (simp_all add: scrub_breadcrumb_def del: redact.simps)
    with msg redact_clean(1)[OF _ two] show ?thesis by (auto simp: crumb_clean_def clean_at_def dict_set_not_Nil)
  next
    case False
    then have res: "s' = s1" "r = Some (JObj d1)"
      using assms(2) c one by (auto simp: scrub_breadcrumb_def split: option.splits json.splits)
    have "crumb_clean (JObj d1)" using msg False by (auto simp: crumb_clean_def)
    moreover have "d1 = [] \<Longrightarrow> d = d1" using msg by simp
    ultimately show ?thesis using res msg c by auto
  qed
next
  case False
  with assms show ?thesis by (cases c) (auto simp: scrub_breadcrumb_def crumb_clean_def)
qed

lemma breadcrumbs_clean:
  "ok s \<Longrightarrow> scrub_breadcrumbs rp cs s = (s', cs') \<Longrightarrow> ok s' \<and> list_all crumb_clean cs'"
proof (induction cs arbitrary: s cs')
  case (Cons c cs)
  obtain s1 r where one: "scrub_breadcrumb rp c s = (s1, r)" by (metis surj_pair)
  obtain s2 rest where two: "scrub_breadcrumbs rp cs s1 = (s2, rest)" by (metis surj_pair)
  from Cons.prems(2) one two
  have "s' = s2" and "cs' = (case r of Some c' \<Rightarrow> if json_truthy c' then c' else c | None \<Rightarrow> c) # rest" by auto
  with breadcrumb_clean[OF Cons.prems(1) one] Cons.IH[of s1 rest] two show ?case by auto
qed simp

lemma scrub_frames_clean:
  assumes "clean_at ''value'' d" and "scrub_frames d = Inr d'"
  shows "entry_clean (JObj d')"
  using assms
  by (auto simp: scrub_frames_def entry_clean_def clean_at_def frame_clean_def drop_vars_def list_all_iff Let_def
      delete_conv' split: json.splits option.splits if_splits)

lemma entry_is_clean:
  assumes "ok s" and "scrub_entry rp x s = (s', r)"
  shows "ok s' \<and> (\<forall>x'. r = Inr x' \<longrightarrow> entry_clean x')"
proof (cases "\<exists>d. x = JObj d")
  case True
  then obtain d where x: "x = JObj d" by blast
  obtain s1 d1 where one: "redact_text_at rp ''value'' d s = (s1, d1)" by (metis surj_pair)
  note msg = redact_text_at_clean[OF assms(1) one]
  with assms(2) x one scrub_frames_clean[of d1] show ?thesis
    by (cases "scrub_frames d1") (auto simp: scrub_entry_def)
next
  case False
  with assms show ?thesis by (cases x) (auto simp: scrub_entry_def)
qed

lemma entries_clean:
  "ok s \<Longrightarrow> scrub_entries rp xs s = (s', r) \<Longrightarrow> ok s' \<and> (\<forall>es. r = Inr es \<longrightarrow> list_all entry_clean es)"
proof (induction xs arbitrary: s s' r)
  case (Cons x xs)
  obtain s1 r1 where one: "scrub_entry rp x s = (s1, r1)" by (metis surj_pair)
  obtain s2 r2 where two: "scrub_entries rp xs s1 = (s2, r2)" by (metis surj_pair)
  from entry_is_clean[OF Cons.prems(1) one] Cons.IH[OF _ two] Cons.prems(2) one two show ?case
    by (auto split: sum.splits)
qed simp

lemma kept_is_clean:
  assumes "ok (fst acc)" and "request_clean (snd acc)" and "k \<in> {''url'', ''method''}"
  shows "ok (fst (keep_redacted rp d k acc)) \<and> request_clean (snd (keep_redacted rp d k acc))"
proof (cases "map_of d k")
  case (Some v)
  obtain s' v' where r: "redact rp (MAX_DEPTH - 1) v (fst acc) = (s', v')" by (metis surj_pair)
  from redact_clean(1)[OF assms(1) r] assms(2,3) Some r show ?thesis
    by (simp add: keep_redacted_def request_clean_def request_entry_clean_def del: redact.simps)
qed (use assms in \<open>simp add: keep_redacted_def\<close>)

lemma request_is_clean:
  assumes "ok s" and "scrub_request rp d s = (s', d')"
  shows "ok s' \<and> request_clean d'"
proof -
  let ?a = "keep_redacted rp d ''url'' (s, [])"
  let ?b = "keep_redacted rp d ''method'' ?a"
  have "ok (fst ?a) \<and> request_clean (snd ?a)"
    using kept_is_clean[of "(s, [])" "''url''" d] assms(1) by (simp add: request_clean_def)
  then have b: "ok (fst ?b) \<and> request_clean (snd ?b)" using kept_is_clean[of ?a "''method''" d] by simp
  let ?hs = "case map_of d ''headers'' of
      Some (JObj hs) \<Rightarrow> [(''headers'', JObj (filter (\<lambda>(k, _). py_lower k \<in> set ALLOWED_HEADERS) hs))] | _ \<Rightarrow> []"
  have "s' = fst ?b" and "d' = snd ?b @ ?hs"
    using assms(2) unfolding scrub_request_def case_prod_unfold Let_def by (simp_all only: prod.inject)
  moreover have "request_clean ?hs"
    by (auto simp: request_clean_def request_entry_clean_def list_all_iff split: option.split json.split)
  ultimately show ?thesis using b by (simp only: request_clean_def list_all_append)
qed

text \<open>Every part of the table keeps its promise.\<close>

definition good_section :: "string \<Rightarrow> 's section_scrubber \<Rightarrow> bool" where
  "good_section k f \<longleftrightarrow> (\<forall>v s s' r. ok s \<longrightarrow> f rp v s = (s', r) \<longrightarrow> ok s' \<and> (\<forall>v'. r = Inr v' \<longrightarrow> section_clean k v'))"

lemma good_sectionI:
  "(\<And>v s s' r. ok s \<Longrightarrow> f rp v s = (s', r) \<Longrightarrow> ok s' \<and> (\<forall>v'. r = Inr v' \<longrightarrow> section_clean k v')) \<Longrightarrow> good_section k f"
  unfolding good_section_def by blast

lemma good_request: "good_section ''request'' request_section"
proof (rule good_sectionI)
  fix v s s' r assume "ok s" and "request_section rp v s = (s', r)"
  then show "ok s' \<and> (\<forall>v'. r = Inr v' \<longrightarrow> section_clean ''request'' v')"
    by (cases v) (auto simp: request_section_def section_clean_def split: prod.splits dest: request_is_clean)
qed

lemma good_user: "good_section ''user'' user_section"
proof (rule good_sectionI)
  fix v s s' r assume "ok s" and "user_section rp v s = (s', r)"
  then show "ok s' \<and> (\<forall>v'. r = Inr v' \<longrightarrow> section_clean ''user'' v')"
    by (cases v) (auto simp: user_section_def section_clean_def scrub_user_def split: option.splits)
qed

lemma good_exception: "good_section ''exception'' exception_section"
proof (rule good_sectionI)
  fix v s s' r assume ok: "ok s" and run: "exception_section rp v s = (s', r)"
  show "ok s' \<and> (\<forall>v'. r = Inr v' \<longrightarrow> section_clean ''exception'' v')"
  proof (cases "\<exists>d xs es. v = JObj d \<and> map_of d ''values'' = Some xs \<and> json_truthy xs \<and> json_iter xs = Inr es")
    case True
    then obtain d xs es where v: "v = JObj d" "map_of d ''values'' = Some xs" "json_truthy xs" "json_iter xs = Inr es"
      by blast
    obtain s1 r1 where two: "scrub_entries rp es s = (s1, r1)" by (metis surj_pair)
    from entries_clean[OF ok two] run v two show ?thesis
      by (cases r1) (auto simp: exception_section_def section_clean_def)
  next
    case False
    with run ok show ?thesis
      by (cases v) (auto simp: exception_section_def section_clean_def split: option.splits if_splits sum.splits)
  qed
qed

lemma good_logentry: "good_section ''logentry'' logentry_section"
proof (rule good_sectionI)
  fix v s s' r assume ok: "ok s" and run: "logentry_section rp v s = (s', r)"
  show "ok s' \<and> (\<forall>v'. r = Inr v' \<longrightarrow> section_clean ''logentry'' v')"
  proof (cases "\<exists>d. v = JObj d")
    case True
    then obtain d where v: "v = JObj d" by blast
    obtain s1 d1 where one: "redact_text_at rp ''message'' d s = (s1, d1)" by (metis surj_pair)
    note msg = redact_text_at_clean[OF ok one]
    show ?thesis
    proof (cases "map_of d1 ''params''")
      case None
      with run v one msg show ?thesis by (auto simp: logentry_section_def section_clean_def)
    next
      case (Some p)
      obtain s2 p' where two: "redact rp 0 p s1 = (s2, p')" by (metis surj_pair)
      from redact_clean(1)[OF _ two] run v one msg Some two show ?thesis
        by (auto simp: logentry_section_def section_clean_def clean_at_def simp del: redact.simps)
    qed
  next
    case False
    with run ok show ?thesis by (cases v) (auto simp: logentry_section_def section_clean_def)
  qed
qed

lemma good_message: "good_section ''message'' message_section"
proof (rule good_sectionI)
  fix v s s' r assume "ok s" and "message_section rp v s = (s', r)"
  then show "ok s' \<and> (\<forall>v'. r = Inr v' \<longrightarrow> section_clean ''message'' v')"
    by (cases v) (auto simp: message_section_def section_clean_def split: prod.splits dest: rp_eq)
qed

lemma good_payload:
  assumes "k \<in> {''extra'', ''contexts'', ''tags''}"
  shows "good_section k payload_section"
proof (rule good_sectionI)
  fix v s s' r assume ok: "ok s" and run: "payload_section rp v s = (s', r)"
  obtain s1 v1 where one: "redact rp 0 v s = (s1, v1)" by (metis surj_pair)
  have "section_clean k v'" if "clean_json v' \<or> \<not> (\<exists>d. v' = JObj d)" for v'
    using that unfolding section_clean_payload[OF assms] by blast
  moreover have "(s' = s1 \<and> r = Inr v1) \<or> (s' = s \<and> r = Inr v \<and> \<not> (\<exists>d. v = JObj d))"
    using run one by (cases v) (simp_all add: payload_section_def del: redact.simps)
  ultimately show "ok s' \<and> (\<forall>v'. r = Inr v' \<longrightarrow> section_clean k v')"
    using redact_clean(1)[OF ok one] ok by auto
qed

lemma good_breadcrumbs: "good_section ''breadcrumbs'' breadcrumbs_section"
proof (rule good_sectionI)
  fix v s s' r assume ok: "ok s" and run: "breadcrumbs_section rp v s = (s', r)"
  show "ok s' \<and> (\<forall>v'. r = Inr v' \<longrightarrow> section_clean ''breadcrumbs'' v')"
  proof (cases "\<exists>d xs. v = JObj d \<and> map_of d ''values'' = Some (JArr xs)")
    case True
    then obtain d xs where v: "v = JObj d" "map_of d ''values'' = Some (JArr xs)" by blast
    obtain s1 xs' where two: "scrub_breadcrumbs rp xs s = (s1, xs')" by (metis surj_pair)
    from breadcrumbs_clean[OF ok two] run v two show ?thesis
      by (auto simp: breadcrumbs_section_def section_clean_def)
  next
    case False
    then have "breadcrumbs_section rp v s = (s, Inr v)"
      by (auto simp: breadcrumbs_section_def split: json.split option.split)
    with False run ok show ?thesis by (auto simp: section_clean_def)
  qed
qed

lemma sections_clean:
  "list_all (\<lambda>(k, f). good_section k f) sections \<Longrightarrow> distinct (map fst sections) \<Longrightarrow> ok s \<Longrightarrow>
   scrub_sections sections rp ev s = (s', r) \<Longrightarrow>
   ok s' \<and> (\<forall>ev'. r = Inr ev' \<longrightarrow>
     (\<forall>k v. k \<in> fst ` set sections \<longrightarrow> map_of ev' k = Some v \<longrightarrow> section_clean k v) \<and>
     (\<forall>k. k \<notin> fst ` set sections \<longrightarrow> map_of ev' k = map_of ev k))"
proof (induction sections arbitrary: ev s)
  case (Cons x sections)
  obtain k f where x: "x = (k, f)" by (metis surj_pair)
  from Cons.prems have good: "good_section k f" and rest: "list_all (\<lambda>(k, f). good_section k f) sections"
    and fresh: "k \<notin> fst ` set sections" "distinct (map fst sections)" by (auto simp: x)
  show ?case
  proof (cases "map_of ev k")
    case None
    with Cons.IH[OF rest fresh(2) Cons.prems(3)] Cons.prems(4) fresh(1) show ?thesis by (auto simp: x)
  next
    case (Some v)
    obtain s1 r1 where one: "f rp v s = (s1, r1)" by (metis surj_pair)
    with good Cons.prems(3) have ok: "ok s1" and clean1: "\<And>v'. r1 = Inr v' \<Longrightarrow> section_clean k v'"
      unfolding good_section_def by blast+
    show ?thesis
    proof (cases r1)
      case (Inl e)
      with Cons.prems(4) Some one ok show ?thesis by (auto simp: x)
    next
      case (Inr v')
      with Cons.prems(4) Some one have "scrub_sections sections rp (dict_set ev k v') s1 = (s', r)" by (simp add: x)
      from Cons.IH[OF rest fresh(2) ok this] clean1[OF Inr] fresh(1) show ?thesis by (auto simp: x)
    qed
  qed
qed auto

lemma all_sections_good: "list_all (\<lambda>(k, f). good_section k f) SECTIONS" "distinct (map fst SECTIONS)"
  by (simp_all add: SECTIONS_def good_request good_user good_exception good_logentry good_message good_payload
      good_breadcrumbs)

lemma other_keys_clean: "k \<notin> fst ` set SECTIONS \<Longrightarrow> section_clean k v"
  by (auto simp: SECTIONS_def section_clean_def)

theorem event_clean:
  assumes "ok s" and "scrub_event rp ev s = (s', ev')" and "map_of ev' k = Some v"
  shows "ok s' \<and> section_clean k v"
proof -
  obtain s1 r where run: "scrub_sections SECTIONS rp ev s = (s1, r)" by (metis surj_pair)
  note all = sections_clean[OF all_sections_good assms(1) run]
  show ?thesis
  proof (cases r)
    case (Inr ev1)
    with all assms(2,3) run other_keys_clean[of k v] show ?thesis by (auto simp: scrub_event_def)
  next
    case (Inl e)
    then have "ev' = concat (map (\<lambda>k. case map_of ev k of Some v \<Rightarrow> [(k, v)] | None \<Rightarrow> []) MINIMAL_KEYS)" and "s' = s1"
      using assms(2) run by (simp_all add: scrub_event_def)
    then have "k \<in> set MINIMAL_KEYS" using map_of_SomeD[OF assms(3)] by (auto split: option.splits)
    then have "k \<notin> fst ` set SECTIONS" by (auto simp: MINIMAL_KEYS_def SECTIONS_def)
    with all \<open>s' = s1\<close> show ?thesis using other_keys_clean by blast
  qed
qed

end


lemma redact_pii_text_clean:
  assumes "registry_ok w"
  shows "registry_ok (fst (redact_pii_text E w t)) \<and> clean_text (snd (redact_pii_text E w t))"
  using redact_pii_text_patterns[of E w t] redact_str_clean[of "pw_detectors w"] assms
  by (auto simp: registry_ok_def)

interpretation pii: text_redactor "redact_pii_text E" registry_ok for E
  by unfold_locales (simp_all add: redact_pii_text_clean)

text \<open>
  C23: Whatever backend redacts the texts, and whether its model is absent, slow, busy, failing or
  wrong, an event that leaves the process has in its message, its log entry, its exception
  values, its breadcrumbs, its extra data, contexts and tags no e-mail address and no number of
  eleven digits or more, a mark in place of every sensitive entry, no local variables, a request
  with its address, method and harmless headers only, and a user with the id only. The detectors
  of the product must make no address of their own.
\<close>

theorem events_leave_clean:
  assumes "registry_ok w" and "scrub_event (redact_pii_text E) ev w = (w', ev')" and "map_of ev' k = Some v"
  shows "registry_ok w' \<and> section_clean k v"
  by (rule pii.event_clean[OF assms])

definition plain_pii_env :: "unit pii_env" where
  "plain_pii_env = \<lparr>pe_backend_setting = Inr ''regex'', pe_model_name = [], pe_remote_url = None,
     pe_from_pretrained = (\<lambda>_ _. Inl (OtherError [])), pe_lock_free = (\<lambda>_. True), pe_timely = (\<lambda>_. True),
     pe_reentrant = (\<lambda>_. False), pe_predict = (\<lambda>_ _. Inr []), pe_post = (\<lambda>_ _ _. Inl (OtherError []))\<rparr>"

definition empty_pii_world :: "unit pii_world" where
  "empty_pii_world = \<lparr>pw_detectors = [], pw_backend = None, pw_model = None, pw_load_failed = False, pw_calls = 0\<rparr>"

theorem events_leave_clean_witness:
  "let ev = snd (scrub_event (redact_pii_text plain_pii_env)
       [(''message'', JStr ''to a@b.eu''), (''user'', JObj [(''id'', JNum 7), (''email'', JStr ''a@b.eu'')])] empty_pii_world)
   in ev = [(''message'', JStr (redact_str [] ''to a@b.eu'')), (''user'', JObj [(''id'', JNum 7)])] \<and>
      section_clean ''message'' (JStr (redact_str [] ''to a@b.eu''))"
proof -
  let ?ev = "[(''message'', JStr ''to a@b.eu''), (''user'', JObj [(''id'', JNum 7), (''email'', JStr ''a@b.eu'')])]"
  let ?run = "scrub_event (redact_pii_text plain_pii_env) ?ev empty_pii_world"
  have out: "snd ?run = [(''message'', JStr (redact_str [] ''to a@b.eu'')), (''user'', JObj [(''id'', JNum 7)])]"
    by (simp add: scrub_event_def SECTIONS_def user_section_def scrub_user_def dict_set_def message_section_def
        redact_pii_text_def get_pii_detector_def plain_pii_env_def empty_pii_world_def backend_of_setting_def
        backend_redact_fast_def)
  have "registry_ok empty_pii_world" by (simp add: registry_ok_def empty_pii_world_def iter_extra_detectors_def)
  moreover have "?run = (fst ?run, snd ?run)" by simp
  moreover have "map_of (snd ?run) ''message'' = Some (JStr (redact_str [] ''to a@b.eu''))" unfolding out by simp
  ultimately have "section_clean ''message'' (JStr (redact_str [] ''to a@b.eu''))"
    using events_leave_clean[of empty_pii_world plain_pii_env ?ev] by blast
  with out show ?thesis unfolding Let_def by (rule conjI)
qed

lemma address_is_replaced: "pattern_sub EMAIL_RE (\<lambda>_. REDACTED) ''a@b.eu'' = REDACTED"
proof -
  have cls: "matches_at (Class f) (p, []) = []" "matches_at (Class f) (p, c # cs) = (if f c then [(Some c, cs)] else [])"
    for f p c cs by (simp_all add: matches_at.simps)
  show ?thesis
    by (simp add: one_or_more_def EMAIL_RE_def cls alnum_or_def ascii_letter_def repeat_matches.simps numeral_fuel
        first_match_def sub_from.simps pattern_sub_def)
qed

subsection \<open>What remains\<close>

text \<open>A breadcrumb that cannot be scrubbed is to be dropped, but \<open>scrub_breadcrumb(crumb) or crumb\<close> keeps it.\<close>

lemma unscrubbed_breadcrumb_is_sent:
  "scrub_breadcrumb rp (JStr t) s = (s, None) \<and> snd (scrub_breadcrumbs rp [JStr t] s) = [JStr t]"
  by (simp add: scrub_breadcrumb_def)

text \<open>An event with a malformed exception is cut down to its technical entries.\<close>

lemma malformed_exception_minimal:
  assumes "map_of ev ''request'' = None" and "map_of ev ''user'' = None"
    and "map_of ev ''exception'' = Some (JObj [(''values'', JArr [JStr t])])"
  shows "fst ` set (snd (scrub_event rp ev s)) \<subseteq> set MINIMAL_KEYS"
proof -
  have "\<exists>s' e. scrub_sections SECTIONS rp ev s = (s', Inl e)"
    using assms by (auto simp: SECTIONS_def exception_section_def scrub_entry_def)
  then show ?thesis by (auto simp: scrub_event_def split: option.splits)
qed

text \<open>Registering detectors again changes nothing.\<close>

lemma register_idempotent:
  "register_extra_detectors [DetectorArg d] (register_extra_detectors [DetectorArg d] ds) =
   register_extra_detectors [DetectorArg d] ds"
  by (simp add: register_extra_detectors_def coerce_detector_def)

text \<open>The local model is loaded at most once, and never again after a failure.\<close>

lemma load_latch:
  assumes "pw_load_failed w" and "\<And>m. pw_model w \<noteq> Some (name, m)"
  shows "get_pii_model E name w = (w, None)"
  using assms by (auto simp: get_pii_model_def load_pii_model_def split: option.split)

lemma loaded_once:
  assumes "get_pii_model E name w = (w', Some m)"
  shows "get_pii_model E' name w' = (w', Some m)"
  using assms by (auto simp: get_pii_model_def load_pii_model_def split: option.splits sum.splits if_splits)

text \<open>Once loading has failed, a slow model never delays an event.\<close>

lemma failed_load_is_plain:
  "pw_load_failed w \<Longrightarrow> local_redact_fast E name t w = (w, redact_str (pw_detectors w) t)"
  by (simp add: local_redact_fast_def)

end
