(* ===== verification/Spec2Isabelle.thy ===== *)
theory Spec2Isabelle
  imports ThinkTags ApiProperties GeminiProperties AuthProperties ParamProperties ToolGuard
    CipherProperties AgentProperties ConfigSecurity CostProperties UsageCallback
    ModelCaches PiiProperties
begin

text \<open>
  Verification development for the inference-core backend (\<open>src/inference_core\<close>), a service
  that runs language models for its users: accounts and sessions, a layered configuration of
  models and agents, instances of agents per user, batches of requests to three vendors, and
  the text machinery of streaming and encryption around them.

  \<^bold>\<open>The program and its model.\<close> Every definition is translated from the Python source and is
  executable. A row of a database table is a record, a table a list of rows, and an operation a
  function of the state that returns the new state and its result; an exception is a value of
  a sum type, and a call that raises commits nothing unless the code has committed before. Time
  is an integer clock in the state, moved by its own step. Libraries and services outside the
  repository are functions in an environment record (vendor clients, JSON and JWT libraries,
  ciphers, Redis availability, environment variables), and what a theorem assumes of them is
  written in the theorem or in a named predicate.

  \<^item> \<^theory_text>\<open>Prelude\<close>: Python strings, results, and tables of rows. \<^theory_text>\<open>Json\<close>: decoded JSON, the
    dictionary operations, the exceptions (\<open>llm/batch/exceptions.py\<close>).
  \<^item> Batches. \<^theory_text>\<open>BatchModels\<close> (\<open>database/sql/models/batch.py\<close>), \<^theory_text>\<open>BatchService\<close>
    (\<open>services/batch_service.py\<close>), \<^theory_text>\<open>BatchRegistry\<close> and \<^theory_text>\<open>ProviderCommon\<close>
    (\<open>llm/batch/registry.py\<close>, \<open>dto.py\<close>, \<open>providers/base.py\<close>), the three vendors
    \<^theory_text>\<open>OpenAIProvider\<close>, \<^theory_text>\<open>ClaudeProvider\<close> and \<^theory_text>\<open>GeminiProvider\<close>, the Celery tasks \<^theory_text>\<open>BatchTasks\<close>
    (\<open>celery/tasks/batch_tasks.py\<close>) that submit, poll and fetch, and the endpoints \<^theory_text>\<open>BatchApi\<close>
    (\<open>api/v1/routes/batch.py\<close>). An endpoint creates a job through the service; the dispatcher
    queues a submission; the poll cycle asks the vendor and queues a fetch; the fetch writes the
    results into the items, whose counts the service keeps. \<^theory_text>\<open>BatchSystem\<close> is the transition
    system of all tasks in any order.
  \<^item> Accounts. \<^theory_text>\<open>Security\<close> (\<open>core/security.py\<close>, \<open>services/refresh_session_store.py\<close>),
    \<^theory_text>\<open>AuthService\<close> (\<open>services/auth_service.py\<close>), \<^theory_text>\<open>AuthAccess\<close> (\<open>api/v1/routes/auth.py\<close>,
    \<open>core/dependecies.py\<close>) and \<^theory_text>\<open>AuthSystem\<close>, the transition system of all endpoints.
  \<^item> Configuration. \<^theory_text>\<open>LlmConfig\<close> and \<^theory_text>\<open>ConfigResolution\<close> (\<open>services/llm_config_service.py\<close>,
    \<open>LLMConfig.with_overrides\<close>): rows of administrators and users, their validation, the two
    caches in Redis, and the resolution in layers; \<^theory_text>\<open>ParamPolicy\<close> (\<open>llm/param_policy.py\<close>): the
    parameters that reach a vendor.
  \<^item> Agents. \<^theory_text>\<open>AgentInstances\<close> (\<open>services/user_agent_instance_service.py\<close>,
    \<open>schemas/agent_prompt_limits.py\<close>) and \<^theory_text>\<open>ToolGuard\<close>
    (\<open>agents/middleware/repeated_tool_error_guard.py\<close>). \<^theory_text>\<open>ModelSelection\<close>
    (\<open>agents/middleware/model_fallback.py\<close>, \<open>tool_model_switch.py\<close>, \<open>instance_config.py\<close>,
    \<open>subagent_config.py\<close>, \<open>tool_call_limits.py\<close>): which model a call of an agent reaches, as
    wrappers of a handler that stack.
  \<^item> Usage. \<^theory_text>\<open>UsagePricing\<close> and \<^theory_text>\<open>UsageLogging\<close> (\<open>llm/usage_logging.py\<close>, \<open>PricingConfig\<close> in
    \<open>llm/config.py\<close>, \<open>database/sql/models/pricing_snapshot.py\<close>): the price of a request and the
    steps that write its log entry and share the snapshots of prices; \<^theory_text>\<open>CostTracking\<close>
    (\<open>agents/middleware/cost_tracking.py\<close>, \<open>_runtime_context.py\<close>): the hooks that log every
    model call of an agent; \<^theory_text>\<open>UsageCallback\<close> (\<open>llm/callbacks.py\<close>). Money and token counts are
    exact rationals.
  \<^item> Text. \<^theory_text>\<open>ThinkTags\<close> (\<open>llm/think_tags.py\<close>): the router that separates reasoning from content
    in a stream; \<^theory_text>\<open>ContentCipher\<close> (\<open>services/content_cipher.py\<close>): encrypted fields and key rings.
  \<^item> Privacy. \<^theory_text>\<open>Regex\<close>: the part of Python's \<open>re\<close> that the program uses, as a backtracking matcher;
    \<^theory_text>\<open>PiiScrubbing\<close> (\<open>observability/sentry_scrubbing.py\<close>): what is removed from an event before it
    leaves the process; \<^theory_text>\<open>PiiDetector\<close> (\<open>services/pii_detector.py\<close>): the backends that redact a text.

  \<^bold>\<open>What is proved.\<close> Each operation of the batch tasks has the effect of its specification on
  every branch, and the cycle of polls treats each job as if it were alone (\<^theory_text>\<open>TaskFrames\<close>,
  \<^theory_text>\<open>TaskProperties\<close>); the service keeps the integrity, the counts and the recorded timeline of
  its rows (\<^theory_text>\<open>ServiceProperties\<close>); no interleaving of tasks changes a final status
  (\<^theory_text>\<open>BatchSystem\<close>); ids survive the way to a vendor and back (\<^theory_text>\<open>GeminiProperties\<close>); the endpoints
  isolate users and page completely (\<^theory_text>\<open>ApiProperties\<close>). Refresh tokens are single-use and the
  kinds of tokens are separate (\<^theory_text>\<open>AuthProperties\<close>). Cached configurations are never older than
  the time to live allows and follow changes at once while Redis works (\<^theory_text>\<open>ConfigCache\<close>,
  \<^theory_text>\<open>ConfigProperties\<close>), and users change only what the allowlist lets them
  (\<^theory_text>\<open>ConfigSecurity\<close>). Agent instances keep their invariants and their owners
  (\<^theory_text>\<open>AgentProperties\<close>). Every token is charged once, log entries refer to the snapshot of their
  own pricing under every interleaving of sessions (\<^theory_text>\<open>UsageSystem\<close>, \<^theory_text>\<open>UsageKnowledge\<close>,
  \<^theory_text>\<open>UsageProperties\<close>), and the counters of a run agree with the log (\<^theory_text>\<open>CostProperties\<close>). An
  interruption passes through every stack of model middlewares and no model is called after it
  (\<^theory_text>\<open>ModelProperties\<close>), and their caches make no difference (\<^theory_text>\<open>ModelCaches\<close>). Splitting a
  stream does not depend on its fragments (\<^theory_text>\<open>ThinkTags\<close>),
  no address and no long number leaves with an event (\<^theory_text>\<open>PiiProperties\<close>),
  encrypted fields survive the rotation of keys (\<^theory_text>\<open>CipherProperties\<close>), and the parameters of a
  call are the supported ones (\<^theory_text>\<open>ParamProperties\<close>). Where the code deviates from what it says,
  the deviation is a theorem or is listed among the findings.

  \<^bold>\<open>Interfaces.\<close> The locale \<open>batch_provider\<close> (\<^theory_text>\<open>ProviderContract\<close>) states what the tasks rely on of
  a vendor and is interpreted on all three providers; \<open>session_store\<close> (\<^theory_text>\<open>AuthSystem\<close>) is the
  contract of refresh sessions, interpreted on the Redis store; \<open>layered_cache\<close>
  (\<^theory_text>\<open>ConfigCache\<close>) is the contract of a cache whose entries are computed from entries of
  another, interpreted on the configuration service twice, by its history and by its present
  rows; \<open>request_logger\<close> and its extension \<open>reliable_logger\<close> (\<^theory_text>\<open>CostProperties\<close>) state what
  the cost tracking relies on of the usage log, interpreted on its steps with any failures and
  with none; \<open>call_chain\<close> (\<^theory_text>\<open>ModelProperties\<close>) and \<open>cached_layer\<close> (\<^theory_text>\<open>ModelCaches\<close>) are the
  contracts of a middleware around a model call, interpreted on all four; \<open>redaction\<close> (\<^theory_text>\<open>Regex\<close>) is
  a pattern that consumes what it replaces, interpreted on the patterns of the program, and
  \<open>text_redactor\<close> (\<^theory_text>\<open>PiiProperties\<close>) is what the hooks rely on of the detector service,
  interpreted on it.

  \<^bold>\<open>Bounds and fuel.\<close> The retries of a submission run at most six times, which is the limit of
  five retries and the first attempt; listings are followed page by page with one page of fuel
  per item, which suffices because every page but the last has at least one item. The walks
  along the fallback chain of keys end because each step visits a purpose not seen before. A
  repetition in a pattern has fuel for its obligatory rounds and one for every character. A
  session writes its log entry in at most four database calls.

  \<^bold>\<open>Not modelled.\<close> The assembly and streaming of agent runs, the adapters to chat vendors and the
  memory of agents are calls into third-party frameworks; mail, embedding and vector services
  are I/O; loading of YAML and settings, logging, metrics, database set-up, migrations, the
  front end, examples and tests are left out. The list of components says for each part what
  is modelled.
\<close>

end
